(* ===== verification/Prelude.thy ===== *)
theory Prelude
  imports Main "HOL-Library.Word" "HOL-Library.Finite_Map" "HOL-Library.FSet"
begin

text \<open>
  Vocabulary shared by every theory of the development.

  \<^item> Fixed-width integers: \<open>u8\<close>, \<open>u16\<close>, \<open>u32\<close>, \<open>u64\<close>, \<open>u128\<close> are words. A cast
    \<open>x as u64\<close> that is followed by plain arithmetic is read as \<open>unat\<close>, and every
    addition or multiplication that the source leaves unchecked is then written with its
    \<open>mod 2 ^ 64\<close> (the wrap-around of a release build).
  \<^item> Results: \<open>Result<T, E>\<close> is \<open>'e fault + 'a\<close>. \<open>Ok x\<close> and \<open>Err e\<close> are the two
    outcomes of the source, \<open>Panicked\<close> stands for an \<open>unwrap\<close>, an index or an explicit
    panic that aborts the call, \<open>Hung\<close> for a call that never returns: nothing that the source
    puts after it runs.
  \<^item> State: an operation with \<open>&mut self\<close> returns its result together with the new
    state, because in Rust the changes made before an early \<open>return Err\<close> stay.
  \<^item> Ordered maps (\<open>BTreeMap\<close>) are finite maps; iteration in key order goes over
    \<open>keys_of\<close>.
\<close>

unbundle bit_operations_syntax

type_synonym u8 = "8 word"
type_synonym u16 = "16 word"
type_synonym u32 = "32 word"
type_synonym u64 = "64 word"
type_synonym u128 = "128 word"

named_theorems rust_simps \<open>unfolding of the result combinators\<close>
named_theorems flag_simps \<open>setting, clearing and testing single bits\<close>

section \<open>Results\<close>

datatype 'e fault = Fail 'e | Panic | Hang

abbreviation Ok :: "'a \<Rightarrow> 'e fault + 'a" where
  "Ok \<equiv> Inr"

abbreviation Err :: "'e \<Rightarrow> 'e fault + 'a" where
  "Err e \<equiv> Inl (Fail e)"

abbreviation Panicked :: "'e fault + 'a" where
  "Panicked \<equiv> Inl Panic"

abbreviation Hung :: "'e fault + 'a" where
  "Hung \<equiv> Inl Hang"

definition and_then :: "'e + 'a \<Rightarrow> ('a \<Rightarrow> 'e + 'b) \<Rightarrow> 'e + 'b" where
  "and_then r f = (case r of Inl e \<Rightarrow> Inl e | Inr x \<Rightarrow> f x)"

definition ok_or :: "'e \<Rightarrow> 'a option \<Rightarrow> 'e fault + 'a" where
  "ok_or e opt = (case opt of None \<Rightarrow> Err e | Some x \<Rightarrow> Ok x)"

definition map_err :: "('e \<Rightarrow> 'f) \<Rightarrow> 'e fault + 'a \<Rightarrow> 'f fault + 'a" where
  "map_err f r = (case r of Inl (Fail e) \<Rightarrow> Err (f e) | Inl Panic \<Rightarrow> Panicked
     | Inl Hang \<Rightarrow> Hung | Inr x \<Rightarrow> Ok x)"

definition unwrap :: "'a option \<Rightarrow> 'e fault + 'a" where
  "unwrap opt = (case opt of None \<Rightarrow> Panicked | Some x \<Rightarrow> Ok x)"

definition is_ok :: "'e + 'a \<Rightarrow> bool" where
  "is_ok r = (case r of Inl _ \<Rightarrow> False | Inr _ \<Rightarrow> True)"

text \<open>The same sequencing for operations that also carry a state.\<close>

definition and_then_st ::
  "('e + 'a) \<times> 's \<Rightarrow> ('a \<Rightarrow> 's \<Rightarrow> ('e + 'b) \<times> 's) \<Rightarrow> ('e + 'b) \<times> 's" where
  "and_then_st p f = (case p of (Inl e, s) \<Rightarrow> (Inl e, s) | (Inr x, s) \<Rightarrow> f x s)"

lemma and_then_simps [simp]:
  "and_then (Inl e) f = Inl e"
  "and_then (Inr x) f = f x"
  by (simp_all add: and_then_def)

lemma ok_or_simps [simp]:
  "ok_or e None = Err e"
  "ok_or e (Some x) = Ok x"
  by (simp_all add: ok_or_def)

lemma map_err_simps [simp]:
  "map_err f (Err e) = Err (f e)"
  "map_err f Panicked = Panicked"
  "map_err f Hung = Hung"
  "map_err f (Ok x) = Ok x"
  by (simp_all add: map_err_def)

lemma unwrap_simps [simp]:
  "unwrap None = Panicked"
  "unwrap (Some x) = Ok x"
  by (simp_all add: unwrap_def)

lemma is_ok_simps [simp]:
  "is_ok (Inl e) = False"
  "is_ok (Inr x) = True"
  by (simp_all add: is_ok_def)

lemma and_then_st_simps [simp]:
  "and_then_st (Inl e, s) f = (Inl e, s)"
  "and_then_st (Inr x, s) f = f x s"
  by (simp_all add: and_then_st_def)

lemma and_then_eq_Ok [rust_simps]:
  "and_then r f = Inr y \<longleftrightarrow> (\<exists>x. r = Inr x \<and> f x = Inr y)"
  by (cases r) auto

lemma and_then_eq_Inl [rust_simps]:
  "and_then r f = Inl e \<longleftrightarrow> r = Inl e \<or> (\<exists>x. r = Inr x \<and> f x = Inl e)"
  by (cases r) auto

lemma ok_or_eq_Inl [rust_simps]: "ok_or e opt = Inl e' \<longleftrightarrow> opt = None \<and> e' = Fail e"
  by (cases opt) auto

lemma ok_or_eq_Ok [rust_simps]: "ok_or e opt = Inr x \<longleftrightarrow> opt = Some x"
  by (cases opt) auto

lemma and_then_st_eq_Ok [rust_simps]:
  "and_then_st p f = (Inr y, s') \<longleftrightarrow> (\<exists>x s. p = (Inr x, s) \<and> f x s = (Inr y, s'))"
  by (cases p; cases "fst p") auto

lemma and_then_st_eq_Inl:
  "and_then_st p f = (Inl e, s') \<longleftrightarrow>
     p = (Inl e, s') \<or> (\<exists>x s. p = (Inr x, s) \<and> f x s = (Inl e, s'))"
  by (cases p; cases "fst p") auto

lemma and_then_OkE:
  assumes "and_then r f = Inr y" obtains x where "r = Inr x" and "f x = Inr y"
  using assms by (auto simp: and_then_eq_Ok)

text \<open>A relation between the states before and after an operation that holds of a sequence when it
  holds of its parts.\<close>

locale state_relation =
  fixes R :: "'s \<Rightarrow> 's \<Rightarrow> bool"
  assumes refl: "R s s"
    and trans: "R s s' \<Longrightarrow> R s' s'' \<Longrightarrow> R s s''"
begin

lemma bind:
  assumes "R s (snd p)" and "\<And>x s'. p = (Inr x, s') \<Longrightarrow> R s' (snd (f x s'))"
  shows "R s (snd (and_then_st p f))"
proof -
  obtain r s' where "p = (r, s')" by (cases p)
  then show ?thesis using assms trans [of s s'] by (cases r) auto
qed

end

text \<open>Results of a call that comes back to its caller, with a value or an error.\<close>

definition completes :: "'e fault + 'a \<Rightarrow> bool" where
  "completes r \<longleftrightarrow> r \<noteq> Panicked \<and> r \<noteq> Hung"

lemma completes_simps [simp]:
  "completes (Ok x)"
  "completes (Err e)"
  "\<not> completes Panicked"
  "\<not> completes Hung"
  "completes (ok_or e opt)"
  by (auto simp: completes_def ok_or_def split: option.split)

lemma completes_and_then:
  "completes r \<Longrightarrow> (\<And>x. completes (f x)) \<Longrightarrow> completes (and_then r f)"
  by (cases r) (auto simp: completes_def)

section \<open>Ordered maps\<close>

definition keys_of :: "('k::linorder, 'v) fmap \<Rightarrow> 'k list" where
  "keys_of m = sorted_list_of_fset (fmdom m)"

definition contains_key :: "('k, 'v) fmap \<Rightarrow> 'k \<Rightarrow> bool" where
  "contains_key m k \<longleftrightarrow> fmlookup m k \<noteq> None"

lemma set_keys_of [simp]: "set (keys_of m) = fmdom' m"
  by (simp add: keys_of_def fmdom'_alt_def)

lemma distinct_keys_of [simp]: "distinct (keys_of m)"
  by (simp add: keys_of_def sorted_list_of_fset.rep_eq)

lemma keys_of_empty [simp]: "keys_of fmempty = []"
  by (simp add: keys_of_def sorted_list_of_fset.rep_eq)

lemma contains_key_simps [simp]:
  "\<not> contains_key fmempty k"
  "contains_key (fmupd k v m) k' \<longleftrightarrow> k' = k \<or> contains_key m k'"
  "contains_key (fmdrop k m) k' \<longleftrightarrow> k' \<noteq> k \<and> contains_key m k'"
  by (auto simp: contains_key_def)

lemma contains_key_fmdom': "contains_key m k \<longleftrightarrow> k \<in> fmdom' m"
  by (simp add: contains_key_def fmlookup_dom'_iff)

text \<open>The entries in key order, and the iterator adaptors the code runs over them:
  \<open>try_for_each\<close> and \<open>map(..).collect::<Result<Map<_, _>, _>>()\<close>.\<close>

definition entries_of :: "('k::linorder, 'v) fmap \<Rightarrow> ('k \<times> 'v) list" where
  "entries_of m = map (\<lambda>k. (k, the (fmlookup m k))) (keys_of m)"

fun try_for_each :: "('a \<Rightarrow> 's \<Rightarrow> ('e + unit) \<times> 's) \<Rightarrow> 'a list \<Rightarrow> 's \<Rightarrow> ('e + unit) \<times> 's" where
  "try_for_each f [] s = (Inr (), s)"
| "try_for_each f (x # xs) s = and_then_st (f x s) (\<lambda>_. try_for_each f xs)"

fun try_collect :: "('v \<Rightarrow> 'e + 'b) \<Rightarrow> ('k \<times> 'v) list \<Rightarrow> 'e + ('k, 'b) fmap" where
  "try_collect f [] = Inr fmempty"
| "try_collect f ((k, v) # kvs) =
     and_then (f v) (\<lambda>y. and_then (try_collect f kvs) (\<lambda>m. Inr (fmupd k y m)))"

lemma entries_of_empty [simp]: "entries_of fmempty = []"
  by (simp add: entries_of_def)

lemma map_of_entries_of [simp]: "map_of (entries_of m) = fmlookup m"
proof
  fix k
  show "map_of (entries_of m) k = fmlookup m k"
    by (cases "fmlookup m k")
      (auto simp: entries_of_def map_of_map_restrict restrict_map_def comp_def fmlookup_dom'_iff)
qed

lemma try_collect_Ok:
  assumes "\<And>k v. (k, v) \<in> set kvs \<Longrightarrow> f v = Inr (g v)"
  shows "\<exists>m. try_collect f kvs = Inr m \<and> (\<forall>k. fmlookup m k = map_option g (map_of kvs k))"
  using assms
proof (induction kvs)
  case Nil
  then show ?case by simp
next
  case (Cons kv kvs)
  obtain k v where kv: "kv = (k, v)" by (cases kv)
  obtain m where "try_collect f kvs = Inr m" "\<forall>k. fmlookup m k = map_option g (map_of kvs k)"
    using Cons by auto
  then show ?case using Cons.prems [of k v] by (simp add: kv)
qed

lemma try_collect_entries:
  assumes "\<And>k v. fmlookup m k = Some v \<Longrightarrow> f v = Inr (g v)"
  shows "try_collect f (entries_of m) = Inr (fmmap g m)"
proof -
  have "f v = Inr (g v)" if "(k, v) \<in> set (entries_of m)" for k v
    using that assms by (auto simp: entries_of_def fmlookup_dom'_iff)
  then have "\<exists>m'. try_collect f (entries_of m) = Inr m' \<and>
      (\<forall>k. fmlookup m' k = map_option g (map_of (entries_of m) k))"
    by (rule try_collect_Ok)
  then obtain m' where
    "try_collect f (entries_of m) = Inr m'" "\<forall>k. fmlookup m' k = map_option g (fmlookup m k)"
    by auto
  moreover from this(2) have "m' = fmmap g m" by (intro fmap_ext) simp
  ultimately show ?thesis by simp
qed

section \<open>Bytes, slices and block copies\<close>

definition slice :: "nat \<Rightarrow> nat \<Rightarrow> 'a list \<Rightarrow> 'a list" where
  "slice i j xs = take (j - i) (drop i xs)"

text \<open>\<open>xs.get(i..j)\<close>: \<open>None\<close> when the range is not inside the slice.\<close>

definition get_range :: "nat \<Rightarrow> nat \<Rightarrow> 'a list \<Rightarrow> 'a list option" where
  "get_range i j xs = (if i \<le> j \<and> j \<le> length xs then Some (slice i j xs) else None)"

text \<open>Overwriting the bytes from offset \<open>i\<close> on, as \<open>copy_from_slice\<close> does on a sub-slice.\<close>

definition blit :: "'a list \<Rightarrow> nat \<Rightarrow> 'a list \<Rightarrow> 'a list" where
  "blit dst i xs = take i dst @ xs @ drop (i + length xs) dst"

lemma blit_Nil [simp]: "blit dst i [] = dst"
  by (simp add: blit_def)

lemma length_blit [simp]: "i + length xs \<le> length dst \<Longrightarrow> length (blit dst i xs) = length dst"
  by (simp add: blit_def)

lemma nth_blit:
  assumes "i + length xs \<le> length dst" and "n < length dst"
  shows "blit dst i xs ! n = (if i \<le> n \<and> n < i + length xs then xs ! (n - i) else dst ! n)"
  using assms by (auto simp: blit_def nth_append min_def)

text \<open>Two adjacent copies are one copy.\<close>

lemma blit_blit_adjacent:
  assumes "i + length xs + length ys \<le> length dst"
  shows "blit (blit dst i xs) (i + length xs) ys = blit dst i (xs @ ys)"
  using assms
  by (intro nth_equalityI) (auto simp: nth_blit nth_append)

lemma take_drop_append_left:
  "n + k \<le> length xs \<Longrightarrow> take k (drop n (xs @ ys)) = take k (drop n xs)"
  by simp

text \<open>Raw memory: an address space of bytes, read through a pointer and a length.\<close>

type_synonym memory = "u64 \<Rightarrow> u8"

definition read_mem :: "memory \<Rightarrow> u64 \<Rightarrow> nat \<Rightarrow> u8 list" where
  "read_mem mem base n = map (\<lambda>i. mem (base + of_nat i)) [0..<n]"

definition write_mem :: "memory \<Rightarrow> u64 \<Rightarrow> u8 list \<Rightarrow> memory" where
  "write_mem mem base bs =
     (\<lambda>a. let i = unat (a - base) in if i < length bs then bs ! i else mem a)"

lemma length_read_mem [simp]: "length (read_mem mem base n) = n"
  by (simp add: read_mem_def)

lemma read_write_mem:
  assumes "length bs \<le> 2 ^ 64"
  shows "read_mem (write_mem mem base bs) base (length bs) = bs"
proof (rule nth_equalityI)
  show "length (read_mem (write_mem mem base bs) base (length bs)) = length bs" by simp
next
  fix i assume "i < length (read_mem (write_mem mem base bs) base (length bs))"
  then have i: "i < length bs" by simp
  with assms have "unat (of_nat i :: u64) = i" by (simp add: unat_of_nat)
  with i show "read_mem (write_mem mem base bs) base (length bs) ! i = bs ! i"
    by (simp add: read_mem_def write_mem_def Let_def)
qed

section \<open>Ranges of machine integers\<close>

lemma unat_u8_less: "unat (x :: u8) < 2 ^ 8"
  using unsigned_less [of x] by simp

lemma unat_u16_less: "unat (x :: u16) < 2 ^ 16"
  using unsigned_less [of x] by simp

lemma unat_u32_less: "unat (x :: u32) < 2 ^ 32"
  using unsigned_less [of x] by simp

lemma unat_u64_less: "unat (x :: u64) < 2 ^ 64"
  using unsigned_less [of x] by simp

section \<open>Counting bits\<close>

definition count_ones :: "'a::len word \<Rightarrow> nat" where
  "count_ones x = length (filter (bit x) [0..<LENGTH('a)])"

definition trailing_zeros :: "'a::len word \<Rightarrow> nat" where
  "trailing_zeros x = length (takeWhile (\<lambda>i. \<not> bit x i) [0..<LENGTH('a)])"

lemma trailing_zeros_least:
  fixes x :: "'a::len word"
  assumes "bit x i" and "\<And>j. j < i \<Longrightarrow> \<not> bit x j"
  shows "trailing_zeros x = i"
proof -
  have i: "i < LENGTH('a)" using assms(1) bit_imp_le_length by blast
  then have "[0..<LENGTH('a)] = [0..<i] @ i # [Suc i..<LENGTH('a)]"
    by (metis less_imp_le_nat upt_add_eq_append upt_conv_Cons le_add_diff_inverse zero_le)
  moreover have "takeWhile (\<lambda>i. \<not> bit x i) ([0..<i] @ i # [Suc i..<LENGTH('a)]) = [0..<i]"
    using assms by (subst takeWhile_append2) auto
  ultimately show ?thesis by (simp add: trailing_zeros_def)
qed

text \<open>A word with exactly one bit set is that bit.\<close>

lemma count_ones_eq_1:
  fixes x :: "'a::len word"
  assumes "count_ones x = 1"
  shows "trailing_zeros x < LENGTH('a)" and "x = push_bit (trailing_zeros x) 1"
proof -
  obtain i where i: "filter (bit x) [0..<LENGTH('a)] = [i]"
    using assms by (auto simp: count_ones_def length_Suc_conv)
  then have "set (filter (bit x) [0..<LENGTH('a)]) = {i}" by (simp del: set_filter)
  then have set: "{j. j < LENGTH('a) \<and> bit x j} = {i}" unfolding set_filter by auto
  then have bits: "bit x j \<longleftrightarrow> j = i" if "j < LENGTH('a)" for j using that by blast
  have il: "i < LENGTH('a)" using set by blast
  have "trailing_zeros x = i"
    using il bits by (intro trailing_zeros_least) auto
  moreover have "x = push_bit i 1"
    using bits il by (auto intro!: bit_word_eqI simp: bit_exp_iff push_bit_eq_mult)
  ultimately show "trailing_zeros x < LENGTH('a)" and "x = push_bit (trailing_zeros x) 1"
    using il by simp_all
qed

lemma count_ones_push_bit:
  assumes "i < LENGTH('a::len)"
  shows "count_ones (push_bit i (1 :: 'a word)) = 1" "trailing_zeros (push_bit i (1 :: 'a word)) = i"
proof -
  have bits: "bit (push_bit i (1 :: 'a word)) j \<longleftrightarrow> j = i" if "j < LENGTH('a)" for j
    using that by (auto simp: bit_exp_iff push_bit_eq_mult)
  have "[0..<LENGTH('a)] = [0..<i] @ i # [Suc i..<LENGTH('a)]"
    using assms by (metis less_imp_le_nat upt_add_eq_append upt_conv_Cons le_add_diff_inverse zero_le)
  moreover have "filter (bit (push_bit i (1 :: 'a word))) [0..<i] = []"
    "filter (bit (push_bit i (1 :: 'a word))) [Suc i..<LENGTH('a)] = []"
    using bits assms by (auto simp: filter_empty_conv)
  ultimately show "count_ones (push_bit i (1 :: 'a word)) = 1"
    using bits [OF assms] by (simp add: count_ones_def)
  show "trailing_zeros (push_bit i (1 :: 'a word)) = i"
    using bits assms by (intro trailing_zeros_least) auto
qed

section \<open>Single-bit flags\<close>

definition put_flag :: "'a::len word \<Rightarrow> 'a word \<Rightarrow> bool \<Rightarrow> 'a word" where
  "put_flag flags m b = (if b then flags OR m else flags AND NOT m)"

definition has_flag :: "'a::len word \<Rightarrow> 'a word \<Rightarrow> bool" where
  "has_flag flags m \<longleftrightarrow> flags AND m \<noteq> 0"

lemma put_flag_same [flag_simps]: "m \<noteq> 0 \<Longrightarrow> has_flag (put_flag flags m b) m = b"
  by (auto simp: put_flag_def has_flag_def bit_eq_iff bit_simps)

lemma put_flag_other [flag_simps]:
  "m AND m' = 0 \<Longrightarrow> has_flag (put_flag flags m b) m' = has_flag flags m'"
  by (auto simp: put_flag_def has_flag_def bit_eq_iff bit_simps)

lemma put_flag_idem [flag_simps]: "put_flag (put_flag flags m b) m b' = put_flag flags m b'"
  by (auto simp: put_flag_def bit_eq_iff bit_simps)

lemma put_flag_commute:
  "m AND m' = 0 \<Longrightarrow>
   put_flag (put_flag flags m b) m' b' = put_flag (put_flag flags m' b') m b"
  by (auto simp: put_flag_def bit_eq_iff bit_simps)

section \<open>Strings\<close>

text \<open>\<open>str::split\<close> with a character, and \<open>str::from_utf8\<close>. A string is the list of its bytes, as
  characters.\<close>

fun split_on :: "char \<Rightarrow> string \<Rightarrow> string list" where
  "split_on c [] = [[]]"
| "split_on c (x # xs) =
     (if x = c then [] # split_on c xs
      else case split_on c xs of [] \<Rightarrow> [[x]] | s # ss \<Rightarrow> (x # s) # ss)"

fun utf8_tail :: "u8 \<Rightarrow> bool" where
  "utf8_tail b \<longleftrightarrow> 0x80 \<le> b \<and> b \<le> 0xBF"

fun utf8_valid :: "u8 list \<Rightarrow> bool" where
  "utf8_valid [] \<longleftrightarrow> True"
| "utf8_valid (a # s) \<longleftrightarrow>
     (if a < 0x80 then utf8_valid s
      else case s of
        [] \<Rightarrow> False
      | b # t \<Rightarrow>
          if 0xC2 \<le> a \<and> a \<le> 0xDF then utf8_tail b \<and> utf8_valid t
          else case t of
            [] \<Rightarrow> False
          | c # u \<Rightarrow>
              if 0xE0 \<le> a \<and> a \<le> 0xEF
              then utf8_tail b \<and> (a = 0xE0 \<longrightarrow> 0xA0 \<le> b) \<and> (a = 0xED \<longrightarrow> b \<le> 0x9F) \<and>
                utf8_tail c \<and> utf8_valid u
              else case u of
                [] \<Rightarrow> False
              | d # v \<Rightarrow>
                  0xF0 \<le> a \<and> a \<le> 0xF4 \<and>
                  utf8_tail b \<and> (a = 0xF0 \<longrightarrow> 0x90 \<le> b) \<and> (a = 0xF4 \<longrightarrow> b \<le> 0x8F) \<and>
                  utf8_tail c \<and> utf8_tail d \<and> utf8_valid v)"

definition str_from_utf8 :: "u8 list \<Rightarrow> string option" where
  "str_from_utf8 bs = (if utf8_valid bs then Some (map (\<lambda>b. char_of (unat b)) bs) else None)"

end
