(* ===== verification/Rutabaga_Utils.thy ===== *)
theory Rutabaga_Utils
  imports Prelude
begin

text \<open>
  The data types of \<open>src/rutabaga_utils.rs\<close>, the checked arithmetic of
  \<open>src/macros.rs\<close> and the error type of the mesa utility crate
  (\<open>third_party/mesa3d/.../util/error.rs\<close>). Record fields carry a short prefix, because
  the structs of the source share field names (\<open>width\<close>, \<open>size\<close>, \<open>flags\<close>).
\<close>

section \<open>Errors\<close>

datatype io_error = UnexpectedEof | IoUnsupported | OsError int

datatype magma_error =
    InvalidMagmaHandle
  | IoError io_error
  | NulError
  | ParseIntError
  | RustixError int
  | TryFromIntError
  | Unsupported
  | Utf8Error
  | WithContext string

text \<open>The payloads of the Vulkan errors are errors of the vulkano crate, named by numbers.\<close>

datatype rutabaga_error =
    AlreadyInUse
  | CheckedArithmetic "string \<times> nat" "string \<times> nat" string
  | CheckedRange "string \<times> nat" "string \<times> nat"
  | ComponentError "32 word"
  | Invalid2DInfo
  | InvalidCapset
  | InvalidCommandBuffer
  | InvalidCommandSize nat
  | InvalidComponent
  | InvalidContextId
  | InvalidCrossDomainChannel
  | InvalidCrossDomainInternalSocketUuid
  | InvalidCrossDomainItemId
  | InvalidCrossDomainItemType
  | InvalidCrossDomainState
  | InvalidCrossDomainWriteLength
  | InvalidGrallocBackend
  | InvalidGrallocDimensions
  | InvalidGrallocDrmFormat
  | InvalidGrallocGpuType
  | InvalidGrallocNumberOfPlanes
  | InvalidIovec
  | InvalidResourceId
  | InvalidRutabagaBuild
  | InvalidVulkanInfo
  | MagmaGpuError magma_error
  | MappingFailed "32 word"
  | SerdeJsonError
  | SnapshotError
  | VkDeviceCreationError int
  | VkDeviceMemoryError int
  | VkError int
  | VkImageCreationError int
  | VkInstanceCreationError int
  | VkLoadingError int
  | VkMemoryMapError int

type_synonym 'a rres = "rutabaga_error fault + 'a"

section \<open>Checked arithmetic (\<open>src/macros.rs\<close>)\<close>

text \<open>
  The macros stringify their operands into the error. The arguments are the operand names
  with their values at width \<open>w\<close>; \<open>checked_div\<close> fails on a zero divisor, the others when
  the result leaves \<open>[0, 2 ^ w)\<close>.
\<close>

definition checked_add :: "nat \<Rightarrow> string \<Rightarrow> nat \<Rightarrow> string \<Rightarrow> nat \<Rightarrow> nat rres" where
  "checked_add w xn x yn y =
     (if x + y < 2 ^ w then Ok (x + y) else Err (CheckedArithmetic (xn, x) (yn, y) ''+''))"

definition checked_sub :: "nat \<Rightarrow> string \<Rightarrow> nat \<Rightarrow> string \<Rightarrow> nat \<Rightarrow> nat rres" where
  "checked_sub w xn x yn y =
     (if y \<le> x then Ok (x - y) else Err (CheckedArithmetic (xn, x) (yn, y) ''-''))"

definition checked_mul :: "nat \<Rightarrow> string \<Rightarrow> nat \<Rightarrow> string \<Rightarrow> nat \<Rightarrow> nat rres" where
  "checked_mul w xn x yn y =
     (if x * y < 2 ^ w then Ok (x * y) else Err (CheckedArithmetic (xn, x) (yn, y) ''*''))"

definition checked_div :: "nat \<Rightarrow> string \<Rightarrow> nat \<Rightarrow> string \<Rightarrow> nat \<Rightarrow> nat rres" where
  "checked_div w xn x yn y =
     (if y \<noteq> 0 then Ok (x div y) else Err (CheckedArithmetic (xn, x) (yn, y) ''/''))"

definition checked_range :: "string \<Rightarrow> nat \<Rightarrow> string \<Rightarrow> nat \<Rightarrow> unit rres" where
  "checked_range xn x yn y = (if x \<le> y then Ok () else Err (CheckedRange (xn, x) (yn, y)))"

named_theorems checked_defs \<open>definitions of the checked operations\<close>

declare checked_add_def [checked_defs] checked_sub_def [checked_defs]
  checked_mul_def [checked_defs] checked_div_def [checked_defs] checked_range_def [checked_defs]

lemma checked_add_eq_Ok [rust_simps]:
  "checked_add w xn x yn y = Inr z \<longleftrightarrow> x + y < 2 ^ w \<and> z = x + y"
  by (auto simp: checked_add_def)

lemma checked_mul_eq_Ok [rust_simps]:
  "checked_mul w xn x yn y = Inr z \<longleftrightarrow> x * y < 2 ^ w \<and> z = x * y"
  by (auto simp: checked_mul_def)

lemma checked_sub_eq_Ok [rust_simps]:
  "checked_sub w xn x yn y = Inr z \<longleftrightarrow> y \<le> x \<and> z = x - y"
  by (auto simp: checked_sub_def)

lemma checked_div_eq_Ok [rust_simps]:
  "checked_div w xn x yn y = Inr z \<longleftrightarrow> y \<noteq> 0 \<and> z = x div y"
  by (auto simp: checked_div_def)

lemma checked_range_eq_Ok [rust_simps]:
  "checked_range xn x yn y = Inr u \<longleftrightarrow> x \<le> y"
  by (auto simp: checked_range_def)

text \<open>No checked operation panics.\<close>

lemma completes_checked [simp]:
  "completes (checked_add w xn x yn y)"
  "completes (checked_sub w xn x yn y)"
  "completes (checked_mul w xn x yn y)"
  "completes (checked_div w xn x yn y)"
  "completes (checked_range xn x yn y)"
  by (simp_all add: checked_defs)

lemma checked_no_panic [simp]:
  "checked_add w xn x yn y \<noteq> Panicked"
  "checked_sub w xn x yn y \<noteq> Panicked"
  "checked_mul w xn x yn y \<noteq> Panicked"
  "checked_div w xn x yn y \<noteq> Panicked"
  "checked_range xn x yn y \<noteq> Panicked"
  by (simp_all add: checked_defs)

section \<open>Buffers, resource parameters and metadata\<close>

record rutabaga_iovec =
  iov_base :: u64
  iov_len :: u64

definition RUTABAGA_PIPE_TEXTURE_2D :: u32 where [simp]: "RUTABAGA_PIPE_TEXTURE_2D = 2"
definition RUTABAGA_PIPE_BIND_RENDER_TARGET :: u32 where
  [simp]: "RUTABAGA_PIPE_BIND_RENDER_TARGET = 2"

record resource_create_3d =
  c3d_target :: u32
  c3d_format :: u32
  c3d_bind :: u32
  c3d_width :: u32
  c3d_height :: u32
  c3d_depth :: u32
  c3d_array_size :: u32
  c3d_last_level :: u32
  c3d_nr_samples :: u32
  c3d_flags :: u32

definition RUTABAGA_BLOB_MEM_GUEST :: u32 where [simp]: "RUTABAGA_BLOB_MEM_GUEST = 1"
definition RUTABAGA_BLOB_MEM_HOST3D :: u32 where [simp]: "RUTABAGA_BLOB_MEM_HOST3D = 2"
definition RUTABAGA_BLOB_MEM_HOST3D_GUEST :: u32 where
  [simp]: "RUTABAGA_BLOB_MEM_HOST3D_GUEST = 3"
definition RUTABAGA_BLOB_FLAG_USE_MAPPABLE :: u32 where
  [simp]: "RUTABAGA_BLOB_FLAG_USE_MAPPABLE = 1"
definition RUTABAGA_BLOB_FLAG_USE_SHAREABLE :: u32 where
  [simp]: "RUTABAGA_BLOB_FLAG_USE_SHAREABLE = 2"
definition RUTABAGA_BLOB_FLAG_USE_CROSS_DEVICE :: u32 where
  [simp]: "RUTABAGA_BLOB_FLAG_USE_CROSS_DEVICE = 4"

record resource_create_blob =
  cb_blob_mem :: u32
  cb_blob_flags :: u32
  cb_blob_id :: u64
  cb_size :: u64

record resource_3d_info =
  i3d_width :: u32
  i3d_height :: u32
  i3d_drm_fourcc :: u32
  i3d_strides :: "u32 list"
  i3d_offsets :: "u32 list"
  i3d_modifier :: u64

record device_id =
  device_uuid :: "u8 list"
  driver_uuid :: "u8 list"

record vulkan_info =
  vk_memory_idx :: u32
  vk_device_id :: device_id

definition RUTABAGA_CONTEXT_INIT_CAPSET_ID_MASK :: u32 where
  [simp]: "RUTABAGA_CONTEXT_INIT_CAPSET_ID_MASK = 0xff"

definition RUTABAGA_FLAG_FENCE :: u32 where [simp]: "RUTABAGA_FLAG_FENCE = 1"
definition RUTABAGA_FLAG_INFO_RING_IDX :: u32 where [simp]: "RUTABAGA_FLAG_INFO_RING_IDX = 2"
definition RUTABAGA_FLAG_FENCE_HOST_SHAREABLE :: u32 where
  [simp]: "RUTABAGA_FLAG_FENCE_HOST_SHAREABLE = 4"

record rutabaga_fence =
  fence_flags :: u32
  fence_id :: u64
  fence_ctx_id :: u32
  fence_ring_idx :: u8

record rutabaga_import_data =
  imp_flags :: u32
  imp_info_3d :: resource_3d_info

definition RUTABAGA_MAP_CACHE_MASK :: u32 where [simp]: "RUTABAGA_MAP_CACHE_MASK = 0x0f"
definition RUTABAGA_MAP_CACHE_CACHED :: u32 where [simp]: "RUTABAGA_MAP_CACHE_CACHED = 1"
definition RUTABAGA_MAP_CACHE_UNCACHED :: u32 where [simp]: "RUTABAGA_MAP_CACHE_UNCACHED = 2"
definition RUTABAGA_MAP_CACHE_WC :: u32 where [simp]: "RUTABAGA_MAP_CACHE_WC = 3"
definition RUTABAGA_MAP_ACCESS_MASK :: u32 where [simp]: "RUTABAGA_MAP_ACCESS_MASK = 0xf0"
definition RUTABAGA_MAP_ACCESS_READ :: u32 where [simp]: "RUTABAGA_MAP_ACCESS_READ = 0x10"
definition RUTABAGA_MAP_ACCESS_WRITE :: u32 where [simp]: "RUTABAGA_MAP_ACCESS_WRITE = 0x20"
definition RUTABAGA_MAP_ACCESS_RW :: u32 where [simp]: "RUTABAGA_MAP_ACCESS_RW = 0x30"

section \<open>Capability set identifiers\<close>

definition RUTABAGA_CAPSET_VIRGL :: u32 where [simp]: "RUTABAGA_CAPSET_VIRGL = 1"
definition RUTABAGA_CAPSET_VIRGL2 :: u32 where [simp]: "RUTABAGA_CAPSET_VIRGL2 = 2"
definition RUTABAGA_CAPSET_GFXSTREAM_VULKAN :: u32 where
  [simp]: "RUTABAGA_CAPSET_GFXSTREAM_VULKAN = 3"
definition RUTABAGA_CAPSET_VENUS :: u32 where [simp]: "RUTABAGA_CAPSET_VENUS = 4"
definition RUTABAGA_CAPSET_CROSS_DOMAIN :: u32 where [simp]: "RUTABAGA_CAPSET_CROSS_DOMAIN = 5"
definition RUTABAGA_CAPSET_DRM :: u32 where [simp]: "RUTABAGA_CAPSET_DRM = 6"
definition RUTABAGA_CAPSET_MAGMA :: u32 where [simp]: "RUTABAGA_CAPSET_MAGMA = 7"
definition RUTABAGA_CAPSET_GFXSTREAM_GLES :: u32 where
  [simp]: "RUTABAGA_CAPSET_GFXSTREAM_GLES = 8"
definition RUTABAGA_CAPSET_GFXSTREAM_COMPOSER :: u32 where
  [simp]: "RUTABAGA_CAPSET_GFXSTREAM_COMPOSER = 9"

section \<open>Renderer flags\<close>

datatype virgl_renderer_flags = VirglRendererFlags u32

primrec virgl_bits :: "virgl_renderer_flags \<Rightarrow> u32" where
  "virgl_bits (VirglRendererFlags v) = v"

definition VIRGLRENDERER_USE_EGL :: u32 where [simp]: "VIRGLRENDERER_USE_EGL = 1"
definition VIRGLRENDERER_THREAD_SYNC :: u32 where [simp]: "VIRGLRENDERER_THREAD_SYNC = 2"
definition VIRGLRENDERER_USE_SURFACELESS :: u32 where [simp]: "VIRGLRENDERER_USE_SURFACELESS = 8"
definition VIRGLRENDERER_USE_GLES :: u32 where [simp]: "VIRGLRENDERER_USE_GLES = 16"
definition VIRGLRENDERER_USE_EXTERNAL_BLOB :: u32 where
  [simp]: "VIRGLRENDERER_USE_EXTERNAL_BLOB = 32"
definition VIRGLRENDERER_VENUS :: u32 where [simp]: "VIRGLRENDERER_VENUS = 64"
definition VIRGLRENDERER_NO_VIRGL :: u32 where [simp]: "VIRGLRENDERER_NO_VIRGL = 128"
definition VIRGLRENDERER_USE_ASYNC_FENCE_CB :: u32 where
  [simp]: "VIRGLRENDERER_USE_ASYNC_FENCE_CB = 256"
definition VIRGLRENDERER_RENDER_SERVER :: u32 where [simp]: "VIRGLRENDERER_RENDER_SERVER = 512"
definition VIRGLRENDERER_DRM :: u32 where [simp]: "VIRGLRENDERER_DRM = 1024"

definition virgl_new :: virgl_renderer_flags where
  "virgl_new = VirglRendererFlags 0"

definition virgl_set_flag :: "virgl_renderer_flags \<Rightarrow> u32 \<Rightarrow> bool \<Rightarrow> virgl_renderer_flags" where
  "virgl_set_flag f bitmask b =
     (if b then VirglRendererFlags (virgl_bits f OR bitmask)
      else VirglRendererFlags (virgl_bits f AND NOT bitmask))"

definition virgl_use_virgl :: "virgl_renderer_flags \<Rightarrow> bool \<Rightarrow> virgl_renderer_flags" where
  "virgl_use_virgl f v = virgl_set_flag f VIRGLRENDERER_NO_VIRGL (\<not> v)"

definition virgl_use_venus :: "virgl_renderer_flags \<Rightarrow> bool \<Rightarrow> virgl_renderer_flags" where
  "virgl_use_venus f v = virgl_set_flag f VIRGLRENDERER_VENUS v"

definition virgl_use_drm :: "virgl_renderer_flags \<Rightarrow> bool \<Rightarrow> virgl_renderer_flags" where
  "virgl_use_drm f v = virgl_set_flag f VIRGLRENDERER_DRM v"

definition virgl_use_egl :: "virgl_renderer_flags \<Rightarrow> bool \<Rightarrow> virgl_renderer_flags" where
  "virgl_use_egl f v = virgl_set_flag f VIRGLRENDERER_USE_EGL v"

definition virgl_use_thread_sync :: "virgl_renderer_flags \<Rightarrow> bool \<Rightarrow> virgl_renderer_flags" where
  "virgl_use_thread_sync f v = virgl_set_flag f VIRGLRENDERER_THREAD_SYNC v"

definition virgl_use_surfaceless :: "virgl_renderer_flags \<Rightarrow> bool \<Rightarrow> virgl_renderer_flags" where
  "virgl_use_surfaceless f v = virgl_set_flag f VIRGLRENDERER_USE_SURFACELESS v"

definition virgl_use_gles :: "virgl_renderer_flags \<Rightarrow> bool \<Rightarrow> virgl_renderer_flags" where
  "virgl_use_gles f v = virgl_set_flag f VIRGLRENDERER_USE_GLES v"

definition virgl_use_external_blob :: "virgl_renderer_flags \<Rightarrow> bool \<Rightarrow> virgl_renderer_flags" where
  "virgl_use_external_blob f v = virgl_set_flag f VIRGLRENDERER_USE_EXTERNAL_BLOB v"

definition virgl_use_async_fence_cb :: "virgl_renderer_flags \<Rightarrow> bool \<Rightarrow> virgl_renderer_flags" where
  "virgl_use_async_fence_cb f v = virgl_set_flag f VIRGLRENDERER_USE_ASYNC_FENCE_CB v"

definition virgl_use_render_server :: "virgl_renderer_flags \<Rightarrow> bool \<Rightarrow> virgl_renderer_flags" where
  "virgl_use_render_server f v = virgl_set_flag f VIRGLRENDERER_RENDER_SERVER v"

definition virgl_default :: virgl_renderer_flags where
  "virgl_default =
     virgl_use_render_server
       (virgl_use_gles
         (virgl_use_surfaceless
           (virgl_use_egl
             (virgl_use_venus (virgl_use_virgl virgl_new True) False) True) True) True) False"

datatype gfxstream_flags = GfxstreamFlags u32

primrec gfxstream_bits :: "gfxstream_flags \<Rightarrow> u32" where
  "gfxstream_bits (GfxstreamFlags v) = v"

definition STREAM_RENDERER_FLAGS_USE_EGL :: u32 where [simp]: "STREAM_RENDERER_FLAGS_USE_EGL = 1"
definition STREAM_RENDERER_FLAGS_USE_SURFACELESS :: u32 where
  [simp]: "STREAM_RENDERER_FLAGS_USE_SURFACELESS = 8"
definition STREAM_RENDERER_FLAGS_USE_GLES :: u32 where [simp]: "STREAM_RENDERER_FLAGS_USE_GLES = 16"
definition STREAM_RENDERER_FLAGS_USE_VK_BIT :: u32 where
  [simp]: "STREAM_RENDERER_FLAGS_USE_VK_BIT = 32"
definition STREAM_RENDERER_FLAGS_USE_EXTERNAL_BLOB :: u32 where
  [simp]: "STREAM_RENDERER_FLAGS_USE_EXTERNAL_BLOB = 64"
definition STREAM_RENDERER_FLAGS_USE_SYSTEM_BLOB :: u32 where
  [simp]: "STREAM_RENDERER_FLAGS_USE_SYSTEM_BLOB = 128"
definition STREAM_RENDERER_FLAGS_VULKAN_NATIVE_SWAPCHAIN_BIT :: u32 where
  [simp]: "STREAM_RENDERER_FLAGS_VULKAN_NATIVE_SWAPCHAIN_BIT = 256"

datatype rutabaga_wsi = Surfaceless | VulkanSwapchain

definition gfxstream_new :: gfxstream_flags where
  "gfxstream_new = GfxstreamFlags 0"

definition gfxstream_set_flag :: "gfxstream_flags \<Rightarrow> u32 \<Rightarrow> bool \<Rightarrow> gfxstream_flags" where
  "gfxstream_set_flag f bitmask b =
     (if b then GfxstreamFlags (gfxstream_bits f OR bitmask)
      else GfxstreamFlags (gfxstream_bits f AND NOT bitmask))"

definition gfxstream_use_egl :: "gfxstream_flags \<Rightarrow> bool \<Rightarrow> gfxstream_flags" where
  "gfxstream_use_egl f v = gfxstream_set_flag f STREAM_RENDERER_FLAGS_USE_EGL v"

definition gfxstream_use_surfaceless :: "gfxstream_flags \<Rightarrow> bool \<Rightarrow> gfxstream_flags" where
  "gfxstream_use_surfaceless f v = gfxstream_set_flag f STREAM_RENDERER_FLAGS_USE_SURFACELESS v"

definition gfxstream_use_gles :: "gfxstream_flags \<Rightarrow> bool \<Rightarrow> gfxstream_flags" where
  "gfxstream_use_gles f v = gfxstream_set_flag f STREAM_RENDERER_FLAGS_USE_GLES v"

definition gfxstream_use_vulkan :: "gfxstream_flags \<Rightarrow> bool \<Rightarrow> gfxstream_flags" where
  "gfxstream_use_vulkan f v = gfxstream_set_flag f STREAM_RENDERER_FLAGS_USE_VK_BIT v"

definition gfxstream_set_wsi :: "gfxstream_flags \<Rightarrow> rutabaga_wsi \<Rightarrow> gfxstream_flags" where
  "gfxstream_set_wsi f v =
     gfxstream_set_flag f STREAM_RENDERER_FLAGS_VULKAN_NATIVE_SWAPCHAIN_BIT (v = VulkanSwapchain)"

definition gfxstream_use_external_blob :: "gfxstream_flags \<Rightarrow> bool \<Rightarrow> gfxstream_flags" where
  "gfxstream_use_external_blob f v = gfxstream_set_flag f STREAM_RENDERER_FLAGS_USE_EXTERNAL_BLOB v"

definition gfxstream_use_system_blob :: "gfxstream_flags \<Rightarrow> bool \<Rightarrow> gfxstream_flags" where
  "gfxstream_use_system_blob f v = gfxstream_set_flag f STREAM_RENDERER_FLAGS_USE_SYSTEM_BLOB v"

text \<open>Both flag structs update single bits of a word.\<close>

lemma virgl_set_flag_put [flag_simps]:
  "virgl_bits (virgl_set_flag f m b) = put_flag (virgl_bits f) m b"
  by (simp add: virgl_set_flag_def put_flag_def)

lemma gfxstream_set_flag_put [flag_simps]:
  "gfxstream_bits (gfxstream_set_flag f m b) = put_flag (gfxstream_bits f) m b"
  by (simp add: gfxstream_set_flag_def put_flag_def)

lemmas virgl_use_defs =
  virgl_use_virgl_def virgl_use_venus_def virgl_use_drm_def virgl_use_egl_def
  virgl_use_thread_sync_def virgl_use_surfaceless_def virgl_use_gles_def
  virgl_use_external_blob_def virgl_use_async_fence_cb_def virgl_use_render_server_def

lemmas gfxstream_use_defs =
  gfxstream_use_egl_def gfxstream_use_surfaceless_def gfxstream_use_gles_def
  gfxstream_use_vulkan_def gfxstream_set_wsi_def gfxstream_use_external_blob_def
  gfxstream_use_system_blob_def

section \<open>Transfers\<close>

record transfer_3d =
  t3d_x :: u32
  t3d_y :: u32
  t3d_z :: u32
  t3d_w :: u32
  t3d_h :: u32
  t3d_d :: u32
  t3d_level :: u32
  t3d_stride :: u32
  t3d_layer_stride :: u32
  t3d_offset :: u64

definition transfer_new_2d :: "u32 \<Rightarrow> u32 \<Rightarrow> u32 \<Rightarrow> u32 \<Rightarrow> u64 \<Rightarrow> transfer_3d" where
  "transfer_new_2d x y w h offset =
     \<lparr>t3d_x = x, t3d_y = y, t3d_z = 0, t3d_w = w, t3d_h = h, t3d_d = 1, t3d_level = 0,
      t3d_stride = 0, t3d_layer_stride = 0, t3d_offset = offset\<rparr>"

definition transfer_is_empty :: "transfer_3d \<Rightarrow> bool" where
  "transfer_is_empty t \<longleftrightarrow> t3d_w t = 0 \<or> t3d_h t = 0 \<or> t3d_d t = 0"

section \<open>Paths and component types\<close>

definition RUTABAGA_PATH_TYPE_WAYLAND :: u32 where [simp]: "RUTABAGA_PATH_TYPE_WAYLAND = 0x0001"
definition RUTABAGA_PATH_TYPE_GPU :: u32 where [simp]: "RUTABAGA_PATH_TYPE_GPU = 0x0002"
definition RUTABAGA_PATH_TYPE_PIPEWIRE :: u32 where [simp]: "RUTABAGA_PATH_TYPE_PIPEWIRE = 0x0010"
definition RUTABAGA_PATH_TYPE_X11 :: u32 where [simp]: "RUTABAGA_PATH_TYPE_X11 = 0x0011"
definition RUTABAGA_PATH_TYPE_DBUS_SESSION :: u32 where
  [simp]: "RUTABAGA_PATH_TYPE_DBUS_SESSION = 0x0012"
definition RUTABAGA_PATH_TYPE_DBUS_SYSTEM :: u32 where
  [simp]: "RUTABAGA_PATH_TYPE_DBUS_SYSTEM = 0x0013"

record rutabaga_path =
  path_path :: string
  path_type :: u32

datatype rutabaga_component_type =
  NoneSelected | Rutabaga2D | VirglRenderer | Gfxstream | CrossDomain | Magma

primrec component_discr :: "rutabaga_component_type \<Rightarrow> nat" where
  "component_discr NoneSelected = 0"
| "component_discr Rutabaga2D = 1"
| "component_discr VirglRenderer = 2"
| "component_discr Gfxstream = 3"
| "component_discr CrossDomain = 4"
| "component_discr Magma = 5"

primrec component_as_str :: "rutabaga_component_type \<Rightarrow> string" where
  "component_as_str NoneSelected = ''none_selected''"
| "component_as_str CrossDomain = ''cross_domain''"
| "component_as_str Gfxstream = ''gfxstream''"
| "component_as_str Magma = ''magma''"
| "component_as_str Rutabaga2D = ''rutabaga_2d''"
| "component_as_str VirglRenderer = ''virgl_renderer''"

text \<open>\<open>1 << (T as u8)\<close>, the bit a component sets in \<open>component_mask\<close>.\<close>

definition component_bit :: "rutabaga_component_type \<Rightarrow> u8" where
  "component_bit t = push_bit (component_discr t) 1"

text \<open>\<open>#[derive(PartialOrd, Ord)]\<close>: the order of the discriminants.\<close>

lemma component_discr_inject [simp]: "component_discr a = component_discr b \<longleftrightarrow> a = b"
  by (cases a; cases b) simp_all

instantiation rutabaga_component_type :: linorder
begin

definition less_eq_rutabaga_component_type ::
  "rutabaga_component_type \<Rightarrow> rutabaga_component_type \<Rightarrow> bool" where
  "a \<le> b \<longleftrightarrow> component_discr a \<le> component_discr b"

definition less_rutabaga_component_type ::
  "rutabaga_component_type \<Rightarrow> rutabaga_component_type \<Rightarrow> bool" where
  "a < b \<longleftrightarrow> component_discr a < component_discr b"

instance
  by standard (auto simp: less_eq_rutabaga_component_type_def less_rutabaga_component_type_def)

end

end
