(* ===== verification/Handle.thy ===== *)
theory Handle
  imports Rutabaga_Utils
begin

text \<open>
  Descriptors, memory mappings and handles: \<open>src/handle.rs\<close> and the parts of the mesa utility
  crate it rests on (\<open>util/defines.rs\<close>, \<open>util/sys/linux/memory_mapping.rs\<close>,
  \<open>util/shm.rs\<close>).

  The operating system is the record \<open>os\<close>: one function per system call, returning an errno
  or a result. It is an argument of the operations that use it. A descriptor is its number; two
  live descriptors with the same number are the same one.
\<close>

type_synonym descriptor = nat

type_synonym 'a mres = "magma_error fault + 'a"

record os =
  os_dup :: "descriptor \<Rightarrow> int + descriptor"
  os_mmap :: "descriptor \<Rightarrow> nat \<Rightarrow> nat \<Rightarrow> bool \<times> bool \<Rightarrow> int + u64"
  os_memfd :: "nat \<Rightarrow> int + descriptor"
  os_getfl :: "descriptor \<Rightarrow> int + u32"
  os_get_seals :: "descriptor \<Rightarrow> int + u32"
  os_page_size :: nat

definition from_magma :: "'a mres \<Rightarrow> 'a rres" where
  "from_magma r = map_err MagmaGpuError r"

lemma from_magma_simps [simp]:
  "from_magma (Err e) = Err (MagmaGpuError e)"
  "from_magma Panicked = Panicked"
  "from_magma Hung = Hung"
  "from_magma (Ok x) = Ok x"
  by (simp_all add: from_magma_def)

lemma from_magma_eq_Ok [simp, rust_simps]: "from_magma r = Inr x \<longleftrightarrow> r = Inr x"
  by (auto simp: from_magma_def map_err_def split: sum.splits fault.splits)

section \<open>Descriptors and handles of the mesa crate\<close>

definition MAGMA_MAP_ACCESS_MASK :: u32 where [simp]: "MAGMA_MAP_ACCESS_MASK = 0xf0"
definition MAGMA_MAP_ACCESS_READ :: u32 where [simp]: "MAGMA_MAP_ACCESS_READ = 0x10"
definition MAGMA_MAP_ACCESS_WRITE :: u32 where [simp]: "MAGMA_MAP_ACCESS_WRITE = 0x20"
definition MAGMA_MAP_ACCESS_RW :: u32 where [simp]: "MAGMA_MAP_ACCESS_RW = 0x30"
definition MAGMA_GPU_HANDLE_TYPE_MEM_OPAQUE_FD :: u32 where
  [simp]: "MAGMA_GPU_HANDLE_TYPE_MEM_OPAQUE_FD = 1"
definition MAGMA_GPU_HANDLE_TYPE_MEM_DMABUF :: u32 where
  [simp]: "MAGMA_GPU_HANDLE_TYPE_MEM_DMABUF = 2"
definition MAGMA_GPU_HANDLE_TYPE_MEM_SHM :: u32 where [simp]: "MAGMA_GPU_HANDLE_TYPE_MEM_SHM = 4"
definition MAGMA_GPU_HANDLE_TYPE_SIGNAL_EVENT_FD :: u32 where
  [simp]: "MAGMA_GPU_HANDLE_TYPE_SIGNAL_EVENT_FD = 0x50"

definition errno_result :: "int + 'r \<Rightarrow> int fault + 'r" where
  "errno_result r = (case r of Inl e \<Rightarrow> Err e | Inr x \<Rightarrow> Ok x)"

definition descriptor_try_clone :: "os \<Rightarrow> descriptor \<Rightarrow> io_error fault + descriptor" where
  "descriptor_try_clone os d = (case os_dup os d of Inl e \<Rightarrow> Err (OsError e) | Inr d' \<Rightarrow> Ok d')"

text \<open>The access mode of the open file, less writing when a seal forbids it. \<open>O_ACCMODE\<close> is 3, the
  seals are \<open>F_SEAL_WRITE\<close> (8) and \<open>F_SEAL_FUTURE_WRITE\<close> (16), and errno 22 (\<open>EINVAL\<close>) says that
  the file has no seals.\<close>

definition access_of_flags :: "u32 \<Rightarrow> io_error fault + u32" where
  "access_of_flags flags =
     (let mode = flags AND 3 in
      if mode = 0 then Ok MAGMA_MAP_ACCESS_READ
      else if mode = 1 then Ok MAGMA_MAP_ACCESS_WRITE
      else if mode = 2 then Ok MAGMA_MAP_ACCESS_RW
      else Err IoUnsupported)"

definition determine_map_access_mode :: "os \<Rightarrow> descriptor \<Rightarrow> io_error fault + u32" where
  "determine_map_access_mode os d =
     and_then (map_err OsError (errno_result (os_getfl os d))) (\<lambda>flags.
     and_then (access_of_flags flags) (\<lambda>access.
     and_then
       (case os_get_seals os d of
          Inr seals \<Rightarrow> Ok seals
        | Inl e \<Rightarrow> if e = 22 then Ok 0 else Err (OsError e)) (\<lambda>seals.
     Ok (if seals AND 8 \<noteq> 0 \<or> seals AND 16 \<noteq> 0 then access AND NOT MAGMA_MAP_ACCESS_WRITE
         else access))))"

record magma_handle =
  os_handle :: descriptor
  handle_type :: u32

definition magma_handle_try_clone :: "os \<Rightarrow> magma_handle \<Rightarrow> magma_handle mres" where
  "magma_handle_try_clone os h =
     and_then (map_err (\<lambda>_. InvalidMagmaHandle) (descriptor_try_clone os (os_handle h)))
       (\<lambda>clone. Ok \<lparr>os_handle = clone, handle_type = handle_type h\<rparr>)"

section \<open>Memory mappings\<close>

record memory_mapping =
  mm_addr :: u64
  mm_size :: nat

definition do_mmap :: "os \<Rightarrow> descriptor \<Rightarrow> nat \<Rightarrow> nat \<Rightarrow> u32 \<Rightarrow> memory_mapping mres" where
  "do_mmap os d offset sz map_info =
     (let access = map_info AND MAGMA_MAP_ACCESS_MASK in
      and_then
        (if access = MAGMA_MAP_ACCESS_READ then Ok (True, False)
         else if access = MAGMA_MAP_ACCESS_WRITE then Ok (False, True)
         else if access = MAGMA_MAP_ACCESS_RW then Ok (True, True)
         else Err (WithContext ''incorrect access flags''))
        (\<lambda>prot. case os_mmap os d offset sz prot of
            Inl e \<Rightarrow> Err (RustixError e)
          | Inr addr \<Rightarrow> Ok \<lparr>mm_addr = addr, mm_size = sz\<rparr>))"

definition from_safe_descriptor :: "os \<Rightarrow> descriptor \<Rightarrow> nat \<Rightarrow> u32 \<Rightarrow> memory_mapping mres" where
  "from_safe_descriptor os d sz map_info = do_mmap os d 0 sz map_info"

definition from_offset :: "os \<Rightarrow> descriptor \<Rightarrow> nat \<Rightarrow> nat \<Rightarrow> memory_mapping mres" where
  "from_offset os d offset sz = do_mmap os d offset sz MAGMA_MAP_ACCESS_RW"

record mesa_mapping =
  mesa_ptr :: u64
  mesa_size :: u64

definition as_mesa_mapping :: "memory_mapping \<Rightarrow> mesa_mapping" where
  "as_mesa_mapping m = \<lparr>mesa_ptr = mm_addr m, mesa_size = of_nat (mm_size m)\<rparr>"

text \<open>\<open>round_up_to_page_size\<close>: \<open>checked_next_multiple_of\<close> fails for page size 0 and when
  the next multiple does not fit in 64 bits.\<close>

definition round_up_to_page_size :: "os \<Rightarrow> u64 \<Rightarrow> u64 mres" where
  "round_up_to_page_size os v =
     (let p = os_page_size os; r = unat v mod p; up = (if r = 0 then unat v else unat v + (p - r))
      in if p = 0 \<or> 2 ^ 64 \<le> up then Err (WithContext ''rounding up caused overflow'')
         else Ok (of_nat up))"

lemma round_up_to_page_size_ok:
  assumes "round_up_to_page_size os v = Ok s"
  shows "os_page_size os dvd unat s" and "unat v \<le> unat s" and "unat s < unat v + os_page_size os"
proof -
  define p r where "p = os_page_size os" and "r = unat v mod p"
  define up where "up = (if r = 0 then unat v else unat v + (p - r))"
  have "round_up_to_page_size os v =
      (if p = 0 \<or> 2 ^ 64 \<le> up then Err (WithContext ''rounding up caused overflow'')
       else Ok (of_nat up))"
    unfolding round_up_to_page_size_def Let_def p_def r_def up_def by (rule refl)
  with assms have s: "s = of_nat up" and p: "0 < p" and up: "up < 2 ^ 64"
    by (auto split: if_splits)
  then have "unat s = up" by (simp add: unat_of_nat)
  moreover have "p dvd up"
  proof (cases "r = 0")
    case True
    then show ?thesis by (simp add: up_def r_def mod_0_imp_dvd)
  next
    case False
    have "r < p" using p by (simp add: r_def)
    then have "unat v + (p - r) = p * (unat v div p) + p"
      using mult_div_mod_eq [of p "unat v"] by (simp add: r_def [symmetric] del: mult_div_mod_eq)
    with False show ?thesis by (simp add: up_def)
  qed
  moreover have "unat v \<le> up" by (simp add: up_def)
  moreover have "up < unat v + p"
    using p by (auto simp: up_def)
  ultimately show "os_page_size os dvd unat s" and "unat v \<le> unat s"
    and "unat s < unat v + os_page_size os"
    by (simp_all add: p_def)
qed

section \<open>\<open>RutabagaHandle\<close>\<close>

record ahb_info =
  ahb_fds :: "descriptor list"
  ahb_metadata :: "u8 list"

fun clone_descriptors :: "os \<Rightarrow> descriptor list \<Rightarrow> io_error fault + descriptor list" where
  "clone_descriptors os [] = Ok []"
| "clone_descriptors os (d # ds) =
     and_then (descriptor_try_clone os d)
       (\<lambda>d'. and_then (clone_descriptors os ds) (\<lambda>ds'. Ok (d' # ds')))"

definition ahb_try_clone :: "os \<Rightarrow> ahb_info \<Rightarrow> ahb_info rres" where
  "ahb_try_clone os info =
     and_then
       (from_magma (map_err (\<lambda>_. InvalidMagmaHandle) (clone_descriptors os (ahb_fds info))))
       (\<lambda>fds. Ok \<lparr>ahb_fds = fds, ahb_metadata = ahb_metadata info\<rparr>)"

datatype rutabaga_handle = MagmaGpuHandle magma_handle | AhbInfo ahb_info

fun rutabaga_handle_try_clone :: "os \<Rightarrow> rutabaga_handle \<Rightarrow> rutabaga_handle rres" where
  "rutabaga_handle_try_clone os (MagmaGpuHandle h) =
     and_then (from_magma (magma_handle_try_clone os h)) (\<lambda>c. Ok (MagmaGpuHandle c))"
| "rutabaga_handle_try_clone os (AhbInfo i) =
     and_then (ahb_try_clone os i) (\<lambda>c. Ok (AhbInfo c))"

fun as_mesa_handle :: "rutabaga_handle \<Rightarrow> magma_handle option" where
  "as_mesa_handle (MagmaGpuHandle h) = Some h"
| "as_mesa_handle _ = None"

fun magma_handle_try_from :: "rutabaga_handle \<Rightarrow> magma_handle mres" where
  "magma_handle_try_from (MagmaGpuHandle h) = Ok h"
| "magma_handle_try_from _ = Err InvalidMagmaHandle"

fun ahb_info_try_from :: "rutabaga_handle \<Rightarrow> ahb_info mres" where
  "ahb_info_try_from (AhbInfo i) = Ok i"
| "ahb_info_try_from _ = Err InvalidMagmaHandle"

text \<open>A clone is the same kind of handle, with the same type tag and metadata.\<close>

definition same_kind :: "rutabaga_handle \<Rightarrow> rutabaga_handle \<Rightarrow> bool" where
  "same_kind a b \<longleftrightarrow>
     (case (a, b) of
        (MagmaGpuHandle x, MagmaGpuHandle y) \<Rightarrow> handle_type x = handle_type y
      | (AhbInfo x, AhbInfo y) \<Rightarrow>
          length (ahb_fds x) = length (ahb_fds y) \<and> ahb_metadata x = ahb_metadata y
      | _ \<Rightarrow> False)"

lemma map_err_eq_Ok [rust_simps]: "map_err f r = Inr x \<longleftrightarrow> r = Inr x"
  by (auto simp: map_err_def split: sum.splits fault.splits)

lemma clone_descriptors_length: "clone_descriptors os ds = Ok ds' \<Longrightarrow> length ds' = length ds"
  by (induction ds arbitrary: ds') (auto simp: rust_simps)

lemma rutabaga_handle_try_clone_kind:
  "rutabaga_handle_try_clone os h = Ok c \<Longrightarrow> same_kind h c"
  by (cases h)
    (auto simp: rust_simps magma_handle_try_clone_def ahb_try_clone_def same_kind_def
      dest: clone_descriptors_length)

end
