(* ===== verification/Resource.thy ===== *)
theory Resource
  imports Handle
begin

text \<open>
  The resource of \<open>src/rutabaga_core.rs\<close>: \<open>Rutabaga2DInfo\<close>, \<open>RutabagaResource\<close> and the
  part of a resource that survives a snapshot, with the two conversions.

  An \<open>Arc\<close> around a handle is the handle: two live handles are the same object exactly when
  their descriptor numbers agree.
\<close>

record rutabaga_2d_info =
  i2d_width :: u32
  i2d_height :: u32
  i2d_host_mem :: "u8 list option"
  i2d_scanout_stride :: "u32 option"

record rutabaga_2d_snapshot =
  s2d_width :: u32
  s2d_height :: u32

record rutabaga_resource =
  r_resource_id :: u32
  r_handle :: "rutabaga_handle option"
  r_blob :: bool
  r_blob_mem :: u32
  r_blob_flags :: u32
  r_map_info :: "u32 option"
  r_info_2d :: "rutabaga_2d_info option"
  r_info_3d :: "resource_3d_info option"
  r_vulkan_info :: "vulkan_info option"
  r_backing_iovecs :: "rutabaga_iovec list option"
  r_component_mask :: u8
  r_size :: u64
  r_mapping :: "memory_mapping option"

record rutabaga_resource_snapshot =
  rs_resource_id :: u32
  rs_blob :: bool
  rs_blob_mem :: u32
  rs_blob_flags :: u32
  rs_map_info :: "u32 option"
  rs_info_2d :: "rutabaga_2d_snapshot option"
  rs_info_3d :: "resource_3d_info option"
  rs_vulkan_info :: "vulkan_info option"
  rs_component_mask :: u8
  rs_size :: u64

definition resource_to_snapshot :: "rutabaga_resource \<Rightarrow> rutabaga_resource_snapshot rres" where
  "resource_to_snapshot r = Ok
     \<lparr>rs_resource_id = r_resource_id r,
      rs_blob = r_blob r,
      rs_blob_mem = r_blob_mem r,
      rs_blob_flags = r_blob_flags r,
      rs_map_info = r_map_info r,
      rs_info_2d = map_option
        (\<lambda>info. \<lparr>s2d_width = i2d_width info, s2d_height = i2d_height info\<rparr>) (r_info_2d r),
      rs_info_3d = r_info_3d r,
      rs_vulkan_info = r_vulkan_info r,
      rs_component_mask = r_component_mask r,
      rs_size = r_size r\<rparr>"

text \<open>The buffer of a restored 2D resource: the product is taken in 32 bits before the widening
  to \<open>u64\<close>.\<close>

definition restored_host_mem_size :: "u32 \<Rightarrow> u32 \<Rightarrow> nat" where
  "restored_host_mem_size w h = unat (w * h * 4)"

definition resource_from_snapshot :: "rutabaga_resource_snapshot \<Rightarrow> rutabaga_resource rres" where
  "resource_from_snapshot s = Ok
     \<lparr>r_resource_id = rs_resource_id s,
      r_handle = None,
      r_blob = rs_blob s,
      r_blob_mem = rs_blob_mem s,
      r_blob_flags = rs_blob_flags s,
      r_map_info = rs_map_info s,
      r_info_2d = map_option
        (\<lambda>info. let size = restored_host_mem_size (s2d_width info) (s2d_height info) in
           \<lparr>i2d_width = s2d_width info, i2d_height = s2d_height info,
            i2d_host_mem = Some (replicate size 0), i2d_scanout_stride = None\<rparr>) (rs_info_2d s),
      r_info_3d = rs_info_3d s,
      r_vulkan_info = rs_vulkan_info s,
      r_backing_iovecs = None,
      r_component_mask = rs_component_mask s,
      r_size = rs_size s,
      r_mapping = None\<rparr>"

text \<open>What a snapshot and restore make of one resource. The source documents that the handle, the
  mapping, the iovecs and the contents of the host memory are not preserved; the code also loses the
  scanout stride, and gives host memory to a 2D resource that had none.\<close>

definition after_restore_2d :: "rutabaga_2d_info \<Rightarrow> rutabaga_2d_info" where
  "after_restore_2d i =
     \<lparr>i2d_width = i2d_width i, i2d_height = i2d_height i,
      i2d_host_mem = Some (replicate (restored_host_mem_size (i2d_width i) (i2d_height i)) 0),
      i2d_scanout_stride = None\<rparr>"

definition after_restore :: "rutabaga_resource \<Rightarrow> rutabaga_resource" where
  "after_restore r = r\<lparr>r_handle := None, r_backing_iovecs := None, r_mapping := None,
     r_info_2d := map_option after_restore_2d (r_info_2d r)\<rparr>"

lemma resource_snapshot_roundtrip:
  "and_then (resource_to_snapshot r) resource_from_snapshot = Ok (after_restore r)"
  by (cases r) (simp add: resource_to_snapshot_def resource_from_snapshot_def after_restore_def
      after_restore_2d_def [abs_def] Let_def option.map_comp comp_def)

text \<open>The fields that \<open>RutabagaResourceSnapshot\<close> documents as preserved\<close>

definition preserved_fields :: "rutabaga_resource \<Rightarrow> rutabaga_resource \<Rightarrow> bool" where
  "preserved_fields r r' \<longleftrightarrow>
     r_resource_id r' = r_resource_id r \<and> r_blob r' = r_blob r \<and> r_blob_mem r' = r_blob_mem r \<and>
     r_blob_flags r' = r_blob_flags r \<and> r_map_info r' = r_map_info r \<and>
     r_info_3d r' = r_info_3d r \<and> r_vulkan_info r' = r_vulkan_info r \<and>
     r_component_mask r' = r_component_mask r \<and> r_size r' = r_size r \<and>
     map_option (\<lambda>info. (i2d_width info, i2d_height info)) (r_info_2d r') =
       map_option (\<lambda>info. (i2d_width info, i2d_height info)) (r_info_2d r)"

lemma restored_host_mem_size_exact:
  assumes "unat w * unat h * 4 < 2 ^ 32"
  shows "restored_host_mem_size w h = unat w * unat h * 4"
proof -
  have "unat w * unat h < 2 ^ 32" using assms by linarith
  then have wh: "unat (w * h) = unat w * unat h"
    by (simp add: unat_word_ariths)
  then have "unat (w * h * 4) = unat (w * h) * 4"
    using assms by (simp add: unat_word_ariths(2) [of "w * h" 4])
  with wh show ?thesis by (simp add: restored_host_mem_size_def)
qed

lemma after_restore_fields:
  "preserved_fields r (after_restore r)" "r_handle (after_restore r) = None"
  "r_mapping (after_restore r) = None" "r_backing_iovecs (after_restore r) = None"
  by (cases "r_info_2d r"; simp add: preserved_fields_def after_restore_def after_restore_2d_def)+

lemma after_restore_info:
  assumes "r_info_2d (after_restore r) = Some info"
  shows "i2d_scanout_stride info = None"
    and "\<exists>size. i2d_host_mem info = Some (replicate size 0) \<and>
      (unat (i2d_width info) * unat (i2d_height info) * 4 < 2 ^ 32 \<longrightarrow>
        size = unat (i2d_width info) * unat (i2d_height info) * 4)"
proof -
  obtain info0 where info: "info = after_restore_2d info0"
    using assms by (auto simp: after_restore_def)
  show "i2d_scanout_stride info = None" by (simp add: info after_restore_2d_def)
  show "\<exists>size. i2d_host_mem info = Some (replicate size 0) \<and>
      (unat (i2d_width info) * unat (i2d_height info) * 4 < 2 ^ 32 \<longrightarrow>
        size = unat (i2d_width info) * unat (i2d_height info) * 4)"
    by (intro exI [of _ "restored_host_mem_size (i2d_width info) (i2d_height info)"] conjI impI
        restored_host_mem_size_exact)
      (simp_all add: info after_restore_2d_def)
qed

text \<open>Reading the iovecs of a resource as byte slices.\<close>

definition iovec_slices :: "memory \<Rightarrow> rutabaga_iovec list \<Rightarrow> u8 list list" where
  "iovec_slices mem iovecs = map (\<lambda>v. read_mem mem (iov_base v) (unat (iov_len v))) iovecs"

end
