(* ===== verification/Snapshot.thy ===== *)
theory Snapshot
  imports Resource
begin

text \<open>
  The environment of the library and the snapshot directories of \<open>src/snapshot.rs\<close>.

  The record \<open>world\<close> is everything outside the objects of the library that its operations
  read or change: the operating system, the guest memory behind the iovecs, the file tree and
  the calls made to the fence handler. Components that need more state extend the record.

  Paths are lists of names, a directory is a node of its own, a file holds bytes. The JSON
  codec (the \<open>serde_json\<close> crate) is an argument: \<open>add_fragment\<close> takes the serializer of the
  value it writes and \<open>get_fragment\<close> the parser of the type it reads.
\<close>

section \<open>The file tree\<close>

type_synonym path = "string list"

datatype fs_node = Dir | File "u8 list"

type_synonym file_tree = "path \<Rightarrow> fs_node option"

definition path_join :: "path \<Rightarrow> string \<Rightarrow> path" where
  "path_join p name = p @ [name]"

definition ENOENT :: int where [simp]: "ENOENT = 2"
definition EEXIST :: int where [simp]: "EEXIST = 17"
definition ENOTDIR :: int where [simp]: "ENOTDIR = 20"

text \<open>The parent of a path has to be an existing directory.\<close>

definition fs_parent_error :: "file_tree \<Rightarrow> path \<Rightarrow> int option" where
  "fs_parent_error fs p =
     (case fs (butlast p) of
        None \<Rightarrow> Some ENOENT
      | Some (File _) \<Rightarrow> Some ENOTDIR
      | Some Dir \<Rightarrow> None)"

definition fs_create_dir :: "file_tree \<Rightarrow> path \<Rightarrow> (int + unit) \<times> file_tree" where
  "fs_create_dir fs p =
     (case fs_parent_error fs p of
        Some e \<Rightarrow> (Inl e, fs)
      | None \<Rightarrow> if fs p \<noteq> None then (Inl EEXIST, fs) else (Inr (), fs(p \<mapsto> Dir)))"

definition fs_create_new :: "file_tree \<Rightarrow> path \<Rightarrow> u8 list \<Rightarrow> (int + unit) \<times> file_tree" where
  "fs_create_new fs p content =
     (case fs_parent_error fs p of
        Some e \<Rightarrow> (Inl e, fs)
      | None \<Rightarrow> if fs p \<noteq> None then (Inl EEXIST, fs) else (Inr (), fs(p \<mapsto> File content)))"

section \<open>\<open>RutabagaSnapshotWriter\<close> and \<open>RutabagaSnapshotReader\<close>\<close>

datatype snapshot_writer = SnapshotWriter (writer_dir: path)
datatype snapshot_reader = SnapshotReader (reader_dir: path)

definition add_namespace ::
  "snapshot_writer \<Rightarrow> string \<Rightarrow> file_tree \<Rightarrow> snapshot_writer rres \<times> file_tree" where
  "add_namespace wr name fs =
     (let directory = path_join (writer_dir wr) name in
      case fs_create_dir fs directory of
        (Inl e, fs') \<Rightarrow> (Err (MagmaGpuError (IoError (OsError e))), fs')
      | (Inr _, fs') \<Rightarrow> (Ok (SnapshotWriter directory), fs'))"

definition add_fragment ::
  "('a \<Rightarrow> u8 list) \<Rightarrow> snapshot_writer \<Rightarrow> string \<Rightarrow> 'a \<Rightarrow> file_tree \<Rightarrow> unit rres \<times> file_tree"
where
  "add_fragment ser wr name t fs =
     (case fs_create_new fs (path_join (writer_dir wr) name) (ser t) of
        (Inl e, fs') \<Rightarrow> (Err SnapshotError, fs')
      | (Inr _, fs') \<Rightarrow> (Ok (), fs'))"

definition reader_from_existing :: "path \<Rightarrow> file_tree \<Rightarrow> snapshot_reader rres" where
  "reader_from_existing directory fs =
     (if fs directory = None then Err SnapshotError else Ok (SnapshotReader directory))"

definition get_namespace :: "snapshot_reader \<Rightarrow> string \<Rightarrow> file_tree \<Rightarrow> snapshot_reader rres" where
  "get_namespace rd name fs = reader_from_existing (path_join (reader_dir rd) name) fs"

definition get_fragment ::
  "(u8 list \<Rightarrow> 'a option) \<Rightarrow> snapshot_reader \<Rightarrow> string \<Rightarrow> file_tree \<Rightarrow> 'a rres" where
  "get_fragment de rd name fs =
     (case fs (path_join (reader_dir rd) name) of
        None \<Rightarrow> Err (MagmaGpuError (IoError (OsError ENOENT)))
      | Some Dir \<Rightarrow> Err SerdeJsonError
      | Some (File content) \<Rightarrow> ok_or SerdeJsonError (de content))"

lemma path_join_inject [simp]: "path_join p n = path_join q m \<longleftrightarrow> p = q \<and> n = m"
  by (auto simp: path_join_def)

lemma path_join_neq [simp]: "path_join p n \<noteq> p" "p \<noteq> path_join p n"
  by (auto simp: path_join_def)

lemma butlast_path_join [simp]: "butlast (path_join p n) = p"
  by (simp add: path_join_def)

text \<open>What a fragment that was written reads back as, and what writing leaves alone.\<close>

lemma add_fragment_ok:
  assumes "fs (writer_dir wr) = Some Dir" and "fs (path_join (writer_dir wr) name) = None"
  shows "add_fragment ser wr name t fs =
    (Ok (), fs(path_join (writer_dir wr) name \<mapsto> File (ser t)))"
  using assms by (simp add: add_fragment_def fs_create_new_def fs_parent_error_def)

lemma add_fragment_get_fragment:
  assumes "add_fragment ser wr name t fs = (Ok (), fs')" and "writer_dir wr = reader_dir rd"
    and "de (ser t) = Some t"
  shows "get_fragment de rd name fs' = Ok t"
  using assms
  by (auto simp: add_fragment_def fs_create_new_def get_fragment_def split: option.splits if_splits)

lemma add_fragment_frame:
  assumes "add_fragment ser wr name t fs = (r, fs')" and "p \<noteq> path_join (writer_dir wr) name"
  shows "fs' p = fs p"
  using assms
  by (auto simp: add_fragment_def fs_create_new_def split: option.splits if_splits)

lemma add_fragment_keeps_existing:
  assumes "add_fragment ser wr name t fs = (r, fs')" and "fs p = Some n"
  shows "fs' p = Some n"
  using assms
  by (auto simp: add_fragment_def fs_create_new_def split: option.splits if_splits)

lemma add_namespace_ok:
  assumes "fs (writer_dir wr) = Some Dir" and "fs (path_join (writer_dir wr) name) = None"
  shows "add_namespace wr name fs =
    (Ok (SnapshotWriter (path_join (writer_dir wr) name)),
     fs(path_join (writer_dir wr) name \<mapsto> Dir))"
  using assms by (simp add: add_namespace_def fs_create_dir_def fs_parent_error_def Let_def)

lemma add_namespace_frame:
  assumes "add_namespace wr name fs = (r, fs')" and "p \<noteq> path_join (writer_dir wr) name"
  shows "fs' p = fs p"
  using assms
  by (auto simp: add_namespace_def fs_create_dir_def Let_def split: option.splits if_splits)

section \<open>The world\<close>

record world =
  w_os :: os
  w_mem :: memory
  w_fs :: file_tree
  w_fences :: "rutabaga_fence list"

text \<open>\<open>RutabagaHandler::call\<close>: the fence handler is a callback of the embedder; the model
  records the calls in order.\<close>

definition fence_handler_call :: "rutabaga_fence \<Rightarrow> 'a world_scheme \<Rightarrow> 'a world_scheme" where
  "fence_handler_call fence w = w\<lparr>w_fences := w_fences w @ [fence]\<rparr>"

definition with_fs ::
  "(file_tree \<Rightarrow> 'r \<times> file_tree) \<Rightarrow> 'a world_scheme \<Rightarrow> 'r \<times> 'a world_scheme" where
  "with_fs f w = (case f (w_fs w) of (r, fs) \<Rightarrow> (r, w\<lparr>w_fs := fs\<rparr>))"

text \<open>A world for concrete runs.\<close>

definition some_world :: world where
  "some_world = \<lparr>w_os = \<lparr>os_dup = \<lambda>d. Inr (d + 100), os_mmap = \<lambda>_ _ _ _. Inr 4096,
     os_memfd = \<lambda>n. Inr 50, os_getfl = \<lambda>_. Inr 2,
     os_get_seals = \<lambda>_. Inl 22, os_page_size = 4096\<rparr>,
     w_mem = \<lambda>a. ucast a, w_fs = (\<lambda>_. None), w_fences = []\<rparr>"

end
