(* ===== verification/Component.thy ===== *)
theory Component
  imports Snapshot
begin

text \<open>
  The traits \<open>RutabagaComponent\<close> and \<open>RutabagaContext\<close> of \<open>src/rutabaga_core.rs\<close>.

  A trait object is a record of its methods; every method takes the world the object lives in
  and returns it changed. The default method bodies of the traits are the records
  \<open>component_defaults\<close> and \<open>context_defaults\<close>, and an \<open>impl\<close> block is an update of them. Arguments
  passed by \<open>&mut\<close> are returned with the result.

  Two fields of a context have no counterpart among the trait methods, because Rust keeps them
  implicit: \<open>x_drop\<close> is the drop glue that runs when the box is removed from the map, and
  \<open>x_holds\<close> tells whether the context owns a clone of the \<open>Arc\<close> around a handle.

  The locales at the end are what the core library relies on.
\<close>

text \<open>\<open>VirtioFsLookup::get_exported_descriptor\<close>\<close>

type_synonym virtiofs_lookup = "u64 \<Rightarrow> u64 \<Rightarrow> descriptor rres"

section \<open>\<open>RutabagaContext\<close>\<close>

record 'w rutabaga_context =
  x_context_create_blob ::
    "u32 \<Rightarrow> resource_create_blob \<Rightarrow> rutabaga_handle option \<Rightarrow> 'w \<Rightarrow> rutabaga_resource rres \<times> 'w"
  x_submit_cmd ::
    "u8 list \<Rightarrow> u64 list \<Rightarrow> magma_handle list \<Rightarrow> 'w \<Rightarrow> (unit rres \<times> u8 list) \<times> 'w"
  x_attach :: "rutabaga_resource \<Rightarrow> 'w \<Rightarrow> rutabaga_resource \<times> 'w"
  x_detach :: "rutabaga_resource \<Rightarrow> 'w \<Rightarrow> 'w"
  x_context_create_fence :: "rutabaga_fence \<Rightarrow> 'w \<Rightarrow> magma_handle option rres \<times> 'w"
  x_component_type :: rutabaga_component_type
  x_snapshot :: "'w \<Rightarrow> u8 list rres"
  x_drop :: "'w \<Rightarrow> 'w"
  x_holds :: "rutabaga_handle \<Rightarrow> 'w \<Rightarrow> bool"

definition unsupported :: "'a rres" where
  "unsupported = Err (MagmaGpuError Unsupported)"

text \<open>The methods without a default body are arguments.\<close>

definition context_defaults ::
  "(u8 list \<Rightarrow> u64 list \<Rightarrow> magma_handle list \<Rightarrow> 'w \<Rightarrow> (unit rres \<times> u8 list) \<times> 'w) \<Rightarrow>
   (rutabaga_resource \<Rightarrow> 'w \<Rightarrow> rutabaga_resource \<times> 'w) \<Rightarrow> (rutabaga_resource \<Rightarrow> 'w \<Rightarrow> 'w) \<Rightarrow>
   rutabaga_component_type \<Rightarrow> 'w rutabaga_context" where
  "context_defaults submit_cmd attach detach component_type =
     \<lparr>x_context_create_blob = \<lambda>_ _ _ w. (unsupported, w),
      x_submit_cmd = submit_cmd,
      x_attach = attach,
      x_detach = detach,
      x_context_create_fence = \<lambda>_ w. (unsupported, w),
      x_component_type = component_type,
      x_snapshot = \<lambda>_. unsupported,
      x_drop = \<lambda>w. w,
      x_holds = \<lambda>_ _. False\<rparr>"

section \<open>\<open>RutabagaComponent\<close>\<close>

record 'w rutabaga_component =
  c_get_capset_info :: "u32 \<Rightarrow> 'w \<Rightarrow> u32 \<times> u32"
  c_get_capset :: "u32 \<Rightarrow> u32 \<Rightarrow> 'w \<Rightarrow> u8 list"
  c_force_ctx_0 :: "'w \<Rightarrow> 'w"
  c_create_fence :: "rutabaga_fence \<Rightarrow> 'w \<Rightarrow> unit rres \<times> 'w"
  c_event_poll :: "'w \<Rightarrow> 'w"
  c_poll_descriptor :: "'w \<Rightarrow> descriptor option \<times> 'w"
  c_create_3d :: "u32 \<Rightarrow> resource_create_3d \<Rightarrow> 'w \<Rightarrow> rutabaga_resource rres \<times> 'w"
  c_import ::
    "u32 \<Rightarrow> rutabaga_handle \<Rightarrow> rutabaga_import_data \<Rightarrow> 'w \<Rightarrow> rutabaga_resource option rres \<times> 'w"
  c_attach_backing :: "u32 \<Rightarrow> rutabaga_iovec list \<Rightarrow> 'w \<Rightarrow> (unit rres \<times> rutabaga_iovec list) \<times> 'w"
  c_detach_backing :: "u32 \<Rightarrow> 'w \<Rightarrow> 'w"
  c_unref_resource :: "u32 \<Rightarrow> 'w \<Rightarrow> 'w"
  c_transfer_write ::
    "u32 \<Rightarrow> rutabaga_resource \<Rightarrow> transfer_3d \<Rightarrow> u8 list option \<Rightarrow> 'w \<Rightarrow>
     (unit rres \<times> rutabaga_resource) \<times> 'w"
  c_transfer_read ::
    "u32 \<Rightarrow> rutabaga_resource \<Rightarrow> transfer_3d \<Rightarrow> u8 list option \<Rightarrow> 'w \<Rightarrow>
     (unit rres \<times> rutabaga_resource \<times> u8 list option) \<times> 'w"
  c_resource_flush :: "rutabaga_resource \<Rightarrow> 'w \<Rightarrow> (unit rres \<times> rutabaga_resource) \<times> 'w"
  c_create_blob ::
    "u32 \<Rightarrow> u32 \<Rightarrow> resource_create_blob \<Rightarrow> rutabaga_iovec list option \<Rightarrow>
     rutabaga_handle option \<Rightarrow> 'w \<Rightarrow> rutabaga_resource rres \<times> 'w"
  c_map_placed :: "u32 \<Rightarrow> u64 \<Rightarrow> 'w \<Rightarrow> unit rres \<times> 'w"
  c_map :: "u32 \<Rightarrow> 'w \<Rightarrow> mesa_mapping rres \<times> 'w"
  c_unmap :: "u32 \<Rightarrow> 'w \<Rightarrow> unit rres \<times> 'w"
  c_export_fence :: "u64 \<Rightarrow> 'w \<Rightarrow> magma_handle rres \<times> 'w"
  c_create_context ::
    "u32 \<Rightarrow> u32 \<Rightarrow> string option \<Rightarrow> 'w \<Rightarrow> 'w rutabaga_context rres \<times> 'w"
  c_suspend :: "'w \<Rightarrow> unit rres \<times> 'w"
  c_snapshot :: "snapshot_writer \<Rightarrow> 'w \<Rightarrow> unit rres \<times> 'w"
  c_restore :: "snapshot_reader \<Rightarrow> 'w \<Rightarrow> unit rres \<times> 'w"
  c_restore_context :: "u8 list \<Rightarrow> 'w \<Rightarrow> 'w rutabaga_context rres \<times> 'w"
  c_resume :: "'w \<Rightarrow> unit rres \<times> 'w"
  c_drop :: "'w \<Rightarrow> 'w"

text \<open>The resource of the default \<open>create_3d\<close>.\<close>

definition blank_resource :: "u32 \<Rightarrow> rutabaga_resource" where
  "blank_resource resource_id =
     \<lparr>r_resource_id = resource_id, r_handle = None, r_blob = False, r_blob_mem = 0,
      r_blob_flags = 0, r_map_info = None, r_info_2d = None, r_info_3d = None,
      r_vulkan_info = None, r_backing_iovecs = None, r_component_mask = 0, r_size = 0,
      r_mapping = None\<rparr>"

definition component_defaults :: "'w rutabaga_component" where
  "component_defaults =
     \<lparr>c_get_capset_info = \<lambda>_ _. (0, 0),
      c_get_capset = \<lambda>_ _ _. [],
      c_force_ctx_0 = \<lambda>w. w,
      c_create_fence = \<lambda>_ w. (Ok (), w),
      c_event_poll = \<lambda>w. w,
      c_poll_descriptor = \<lambda>w. (None, w),
      c_create_3d = \<lambda>resource_id _ w. (Ok (blank_resource resource_id), w),
      c_import = \<lambda>_ _ _ w. (unsupported, w),
      c_attach_backing = \<lambda>_ vecs w. ((Ok (), vecs), w),
      c_detach_backing = \<lambda>_ w. w,
      c_unref_resource = \<lambda>_ w. w,
      c_transfer_write = \<lambda>_ resource _ _ w. ((Ok (), resource), w),
      c_transfer_read = \<lambda>_ resource _ buf w. ((Ok (), resource, buf), w),
      c_resource_flush = \<lambda>resource w. ((unsupported, resource), w),
      c_create_blob = \<lambda>_ _ _ _ _ w. (unsupported, w),
      c_map_placed = \<lambda>_ _ w. (unsupported, w),
      c_map = \<lambda>_ w. (unsupported, w),
      c_unmap = \<lambda>_ w. (unsupported, w),
      c_export_fence = \<lambda>_ w. (unsupported, w),
      c_create_context = \<lambda>_ _ _ w. (unsupported, w),
      c_suspend = \<lambda>w. (Ok (), w),
      c_snapshot = \<lambda>_ w. (unsupported, w),
      c_restore = \<lambda>_ w. (unsupported, w),
      c_restore_context = \<lambda>_ w. (unsupported, w),
      c_resume = \<lambda>w. (Ok (), w),
      c_drop = \<lambda>w. w\<rparr>"

lemma unsupported_neq_Ok [simp]: "unsupported \<noteq> Inr x" "Inr x \<noteq> unsupported"
  by (simp_all add: unsupported_def)

lemma completes_unsupported [simp]: "completes unsupported"
  by (simp add: unsupported_def)

section \<open>What the core relies on\<close>

text \<open>A context: the resources it hands out or returns carry the id they were asked for.\<close>

locale context_contract =
  fixes x :: "'w rutabaga_context"
  assumes context_create_blob_id:
      "x_context_create_blob x resource_id rcb handle_opt w = (Ok r, w') \<Longrightarrow>
       r_resource_id r = resource_id"
    and attach_id: "r_resource_id (fst (x_attach x r w)) = r_resource_id r"

text \<open>A component: the same for its resources, and its contexts are lawful.\<close>

locale component_contract =
  fixes c :: "'w rutabaga_component"
  assumes create_3d_id:
      "c_create_3d c resource_id rc3d w = (Ok r, w') \<Longrightarrow> r_resource_id r = resource_id"
    and import_id:
      "c_import c resource_id h d w = (Ok (Some r), w') \<Longrightarrow> r_resource_id r = resource_id"
    and create_blob_id:
      "c_create_blob c ctx_id resource_id rcb iovecs handle_opt w = (Ok r, w') \<Longrightarrow>
       r_resource_id r = resource_id"
    and transfer_write_id:
      "r_resource_id (snd (fst (c_transfer_write c ctx_id r t buf w))) = r_resource_id r"
    and transfer_read_id:
      "r_resource_id (fst (snd (fst (c_transfer_read c ctx_id r t buf' w)))) = r_resource_id r"
    and resource_flush_id:
      "r_resource_id (snd (fst (c_resource_flush c r w))) = r_resource_id r"
    and create_context_lawful:
      "c_create_context c ctx_id init name w = (Ok x, w') \<Longrightarrow> context_contract x"
    and restore_context_lawful:
      "c_restore_context c bytes w = (Ok x, w') \<Longrightarrow> context_contract x"

end
