(* ===== verification/Capsets.thy ===== *)
theory Capsets
  imports Rutabaga_Utils
begin

text \<open>
  The table of capability sets of \<open>src/rutabaga_core.rs\<close> and the functions over it: capset masks
  from context names and back, and the component of a resource from its \<open>component_mask\<close>.
\<close>

record rutabaga_capset_info =
  capset_id :: u32
  capset_component :: rutabaga_component_type
  capset_name :: string

definition RUTABAGA_CAPSETS :: "rutabaga_capset_info list" where
  "RUTABAGA_CAPSETS =
    [\<lparr>capset_id = RUTABAGA_CAPSET_VIRGL, capset_component = VirglRenderer,
      capset_name = ''virgl''\<rparr>,
     \<lparr>capset_id = RUTABAGA_CAPSET_VIRGL2, capset_component = VirglRenderer,
      capset_name = ''virgl2''\<rparr>,
     \<lparr>capset_id = RUTABAGA_CAPSET_GFXSTREAM_VULKAN, capset_component = Gfxstream,
      capset_name = ''gfxstream-vulkan''\<rparr>,
     \<lparr>capset_id = RUTABAGA_CAPSET_VENUS, capset_component = VirglRenderer,
      capset_name = ''venus''\<rparr>,
     \<lparr>capset_id = RUTABAGA_CAPSET_CROSS_DOMAIN, capset_component = CrossDomain,
      capset_name = ''cross-domain''\<rparr>,
     \<lparr>capset_id = RUTABAGA_CAPSET_DRM, capset_component = VirglRenderer,
      capset_name = ''drm''\<rparr>,
     \<lparr>capset_id = RUTABAGA_CAPSET_MAGMA, capset_component = Magma,
      capset_name = ''magma''\<rparr>,
     \<lparr>capset_id = RUTABAGA_CAPSET_GFXSTREAM_GLES, capset_component = Gfxstream,
      capset_name = ''gfxstream-gles''\<rparr>,
     \<lparr>capset_id = RUTABAGA_CAPSET_GFXSTREAM_COMPOSER, capset_component = Gfxstream,
      capset_name = ''gfxstream-composer''\<rparr>]"

text \<open>\<open>1 << capset_id\<close> as a \<open>u64\<close>.\<close>

definition capset_bit :: "u32 \<Rightarrow> u64" where
  "capset_bit cid = push_bit (unat cid) 1"

definition calculate_capset_mask :: "string list \<Rightarrow> u64" where
  "calculate_capset_mask names =
     foldl (\<lambda>mask name.
        case find (\<lambda>c. capset_name c = name) RUTABAGA_CAPSETS of
          Some c \<Rightarrow> mask OR capset_bit (capset_id c)
        | None \<Rightarrow> mask) 0 names"

definition calculate_capset_names :: "u64 \<Rightarrow> string list" where
  "calculate_capset_names capset_mask =
     map capset_name
       (filter (\<lambda>c. capset_mask AND capset_bit (capset_id c) \<noteq> 0) RUTABAGA_CAPSETS)"

definition calculate_component :: "u8 \<Rightarrow> rutabaga_component_type rres" where
  "calculate_component component_mask =
     (if count_ones component_mask \<noteq> 1
      then Err (MagmaGpuError (WithContext ''can't infer single component''))
      else
        let tz = trailing_zeros component_mask in
        if tz = 0 then Ok NoneSelected
        else if tz = 1 then Ok Rutabaga2D
        else if tz = 2 then Ok VirglRenderer
        else if tz = 3 then Ok Gfxstream
        else if tz = 4 then Ok CrossDomain
        else Err InvalidComponent)"

section \<open>The table\<close>

lemma capsets_distinct:
  "distinct (map capset_name RUTABAGA_CAPSETS)" "distinct (map capset_id RUTABAGA_CAPSETS)"
  by (simp_all add: RUTABAGA_CAPSETS_def)

lemma capset_id_less_64: "c \<in> set RUTABAGA_CAPSETS \<Longrightarrow> unat (capset_id c) < 64"
  by (auto simp: RUTABAGA_CAPSETS_def)

lemma find_by_key:
  "distinct (map f xs) \<Longrightarrow> x \<in> set xs \<Longrightarrow> find (\<lambda>y. f y = f x) xs = Some x"
  by (induction xs) (auto simp: image_iff)

lemma bit_capset_bit: "bit (capset_bit cid) i \<longleftrightarrow> i < 64 \<and> i = unat cid"
  by (auto simp: capset_bit_def push_bit_eq_mult bit_exp_iff)

lemma and_capset_bit: "unat cid < 64 \<Longrightarrow> m AND capset_bit cid \<noteq> 0 \<longleftrightarrow> bit m (unat cid)"
  by (auto simp: bit_eq_iff [of "m AND capset_bit cid" 0] bit_and_iff bit_capset_bit)

lemma bit_calculate_capset_mask:
  "bit (calculate_capset_mask names) i \<longleftrightarrow>
     (\<exists>c \<in> set RUTABAGA_CAPSETS. capset_name c \<in> set names \<and> unat (capset_id c) = i)"
proof (induction names rule: rev_induct)
  case Nil
  then show ?case by (simp add: calculate_capset_mask_def)
next
  case (snoc name names)
  let ?mask = "calculate_capset_mask names"
  have step: "calculate_capset_mask (names @ [name]) =
      (case find (\<lambda>c. capset_name c = name) RUTABAGA_CAPSETS of
         Some c \<Rightarrow> ?mask OR capset_bit (capset_id c) | None \<Rightarrow> ?mask)"
    unfolding calculate_capset_mask_def by simp
  show ?case
  proof (cases "find (\<lambda>c. capset_name c = name) RUTABAGA_CAPSETS")
    case None
    then have "\<forall>c \<in> set RUTABAGA_CAPSETS. capset_name c \<noteq> name" by (simp add: find_None_iff)
    with None snoc step show ?thesis by auto
  next
    case (Some c)
    then have c: "c \<in> set RUTABAGA_CAPSETS" "capset_name c = name"
      by (auto simp: find_Some_iff)
    then have uniq: "c' = c" if "c' \<in> set RUTABAGA_CAPSETS" "capset_name c' = name" for c'
      using that capsets_distinct(1) unfolding distinct_map inj_on_def by blast
    have "bit (calculate_capset_mask (names @ [name])) i \<longleftrightarrow>
        bit ?mask i \<or> i = unat (capset_id c)"
      unfolding step Some using capset_id_less_64 [OF c(1)]
      by (auto simp: bit_or_iff bit_capset_bit)
    moreover have "set (names @ [name]) = insert name (set names)" by simp
    ultimately show ?thesis using snoc uniq c by blast
  qed
qed

section \<open>Properties\<close>

text \<open>
  Naming capability sets and reading the names back from the mask gives exactly the known
  names that were given, in table order: unknown names are ignored, duplicates collapse.
\<close>

lemma capset_names_of_mask:
  "calculate_capset_names (calculate_capset_mask names) =
     filter (\<lambda>n. n \<in> set names) (map capset_name RUTABAGA_CAPSETS)"
proof -
  have "calculate_capset_mask names AND capset_bit (capset_id c) \<noteq> 0 \<longleftrightarrow>
      capset_name c \<in> set names" if c: "c \<in> set RUTABAGA_CAPSETS" for c
  proof -
    have "c' = c" if "c' \<in> set RUTABAGA_CAPSETS" "unat (capset_id c') = unat (capset_id c)" for c'
      using that c capsets_distinct(2) word_unat_eq_iff [of "capset_id c'" "capset_id c"]
      unfolding distinct_map inj_on_def by blast
    then show ?thesis
      using c and_capset_bit [OF capset_id_less_64 [OF c]] by (auto simp: bit_calculate_capset_mask)
  qed
  then show ?thesis
    by (simp add: calculate_capset_names_def filter_map comp_def cong: filter_cong)
qed

lemma component_bit_bits:
  "count_ones (component_bit t) = 1" "trailing_zeros (component_bit t) = component_discr t"
proof -
  have "component_discr t < LENGTH(8)" by (cases t) simp_all
  then show "count_ones (component_bit t) = 1" "trailing_zeros (component_bit t) = component_discr t"
    unfolding component_bit_def by (rule count_ones_push_bit)+
qed

lemma calculate_component_cases:
  "calculate_component cm = Ok t \<longleftrightarrow> cm = component_bit t \<and> t \<noteq> Magma"
proof
  assume ok: "calculate_component cm = Ok t"
  then have one: "count_ones cm = 1" by (simp add: calculate_component_def split: if_splits)
  note m = count_ones_eq_1 [OF one]
  from ok one have "trailing_zeros cm = component_discr t \<and> t \<noteq> Magma"
    by (auto simp: calculate_component_def Let_def split: if_splits)
  with m(2) show "cm = component_bit t \<and> t \<noteq> Magma" by (simp add: component_bit_def)
next
  assume "cm = component_bit t \<and> t \<noteq> Magma"
  then show "calculate_component cm = Ok t"
    using component_bit_bits [of t]
    by (cases t) (simp_all add: calculate_component_def del: One_nat_def)
qed

text \<open>
  The component of a resource is recovered from its mask exactly when the mask is the bit of
  one component other than Magma; no mask of Magma is accepted, although the builder can
  install a Magma component.
\<close>

lemma calculate_component_spec:
  "(calculate_component cm = Ok t \<longleftrightarrow> cm = component_bit t \<and> t \<noteq> Magma) \<and>
   calculate_component (component_bit Magma) = Err InvalidComponent"
proof -
  have "calculate_component (component_bit Magma) = Err InvalidComponent"
    using component_bit_bits [of Magma] by (simp add: calculate_component_def del: One_nat_def)
  then show ?thesis using calculate_component_cases by blast
qed

end
