(* ===== verification/Core.thy ===== *)
theory Core
  imports Component Capsets
begin

text \<open>
  The library handle of \<open>src/rutabaga_core.rs\<close>: the struct \<open>Rutabaga\<close> and every method of its
  \<open>impl\<close> block, with \<open>fence_passing_option1\<close> configured (the fence table and the methods that
  only exist with it are part of the model).

  A method \<open>&mut self\<close> maps the state to its result and the new state; changes made before an
  early return stay. The state includes the world of the components (\<open>g_world\<close>); \<open>call\<close> runs a
  trait method on it. Removing a context from the map runs its drop glue.
\<close>

section \<open>State\<close>

record 'a rutabaga =
  g_resources :: "(u32, rutabaga_resource) fmap"
  g_shareable_fences :: "(u64, magma_handle) fmap"
  g_contexts :: "(u32, 'a world_scheme rutabaga_context) fmap"
  g_components :: "(rutabaga_component_type, 'a world_scheme rutabaga_component) fmap"
  g_default_component :: rutabaga_component_type
  g_capset_info :: "rutabaga_capset_info list"
  g_world :: "'a world_scheme"

record rutabaga_snapshot =
  snap_resources :: "(u32, rutabaga_resource_snapshot) fmap"
  snap_contexts :: "(u32, u8 list) fmap"

type_synonym ('r, 'a) op = "'a rutabaga \<Rightarrow> 'r rres \<times> 'a rutabaga"

definition call :: "('a world_scheme \<Rightarrow> 'r \<times> 'a world_scheme) \<Rightarrow> 'a rutabaga \<Rightarrow> 'r \<times> 'a rutabaga"
where
  "call f g = (case f (g_world g) of (r, w) \<Rightarrow> (r, g\<lparr>g_world := w\<rparr>))"

definition run :: "('a world_scheme \<Rightarrow> 'a world_scheme) \<Rightarrow> 'a rutabaga \<Rightarrow> 'a rutabaga" where
  "run f g = g\<lparr>g_world := f (g_world g)\<rparr>"

definition get_component ::
  "'a rutabaga \<Rightarrow> rutabaga_component_type \<Rightarrow> 'a world_scheme rutabaga_component rres" where
  "get_component g t = ok_or InvalidComponent (fmlookup (g_components g) t)"

definition default_of :: "'a rutabaga \<Rightarrow> 'a world_scheme rutabaga_component rres" where
  "default_of g = get_component g (g_default_component g)"

definition get_resource :: "'a rutabaga \<Rightarrow> u32 \<Rightarrow> rutabaga_resource rres" where
  "get_resource g resource_id = ok_or InvalidResourceId (fmlookup (g_resources g) resource_id)"

definition get_context :: "'a rutabaga \<Rightarrow> u32 \<Rightarrow> 'a world_scheme rutabaga_context rres" where
  "get_context g ctx_id = ok_or InvalidContextId (fmlookup (g_contexts g) ctx_id)"

definition put_resource :: "u32 \<Rightarrow> rutabaga_resource \<Rightarrow> 'a rutabaga \<Rightarrow> 'a rutabaga" where
  "put_resource resource_id r g = g\<lparr>g_resources := fmupd resource_id r (g_resources g)\<rparr>"

definition put_context ::
  "u32 \<Rightarrow> 'a world_scheme rutabaga_context \<Rightarrow> 'a rutabaga \<Rightarrow> 'a rutabaga" where
  "put_context ctx_id x g = g\<lparr>g_contexts := fmupd ctx_id x (g_contexts g)\<rparr>"

section \<open>Suspend, resume, snapshot, restore\<close>

definition rutabaga_suspend :: "(unit, 'a) op" where
  "rutabaga_suspend g = and_then_st (default_of g, g) (\<lambda>c. call (c_suspend c))"

definition rutabaga_resume :: "(unit, 'a) op" where
  "rutabaga_resume g = and_then_st (default_of g, g) (\<lambda>c. call (c_resume c))"

definition rutabaga_snapshot ::
  "(rutabaga_snapshot \<Rightarrow> u8 list) \<Rightarrow> path \<Rightarrow> (unit, 'a) op" where
  "rutabaga_snapshot ser directory g =
     (let snapshot_writer = SnapshotWriter directory in
      and_then_st (default_of g, g) (\<lambda>c g.
      and_then_st (call (with_fs
          (add_namespace snapshot_writer (component_as_str (g_default_component g)))) g) (\<lambda>cw g.
      and_then_st (call (c_snapshot c cw) g) (\<lambda>_ g.
      and_then_st (try_collect resource_to_snapshot (entries_of (g_resources g)), g) (\<lambda>rs g.
      and_then_st
        (try_collect (\<lambda>x. x_snapshot x (g_world g)) (entries_of (g_contexts g)), g) (\<lambda>cs g.
      call (with_fs (add_fragment ser snapshot_writer ''rutabaga_snapshot''
        \<lparr>snap_resources = rs, snap_contexts = cs\<rparr>)) g))))))"

definition rutabaga_unref_resource :: "u32 \<Rightarrow> (unit, 'a) op" where
  "rutabaga_unref_resource resource_id g =
     and_then_st (default_of g, g) (\<lambda>c g.
     and_then_st (get_resource g resource_id, g) (\<lambda>_ g.
       (Ok (), run (c_unref_resource c resource_id)
                 (g\<lparr>g_resources := fmdrop resource_id (g_resources g)\<rparr>))))"

text \<open>Dropping boxed contexts, in the order of the map.\<close>

definition drop_contexts ::
  "(u32 \<times> 'w rutabaga_context) list \<Rightarrow> 'w \<Rightarrow> 'w" where
  "drop_contexts xs w = foldl (\<lambda>w (i, x). x_drop x w) w xs"

definition contexts_clear :: "'a rutabaga \<Rightarrow> 'a rutabaga" where
  "contexts_clear g =
     run (drop_contexts (entries_of (g_contexts g))) (g\<lparr>g_contexts := fmempty\<rparr>)"

definition destroy_objects :: "(unit, 'a) op" where
  "destroy_objects g =
     and_then_st (try_for_each rutabaga_unref_resource (keys_of (g_resources g)) g) (\<lambda>_ g.
       (Ok (), contexts_clear g))"

text \<open>Dropping the handle: the contexts first, then the components, as the fields are declared.\<close>

definition drop_components ::
  "(rutabaga_component_type \<times> 'w rutabaga_component) list \<Rightarrow> 'w \<Rightarrow> 'w" where
  "drop_components cs w = foldl (\<lambda>w (t, c). c_drop c w) w cs"

definition rutabaga_drop :: "'a rutabaga \<Rightarrow> 'a world_scheme" where
  "rutabaga_drop g =
     drop_components (entries_of (g_components g))
       (drop_contexts (entries_of (g_contexts g)) (g_world g))"

text \<open>Restoring the contexts one by one; when one fails, those already made are dropped.\<close>

fun restore_contexts ::
  "'w rutabaga_component \<Rightarrow> (u32 \<times> u8 list) list \<Rightarrow> 'w \<Rightarrow>
   (u32, 'w rutabaga_context) fmap rres \<times> 'w" where
  "restore_contexts c [] w = (Ok fmempty, w)"
| "restore_contexts c ((i, bytes) # rest) w =
     and_then_st (c_restore_context c bytes w) (\<lambda>x w.
       (case restore_contexts c rest w of
          (Inl e, w) \<Rightarrow> (Inl e, x_drop x w)
        | (Inr m, w) \<Rightarrow> (Ok (fmupd i x m), w)))"

definition rutabaga_restore ::
  "(u8 list \<Rightarrow> rutabaga_snapshot option) \<Rightarrow> path \<Rightarrow> (unit, 'a) op" where
  "rutabaga_restore de directory g =
     and_then_st (destroy_objects g) (\<lambda>_ g.
     and_then_st (reader_from_existing directory (w_fs (g_world g)), g) (\<lambda>snapshot_reader g.
     and_then_st (default_of g, g) (\<lambda>c g.
     and_then_st (get_namespace snapshot_reader (component_as_str (g_default_component g))
         (w_fs (g_world g)), g) (\<lambda>component_snapshot_reader g.
     and_then_st (call (c_restore c component_snapshot_reader) g) (\<lambda>_ g.
     and_then_st (get_fragment de snapshot_reader ''rutabaga_snapshot'' (w_fs (g_world g)), g)
       (\<lambda>snapshot g.
     and_then_st (try_collect resource_from_snapshot (entries_of (snap_resources snapshot)), g)
       (\<lambda>rs g.
     and_then_st (call (restore_contexts c (entries_of (snap_contexts snapshot)))
         (g\<lparr>g_resources := rs\<rparr>)) (\<lambda>cs g.
     (Ok (), g\<lparr>g_contexts := cs\<rparr>)))))))))"

section \<open>Capability sets\<close>

definition capset_id_to_component_type ::
  "'a rutabaga \<Rightarrow> u32 \<Rightarrow> rutabaga_component_type rres" where
  "capset_id_to_component_type g cid =
     and_then (ok_or InvalidCapset (find (\<lambda>c. capset_id c = cid) (g_capset_info g)))
       (\<lambda>c. Ok (capset_component c))"

definition capset_index_to_component_info :: "'a rutabaga \<Rightarrow> u32 \<Rightarrow> rutabaga_capset_info rres" where
  "capset_index_to_component_info g index =
     (let idx = unat index in
      if length (g_capset_info g) \<le> idx then Err InvalidCapset
      else Ok (g_capset_info g ! idx))"

definition rutabaga_get_capset_info :: "u32 \<Rightarrow> 'a rutabaga \<Rightarrow> (u32 \<times> u32 \<times> u32) rres" where
  "rutabaga_get_capset_info index g =
     and_then (capset_index_to_component_info g index) (\<lambda>info.
     and_then (get_component g (capset_component info)) (\<lambda>c.
     case c_get_capset_info c (capset_id info) (g_world g) of
       (capset_version, capset_size) \<Rightarrow> Ok (capset_id info, capset_version, capset_size)))"

text \<open>\<open>capset_id_to_component_type(..).unwrap_or(self.default_component)\<close>\<close>

definition component_type_for :: "'a rutabaga \<Rightarrow> u32 \<Rightarrow> rutabaga_component_type" where
  "component_type_for g cid =
     (case capset_id_to_component_type g cid of Inl _ \<Rightarrow> g_default_component g | Inr t \<Rightarrow> t)"

definition rutabaga_get_capset :: "u32 \<Rightarrow> u32 \<Rightarrow> 'a rutabaga \<Rightarrow> u8 list rres" where
  "rutabaga_get_capset cid version g =
     and_then (get_component g (component_type_for g cid)) (\<lambda>c.
     Ok (c_get_capset c cid version (g_world g)))"

definition rutabaga_get_num_capsets :: "'a rutabaga \<Rightarrow> u32" where
  "rutabaga_get_num_capsets g = of_nat (length (g_capset_info g))"

definition rutabaga_force_ctx_0 :: "'a rutabaga \<Rightarrow> 'a rutabaga" where
  "rutabaga_force_ctx_0 g =
     (case fmlookup (g_components g) (g_default_component g) of
        None \<Rightarrow> g | Some c \<Rightarrow> run (c_force_ctx_0 c) g)"

section \<open>Fences and polling\<close>

definition rutabaga_create_fence :: "rutabaga_fence \<Rightarrow> (unit, 'a) op" where
  "rutabaga_create_fence fence g =
     (if has_flag (fence_flags fence) RUTABAGA_FLAG_INFO_RING_IDX then
        and_then_st (get_context g (fence_ctx_id fence), g) (\<lambda>ctx g.
        and_then_st (call (x_context_create_fence ctx fence) g) (\<lambda>handle_opt g.
        if has_flag (fence_flags fence) RUTABAGA_FLAG_FENCE_HOST_SHAREABLE then
          and_then_st (unwrap handle_opt, g) (\<lambda>handle g.
            (Ok (), g\<lparr>g_shareable_fences :=
                        fmupd (fence_id fence) handle (g_shareable_fences g)\<rparr>))
        else (Ok (), g)))
      else
        and_then_st (default_of g, g) (\<lambda>c. call (c_create_fence c fence)))"

definition rutabaga_event_poll :: "'a rutabaga \<Rightarrow> 'a rutabaga" where
  "rutabaga_event_poll g =
     (case fmlookup (g_components g) (g_default_component g) of
        None \<Rightarrow> g | Some c \<Rightarrow> run (c_event_poll c) g)"

definition rutabaga_poll_descriptor :: "'a rutabaga \<Rightarrow> descriptor option \<times> 'a rutabaga" where
  "rutabaga_poll_descriptor g =
     (case fmlookup (g_components g) (g_default_component g) of
        None \<Rightarrow> (None, g) | Some c \<Rightarrow> call (c_poll_descriptor c) g)"

section \<open>Resources\<close>

definition rutabaga_resource_create_3d :: "u32 \<Rightarrow> resource_create_3d \<Rightarrow> (unit, 'a) op" where
  "rutabaga_resource_create_3d resource_id rc3d g =
     and_then_st (default_of g, g) (\<lambda>c g.
     if contains_key (g_resources g) resource_id then (Err InvalidResourceId, g)
     else
       and_then_st (call (c_create_3d c resource_id rc3d) g) (\<lambda>resource g.
         (Ok (), put_resource resource_id resource g)))"

definition rutabaga_resource_import ::
  "u32 \<Rightarrow> rutabaga_handle \<Rightarrow> rutabaga_import_data \<Rightarrow> (unit, 'a) op" where
  "rutabaga_resource_import resource_id import_handle import_data g =
     and_then_st (default_of g, g) (\<lambda>c g.
     and_then_st (call (c_import c resource_id import_handle import_data) g) (\<lambda>r g.
     case r of
       Some resource \<Rightarrow> (Ok (), put_resource resource_id resource g)
     | None \<Rightarrow>
         if \<not> contains_key (g_resources g) resource_id then (Err InvalidResourceId, g)
         else (Ok (), g)))"

definition rutabaga_attach_backing :: "u32 \<Rightarrow> rutabaga_iovec list \<Rightarrow> (unit, 'a) op" where
  "rutabaga_attach_backing resource_id vecs g =
     and_then_st (default_of g, g) (\<lambda>c g.
     and_then_st (get_resource g resource_id, g) (\<lambda>resource g.
     case call (c_attach_backing c resource_id vecs) g of
       ((Inl e, vecs'), g) \<Rightarrow> (Inl e, g)
     | ((Inr _, vecs'), g) \<Rightarrow>
         (Ok (), put_resource resource_id (resource\<lparr>r_backing_iovecs := Some vecs'\<rparr>) g)))"

definition rutabaga_detach_backing :: "u32 \<Rightarrow> (unit, 'a) op" where
  "rutabaga_detach_backing resource_id g =
     and_then_st (default_of g, g) (\<lambda>c g.
     and_then_st (get_resource g resource_id, g) (\<lambda>resource g.
       (Ok (), put_resource resource_id (resource\<lparr>r_backing_iovecs := None\<rparr>)
                 (run (c_detach_backing c resource_id) g))))"

definition rutabaga_transfer_write ::
  "u32 \<Rightarrow> u32 \<Rightarrow> transfer_3d \<Rightarrow> u8 list option \<Rightarrow> (unit, 'a) op" where
  "rutabaga_transfer_write ctx_id resource_id transfer buf g =
     and_then_st (default_of g, g) (\<lambda>c g.
     and_then_st (get_resource g resource_id, g) (\<lambda>resource g.
     case call (c_transfer_write c ctx_id resource transfer buf) g of
       ((r, resource'), g) \<Rightarrow> (r, put_resource resource_id resource' g)))"

text \<open>The destination buffer is returned with the result.\<close>

definition rutabaga_transfer_read ::
  "u32 \<Rightarrow> u32 \<Rightarrow> transfer_3d \<Rightarrow> u8 list option \<Rightarrow> 'a rutabaga \<Rightarrow>
   (unit rres \<times> u8 list option) \<times> 'a rutabaga" where
  "rutabaga_transfer_read ctx_id resource_id transfer buf g =
     (case and_then (default_of g) (\<lambda>c.
           and_then (get_resource g resource_id) (\<lambda>resource. Ok (c, resource))) of
        Inl e \<Rightarrow> ((Inl e, buf), g)
      | Inr (c, resource) \<Rightarrow>
          (case call (c_transfer_read c ctx_id resource transfer buf) g of
             ((r, resource', buf'), g) \<Rightarrow> ((r, buf'), put_resource resource_id resource' g)))"

definition rutabaga_resource_flush :: "u32 \<Rightarrow> (unit, 'a) op" where
  "rutabaga_resource_flush resource_id g =
     and_then_st
       (ok_or (MagmaGpuError Unsupported) (fmlookup (g_components g) (g_default_component g)), g)
       (\<lambda>c g.
     and_then_st (get_resource g resource_id, g) (\<lambda>resource g.
     case call (c_resource_flush c resource) g of
       ((r, resource'), g) \<Rightarrow> (r, put_resource resource_id resource' g)))"

definition rutabaga_set_scanout ::
  "u32 \<Rightarrow> u32 \<Rightarrow> resource_3d_info option \<Rightarrow> (unit, 'a) op" where
  "rutabaga_set_scanout scanout_id resource_id info g =
     and_then_st (get_resource g resource_id, g) (\<lambda>resource g.
     case info of
       None \<Rightarrow> (Ok (), g)
     | Some info_val \<Rightarrow>
         and_then_st (ok_or Invalid2DInfo (r_info_2d resource), g) (\<lambda>info_2d g.
           (Ok (), put_resource resource_id
              (resource\<lparr>r_info_2d :=
                 Some (info_2d\<lparr>i2d_scanout_stride := Some (i3d_strides info_val ! 0)\<rparr>)\<rparr>) g)))"

text \<open>Which object creates a blob: the cross-domain context for a blob id, the cross-domain
  component for blob id 0 under a cross-domain context, the default component otherwise.\<close>

definition rutabaga_resource_create_blob ::
  "u32 \<Rightarrow> u32 \<Rightarrow> resource_create_blob \<Rightarrow> rutabaga_iovec list option \<Rightarrow>
   rutabaga_handle option \<Rightarrow> (unit, 'a) op" where
  "rutabaga_resource_create_blob ctx_id resource_id rcb iovecs handle g =
     (if contains_key (g_resources g) resource_id then (Err InvalidResourceId, g)
      else
        and_then_st (default_of g, g) (\<lambda>_ g.
        and_then_st
          (if 0 < ctx_id then
             and_then (get_context g ctx_id) (\<lambda>ctx.
               Ok (if x_component_type ctx = CrossDomain then Some ctx else None))
           else Ok None, g) (\<lambda>context g.
        and_then_st
          (case context of
             Some ctx \<Rightarrow>
               if 0 < cb_blob_id rcb then
                 call (x_context_create_blob ctx resource_id rcb handle) g
               else
                 and_then_st (get_component g CrossDomain, g) (\<lambda>cross_domain.
                   call (c_create_blob cross_domain ctx_id resource_id rcb iovecs handle))
           | None \<Rightarrow>
               and_then_st (default_of g, g) (\<lambda>c.
                 call (c_create_blob c ctx_id resource_id rcb iovecs handle)))
          (\<lambda>resource g. (Ok (), put_resource resource_id resource g)))))"

section \<open>Mapping and exporting\<close>

definition rutabaga_map_placed :: "u32 \<Rightarrow> u64 \<Rightarrow> (unit, 'a) op" where
  "rutabaga_map_placed resource_id placed_addr g =
     and_then_st (get_resource g resource_id, g) (\<lambda>resource g.
     and_then_st (calculate_component (r_component_mask resource), g) (\<lambda>component_type g.
     and_then_st (get_component g component_type, g) (\<lambda>c.
       call (c_map_placed c resource_id placed_addr))))"

text \<open>The shared-memory mapping of a cross-domain resource: the handle and the mapping that the
  resource gets back. Every error leaves the resource without its handle.\<close>

definition map_shm ::
  "os \<Rightarrow> rutabaga_resource \<Rightarrow> rutabaga_handle \<Rightarrow> memory_mapping rres" where
  "map_shm os resource handle =
     (case as_mesa_handle handle of
        None \<Rightarrow> Err (MagmaGpuError (WithContext ''mesa handle is expected''))
      | Some mesa_handle \<Rightarrow>
          if handle_type mesa_handle \<noteq> MAGMA_GPU_HANDLE_TYPE_MEM_SHM
          then Err (MagmaGpuError (WithContext ''expected a shared memory handle''))
          else
            and_then (from_magma (magma_handle_try_clone os mesa_handle)) (\<lambda>clone.
            and_then (ok_or (MagmaGpuError (WithContext ''no map info available''))
              (r_map_info resource)) (\<lambda>map_info.
            from_magma (from_safe_descriptor os (os_handle clone) (unat (r_size resource))
              map_info))))"

definition rutabaga_map :: "u32 \<Rightarrow> (mesa_mapping, 'a) op" where
  "rutabaga_map resource_id g =
     and_then_st (get_resource g resource_id, g) (\<lambda>resource g.
     and_then_st (calculate_component (r_component_mask resource), g) (\<lambda>component_type g.
     if component_type = CrossDomain then
       let handle_opt = r_handle resource;
           taken = resource\<lparr>r_handle := None\<rparr>;
           g = put_resource resource_id taken g
       in (case handle_opt of
             None \<Rightarrow> (Err (MagmaGpuError (WithContext ''expected a handle to map'')), g)
           | Some handle \<Rightarrow>
               and_then_st (map_shm (w_os (g_world g)) resource handle, g) (\<lambda>mapping g.
                 (Ok (as_mesa_mapping mapping),
                  put_resource resource_id
                    (taken\<lparr>r_handle := Some handle, r_mapping := Some mapping\<rparr>) g)))
     else
       and_then_st (get_component g component_type, g) (\<lambda>c. call (c_map c resource_id))))"

definition rutabaga_unmap :: "u32 \<Rightarrow> (unit, 'a) op" where
  "rutabaga_unmap resource_id g =
     and_then_st (get_resource g resource_id, g) (\<lambda>resource g.
     and_then_st (calculate_component (r_component_mask resource), g) (\<lambda>component_type g.
     if component_type = CrossDomain then
       (Ok (), put_resource resource_id (resource\<lparr>r_mapping := None\<rparr>) g)
     else
       and_then_st (get_component g component_type, g) (\<lambda>c. call (c_unmap c resource_id))))"

definition rutabaga_map_info :: "u32 \<Rightarrow> 'a rutabaga \<Rightarrow> u32 rres" where
  "rutabaga_map_info resource_id g =
     and_then (get_resource g resource_id) (\<lambda>resource.
     ok_or (MagmaGpuError (WithContext ''no map info available'')) (r_map_info resource))"

definition rutabaga_vulkan_info :: "u32 \<Rightarrow> 'a rutabaga \<Rightarrow> vulkan_info rres" where
  "rutabaga_vulkan_info resource_id g =
     and_then (get_resource g resource_id) (\<lambda>resource.
     ok_or InvalidVulkanInfo (r_vulkan_info resource))"

definition rutabaga_resource3d_info :: "u32 \<Rightarrow> 'a rutabaga \<Rightarrow> resource_3d_info rres" where
  "rutabaga_resource3d_info resource_id g =
     and_then (get_resource g resource_id) (\<lambda>resource.
     ok_or (MagmaGpuError (WithContext ''no 3d info available'')) (r_info_3d resource))"

definition rutabaga_guest_cpu_mappable :: "u32 \<Rightarrow> 'a rutabaga \<Rightarrow> bool rres" where
  "rutabaga_guest_cpu_mappable resource_id g = Panicked"

text \<open>\<open>Arc::try_unwrap\<close> fails while some context still holds a clone.\<close>

definition arc_shared :: "'a rutabaga \<Rightarrow> rutabaga_handle \<Rightarrow> bool" where
  "arc_shared g handle = list_ex (\<lambda>(i, x). x_holds x handle (g_world g)) (entries_of (g_contexts g))"

definition is_shareable :: "rutabaga_resource \<Rightarrow> bool" where
  "is_shareable resource \<longleftrightarrow>
     has_flag (r_blob_flags resource)
       (RUTABAGA_BLOB_FLAG_USE_SHAREABLE OR RUTABAGA_BLOB_FLAG_USE_CROSS_DEVICE)
     \<or> \<not> r_blob resource"

definition rutabaga_export_blob :: "u32 \<Rightarrow> (rutabaga_handle, 'a) op" where
  "rutabaga_export_blob resource_id g =
     and_then_st (get_resource g resource_id, g) (\<lambda>resource g.
       let g' = put_resource resource_id (resource\<lparr>r_handle := None\<rparr>) g in
       case (r_handle resource, is_shareable resource) of
         (Some handle, True) \<Rightarrow>
           and_then_st (rutabaga_handle_try_clone (w_os (g_world g)) handle, g') (\<lambda>clone g'.
             (Ok clone, put_resource resource_id resource g'))
       | (Some handle, False) \<Rightarrow>
           if arc_shared g' handle then (Err (MagmaGpuError InvalidMagmaHandle), g')
           else (Ok handle, g')
       | (None, _) \<Rightarrow> (Err (MagmaGpuError InvalidMagmaHandle), g'))"

definition rutabaga_export_fence :: "u64 \<Rightarrow> (magma_handle, 'a) op" where
  "rutabaga_export_fence fid g =
     (case fmlookup (g_shareable_fences g) fid of
        Some handle \<Rightarrow> (from_magma (magma_handle_try_clone (w_os (g_world g)) handle), g)
      | None \<Rightarrow> and_then_st (default_of g, g) (\<lambda>c. call (c_export_fence c fid)))"

section \<open>Contexts\<close>

definition rutabaga_create_context :: "u32 \<Rightarrow> u32 \<Rightarrow> string option \<Rightarrow> (unit, 'a) op" where
  "rutabaga_create_context ctx_id context_init context_name g =
     (let cid = context_init AND RUTABAGA_CONTEXT_INIT_CAPSET_ID_MASK in
      and_then_st (get_component g (component_type_for g cid), g) (\<lambda>c g.
      if contains_key (g_contexts g) ctx_id then (Err InvalidContextId, g)
      else
        and_then_st (call (c_create_context c ctx_id context_init context_name) g) (\<lambda>ctx g.
          (Ok (), put_context ctx_id ctx g))))"

definition rutabaga_destroy_context :: "u32 \<Rightarrow> (unit, 'a) op" where
  "rutabaga_destroy_context ctx_id g =
     and_then_st (get_context g ctx_id, g) (\<lambda>ctx g.
       (Ok (), run (x_drop ctx) (g\<lparr>g_contexts := fmdrop ctx_id (g_contexts g)\<rparr>)))"

definition rutabaga_context_attach_resource :: "u32 \<Rightarrow> u32 \<Rightarrow> (unit, 'a) op" where
  "rutabaga_context_attach_resource ctx_id resource_id g =
     and_then_st (get_context g ctx_id, g) (\<lambda>ctx g.
     and_then_st (get_resource g resource_id, g) (\<lambda>resource g.
     case call (x_attach ctx resource) g of
       (resource', g) \<Rightarrow> (Ok (), put_resource resource_id resource' g)))"

definition rutabaga_context_detach_resource :: "u32 \<Rightarrow> u32 \<Rightarrow> (unit, 'a) op" where
  "rutabaga_context_detach_resource ctx_id resource_id g =
     and_then_st (get_context g ctx_id, g) (\<lambda>ctx g.
     and_then_st (get_resource g resource_id, g) (\<lambda>resource g.
       (Ok (), run (x_detach ctx resource) g)))"

fun clone_fences ::
  "os \<Rightarrow> (u64, magma_handle) fmap \<Rightarrow> u64 list \<Rightarrow> magma_handle list rres" where
  "clone_fences os fences [] = Ok []"
| "clone_fences os fences (fid # fids) =
     and_then (ok_or (MagmaGpuError InvalidMagmaHandle) (fmlookup fences fid)) (\<lambda>handle.
     and_then (from_magma (magma_handle_try_clone os handle)) (\<lambda>clone.
     and_then (clone_fences os fences fids) (\<lambda>clones. Ok (clone # clones))))"

text \<open>The command buffer is returned with the result, a context may change it.\<close>

definition rutabaga_submit_command ::
  "u32 \<Rightarrow> u8 list \<Rightarrow> u64 list \<Rightarrow> 'a rutabaga \<Rightarrow> (unit rres \<times> u8 list) \<times> 'a rutabaga" where
  "rutabaga_submit_command ctx_id commands fence_ids g =
     (case and_then (get_context g ctx_id) (\<lambda>ctx.
           and_then (clone_fences (w_os (g_world g)) (g_shareable_fences g) fence_ids)
             (\<lambda>fences. Ok (ctx, fences))) of
        Inl e \<Rightarrow> ((Inl e, commands), g)
      | Inr (ctx, fences) \<Rightarrow> call (x_submit_cmd ctx commands fence_ids fences) g)"

definition remove_fence :: "u64 \<Rightarrow> (unit, 'a) op" where
  "remove_fence fid g =
     (if contains_key (g_shareable_fences g) fid
      then (Ok (), g\<lparr>g_shareable_fences := fmdrop fid (g_shareable_fences g)\<rparr>)
      else (Err (MagmaGpuError InvalidMagmaHandle), g))"

definition rutabaga_destroy_fences :: "u64 list \<Rightarrow> (unit, 'a) op" where
  "rutabaga_destroy_fences fence_ids g = try_for_each remove_fence fence_ids g"

lemmas rutabaga_op_defs =
  rutabaga_suspend_def rutabaga_resume_def rutabaga_snapshot_def rutabaga_unref_resource_def
  rutabaga_create_fence_def rutabaga_resource_create_3d_def rutabaga_resource_import_def
  rutabaga_attach_backing_def rutabaga_detach_backing_def rutabaga_transfer_write_def
  rutabaga_transfer_read_def rutabaga_resource_flush_def rutabaga_set_scanout_def
  rutabaga_resource_create_blob_def rutabaga_map_placed_def rutabaga_map_def rutabaga_unmap_def
  rutabaga_export_blob_def rutabaga_export_fence_def rutabaga_create_context_def
  rutabaga_destroy_context_def rutabaga_context_attach_resource_def
  rutabaga_context_detach_resource_def rutabaga_submit_command_def

lemmas rutabaga_get_defs = default_of_def get_component_def get_resource_def get_context_def

end
