(* ===== verification/Core_Invariants.thy ===== *)
theory Core_Invariants
  imports Core
begin

text \<open>
  The state machine of the library: one step per public operation of \<open>Rutabaga\<close>, labelled with
  the resource and context ids the call may touch, and the properties of its runs: the table
  invariant, the isolation of resources and contexts from each other, and the effect of
  \<open>destroy_objects\<close>.
\<close>

section \<open>Operations keep a predicate\<close>

named_theorems keeps \<open>how each building block of an operation keeps a predicate\<close>

lemma and_then_st_keeps [keeps]:
  assumes "P (snd p)" and "\<And>x s. p = (Inr x, s) \<Longrightarrow> P s \<Longrightarrow> P (snd (f x s))"
  shows "P (snd (and_then_st p f))"
  using assms by (cases p; cases "fst p") auto

lemma try_for_each_keeps [keeps]:
  assumes "\<And>x s. P s \<Longrightarrow> P (snd (f x s))" and "P s"
  shows "P (snd (try_for_each f xs s))"
  using assms(2)
proof (induction xs arbitrary: s)
  case Nil
  then show ?case by simp
next
  case (Cons x xs)
  have "P (snd (and_then_st (f x s) (\<lambda>_. try_for_each f xs)))"
    by (rule and_then_st_keeps [where P = P]) (use Cons assms(1) in auto)
  then show ?case by simp
qed

lemma fields_run [simp]:
  "g_resources (run f g) = g_resources g" "g_contexts (run f g) = g_contexts g"
  "g_components (run f g) = g_components g" "g_shareable_fences (run f g) = g_shareable_fences g"
  "g_default_component (run f g) = g_default_component g"
  "g_capset_info (run f g) = g_capset_info g" "g_world (run f g) = f (g_world g)"
  by (simp_all add: run_def)

lemma fields_call [simp]:
  "g_resources (snd (call f g)) = g_resources g" "g_contexts (snd (call f g)) = g_contexts g"
  "g_components (snd (call f g)) = g_components g"
  "g_shareable_fences (snd (call f g)) = g_shareable_fences g"
  "g_default_component (snd (call f g)) = g_default_component g"
  "g_capset_info (snd (call f g)) = g_capset_info g"
  "fst (call f g) = fst (f (g_world g))" "g_world (snd (call f g)) = snd (f (g_world g))"
  by (simp_all add: call_def split: prod.split)

lemma call_eq: "call f g = (fst (f (g_world g)), g\<lparr>g_world := snd (f (g_world g))\<rparr>)"
  by (simp add: call_def split: prod.split)

lemma call_eqD: "call f g = (r, g') \<Longrightarrow>
    \<exists>w'. f (g_world g) = (r, w') \<and> g' = g\<lparr>g_world := w'\<rparr>"
  by (auto simp: call_def split: prod.splits)

lemma fields_put_resource [simp]:
  "g_resources (put_resource i r g) = fmupd i r (g_resources g)"
  "g_contexts (put_resource i r g) = g_contexts g"
  "g_components (put_resource i r g) = g_components g"
  "g_shareable_fences (put_resource i r g) = g_shareable_fences g"
  "g_default_component (put_resource i r g) = g_default_component g"
  "g_capset_info (put_resource i r g) = g_capset_info g"
  "g_world (put_resource i r g) = g_world g"
  by (simp_all add: put_resource_def)

lemma fields_put_context [simp]:
  "g_resources (put_context i x g) = g_resources g"
  "g_contexts (put_context i x g) = fmupd i x (g_contexts g)"
  "g_components (put_context i x g) = g_components g"
  "g_world (put_context i x g) = g_world g"
  by (simp_all add: put_context_def)

lemma get_eq_Ok [simp]:
  "get_resource g i = Inr r \<longleftrightarrow> fmlookup (g_resources g) i = Some r"
  "get_context g i = Inr x \<longleftrightarrow> fmlookup (g_contexts g) i = Some x"
  "get_component g t = Inr c \<longleftrightarrow> fmlookup (g_components g) t = Some c"
  "default_of g = Inr c \<longleftrightarrow> fmlookup (g_components g) (g_default_component g) = Some c"
  by (simp_all add: rutabaga_get_defs ok_or_eq_Ok)

section \<open>The table invariant\<close>

definition keyed :: "'a rutabaga \<Rightarrow> bool" where
  "keyed g \<longleftrightarrow> (\<forall>i r. fmlookup (g_resources g) i = Some r \<longrightarrow> r_resource_id r = i)"

definition lawful :: "'a rutabaga \<Rightarrow> bool" where
  "lawful g \<longleftrightarrow>
     (\<forall>t c. fmlookup (g_components g) t = Some c \<longrightarrow> component_contract c) \<and>
     (\<forall>i x. fmlookup (g_contexts g) i = Some x \<longrightarrow> context_contract x)"

text \<open>A resource of id \<open>j\<close> stored under the key \<open>i\<close>. Creation keeps the two equal; a restore takes over
  what the file says, also a misfiled entry. \<open>K\<close> collects the misfiled entries that are known of.\<close>

definition filed :: "(u32 \<times> u32) set \<Rightarrow> u32 \<Rightarrow> u32 \<Rightarrow> bool" where
  "filed K i j \<longleftrightarrow> j = i \<or> (i, j) \<in> K"

lemma filed_same [simp]: "filed K i i"
  by (simp add: filed_def)

definition keyed_but :: "(u32 \<times> u32) set \<Rightarrow> 'a rutabaga \<Rightarrow> bool" where
  "keyed_but K g \<longleftrightarrow> (\<forall>i r. fmlookup (g_resources g) i = Some r \<longrightarrow> filed K i (r_resource_id r))"

lemma keyed_but_empty [simp]: "keyed_but {} g \<longleftrightarrow> keyed g"
  by (simp add: keyed_but_def keyed_def filed_def)

definition core_inv :: "(u32 \<times> u32) set \<Rightarrow> 'a rutabaga \<Rightarrow> bool" where
  "core_inv K g \<longleftrightarrow> keyed_but K g \<and> lawful g"

lemma core_inv_mono: "core_inv K g \<Longrightarrow> K \<subseteq> L \<Longrightarrow> core_inv L g"
  by (auto simp: core_inv_def keyed_but_def filed_def)

definition misfiled_in :: "rutabaga_snapshot \<Rightarrow> (u32 \<times> u32) set" where
  "misfiled_in s =
     {(i, j). \<exists>r. fmlookup (snap_resources s) i = Some r \<and> j = rs_resource_id r \<and> j \<noteq> i}"

lemma core_invD:
  assumes "core_inv K g"
  shows "fmlookup (g_resources g) i = Some r \<Longrightarrow> filed K i (r_resource_id r)"
    and "fmlookup (g_components g) t = Some c \<Longrightarrow> component_contract c"
    and "fmlookup (g_contexts g) i = Some x \<Longrightarrow> context_contract x"
  using assms by (auto simp: core_inv_def keyed_but_def lawful_def)

lemma core_inv_world [simp]: "core_inv K (g\<lparr>g_world := w\<rparr>) = core_inv K g"
  by (simp add: core_inv_def keyed_but_def lawful_def)

lemma core_inv_run [simp]: "core_inv K (run f g) = core_inv K g"
  by (simp add: run_def)

lemma core_inv_call [simp]: "core_inv K (snd (call f g)) = core_inv K g"
  by (simp add: call_eq)

lemma core_inv_fences [simp]: "core_inv K (g\<lparr>g_shareable_fences := m\<rparr>) = core_inv K g"
  by (simp add: core_inv_def keyed_but_def lawful_def)

lemma core_inv_put_resource:
  "core_inv K g \<Longrightarrow> filed K i (r_resource_id r) \<Longrightarrow> core_inv K (put_resource i r g)"
  by (auto simp: core_inv_def keyed_but_def lawful_def)

lemma core_inv_put_context:
  "core_inv K g \<Longrightarrow> context_contract x \<Longrightarrow> core_inv K (put_context i x g)"
  by (auto simp: core_inv_def keyed_but_def lawful_def)

lemma core_inv_drop:
  "core_inv K g \<Longrightarrow> core_inv K (g\<lparr>g_resources := fmdrop i (g_resources g)\<rparr>)"
  "core_inv K g \<Longrightarrow> core_inv K (g\<lparr>g_contexts := fmdrop i (g_contexts g)\<rparr>)"
  "core_inv K g \<Longrightarrow> core_inv K (g\<lparr>g_contexts := fmempty\<rparr>)"
  by (auto simp: core_inv_def keyed_but_def lawful_def)

lemmas inv_and_then = and_then_st_keeps [where P = "core_inv K" for K]
  and inv_for_each = try_for_each_keeps [where P = "core_inv K" for K]

text \<open>What the contracts give for the objects stored in the tables.\<close>

lemma lawful_components:
  assumes "core_inv K g" and "fmlookup (g_components g) t = Some c"
  shows "c_create_3d c i p w = (Ok r, w') \<Longrightarrow> filed K i (r_resource_id r)"
    and "c_import c i h d w = (Ok (Some r), w') \<Longrightarrow> filed K i (r_resource_id r)"
    and "c_create_blob c x i rcb v ho w = (Ok r, w') \<Longrightarrow> filed K i (r_resource_id r)"
    and "c_create_context c x ini nm w = (Ok ctx, w') \<Longrightarrow> context_contract ctx"
    and "c_restore_context c bytes w = (Ok ctx, w') \<Longrightarrow> context_contract ctx"
proof -
  note cc = core_invD(2) [OF assms]
  show "c_create_3d c i p w = (Ok r, w') \<Longrightarrow> filed K i (r_resource_id r)"
    using component_contract.create_3d_id [OF cc] by fastforce
  show "c_import c i h d w = (Ok (Some r), w') \<Longrightarrow> filed K i (r_resource_id r)"
    using component_contract.import_id [OF cc] by fastforce
  show "c_create_blob c x i rcb v ho w = (Ok r, w') \<Longrightarrow> filed K i (r_resource_id r)"
    using component_contract.create_blob_id [OF cc] by fastforce
  show "c_create_context c x ini nm w = (Ok ctx, w') \<Longrightarrow> context_contract ctx"
    by (rule component_contract.create_context_lawful [OF cc])
  show "c_restore_context c bytes w = (Ok ctx, w') \<Longrightarrow> context_contract ctx"
    by (rule component_contract.restore_context_lawful [OF cc])
qed

lemma lawful_transfers:
  assumes "core_inv K g" and "fmlookup (g_components g) t = Some c"
    and "fmlookup (g_resources g) i = Some r"
  shows "c_transfer_write c x r tr b w = ((e, r'), w') \<Longrightarrow> filed K i (r_resource_id r')"
    and "c_transfer_read c x r tr b w = ((e, r', b'), w') \<Longrightarrow> filed K i (r_resource_id r')"
    and "c_resource_flush c r w = ((e, r'), w') \<Longrightarrow> filed K i (r_resource_id r')"
  using core_invD(1) [OF assms(1,3)]
    component_contract.transfer_write_id [OF core_invD(2) [OF assms(1,2)], of x r tr b w]
    component_contract.transfer_read_id [OF core_invD(2) [OF assms(1,2)], of x r tr b w]
    component_contract.resource_flush_id [OF core_invD(2) [OF assms(1,2)], of r w]
  by simp_all

lemma lawful_contexts:
  assumes "core_inv K g" and "fmlookup (g_contexts g) x = Some ctx"
  shows "x_context_create_blob ctx i rcb ho w = (Ok r, w') \<Longrightarrow> filed K i (r_resource_id r)"
    and "fmlookup (g_resources g) i = Some r \<Longrightarrow> x_attach ctx r w = (r', w') \<Longrightarrow>
      filed K i (r_resource_id r')"
  using context_contract.context_create_blob_id [OF core_invD(3) [OF assms], of i rcb ho w r w']
    context_contract.attach_id [OF core_invD(3) [OF assms], of r w] core_invD(1) [OF assms(1)]
  by simp_all

lemma unref_keeps_inv: "core_inv K g \<Longrightarrow> core_inv K (snd (rutabaga_unref_resource i g))"
  unfolding rutabaga_unref_resource_def
  by (intro inv_and_then) (auto intro: core_inv_drop)

lemma destroy_objects_keeps_inv: "core_inv K g \<Longrightarrow> core_inv K (snd (destroy_objects g))"
  unfolding destroy_objects_def contexts_clear_def
  by (intro inv_and_then inv_for_each) (auto intro: core_inv_drop unref_keeps_inv)

lemma create_3d_keeps_inv: "core_inv K g \<Longrightarrow> core_inv K (snd (rutabaga_resource_create_3d i p g))"
  unfolding rutabaga_resource_create_3d_def
  by (intro inv_and_then)
    (auto intro!: inv_and_then core_inv_put_resource
      dest!: call_eqD intro: lawful_components(1))

lemma import_keeps_inv: "core_inv K g \<Longrightarrow> core_inv K (snd (rutabaga_resource_import i h d g))"
  unfolding rutabaga_resource_import_def
  by (intro inv_and_then)
    (auto intro!: inv_and_then core_inv_put_resource split: option.split
      dest!: call_eqD intro: lawful_components(2))

lemma attach_backing_keeps_inv: "core_inv K g \<Longrightarrow> core_inv K (snd (rutabaga_attach_backing i v g))"
  unfolding rutabaga_attach_backing_def
  by (intro inv_and_then)
    (auto intro!: core_inv_put_resource split: prod.split sum.split
      dest!: call_eqD intro: core_invD(1))

lemma detach_backing_keeps_inv: "core_inv K g \<Longrightarrow> core_inv K (snd (rutabaga_detach_backing i g))"
  unfolding rutabaga_detach_backing_def
  by (intro inv_and_then) (auto intro!: core_inv_put_resource intro: core_invD(1))

lemma transfer_write_keeps_inv:
  "core_inv K g \<Longrightarrow> core_inv K (snd (rutabaga_transfer_write x i t b g))"
  unfolding rutabaga_transfer_write_def
  by (intro inv_and_then)
    (auto intro!: core_inv_put_resource split: prod.split dest!: call_eqD
      intro: lawful_transfers(1))

lemma transfer_read_keeps_inv:
  "core_inv K g \<Longrightarrow> core_inv K (snd (rutabaga_transfer_read x i t b g))"
  unfolding rutabaga_transfer_read_def
  by (auto intro!: core_inv_put_resource split: prod.split sum.split dest!: call_eqD
      simp: and_then_eq_Ok intro: lawful_transfers(2))

lemma resource_flush_keeps_inv: "core_inv K g \<Longrightarrow> core_inv K (snd (rutabaga_resource_flush i g))"
  unfolding rutabaga_resource_flush_def
  by (intro inv_and_then)
    (auto intro!: core_inv_put_resource split: prod.split dest!: call_eqD simp: ok_or_eq_Ok
      intro: lawful_transfers(3))

lemma set_scanout_keeps_inv: "core_inv K g \<Longrightarrow> core_inv K (snd (rutabaga_set_scanout s i info g))"
  unfolding rutabaga_set_scanout_def
  by (intro inv_and_then)
    (auto intro!: inv_and_then core_inv_put_resource split: option.split,
      (blast intro: core_invD(1))+)

lemma create_blob_keeps_inv:
  "core_inv K g \<Longrightarrow> core_inv K (snd (rutabaga_resource_create_blob x i rcb v h g))"
  unfolding rutabaga_resource_create_blob_def
  by (auto intro!: inv_and_then core_inv_put_resource split: option.split
      simp: and_then_st_eq_Ok and_then_eq_Ok
      split: if_splits option.splits dest!: call_eqD
      intro: lawful_components(3) lawful_contexts(1))

lemma map_keeps_inv: "core_inv K g \<Longrightarrow> core_inv K (snd (rutabaga_map i g))"
  unfolding rutabaga_map_def Let_def
  by (intro inv_and_then)
    (auto intro!: inv_and_then core_inv_put_resource split: option.split,
      (blast intro: core_invD(1))+)

lemma unmap_keeps_inv: "core_inv K g \<Longrightarrow> core_inv K (snd (rutabaga_unmap i g))"
  unfolding rutabaga_unmap_def
  by (intro inv_and_then)
    (auto intro!: inv_and_then core_inv_put_resource split: option.split intro: core_invD(1))

lemma export_blob_keeps_inv: "core_inv K g \<Longrightarrow> core_inv K (snd (rutabaga_export_blob i g))"
  unfolding rutabaga_export_blob_def Let_def
  by (intro inv_and_then)
    (auto intro!: inv_and_then core_inv_put_resource split: option.split bool.split,
      (blast intro: core_invD(1))+)

lemma world_ops_keep_inv:
  assumes "core_inv K g"
  shows "core_inv K (snd (rutabaga_suspend g))" and "core_inv K (snd (rutabaga_resume g))"
    and "core_inv K (snd (rutabaga_map_placed i a g))"
    and "core_inv K (snd (rutabaga_export_fence f g))"
    and "core_inv K (rutabaga_force_ctx_0 g)" and "core_inv K (rutabaga_event_poll g)"
    and "core_inv K (snd (rutabaga_poll_descriptor g))"
    and "core_inv K (snd (rutabaga_context_detach_resource x i g))"
    and "core_inv K (snd (rutabaga_submit_command x cmds fids g))"
  using assms
  by (auto intro!: inv_and_then split: option.split sum.split
      simp: rutabaga_suspend_def rutabaga_resume_def rutabaga_map_placed_def
        rutabaga_export_fence_def rutabaga_force_ctx_0_def rutabaga_event_poll_def
        rutabaga_poll_descriptor_def rutabaga_context_detach_resource_def
        rutabaga_submit_command_def)

lemma snapshot_keeps_inv: "core_inv K g \<Longrightarrow> core_inv K (snd (rutabaga_snapshot ser d g))"
  unfolding rutabaga_snapshot_def Let_def
  by (intro inv_and_then) auto

lemma fence_ops_keep_inv:
  assumes "core_inv K g"
  shows "core_inv K (snd (rutabaga_create_fence f g))"
    and "core_inv K (snd (rutabaga_destroy_fences fids g))"
proof -
  show "core_inv K (snd (rutabaga_create_fence f g))"
    unfolding rutabaga_create_fence_def using assms by (auto intro!: inv_and_then)
  show "core_inv K (snd (rutabaga_destroy_fences fids g))"
    unfolding rutabaga_destroy_fences_def
    by (intro inv_for_each assms) (simp add: remove_fence_def)
qed

lemma context_ops_keep_inv:
  assumes "core_inv K g"
  shows "core_inv K (snd (rutabaga_create_context x ini nm g))"
    and "core_inv K (snd (rutabaga_destroy_context x g))"
    and "core_inv K (snd (rutabaga_context_attach_resource x i g))"
proof -
  show "core_inv K (snd (rutabaga_create_context x ini nm g))"
    unfolding rutabaga_create_context_def Let_def using assms
    by (intro inv_and_then)
      (auto intro!: inv_and_then core_inv_put_context dest!: call_eqD
        intro: lawful_components(4))
  show "core_inv K (snd (rutabaga_destroy_context x g))"
    unfolding rutabaga_destroy_context_def using assms
    by (intro inv_and_then) (auto intro!: core_inv_drop)
  show "core_inv K (snd (rutabaga_context_attach_resource x i g))"
    unfolding rutabaga_context_attach_resource_def using assms
    by (intro inv_and_then)
      (auto intro!: core_inv_put_resource split: prod.split dest!: call_eqD
        intro: lawful_contexts(2))
qed

section \<open>Restore\<close>

lemma resource_from_snapshot_total:
  "\<exists>f. \<forall>s. resource_from_snapshot s = Ok (f s) \<and> r_resource_id (f s) = rs_resource_id s"
  unfolding resource_from_snapshot_def by (intro exI allI conjI) (rule refl, simp)

lemma collect_resources:
  obtains m where "try_collect resource_from_snapshot (entries_of rs) = Ok m"
    and "\<And>i r. fmlookup m i = Some r \<Longrightarrow>
      \<exists>s. fmlookup rs i = Some s \<and> resource_from_snapshot s = Ok r \<and>
          r_resource_id r = rs_resource_id s"
proof -
  obtain f where f: "\<And>s. resource_from_snapshot s = Ok (f s)"
    "\<And>s. r_resource_id (f s) = rs_resource_id s"
    using resource_from_snapshot_total by blast
  have "try_collect resource_from_snapshot (entries_of rs) = Ok (fmmap f rs)"
    by (rule try_collect_entries) (rule f(1))
  then show ?thesis by (rule that) (auto simp: f)
qed

lemma restore_contexts_lawful:
  assumes "component_contract c" and "restore_contexts c es w = (Ok m, w')"
  shows "\<forall>i x. fmlookup m i = Some x \<longrightarrow> context_contract x"
  using assms(2)
proof (induction es arbitrary: w m w')
  case Nil
  then show ?case by simp
next
  case (Cons e es)
  obtain i bytes where e: "e = (i, bytes)" by (cases e)
  from Cons.prems obtain x w1 where x: "c_restore_context c bytes w = (Ok x, w1)"
    and tl: "(case restore_contexts c es w1 of (Inl e, w) \<Rightarrow> (Inl e, x_drop x w)
        | (Inr m, w) \<Rightarrow> (Ok (fmupd i x m), w)) = (Ok m, w')"
    unfolding e restore_contexts.simps and_then_st_eq_Ok by blast
  obtain r w2 where r: "restore_contexts c es w1 = (r, w2)" by (cases "restore_contexts c es w1")
  with tl obtain m1 where m1: "restore_contexts c es w1 = (Ok m1, w')" and m: "m = fmupd i x m1"
    by (cases r) auto
  have "context_contract x" by (rule component_contract.restore_context_lawful [OF assms(1) x])
  with Cons.IH [OF m1] show ?case by (auto simp: m)
qed

text \<open>The part of a restore that reads the files, and the misfiled entries it finds.\<close>

definition read_back ::
  "(u8 list \<Rightarrow> rutabaga_snapshot option) \<Rightarrow> path \<Rightarrow>
   ('a world_scheme rutabaga_component \<times> rutabaga_snapshot, 'a) op" where
  "read_back de directory g =
     and_then_st (destroy_objects g) (\<lambda>_ g.
     and_then_st (reader_from_existing directory (w_fs (g_world g)), g) (\<lambda>snapshot_reader g.
     and_then_st (default_of g, g) (\<lambda>c g.
     and_then_st (get_namespace snapshot_reader (component_as_str (g_default_component g))
         (w_fs (g_world g)), g) (\<lambda>component_snapshot_reader g.
     and_then_st (call (c_restore c component_snapshot_reader) g) (\<lambda>_ g.
     and_then_st (get_fragment de snapshot_reader ''rutabaga_snapshot'' (w_fs (g_world g)), g)
       (\<lambda>snapshot g. (Ok (c, snapshot), g)))))))"

definition misfiled ::
  "(u8 list \<Rightarrow> rutabaga_snapshot option) \<Rightarrow> path \<Rightarrow> 'a rutabaga \<Rightarrow> (u32 \<times> u32) set" where
  "misfiled de directory g =
     (case fst (read_back de directory g) of Inr (c, snapshot) \<Rightarrow> misfiled_in snapshot | Inl _ \<Rightarrow> {})"

lemma and_then_st_assoc:
  "and_then_st (and_then_st p f) h = and_then_st p (\<lambda>x s. and_then_st (f x s) h)"
  by (cases p; cases "fst p") auto

lemma restore_reads:
  "rutabaga_restore de d g =
     and_then_st (read_back de d g) (\<lambda>(c, snapshot) g.
     and_then_st (try_collect resource_from_snapshot (entries_of (snap_resources snapshot)), g)
       (\<lambda>rs g.
     and_then_st (call (restore_contexts c (entries_of (snap_contexts snapshot)))
         (g\<lparr>g_resources := rs\<rparr>)) (\<lambda>cs g.
     (Ok (), g\<lparr>g_contexts := cs\<rparr>))))"
  by (simp add: rutabaga_restore_def read_back_def and_then_st_assoc)

lemma read_back_keeps_inv:
  "core_inv K g \<Longrightarrow> core_inv K (snd (read_back de d g))"
  unfolding read_back_def
  by (intro inv_and_then destroy_objects_keeps_inv) auto

lemma read_back_component:
  assumes "core_inv K g" and "read_back de d g = (Ok (c, snapshot), g')"
  shows "component_contract c"
proof -
  obtain u g1 where d: "destroy_objects g = (Ok u, g1)"
    and c: "fmlookup (g_components g1) (g_default_component g1) = Some c"
    using assms(2) by (auto simp: read_back_def and_then_st_eq_Ok)
  have "core_inv K g1" using destroy_objects_keeps_inv [OF assms(1)] d by simp
  then show ?thesis using c by (rule core_invD(2))
qed

lemma restore_keeps_inv:
  assumes "core_inv K g"
  shows "core_inv (K \<union> misfiled de d g) (snd (rutabaga_restore de d g))"
  unfolding restore_reads
proof (rule inv_and_then)
  show "core_inv (K \<union> misfiled de d g) (snd (read_back de d g))"
    using read_back_keeps_inv [OF assms] by (rule core_inv_mono) simp
next
  fix p g'
  assume p: "read_back de d g = (Inr p, g')" and inv: "core_inv (K \<union> misfiled de d g) g'"
  obtain c s where cs: "p = (c, s)" by (cases p)
  have c: "component_contract c" using read_back_component [OF assms] p cs by blast
  obtain m where m: "try_collect resource_from_snapshot (entries_of (snap_resources s)) = Ok m"
    and src: "\<And>i r. fmlookup m i = Some r \<Longrightarrow> \<exists>s'. fmlookup (snap_resources s) i = Some s' \<and>
         resource_from_snapshot s' = Ok r \<and> r_resource_id r = rs_resource_id s'"
    using collect_resources [of "snap_resources s"] by metis
  have "keyed_but (K \<union> misfiled de d g) (g'\<lparr>g_resources := m\<rparr>)"
    using src p by (fastforce simp: keyed_but_def filed_def misfiled_def misfiled_in_def cs)
  then have "core_inv (K \<union> misfiled de d g) (g'\<lparr>g_resources := m\<rparr>)"
    using inv by (simp add: core_inv_def lawful_def)
  then show "core_inv (K \<union> misfiled de d g) (snd ((\<lambda>(c, snapshot) g.
      and_then_st (try_collect resource_from_snapshot (entries_of (snap_resources snapshot)), g)
        (\<lambda>rs g. and_then_st (call (restore_contexts c (entries_of (snap_contexts snapshot)))
         (g\<lparr>g_resources := rs\<rparr>)) (\<lambda>cs g. (Ok (), g\<lparr>g_contexts := cs\<rparr>)))) p g'))"
    using c by (auto simp: cs m core_inv_def keyed_but_def lawful_def call_def and_then_st_def
        split: prod.splits sum.splits dest!: restore_contexts_lawful)
qed

section \<open>Steps\<close>

text \<open>The label of a step is its footprint: the resource ids and the context ids whose table
  entries the call may change. \<open>op_world\<close> is everything the environment does between calls, also to
  the files; a restore reads whatever they hold.\<close>

inductive rutabaga_call :: "'a rutabaga \<Rightarrow> u32 set \<times> u32 set \<Rightarrow> 'a rutabaga \<Rightarrow> bool" where
  op_world: "rutabaga_call g ({}, {}) (g\<lparr>g_world := w\<rparr>)"
| op_suspend: "rutabaga_call g ({}, {}) (snd (rutabaga_suspend g))"
| op_resume: "rutabaga_call g ({}, {}) (snd (rutabaga_resume g))"
| op_snapshot: "rutabaga_call g ({}, {}) (snd (rutabaga_snapshot ser d g))"
| op_force_ctx_0: "rutabaga_call g ({}, {}) (rutabaga_force_ctx_0 g)"
| op_create_fence: "rutabaga_call g ({}, {}) (snd (rutabaga_create_fence f g))"
| op_destroy_fences: "rutabaga_call g ({}, {}) (snd (rutabaga_destroy_fences fids g))"
| op_export_fence: "rutabaga_call g ({}, {}) (snd (rutabaga_export_fence fid g))"
| op_event_poll: "rutabaga_call g ({}, {}) (rutabaga_event_poll g)"
| op_poll_descriptor: "rutabaga_call g ({}, {}) (snd (rutabaga_poll_descriptor g))"
| op_create_3d: "rutabaga_call g ({i}, {}) (snd (rutabaga_resource_create_3d i p g))"
| op_import: "rutabaga_call g ({i}, {}) (snd (rutabaga_resource_import i h data g))"
| op_attach_backing: "rutabaga_call g ({i}, {}) (snd (rutabaga_attach_backing i v g))"
| op_detach_backing: "rutabaga_call g ({i}, {}) (snd (rutabaga_detach_backing i g))"
| op_unref: "rutabaga_call g ({i}, {}) (snd (rutabaga_unref_resource i g))"
| op_transfer_write: "rutabaga_call g ({i}, {}) (snd (rutabaga_transfer_write x i t b g))"
| op_transfer_read: "rutabaga_call g ({i}, {}) (snd (rutabaga_transfer_read x i t b g))"
| op_flush: "rutabaga_call g ({i}, {}) (snd (rutabaga_resource_flush i g))"
| op_set_scanout: "rutabaga_call g ({i}, {}) (snd (rutabaga_set_scanout sid i info g))"
| op_create_blob: "rutabaga_call g ({i}, {}) (snd (rutabaga_resource_create_blob x i rcb io ho g))"
| op_map_placed: "rutabaga_call g ({}, {}) (snd (rutabaga_map_placed i a g))"
| op_map: "rutabaga_call g ({i}, {}) (snd (rutabaga_map i g))"
| op_unmap: "rutabaga_call g ({i}, {}) (snd (rutabaga_unmap i g))"
| op_export_blob: "rutabaga_call g ({i}, {}) (snd (rutabaga_export_blob i g))"
| op_create_context: "rutabaga_call g ({}, {x}) (snd (rutabaga_create_context x ini nm g))"
| op_destroy_context: "rutabaga_call g ({}, {x}) (snd (rutabaga_destroy_context x g))"
| op_attach: "rutabaga_call g ({i}, {}) (snd (rutabaga_context_attach_resource x i g))"
| op_detach: "rutabaga_call g ({}, {}) (snd (rutabaga_context_detach_resource x i g))"
| op_submit: "rutabaga_call g ({}, {}) (snd (rutabaga_submit_command x cmds fids g))"

inductive rutabaga_step :: "'a rutabaga \<Rightarrow> u32 set \<times> u32 set \<Rightarrow> 'a rutabaga \<Rightarrow> bool" where
  step_call: "rutabaga_call g fp g' \<Longrightarrow> rutabaga_step g fp g'"
| step_restore: "rutabaga_step g (UNIV, UNIV) (snd (rutabaga_restore de d g))"

text \<open>The states reached from \<open>g0\<close>, with the misfiled entries in the files that were read on the way.\<close>

inductive rutabaga_reach :: "'a rutabaga \<Rightarrow> (u32 \<times> u32) set \<Rightarrow> 'a rutabaga \<Rightarrow> bool" for g0 where
  reach_start: "rutabaga_reach g0 {} g0"
| reach_call: "rutabaga_reach g0 K g \<Longrightarrow> rutabaga_call g fp g' \<Longrightarrow> rutabaga_reach g0 K g'"
| reach_restore: "rutabaga_reach g0 K g \<Longrightarrow>
    rutabaga_reach g0 (K \<union> misfiled de d g) (snd (rutabaga_restore de d g))"

lemmas op_keeps_inv =
  world_ops_keep_inv snapshot_keeps_inv fence_ops_keep_inv create_3d_keeps_inv
  import_keeps_inv attach_backing_keeps_inv detach_backing_keeps_inv unref_keeps_inv
  transfer_write_keeps_inv transfer_read_keeps_inv resource_flush_keeps_inv
  set_scanout_keeps_inv create_blob_keeps_inv map_keeps_inv unmap_keeps_inv
  export_blob_keeps_inv context_ops_keep_inv

lemma call_keeps_inv: "rutabaga_call g l g' \<Longrightarrow> core_inv K g \<Longrightarrow> core_inv K g'"
  by (induction rule: rutabaga_call.induct) (simp_all add: op_keeps_inv)

lemma reach_keeps_inv: "rutabaga_reach g0 K g \<Longrightarrow> core_inv {} g0 \<Longrightarrow> core_inv K g"
  by (induction rule: rutabaga_reach.induct) (auto intro: call_keeps_inv restore_keeps_inv)

section \<open>Frames\<close>

text \<open>Two states agree on the table entries outside a footprint.\<close>

definition agree :: "u32 set \<times> u32 set \<Rightarrow> 'a rutabaga \<Rightarrow> 'a rutabaga \<Rightarrow> bool" where
  "agree fp g g' \<longleftrightarrow>
     (\<forall>i. i \<notin> fst fp \<longrightarrow> fmlookup (g_resources g') i = fmlookup (g_resources g) i) \<and>
     (\<forall>x. x \<notin> snd fp \<longrightarrow> fmlookup (g_contexts g') x = fmlookup (g_contexts g) x) \<and>
     g_components g' = g_components g \<and> g_default_component g' = g_default_component g \<and>
     g_capset_info g' = g_capset_info g"

lemma agree_refl [simp]: "agree fp g g"
  by (simp add: agree_def)

lemma agree_trans: "agree fp g g' \<Longrightarrow> agree fp g' g'' \<Longrightarrow> agree fp g g''"
  by (simp add: agree_def)

lemma agree_and_then:
  assumes "agree fp g (snd p)" and "\<And>x s. agree fp g s \<Longrightarrow> agree fp g (snd (f x s))"
  shows "agree fp g (snd (and_then_st p f))"
  using assms by (intro and_then_st_keeps [where P = "agree fp g"])

lemma agree_for_each:
  assumes "\<And>x s. agree fp g s \<Longrightarrow> agree fp g (snd (f x s))" and "agree fp g s"
  shows "agree fp g (snd (try_for_each f xs s))"
  using assms by (rule try_for_each_keeps [where P = "agree fp g"])

lemma agree_world [simp]:
  "agree fp g (g'\<lparr>g_world := w\<rparr>) = agree fp g g'"
  "agree fp g (g'\<lparr>g_shareable_fences := m\<rparr>) = agree fp g g'"
  "agree fp g (run f g') = agree fp g g'"
  "agree fp g (snd (call f' g')) = agree fp g g'"
  by (simp_all add: agree_def)

lemma agree_call: "call f g' = (r, g'') \<Longrightarrow> agree fp g g'' = agree fp g g'"
  by (auto simp: agree_def dest!: call_eqD)

lemma agree_put:
  "i \<in> fst fp \<Longrightarrow> agree fp g g' \<Longrightarrow> agree fp g (put_resource i r g')"
  "x \<in> snd fp \<Longrightarrow> agree fp g g' \<Longrightarrow> agree fp g (put_context x ctx g')"
  "i \<in> fst fp \<Longrightarrow> agree fp g g' \<Longrightarrow> agree fp g (g'\<lparr>g_resources := fmdrop i (g_resources g')\<rparr>)"
  "x \<in> snd fp \<Longrightarrow> agree fp g g' \<Longrightarrow> agree fp g (g'\<lparr>g_contexts := fmdrop x (g_contexts g')\<rparr>)"
  by (auto simp: agree_def put_resource_def put_context_def)

lemmas agree_intros = agree_and_then agree_for_each agree_put

lemma restore_agrees: "agree (UNIV, UNIV) g (snd (rutabaga_restore de d g))"
proof -
  have all: "agree (UNIV, UNIV) g g' \<longleftrightarrow> g_components g' = g_components g \<and>
      g_default_component g' = g_default_component g \<and> g_capset_info g' = g_capset_info g" for g'
    by (auto simp: agree_def)
  have tables: "agree (UNIV, UNIV) g (g'\<lparr>g_resources := rs\<rparr>) = agree (UNIV, UNIV) g g'"
    "agree (UNIV, UNIV) g (g'\<lparr>g_contexts := cs\<rparr>) = agree (UNIV, UNIV) g g'" for g' rs cs
    by (simp_all add: all)
  show ?thesis
    unfolding rutabaga_restore_def destroy_objects_def rutabaga_unref_resource_def
      contexts_clear_def
    by (intro agree_and_then agree_for_each) (simp_all add: tables agree_put)
qed

lemma call_agrees: "rutabaga_call g fp g' \<Longrightarrow> agree fp g g'"
proof (induction rule: rutabaga_call.induct)
  case (op_create_blob g x i rcb io ho)
  show ?case
    unfolding rutabaga_resource_create_blob_def
    by (auto intro!: agree_intros split: option.split if_splits)
next
  case (op_snapshot g ser d)
  show ?case
    unfolding rutabaga_snapshot_def Let_def by (intro agree_and_then) simp_all
next
  case (op_destroy_fences g fids)
  show ?case
    unfolding rutabaga_destroy_fences_def
    by (intro agree_for_each) (simp_all add: remove_fence_def)
next
  case (op_force_ctx_0 g)
  show ?case by (simp add: rutabaga_force_ctx_0_def split: option.split)
next
  case (op_event_poll g)
  show ?case by (simp add: rutabaga_event_poll_def split: option.split)
next
  case (op_poll_descriptor g)
  show ?case by (simp add: rutabaga_poll_descriptor_def split: option.split)
qed (auto intro!: agree_intros simp: rutabaga_op_defs Let_def agree_call
    split: option.split sum.split prod.split bool.split)

lemma step_agrees: "rutabaga_step g fp g' \<Longrightarrow> agree fp g g'"
  by (induction rule: rutabaga_step.induct) (auto intro: call_agrees restore_agrees)

end
