(* ===== verification/Transfer_2D.thy ===== *)
theory Transfer_2D
  imports Resource
begin

text \<open>
  The rectangle copy \<open>transfer_2d\<close> of \<open>src/rutabaga_2d.rs\<close>: from a list of source chunks (the
  iovecs of the guest) into one destination slice. First the code (\<open>transfer_2d_body\<close>,
  \<open>transfer_2d_loop\<close>, \<open>transfer_2d\<close>), then the reference \<open>copy_rows\<close>, the proof that the loop
  computes it, the safety of the loop on every input, and the byte-level reading of
  \<open>copy_rows\<close>.

  Offsets are \<open>u64\<close> values read as naturals. The checked operations of the source are the
  \<open>checked_*\<close> functions; the operations it leaves unchecked wrap modulo \<open>2 ^ 64\<close>.
\<close>

section \<open>The copy loop\<close>

text \<open>
  One pass through the body of the \<open>while let\<close> loop: which of \<open>next_src\<close> and \<open>next_line\<close>
  it sets, and the destination after the copy. The destination is only written on the way to a
  successful end of the body.
\<close>

definition transfer_2d_body ::
  "nat \<Rightarrow> nat \<Rightarrow> nat \<Rightarrow> nat \<Rightarrow> nat \<Rightarrow> nat \<Rightarrow> nat \<Rightarrow> u8 list \<Rightarrow> u8 list \<Rightarrow>
   (bool \<times> bool \<times> u8 list) rres" where
  "transfer_2d_body rect_w dst_stride dst_resource_offset src_stride src_resource_offset
      current_height src_start_offset src dst =
     (let src_size = length src in
      and_then (checked_add 64 ''src_start_offset'' src_start_offset ''src_size'' src_size)
        (\<lambda>src_end_offset.
      and_then (checked_mul 64 ''current_height'' current_height ''src_stride'' src_stride)
        (\<lambda>src_line_vertical_offset.
      and_then (checked_mul 64 ''rect_w'' rect_w ''bytes_per_pixel'' 4)
        (\<lambda>src_line_horizontal_offset.
      and_then (checked_add 64 ''src_resource_offset'' src_resource_offset
                  ''src_line_vertical_offset'' src_line_vertical_offset)
        (\<lambda>src_line_start_offset.
      and_then (checked_add 64 ''src_line_start_offset'' src_line_start_offset
                  ''src_line_horizontal_offset'' src_line_horizontal_offset)
        (\<lambda>src_line_end_offset.
      let src_copyable_start_offset = max src_line_start_offset src_start_offset;
          src_copyable_end_offset = min src_line_end_offset src_end_offset
      in
      if src_copyable_start_offset < src_copyable_end_offset then
        and_then (checked_sub 64 ''src_copyable_end_offset'' src_copyable_end_offset
                    ''src_copyable_start_offset'' src_copyable_start_offset)
          (\<lambda>copyable_size.
        let offset_within_src = src_copyable_start_offset - src_start_offset;
            next_src = (src_end_offset \<le> src_line_end_offset);
            next_line = (src_line_end_offset \<le> src_end_offset);
            src_end = (offset_within_src + copyable_size) mod 2 ^ 64
        in
        and_then (ok_or InvalidIovec (get_range offset_within_src src_end src))
          (\<lambda>src_subslice.
        and_then (checked_mul 64 ''current_height'' current_height ''dst_stride'' dst_stride)
          (\<lambda>dst_line_vertical_offset.
        and_then (checked_sub 64 ''src_copyable_start_offset'' src_copyable_start_offset
                    ''src_line_start_offset'' src_line_start_offset)
          (\<lambda>dst_line_horizontal_offset.
        and_then (checked_add 64 ''dst_line_vertical_offset'' dst_line_vertical_offset
                    ''dst_line_horizontal_offset'' dst_line_horizontal_offset)
          (\<lambda>dst_line_offset.
        and_then (checked_add 64 ''dst_resource_offset'' dst_resource_offset
                    ''dst_line_offset'' dst_line_offset)
          (\<lambda>dst_start_offset.
        let dst_end_offset = (dst_start_offset + copyable_size) mod 2 ^ 64 in
        and_then (ok_or InvalidIovec (get_range dst_start_offset dst_end_offset dst))
          (\<lambda>_. Ok (next_src, next_line, blit dst dst_start_offset src_subslice))))))))
      else if src_start_offset \<le> src_line_start_offset then
        Ok (True, False, dst)
      else
        Ok (False, True, dst)))))))"

text \<open>The loop. Every pass consumes a chunk or finishes a line.\<close>

function transfer_2d_loop ::
  "nat \<Rightarrow> nat \<Rightarrow> nat \<Rightarrow> nat \<Rightarrow> nat \<Rightarrow> nat \<Rightarrow> u8 list list \<Rightarrow> nat \<Rightarrow> nat \<Rightarrow> u8 list \<Rightarrow>
   unit rres \<times> u8 list" where
  "transfer_2d_loop rect_w rect_h dst_stride dst_off src_stride src_off srcs
      current_height src_start_offset dst =
     (case srcs of
        [] \<Rightarrow> (Ok (), dst)
      | src # rest \<Rightarrow>
          if rect_h \<le> current_height then (Ok (), dst)
          else
            (case transfer_2d_body rect_w dst_stride dst_off src_stride src_off
                    current_height src_start_offset src dst of
               Inl e \<Rightarrow> (Inl e, dst)
             | Inr (next_src, next_line, dst') \<Rightarrow>
                 (case (if next_src
                        then checked_add 64 ''src_start_offset'' src_start_offset
                               ''src_size'' (length src)
                        else Ok src_start_offset) of
                    Inl e \<Rightarrow> (Inl e, dst')
                  | Inr src_start_offset' \<Rightarrow>
                      if next_src \<or> next_line then
                        transfer_2d_loop rect_w rect_h dst_stride dst_off src_stride src_off
                          (if next_src then rest else srcs)
                          (if next_line then current_height + 1 else current_height)
                          src_start_offset' dst'
                      else (Ok (), dst'))))"
  by pat_completeness auto
termination
  by (relation "measure (\<lambda>(w, h, ds, doff, ss, so, srcs, ch, sso, dst). length srcs + (h - ch))")
    auto

declare transfer_2d_loop.simps [simp del]

lemma body_makes_progress:
  "transfer_2d_body w ds doff ss so ch sso src dst = Ok (ns, nl, dst') \<Longrightarrow> ns \<or> nl"
  by (auto simp: transfer_2d_body_def Let_def rust_simps split: if_splits)

definition transfer_2d ::
  "u32 \<Rightarrow> u32 \<Rightarrow> u32 \<Rightarrow> u32 \<Rightarrow> u32 \<Rightarrow> u32 \<Rightarrow> u32 \<Rightarrow> u64 \<Rightarrow> u8 list \<Rightarrow> u32 \<Rightarrow> u64 \<Rightarrow>
   u8 list list \<Rightarrow> unit rres \<times> u8 list" where
  "transfer_2d resource_w resource_h rect_x rect_y rect_w rect_h dst_stride dst_offset dst
      src_stride src_offset srcs =
     (if rect_w = 0 \<or> rect_h = 0 then (Ok (), dst)
      else
        (case
           and_then (checked_add 32 ''rect_x'' (unat rect_x) ''rect_w'' (unat rect_w)) (\<lambda>right.
           and_then (checked_range ''checked_arithmetic!(rect_x + rect_w)?'' right
                       ''resource_w'' (unat resource_w)) (\<lambda>_.
           and_then (checked_add 32 ''rect_y'' (unat rect_y) ''rect_h'' (unat rect_h)) (\<lambda>bottom.
           checked_range ''checked_arithmetic!(rect_y + rect_h)?'' bottom
                       ''resource_h'' (unat resource_h)))) of
           Inl e \<Rightarrow> (Inl e, dst)
         | Inr _ \<Rightarrow>
             let x = unat rect_x; y = unat rect_y; w = unat rect_w; h = unat rect_h;
                 dst_resource_offset =
                   (unat dst_offset + y * unat dst_stride + x * 4) mod 2 ^ 64;
                 src_resource_offset =
                   (unat src_offset + y * unat src_stride + x * 4) mod 2 ^ 64
             in transfer_2d_loop w h (unat dst_stride) dst_resource_offset
                  (unat src_stride) src_resource_offset srcs 0 0 dst))"


section \<open>The reference: copying rows out of one contiguous buffer\<close>

fun copy_rows ::
  "nat \<Rightarrow> nat \<Rightarrow> nat \<Rightarrow> nat \<Rightarrow> nat \<Rightarrow> u8 list \<Rightarrow> nat \<Rightarrow> nat \<Rightarrow> u8 list \<Rightarrow> u8 list" where
  "copy_rows line ds doff ss so src r 0 dst = dst"
| "copy_rows line ds doff ss so src r (Suc n) dst =
     copy_rows line ds doff ss so src (Suc r) n
       (blit dst (doff + r * ds) (take line (drop (so + r * ss) src)))"

lemma get_range_wrapped:
  assumes "i + k \<le> length xs" and "length xs < 2 ^ 64"
  shows "get_range i ((i + k) mod 2 ^ 64) xs = Some (slice i (i + k) xs)"
proof -
  have "(i + k) mod 2 ^ 64 = i + k" using assms by (intro mod_less) linarith
  then show ?thesis using assms(1) by (simp add: get_range_def)
qed

text \<open>One pass of the loop body when nothing overflows and the row fits the destination: either
  it copies the part of the row that lies in this chunk, or the row starts after the chunk.\<close>

lemma body_copies:
  fixes ch ss so sso w :: nat and src dst :: "u8 list"
  defines "ls \<equiv> so + ch * ss" and "le \<equiv> so + ch * ss + w * 4" and "se \<equiv> sso + length src"
  assumes le: "le < 2 ^ 64" and se: "se < 2 ^ 64"
    and row: "doff + ch * ds + w * 4 \<le> length dst" and dst: "length dst < 2 ^ 64"
    and overlap: "max ls sso < min le se"
  shows "transfer_2d_body w ds doff ss so ch sso src dst =
    Ok (se \<le> le, le \<le> se,
        blit dst (doff + ch * ds + (max ls sso - ls))
          (slice (max ls sso - sso) (min le se - sso) src))"
proof -
  let ?cs = "max ls sso" and ?ce = "min le se"
  have a1: "\<And>n m. checked_add 64 n sso m (length src) = Ok se"
    using se by (simp add: checked_add_def se_def)
  have a2: "\<And>n m. checked_mul 64 n ch m ss = Ok (ch * ss)"
    using le by (simp add: checked_mul_def le_def)
  have a3: "\<And>n m. checked_mul 64 n w m 4 = Ok (w * 4)"
    using le by (simp add: checked_mul_def le_def)
  have a4: "\<And>n m. checked_add 64 n so m (ch * ss) = Ok ls"
    using le by (simp add: checked_add_def le_def ls_def)
  have a5: "\<And>n m. checked_add 64 n ls m (w * 4) = Ok le"
    using le by (simp add: checked_add_def le_def ls_def)
  have a6: "\<And>n m. checked_sub 64 n ?ce m ?cs = Ok (?ce - ?cs)"
    using overlap by (simp add: checked_sub_def)
  have e1: "?cs - sso + (?ce - ?cs) = ?ce - sso" using overlap by auto
  have lt: "?ce - sso \<le> length src" "?cs - sso \<le> ?ce - sso" "?ce - sso < 2 ^ 64"
    using overlap se by (auto simp: se_def)
  have a7: "ok_or InvalidIovec (get_range (?cs - sso) ((?cs - sso + (?ce - ?cs)) mod 2 ^ 64) src) =
      Ok (slice (?cs - sso) (?ce - sso) src)"
    unfolding e1 using lt by (simp add: get_range_def)
  have a8: "\<And>n m. checked_mul 64 n ch m ds = Ok (ch * ds)"
    using row dst by (simp add: checked_mul_def)
  have a9: "\<And>n m. checked_sub 64 n ?cs m ls = Ok (?cs - ls)"
    by (simp add: checked_sub_def)
  have in_line: "?ce \<le> ls + w * 4" by (simp add: le_def ls_def)
  have off: "doff + ch * ds + (?cs - ls) < 2 ^ 64" using row dst overlap in_line by linarith
  have a10: "\<And>n m. checked_add 64 n (ch * ds) m (?cs - ls) = Ok (ch * ds + (?cs - ls))"
    unfolding checked_add_def using off by (subst if_P) simp_all
  have a11: "\<And>n m. checked_add 64 n doff m (ch * ds + (?cs - ls)) = Ok (doff + ch * ds + (?cs - ls))"
    unfolding checked_add_def using off by (subst if_P) (simp_all only: add.assoc)
  have fits: "doff + ch * ds + (?cs - ls) + (?ce - ?cs) \<le> length dst"
    using row overlap in_line by simp
  have a12: "ok_or InvalidIovec (get_range (doff + ch * ds + (?cs - ls))
      ((doff + ch * ds + (?cs - ls) + (?ce - ?cs)) mod 2 ^ 64) dst) =
      Ok (slice (doff + ch * ds + (?cs - ls)) (doff + ch * ds + (?cs - ls) + (?ce - ?cs)) dst)"
    by (simp only: get_range_wrapped [OF fits dst] ok_or_simps)
  show ?thesis
    unfolding transfer_2d_body_def Let_def
    by (simp only: a1 a2 a3 a4 a5 a6 a7 a8 a9 a10 a11 a12 and_then_simps overlap if_True)
qed

lemma body_skips_chunk:
  fixes ch ss so sso w :: nat and src dst :: "u8 list"
  defines "ls \<equiv> so + ch * ss" and "le \<equiv> so + ch * ss + w * 4" and "se \<equiv> sso + length src"
  assumes le: "le < 2 ^ 64" and se: "se < 2 ^ 64" and "sso \<le> ls" and "\<not> max ls sso < min le se"
  shows "transfer_2d_body w ds doff ss so ch sso src dst = Ok (True, False, dst)"
proof -
  have a1: "\<And>n m. checked_add 64 n sso m (length src) = Ok se"
    using se by (simp add: checked_add_def se_def)
  have a2: "\<And>n m. checked_mul 64 n ch m ss = Ok (ch * ss)"
    using le by (simp add: checked_mul_def le_def)
  have a3: "\<And>n m. checked_mul 64 n w m 4 = Ok (w * 4)"
    using le by (simp add: checked_mul_def le_def)
  have a4: "\<And>n m. checked_add 64 n so m (ch * ss) = Ok ls"
    using le by (simp add: checked_add_def le_def ls_def)
  have a5: "\<And>n m. checked_add 64 n ls m (w * 4) = Ok le"
    using le by (simp add: checked_add_def le_def ls_def)
  show ?thesis
    unfolding transfer_2d_body_def Let_def
    using assms(6,7) by (simp only: a1 a2 a3 a4 a5 and_then_simps if_True if_False)
qed


text \<open>One unfolding of the loop for a body that succeeds.\<close>

lemma loop_step:
  assumes "ch < h" and "sso + length src < 2 ^ 64"
    and "transfer_2d_body w ds doff ss so ch sso src dst = Ok (ns, nl, dst')"
  shows "transfer_2d_loop w h ds doff ss so (src # rest) ch sso dst =
    transfer_2d_loop w h ds doff ss so (if ns then rest else src # rest)
      (if nl then ch + 1 else ch) (if ns then sso + length src else sso) dst'"
  using assms body_makes_progress [OF assms(3)]
  by (subst transfer_2d_loop.simps) (auto simp: checked_add_def)

lemma loop_done: "h \<le> ch \<Longrightarrow> transfer_2d_loop w h ds doff ss so srcs ch sso dst = (Ok (), dst)"
  by (subst transfer_2d_loop.simps) (simp split: list.split)

lemma loop_no_src: "transfer_2d_loop w h ds doff ss so [] ch sso dst = (Ok (), dst)"
  by (subst transfer_2d_loop.simps) simp

lemma copy_rows_beyond:
  assumes "length src \<le> so + r * ss"
  shows "copy_rows line ds doff ss so src r n dst = dst"
  using assms
proof (induction n arbitrary: r dst)
  case 0
  then show ?case by simp
next
  case (Suc n)
  have "r * ss \<le> Suc r * ss" by simp
  with Suc.prems have "length src \<le> so + Suc r * ss" by linarith
  with Suc.IH Suc.prems show ?case by simp
qed

text \<open>What is left to do when the loop is at row \<open>ch\<close> and at source position \<open>sso\<close>: the rest
  of this row, then the rows below.\<close>

definition finish_rows ::
  "nat \<Rightarrow> nat \<Rightarrow> nat \<Rightarrow> nat \<Rightarrow> nat \<Rightarrow> nat \<Rightarrow> u8 list \<Rightarrow> nat \<Rightarrow> nat \<Rightarrow> u8 list \<Rightarrow> u8 list" where
  "finish_rows line h ds doff ss so src ch sso dst =
     (if ch < h then
        copy_rows line ds doff ss so src (Suc ch) (h - Suc ch)
          (let k = sso - (so + ch * ss) in
           blit dst (doff + ch * ds + k) (take (line - k) (drop (so + ch * ss + k) src)))
      else dst)"

lemma finish_rows_next_line:
  assumes "ch < h" and "sso \<le> so + Suc ch * ss"
  shows "finish_rows line h ds doff ss so src (Suc ch) sso dst =
    copy_rows line ds doff ss so src (Suc ch) (h - Suc ch) dst"
proof (cases "Suc ch < h")
  case True
  then obtain n where n: "h - Suc ch = Suc n" "n = h - Suc (Suc ch)"
    by (metis Suc_diff_Suc)
  with True assms show ?thesis by (simp add: finish_rows_def)
next
  case False
  then show ?thesis by (simp add: finish_rows_def)
qed


lemma take_drop_shift:
  assumes "S = pre @ src @ post" and "length pre \<le> i" and "i \<le> j" and "j \<le> length pre + length src"
  shows "slice (i - length pre) (j - length pre) src = take (j - i) (drop i S)"
  using assms by (simp add: slice_def)

text \<open>A row that ends in this chunk is complete after the pass.\<close>

lemma row_completed:
  assumes S: "S = pre @ src @ post" and "max ls (length pre) < min le (length pre + length src)"
    and "le \<le> length pre + length src" and "le = ls + line"
  shows "blit dst (doff + (max ls (length pre) - ls))
      (slice (max ls (length pre) - length pre) (min le (length pre + length src) - length pre) src) =
    (let k = length pre - ls in blit dst (doff + k) (take (line - k) (drop (ls + k) S)))"
proof -
  have "max ls (length pre) = ls + (length pre - ls)" by simp
  then show ?thesis
    using assms take_drop_shift [OF S, of "max ls (length pre)" le]
    by (simp add: Let_def min_def)
qed

lemma row_continued:
  assumes S: "S = pre @ src @ post" and "max ls (length pre) < min le (length pre + length src)"
    and "length pre + length src < le" and "le = ls + line"
    and "doff + line \<le> length dst"
  defines "se \<equiv> length pre + length src"
  defines "dst' \<equiv> blit dst (doff + (max ls (length pre) - ls))
      (slice (max ls (length pre) - length pre) (min le se - length pre) src)"
  shows "(let k = se - ls in blit dst' (doff + k) (take (line - k) (drop (ls + k) S))) =
    (let k = length pre - ls in blit dst (doff + k) (take (line - k) (drop (ls + k) S)))"
    and "length dst' = length dst"
proof -
  let ?k = "length pre - ls" and ?cs = "max ls (length pre)"
  have cs: "?cs = ls + ?k" "?cs < se" "length pre \<le> ?cs" "ls < se" "?k + (se - ?cs) = se - ls"
    using assms(2) by (auto simp: se_def)
  define P where "P = take (se - ?cs) (drop ?cs S)"
  have P: "slice (?cs - length pre) (min le se - length pre) src = P"
    using take_drop_shift [OF S, of ?cs se] assms(3) cs by (simp add: P_def se_def min_def)
  have lenP: "length P = se - ?cs" using S cs by (simp add: P_def se_def)
  have split: "take (line - ?k) (drop (ls + ?k) S) =
      P @ take (line - (se - ls)) (drop se S)"
  proof -
    have "line - ?k = (se - ?cs) + (line - (se - ls))"
      using assms(3,4) cs(2,4,5) unfolding se_def by linarith
    moreover have "drop (se - ?cs) (drop (ls + ?k) S) = drop se S"
      unfolding drop_drop cs(1) [symmetric] using cs(2) by simp
    ultimately show ?thesis unfolding P_def cs(1) [symmetric] by (simp only: take_add)
  qed
  have fit: "doff + ?k + length P + length (take (line - (se - ls)) (drop se S)) \<le> length dst"
  proof -
    have "length (take (line - (se - ls)) (drop se S)) \<le> line - (se - ls)" by simp
    then show ?thesis using assms(3,4,5) cs(4,5) lenP unfolding se_def by linarith
  qed
  have dst': "dst' = blit dst (doff + ?k) P" unfolding dst'_def P using cs(1) by simp
  have "blit dst' (doff + (se - ls)) (take (line - (se - ls)) (drop (ls + (se - ls)) S)) =
      blit (blit dst (doff + ?k) P) (doff + ?k + length P) (take (line - (se - ls)) (drop se S))"
    using cs lenP by (simp add: dst' add.assoc)
  also have "\<dots> = blit dst (doff + ?k) (P @ take (line - (se - ls)) (drop se S))"
    using fit by (rule blit_blit_adjacent)
  finally show "(let k = se - ls in blit dst' (doff + k) (take (line - k) (drop (ls + k) S))) =
    (let k = length pre - ls in blit dst (doff + k) (take (line - k) (drop (ls + k) S)))"
    by (simp only: Let_def split)
  show "length dst' = length dst" using fit by (simp add: dst')
qed

lemma loop_eq_finish:
  assumes w: "0 < w" and src_bound: "so + h * ss + w * 4 < 2 ^ 64" and S_bound: "length S < 2 ^ 64"
    and dst_bound: "length dst < 2 ^ 64" "\<And>r. r < h \<Longrightarrow> doff + r * ds + w * 4 \<le> length dst"
    and lines: "h \<le> 1 \<or> w * 4 \<le> ss"
    and "S = pre @ concat srcs" and "sso = length pre" and "[] \<notin> set srcs" and "ch \<le> h"
    and "ch < h \<Longrightarrow> sso < so + ch * ss + w * 4"
  shows "transfer_2d_loop w h ds doff ss so srcs ch sso dst =
    (Ok (), finish_rows (w * 4) h ds doff ss so S ch sso dst)"
  using assms(4-)
proof (induction "length srcs + (h - ch)" arbitrary: srcs ch sso pre dst rule: less_induct)
  case less
  note dst1 = less.prems(1) and rows = less.prems(2) and S = less.prems(4)
    and sso = less.prems(5) and ne = less.prems(6)
  consider (fin) "ch = h" | (nosrc) "ch < h" "srcs = []"
    | (step) src rest where "ch < h" "srcs = src # rest"
    using less.prems(7) by (cases srcs) (auto simp: le_less)
  then show ?case
  proof cases
    case fin
    then show ?thesis by (simp add: loop_done finish_rows_def)
  next
    case nosrc
    have beyond: "length S \<le> so + ch * ss + (sso - (so + ch * ss))" using S sso nosrc by simp
    have "length S \<le> so + Suc ch * ss \<or> h \<le> 1"
      using lines S sso nosrc less.prems(8) by auto
    then have "copy_rows (w * 4) ds doff ss so S (Suc ch) (h - Suc ch) dst = dst"
      using nosrc(1) by (auto intro: copy_rows_beyond)
    with beyond nosrc show ?thesis
      by (simp add: loop_no_src finish_rows_def Let_def)
  next
    case step
    let ?ls = "so + ch * ss" and ?se = "sso + length src"
    let ?le = "so + ch * ss + w * 4"
    have src: "src \<noteq> []" and S': "S = pre @ src @ concat rest" using step ne S by auto
    have "Suc ch * ss \<le> h * ss" using step(1) by (intro mult_le_mono1) simp
    then have le: "?le < 2 ^ 64" and next_ls: "so + Suc ch * ss + w * 4 < 2 ^ 64"
      using src_bound by simp_all
    have se: "?se < 2 ^ 64" using S' S_bound sso by simp
    have row: "doff + ch * ds + w * 4 \<le> length dst" using rows step(1) by simp
    have here: "sso < ?le" using less.prems(8) step(1) by simp
    show ?thesis
    proof (cases "max ?ls sso < min ?le ?se")
      case False
      with here w src have "?se \<le> ?ls" by (auto simp: min_def max_def split: if_splits)
      then have "sso \<le> ?ls" by simp
      note body = body_skips_chunk [OF le se this False]
      have "transfer_2d_loop w h ds doff ss so rest ch ?se dst =
          (Ok (), finish_rows (w * 4) h ds doff ss so S ch ?se dst)"
        using less.hyps [of rest ch dst "pre @ src" ?se] less.prems S' sso step \<open>?se \<le> ?ls\<close> w
        by simp
      moreover have "finish_rows (w * 4) h ds doff ss so S ch ?se dst =
          finish_rows (w * 4) h ds doff ss so S ch sso dst"
        using \<open>?se \<le> ?ls\<close> \<open>sso \<le> ?ls\<close> by (simp add: finish_rows_def)
      ultimately show ?thesis
        using loop_step [OF step(1) se body] step(2) by simp
    next
      case True
      note body = body_copies [OF le se row dst1 True]
      let ?dst' = "blit dst (doff + ch * ds + (max ?ls sso - ?ls))
          (slice (max ?ls sso - sso) (min ?le ?se - sso) src)"
      have final: "?se < 2 ^ 64" "ch < h" using se step(1) by simp_all
      show ?thesis
      proof (cases "?se < ?le")
        case less_le: True
        note cont = row_continued [of S pre src "concat rest" ?ls ?le "w * 4" "doff + ch * ds" dst,
            OF S', folded sso, OF True less_le refl row]
        have "transfer_2d_loop w h ds doff ss so rest ch ?se ?dst' =
            (Ok (), finish_rows (w * 4) h ds doff ss so S ch ?se ?dst')"
          using less.hyps [of rest ch ?dst' "pre @ src" ?se] less.prems S' sso step less_le cont(2)
          by simp
        moreover have "finish_rows (w * 4) h ds doff ss so S ch ?se ?dst' =
            finish_rows (w * 4) h ds doff ss so S ch sso dst"
          using cont(1) step(1) by (simp only: finish_rows_def if_True)
        moreover have "transfer_2d_loop w h ds doff ss so srcs ch sso dst =
            transfer_2d_loop w h ds doff ss so rest ch ?se ?dst'"
          using loop_step [OF step(1) se body] step(2) less_le by simp
        ultimately show ?thesis by simp
      next
        case False
        then have le_le: "?le \<le> ?se" by simp
        note complete = row_completed [of S pre src "concat rest" ?ls ?le "w * 4" dst "doff + ch * ds",
            OF S', folded sso, OF True le_le refl]
        have len': "length ?dst' = length dst"
        proof -
          have "length (take (w * 4 - (sso - ?ls)) (drop (?ls + (sso - ?ls)) S)) \<le> w * 4 - (sso - ?ls)"
            by simp
          with row here show ?thesis
            unfolding complete Let_def by (intro length_blit) linarith
        qed
        let ?ns = "?se \<le> ?le"
        let ?srcs' = "if ?ns then rest else src # rest" and ?sso' = "if ?ns then ?se else sso"
        have pre': "S = (if ?ns then pre @ src else pre) @ concat ?srcs'"
          "?sso' = length (if ?ns then pre @ src else pre)" "[] \<notin> set ?srcs'"
          using S' sso step ne by auto
        have next_row: "?sso' \<le> so + Suc ch * ss" if "Suc ch < h"
          using lines that le_le here by (auto split: if_splits)
        have "transfer_2d_loop w h ds doff ss so srcs ch sso dst =
            transfer_2d_loop w h ds doff ss so ?srcs' (Suc ch) ?sso' ?dst'"
          using loop_step [OF step(1) se body] step(2) le_le by simp
        also have "\<dots> = (Ok (), finish_rows (w * 4) h ds doff ss so S (Suc ch) ?sso' ?dst')"
        proof (rule less.hyps [OF _ _ _ _ pre'])
          show "length ?srcs' + (h - Suc ch) < length srcs + (h - ch)"
            using step by auto
        qed (use len' dst1 rows lines step(1) next_row w in \<open>auto\<close>)
        also have "finish_rows (w * 4) h ds doff ss so S (Suc ch) ?sso' ?dst' =
            copy_rows (w * 4) ds doff ss so S (Suc ch) (h - Suc ch) ?dst'"
          using next_row finish_rows_next_line [OF step(1)]
          by (cases "Suc ch < h") (auto simp: finish_rows_def)
        also have "\<dots> = finish_rows (w * 4) h ds doff ss so S ch sso dst"
          using step(1) by (simp only: finish_rows_def complete if_True)
        finally show ?thesis .
      qed
    qed
  qed
qed



lemma transfer_2d_enters_loop:
  assumes "rect_w \<noteq> 0" and "rect_h \<noteq> 0"
    and "unat rect_x + unat rect_w \<le> unat resource_w"
    and "unat rect_y + unat rect_h \<le> unat resource_h"
  shows "transfer_2d resource_w resource_h rect_x rect_y rect_w rect_h dst_stride dst_offset dst
      src_stride src_offset srcs =
    transfer_2d_loop (unat rect_w) (unat rect_h) (unat dst_stride)
      ((unat dst_offset + unat rect_y * unat dst_stride + unat rect_x * 4) mod 2 ^ 64)
      (unat src_stride)
      ((unat src_offset + unat rect_y * unat src_stride + unat rect_x * 4) mod 2 ^ 64)
      srcs 0 0 dst"
proof -
  have "unat rect_x + unat rect_w < 2 ^ 32" "unat rect_y + unat rect_h < 2 ^ 32"
    using assms(3,4) unat_u32_less [of resource_w] unat_u32_less [of resource_h] by linarith+
  then show ?thesis
    using assms by (simp add: transfer_2d_def checked_add_def checked_range_def Let_def)
qed

text \<open>The parameters of a transfer that stays inside the address space and the destination.\<close>

definition transfer_in_range ::
  "u32 \<Rightarrow> u32 \<Rightarrow> u32 \<Rightarrow> u32 \<Rightarrow> u32 \<Rightarrow> u64 \<Rightarrow> u8 list \<Rightarrow> u32 \<Rightarrow> u64 \<Rightarrow> u8 list list \<Rightarrow> bool" where
  "transfer_in_range rect_x rect_y rect_w rect_h dst_stride dst_offset dst
      src_stride src_offset srcs \<longleftrightarrow>
     unat src_offset + (unat rect_y + unat rect_h) * unat src_stride
       + (unat rect_x + unat rect_w) * 4 < 2 ^ 64 \<and>
     length (concat srcs) < 2 ^ 64 \<and> length dst < 2 ^ 64 \<and>
     unat dst_offset + (unat rect_y + unat rect_h - 1) * unat dst_stride
       + (unat rect_x + unat rect_w) * 4 \<le> length dst"

lemma transfer_2d_copies_rows:
  assumes w: "rect_w \<noteq> 0" and h: "rect_h \<noteq> 0"
    and "unat rect_x + unat rect_w \<le> unat resource_w"
    and "unat rect_y + unat rect_h \<le> unat resource_h"
    and chunks: "[] \<notin> set srcs"
    and lines: "unat rect_h = 1 \<or> unat rect_w * 4 \<le> unat src_stride"
    and range: "transfer_in_range rect_x rect_y rect_w rect_h dst_stride dst_offset dst
      src_stride src_offset srcs"
  shows "transfer_2d resource_w resource_h rect_x rect_y rect_w rect_h dst_stride dst_offset dst
      src_stride src_offset srcs =
    (Ok (), copy_rows (unat rect_w * 4) (unat dst_stride)
      (unat dst_offset + unat rect_y * unat dst_stride + unat rect_x * 4) (unat src_stride)
      (unat src_offset + unat rect_y * unat src_stride + unat rect_x * 4) (concat srcs) 0
      (unat rect_h) dst)"
proof -
  define doff so where "doff = unat dst_offset + unat rect_y * unat dst_stride + unat rect_x * 4"
    and "so = unat src_offset + unat rect_y * unat src_stride + unat rect_x * 4"
  have pos: "0 < unat rect_w" "0 < unat rect_h" using w h by (simp_all add: unat_gt_0)
  have src: "so + unat rect_h * unat src_stride + unat rect_w * 4 < 2 ^ 64"
    and S: "length (concat srcs) < 2 ^ 64" and dst: "length dst < 2 ^ 64"
    using range by (simp_all add: transfer_in_range_def so_def algebra_simps)
  have rows: "doff + r * unat dst_stride + unat rect_w * 4 \<le> length dst" if "r < unat rect_h" for r
  proof -
    have "unat rect_y + r \<le> unat rect_y + unat rect_h - 1" using that by simp
    then have "(unat rect_y + r) * unat dst_stride \<le>
        (unat rect_y + unat rect_h - 1) * unat dst_stride" by (rule mult_le_mono1)
    with range show ?thesis by (simp add: transfer_in_range_def doff_def algebra_simps)
  qed
  have "doff \<le> length dst" using rows [OF pos(2)] by simp
  with src dst have mods: "doff mod 2 ^ 64 = doff" "so mod 2 ^ 64 = so" by simp_all
  have "transfer_2d_loop (unat rect_w) (unat rect_h) (unat dst_stride) doff (unat src_stride) so
      srcs 0 0 dst =
    (Ok (), finish_rows (unat rect_w * 4) (unat rect_h) (unat dst_stride) doff (unat src_stride) so
      (concat srcs) 0 0 dst)"
    by (rule loop_eq_finish [where pre = "[]"])
      (use pos src S dst rows lines chunks in auto)
  moreover have "finish_rows (unat rect_w * 4) (unat rect_h) (unat dst_stride) doff
      (unat src_stride) so (concat srcs) 0 0 dst =
    copy_rows (unat rect_w * 4) (unat dst_stride) doff (unat src_stride) so (concat srcs) 0
      (unat rect_h) dst"
    using pos(2) by (cases "unat rect_h") (simp_all add: finish_rows_def)
  ultimately show ?thesis
    using transfer_2d_enters_loop [OF assms(1-4)] mods
    by (simp add: doff_def [symmetric] so_def [symmetric])
qed

section \<open>Safety of the copy on every input\<close>

lemma get_range_Some_bounds: "get_range i j xs = Some ys \<Longrightarrow> length ys = j - i \<and> i \<le> j \<and> j \<le> length xs"
  by (auto simp: get_range_def slice_def split: if_splits)

lemma get_range_wrapped_length:
  assumes "get_range i ((i + c) mod 2 ^ 64) xs = Some ys" and "c < 2 ^ 64"
  shows "length ys = c \<and> i + c \<le> length xs"
proof -
  have "i \<le> (i + c) mod 2 ^ 64" "(i + c) mod 2 ^ 64 \<le> length xs"
    "length ys = (i + c) mod 2 ^ 64 - i"
    using get_range_Some_bounds [OF assms(1)] by simp_all
  moreover have "(i + c) mod 2 ^ 64 = i + c"
  proof (rule ccontr)
    assume "(i + c) mod 2 ^ 64 \<noteq> i + c"
    then have big: "2 ^ 64 \<le> i + c" by (meson mod_less not_le)
    have i: "i < 2 ^ 64" using \<open>i \<le> (i + c) mod 2 ^ 64\<close> mod_less_divisor [of "2 ^ 64" "i + c"]
      by (simp add: le_less_trans)
    have "(i + c) mod 2 ^ 64 = i + c - 2 ^ 64"
      using big i assms(2) by (simp add: le_mod_geq)
    with \<open>i \<le> (i + c) mod 2 ^ 64\<close> assms(2) big show False by linarith
  qed
  ultimately show ?thesis by simp
qed

lemma body_writes:
  assumes "transfer_2d_body w ds doff ss so ch sso src dst = Ok (ns, nl, dst')"
  shows "dst' = dst \<or> (\<exists>c i d sub blk. c < 2 ^ 64 \<and> get_range i ((i + c) mod 2 ^ 64) src = Some sub \<and>
    get_range d ((d + c) mod 2 ^ 64) dst = Some blk \<and> doff \<le> d \<and> dst' = blit dst d sub)"
proof -
  have less: "min (a::nat) b - m < 2 ^ 64" if "b < 2 ^ 64" for a b m
    using that by (simp add: less_imp_diff_less min_less_iff_disj)
  show ?thesis
    using assms unfolding transfer_2d_body_def Let_def
    apply (elim and_then_OkE)
    apply (split if_split_asm)
    subgoal
      apply (elim and_then_OkE)
      apply (simp only: checked_sub_eq_Ok checked_add_eq_Ok ok_or_eq_Ok sum.inject prod.inject)
      apply (elim conjE)
      apply (rule disjI2)
      using less by (metis le_add1)
    subgoal by (simp split: if_split_asm)
    done
qed

lemma body_length:
  assumes "transfer_2d_body w ds doff ss so ch sso src dst = Ok (ns, nl, dst')"
  shows "length dst' = length dst"
  using body_writes [OF assms]
  by (elim disjE exE conjE) (metis get_range_wrapped_length length_blit)+

text \<open>The bytes in front of the destination rectangle are never written.\<close>

lemma body_prefix:
  assumes "transfer_2d_body w ds doff ss so ch sso src dst = Ok (ns, nl, dst')"
  shows "take doff dst' = take doff dst"
  using body_writes [OF assms]
proof (elim disjE exE conjE)
  fix c i d sub blk
  assume "get_range d ((d + c) mod 2 ^ 64) dst = Some blk" "doff \<le> d" "dst' = blit dst d sub"
  then show ?thesis by (auto simp: blit_def min_def dest!: get_range_Some_bounds)
qed simp

lemma body_completes: "completes (transfer_2d_body w ds doff ss so ch sso src dst)"
  unfolding transfer_2d_body_def Let_def
  by (intro completes_and_then completes_checked)
    (simp split: if_split, intro conjI impI completes_and_then completes_checked
      completes_simps)

lemma loop_safe:
  "length (snd (transfer_2d_loop w h ds doff ss so srcs ch sso dst)) = length dst \<and>
   take doff (snd (transfer_2d_loop w h ds doff ss so srcs ch sso dst)) = take doff dst \<and>
   completes (fst (transfer_2d_loop w h ds doff ss so srcs ch sso dst))"
proof (induction "length srcs + (h - ch)" arbitrary: srcs ch sso dst rule: less_induct)
  case less
  show ?case
  proof (cases "srcs = [] \<or> h \<le> ch")
    case True
    then show ?thesis by (auto simp: loop_no_src loop_done)
  next
    case False
    then obtain src rest where srcs: "srcs = src # rest" and ch: "ch < h"
      by (auto simp: neq_Nil_conv)
    show ?thesis
    proof (cases "transfer_2d_body w ds doff ss so ch sso src dst")
      case (Inl e)
      with ch srcs body_completes [of w ds doff ss so ch sso src dst] show ?thesis
        by (subst (1 2 3) transfer_2d_loop.simps) (simp add: completes_def)
    next
      case (Inr r)
      obtain ns nl dst' where r: "r = (ns, nl, dst')" by (cases r)
      note body = Inr [unfolded r]
      have se: "sso + length src < 2 ^ 64"
        using body by (auto simp: transfer_2d_body_def elim!: and_then_OkE simp: checked_add_eq_Ok)
      have "length (if ns then rest else src # rest) + (h - (if nl then ch + 1 else ch))
          < length srcs + (h - ch)"
        using body_makes_progress [OF body] ch srcs by auto
      from less [OF this] show ?thesis
        using body_length [OF body] body_prefix [OF body]
        by (simp only: srcs loop_step [OF ch se body])
    qed
  qed
qed

section \<open>The copied pixels\<close>

lemma length_copy_rows:
  assumes "\<And>k. k < n \<Longrightarrow> doff + (r + k) * ds + line \<le> length dst"
  shows "length (copy_rows line ds doff ss so src r n dst) = length dst"
  using assms
proof (induction n arbitrary: r dst)
  case 0
  then show ?case by simp
next
  case (Suc n)
  let ?dst' = "blit dst (doff + r * ds) (take line (drop (so + r * ss) src))"
  have len: "length ?dst' = length dst"
    using Suc.prems [of 0] by (intro length_blit) simp
  have "doff + (Suc r + k) * ds + line \<le> length ?dst'" if "k < n" for k
    using Suc.prems [of "Suc k"] that len by (simp add: add_ac)
  from Suc.IH [OF this] len show ?case by simp
qed

text \<open>A byte outside all rows keeps its value.\<close>

lemma copy_rows_frame:
  assumes "\<And>k. k < n \<Longrightarrow> doff + (r + k) * ds + line \<le> length dst"
    and "i < length dst"
    and "\<And>k. k < n \<Longrightarrow> i < doff + (r + k) * ds \<or> doff + (r + k) * ds + line \<le> i"
  shows "copy_rows line ds doff ss so src r n dst ! i = dst ! i"
  using assms
proof (induction n arbitrary: r dst)
  case 0
  then show ?case by simp
next
  case (Suc n)
  let ?row = "take line (drop (so + r * ss) src)"
  let ?dst' = "blit dst (doff + r * ds) ?row"
  have fits: "doff + r * ds + length ?row \<le> length dst"
    using Suc.prems(1) [of 0] by simp
  then have len: "length ?dst' = length dst" by simp
  have 1: "doff + (Suc r + k) * ds + line \<le> length ?dst'" if "k < n" for k
    using Suc.prems(1) [of "Suc k"] that len by (simp add: add_ac)
  have 2: "i < doff + (Suc r + k) * ds \<or> doff + (Suc r + k) * ds + line \<le> i" if "k < n" for k
    using Suc.prems(3) [of "Suc k"] that by (simp add: add_ac)
  have "?dst' ! i = dst ! i"
    unfolding nth_blit [OF fits Suc.prems(2)] using Suc.prems(3) [of 0] by auto
  then show ?case
    using Suc.IH [OF 1 _ 2] Suc.prems(2) len by simp
qed

text \<open>When the rows do not overlap, the byte at column \<open>col\<close> of row \<open>k\<close> is the one of the
  source.\<close>

lemma copy_rows_inside:
  assumes "\<And>k. k < n \<Longrightarrow> doff + (r + k) * ds + line \<le> length dst"
    and "\<And>k. k < n \<Longrightarrow> so + (r + k) * ss + line \<le> length src"
    and "line \<le> ds \<or> n = 1" and "k < n" and "col < line"
  shows "copy_rows line ds doff ss so src r n dst ! (doff + (r + k) * ds + col) =
    src ! (so + (r + k) * ss + col)"
  using assms
proof (induction n arbitrary: r dst k)
  case 0
  then show ?case by simp
next
  case (Suc n)
  let ?row = "take line (drop (so + r * ss) src)"
  let ?dst' = "blit dst (doff + r * ds) ?row"
  have full: "length ?row = line" using Suc.prems(2) [of 0] by simp
  have fits: "doff + r * ds + length ?row \<le> length dst"
    using Suc.prems(1) [of 0] by simp
  then have len: "length ?dst' = length dst" by simp
  have 1: "doff + (Suc r + j) * ds + line \<le> length ?dst'" if "j < n" for j
    using Suc.prems(1) [of "Suc j"] that len by (simp add: add_ac)
  have 2: "so + (Suc r + j) * ss + line \<le> length src" if "j < n" for j
    using Suc.prems(2) [of "Suc j"] that by (simp add: add_ac)
  show ?case
  proof (cases k)
    case 0
    have i: "doff + r * ds + col < length dst" using fits full Suc.prems(5) by linarith
    have "copy_rows line ds doff ss so src (Suc r) n ?dst' ! (doff + r * ds + col) =
        ?dst' ! (doff + r * ds + col)"
    proof (rule copy_rows_frame [OF 1])
      show "doff + r * ds + col < length ?dst'" using i len by simp
      fix j assume "j < n"
      then have "line \<le> ds" using Suc.prems(3) by auto
      then show "doff + r * ds + col < doff + (Suc r + j) * ds \<or>
          doff + (Suc r + j) * ds + line \<le> doff + r * ds + col"
        using Suc.prems(5) by (simp add: algebra_simps)
    qed
    also have "\<dots> = ?row ! col"
      unfolding nth_blit [OF fits i] using full Suc.prems(5) by simp
    also have "\<dots> = src ! (so + r * ss + col)"
      using Suc.prems(2) [of 0] Suc.prems(5) by simp
    finally show ?thesis using 0 by simp
  next
    case (Suc j)
    then have j: "j < n" "line \<le> ds \<or> n = 1" using Suc.prems by auto
    from Suc.IH [OF 1 2 j(2) j(1) Suc.prems(5)] Suc show ?thesis by (simp add: add_ac)
  qed
qed

text \<open>The row of the rectangle that a transfer copies, in both buffers.\<close>

definition rect_offset :: "u64 \<Rightarrow> u32 \<Rightarrow> u32 \<Rightarrow> u32 \<Rightarrow> nat \<Rightarrow> nat" where
  "rect_offset offset stride rect_x rect_y row =
     unat offset + (unat rect_y + row) * unat stride + unat rect_x * 4"

lemma rect_offset_split:
  "rect_offset offset stride rect_x rect_y row =
   (unat offset + unat rect_y * unat stride + unat rect_x * 4) + row * unat stride"
  by (simp add: rect_offset_def algebra_simps)

lemma transfer_in_range_rows:
  assumes "transfer_in_range rect_x rect_y rect_w rect_h dst_stride dst_offset dst
      src_stride src_offset srcs" and "row < unat rect_h"
  shows "rect_offset dst_offset dst_stride rect_x rect_y row + unat rect_w * 4 \<le> length dst"
proof -
  have "unat rect_y + row \<le> unat rect_y + unat rect_h - 1" using assms(2) by simp
  then have "(unat rect_y + row) * unat dst_stride \<le>
      (unat rect_y + unat rect_h - 1) * unat dst_stride" by (rule mult_le_mono1)
  with assms(1) show ?thesis
    by (simp add: transfer_in_range_def rect_offset_def algebra_simps)
qed

end
