(* ===== verification/Rutabaga_2D.thy ===== *)
theory Rutabaga_2D
  imports Component Transfer_2D
begin

text \<open>
  The 2D component of \<open>src/rutabaga_2d.rs\<close>: the trait methods \<open>Rutabaga2D\<close> overrides, the
  trait object they form, its invariant on resources, and the properties of the copy routine
  and of the component.

  The iovecs of a resource are read out of the memory of the world when a transfer starts.
\<close>

section \<open>The trait methods\<close>

definition r2d_create_fence ::
  "rutabaga_fence \<Rightarrow> 'a world_scheme \<Rightarrow> unit rres \<times> 'a world_scheme" where
  "r2d_create_fence fence w = (Ok (), fence_handler_call fence w)"

text \<open>The stride is a \<open>u32\<close> product, the size a \<open>usize\<close> one.\<close>

definition r2d_create_3d ::
  "u32 \<Rightarrow> resource_create_3d \<Rightarrow> 'a world_scheme \<Rightarrow> rutabaga_resource rres \<times> 'a world_scheme"
where
  "r2d_create_3d resource_id rc3d w =
     (let resource_bpp = 4;
          resource_stride = resource_bpp * c3d_width rc3d;
          resource_size = (unat resource_stride * unat (c3d_height rc3d)) mod 2 ^ 64;
          info_2d = \<lparr>i2d_width = c3d_width rc3d, i2d_height = c3d_height rc3d,
                     i2d_host_mem = Some (replicate resource_size 0), i2d_scanout_stride = None\<rparr>
      in (Ok \<lparr>r_resource_id = resource_id, r_handle = None, r_blob = False, r_blob_mem = 0,
              r_blob_flags = 0, r_map_info = None, r_info_2d = Some info_2d, r_info_3d = None,
              r_vulkan_info = None, r_backing_iovecs = None,
              r_component_mask = component_bit Rutabaga2D, r_size = of_nat resource_size,
              r_mapping = None\<rparr>, w))"

definition r2d_create_blob ::
  "u32 \<Rightarrow> u32 \<Rightarrow> resource_create_blob \<Rightarrow> rutabaga_iovec list option \<Rightarrow>
   rutabaga_handle option \<Rightarrow> 'a world_scheme \<Rightarrow> rutabaga_resource rres \<times> 'a world_scheme" where
  "r2d_create_blob ctx_id resource_id rcb iovec_opt handle_opt w =
     (if cb_blob_mem rcb \<noteq> RUTABAGA_BLOB_MEM_GUEST then (unsupported, w)
      else
        let info_2d = \<lparr>i2d_width = 0, i2d_height = 0, i2d_host_mem = None,
                       i2d_scanout_stride = None\<rparr>
        in (Ok \<lparr>r_resource_id = resource_id, r_handle = None, r_blob = True,
                r_blob_mem = cb_blob_mem rcb, r_blob_flags = cb_blob_flags rcb,
                r_map_info = None, r_info_2d = Some info_2d, r_info_3d = None,
                r_vulkan_info = None, r_backing_iovecs = iovec_opt,
                r_component_mask = component_bit Rutabaga2D, r_size = cb_size rcb,
                r_mapping = None\<rparr>, w))"

definition r2d_transfer_write ::
  "u32 \<Rightarrow> rutabaga_resource \<Rightarrow> transfer_3d \<Rightarrow> u8 list option \<Rightarrow> 'a world_scheme \<Rightarrow>
   (unit rres \<times> rutabaga_resource) \<times> 'a world_scheme" where
  "r2d_transfer_write ctx_id resource transfer buf w =
     (if transfer_is_empty transfer then ((Ok (), resource), w)
      else if buf \<noteq> None then ((unsupported, resource), w)
      else
        (case r_info_2d resource of
           None \<Rightarrow> ((Err Invalid2DInfo, resource), w)
         | Some info \<Rightarrow>
             if i2d_host_mem info = None \<and> r_blob_mem resource = RUTABAGA_BLOB_MEM_GUEST
             then ((Ok (), resource), w)
             else
               (case r_backing_iovecs resource of
                  None \<Rightarrow> ((Err InvalidIovec, resource), w)
                | Some iovecs \<Rightarrow>
                    let src_slices = iovec_slices (w_mem w) iovecs;
                        src_stride = 4 * i2d_width info;
                        dst_stride = 4 * i2d_width info
                    in (case i2d_host_mem info of
                          None \<Rightarrow> ((Panicked, resource), w)
                        | Some host_mem \<Rightarrow>
                            (case transfer_2d (i2d_width info) (i2d_height info)
                                    (t3d_x transfer) (t3d_y transfer) (t3d_w transfer)
                                    (t3d_h transfer) dst_stride 0 host_mem
                                    src_stride (t3d_offset transfer) src_slices of
                               (r, host_mem') \<Rightarrow>
                                 ((r, resource\<lparr>r_info_2d :=
                                    Some (info\<lparr>i2d_host_mem := Some host_mem'\<rparr>)\<rparr>), w))))))"

definition r2d_transfer_read ::
  "u32 \<Rightarrow> rutabaga_resource \<Rightarrow> transfer_3d \<Rightarrow> u8 list option \<Rightarrow> 'a world_scheme \<Rightarrow>
   (unit rres \<times> rutabaga_resource \<times> u8 list option) \<times> 'a world_scheme" where
  "r2d_transfer_read ctx_id resource transfer buf w =
     (case buf of
        None \<Rightarrow>
          ((Err (MagmaGpuError (WithContext ''need a destination slice for transfer read'')),
            resource, None), w)
      | Some dst_slice \<Rightarrow>
          (case
             and_then (ok_or Invalid2DInfo (r_info_2d resource)) (\<lambda>info.
               case i2d_host_mem info of
                 None \<Rightarrow>
                   and_then (ok_or InvalidResourceId (i2d_scanout_stride info)) (\<lambda>stride.
                   and_then (ok_or InvalidIovec (r_backing_iovecs resource)) (\<lambda>iovecs.
                     Ok (t3d_w transfer, t3d_h transfer, iovec_slices (w_mem w) iovecs, stride)))
               | Some host_mem \<Rightarrow>
                   Ok (i2d_width info, i2d_height info, [host_mem], 4 * i2d_width info)) of
             Inl e \<Rightarrow> ((Inl e, resource, Some dst_slice), w)
           | Inr (width, height, src_slices, src_stride) \<Rightarrow>
               (case transfer_2d width height (t3d_x transfer) (t3d_y transfer)
                       (t3d_w transfer) (t3d_h transfer) (t3d_stride transfer) 0 dst_slice
                       src_stride 0 src_slices of
                  (r, dst') \<Rightarrow> ((r, resource, Some dst'), w))))"

text \<open>The fragment is the string \<open>"rutabaga2d"\<close>; any JSON value is accepted back.\<close>

definition r2d_snapshot ::
  "(string \<Rightarrow> u8 list) \<Rightarrow> snapshot_writer \<Rightarrow> 'a world_scheme \<Rightarrow> unit rres \<times> 'a world_scheme" where
  "r2d_snapshot ser writer w =
     with_fs (add_fragment ser writer ''rutabaga2d_snapshot'' ''rutabaga2d'') w"

definition r2d_restore ::
  "(u8 list \<Rightarrow> 'j option) \<Rightarrow> snapshot_reader \<Rightarrow> 'a world_scheme \<Rightarrow> unit rres \<times> 'a world_scheme"
where
  "r2d_restore de reader w =
     (and_then (get_fragment de reader ''rutabaga2d_snapshot'' (w_fs w)) (\<lambda>_. Ok ()), w)"

definition rutabaga_2d_component ::
  "(string \<Rightarrow> u8 list) \<Rightarrow> (u8 list \<Rightarrow> 'j option) \<Rightarrow> 'a world_scheme rutabaga_component" where
  "rutabaga_2d_component ser de = component_defaults
     \<lparr>c_create_fence := r2d_create_fence,
      c_create_3d := r2d_create_3d,
      c_create_blob := r2d_create_blob,
      c_transfer_write := r2d_transfer_write,
      c_transfer_read := r2d_transfer_read,
      c_snapshot := r2d_snapshot ser,
      c_restore := r2d_restore de\<rparr>"

lemmas r2d_defs = r2d_create_fence_def r2d_create_3d_def r2d_create_blob_def
  r2d_transfer_write_def r2d_transfer_read_def r2d_snapshot_def r2d_restore_def

interpretation r2d: component_contract "rutabaga_2d_component ser de" for ser de
  by unfold_locales
    (auto simp: rutabaga_2d_component_def component_defaults_def r2d_defs Let_def unsupported_def
      split: if_splits option.splits sum.splits prod.splits)

section \<open>Invariant of 2D resources\<close>

text \<open>Every 2D resource has its 2D info. Either it has host memory of the right size, or it is a
  guest blob.\<close>

definition r2d_size :: "rutabaga_2d_info \<Rightarrow> nat" where
  "r2d_size info = unat (4 * i2d_width info) * unat (i2d_height info)"

definition r2d_wf :: "rutabaga_resource \<Rightarrow> bool" where
  "r2d_wf r \<longleftrightarrow>
     (case r_info_2d r of
        None \<Rightarrow> False
      | Some info \<Rightarrow>
          (case i2d_host_mem info of
             None \<Rightarrow> r_blob_mem r = RUTABAGA_BLOB_MEM_GUEST
           | Some mem \<Rightarrow> length mem = r2d_size info))"

lemma u32_product_fits: "unat (a :: u32) * unat (b :: u32) < 2 ^ 64"
proof -
  have "unat a * unat b \<le> (2 ^ 32 - 1) * (2 ^ 32 - 1)"
    using unat_u32_less [of a] unat_u32_less [of b] by (intro mult_le_mono) linarith+
  then show ?thesis by simp
qed

lemma transfer_2d_length: "length (snd (transfer_2d rw rh x y w h ds doff dst ss soff srcs)) = length dst"
  using loop_safe by (auto simp: transfer_2d_def Let_def split: sum.split)

lemma transfer_2d_completes: "completes (fst (transfer_2d rw rh x y w h ds doff dst ss soff srcs))"
proof -
  have checks: "completes (and_then (checked_add 32 ''rect_x'' (unat x) ''rect_w'' (unat w)) (\<lambda>right.
      and_then (checked_range ''checked_arithmetic!(rect_x + rect_w)?'' right ''resource_w'' (unat rw))
      (\<lambda>_. and_then (checked_add 32 ''rect_y'' (unat y) ''rect_h'' (unat h)) (\<lambda>bottom.
      checked_range ''checked_arithmetic!(rect_y + rect_h)?'' bottom ''resource_h'' (unat rh)))))"
    by (intro completes_and_then completes_checked)
  show ?thesis
    using checks loop_safe
    by (auto simp: transfer_2d_def Let_def completes_def split: sum.split)
qed

lemma r2d_create_3d_wf: "r2d_create_3d resource_id rc3d w = (Ok r, w') \<Longrightarrow> r2d_wf r"
  using u32_product_fits [of "4 * c3d_width rc3d" "c3d_height rc3d"]
  by (auto simp: r2d_create_3d_def r2d_wf_def r2d_size_def Let_def)

lemma r2d_create_blob_wf:
  "r2d_create_blob ctx_id resource_id rcb iovecs h w = (Ok r, w') \<Longrightarrow> r2d_wf r"
  by (auto simp: r2d_create_blob_def r2d_wf_def Let_def split: if_splits)

lemma transfer_2d_length_eq:
  "transfer_2d rw rh x y w h ds doff dst ss soff srcs = (r, dst') \<Longrightarrow> length dst' = length dst"
  using transfer_2d_length [of rw rh x y w h ds doff dst ss soff srcs] by simp

lemma transfer_2d_eq_completes:
  "transfer_2d rw rh x y w h ds doff dst ss soff srcs = (r, dst') \<Longrightarrow> completes r"
  using transfer_2d_completes [of rw rh x y w h ds doff dst ss soff srcs] by simp

lemma r2d_transfer_write_wf:
  assumes "r2d_wf r"
  shows "r2d_wf (snd (fst (r2d_transfer_write ctx_id r t buf w)))"
    and "completes (fst (fst (r2d_transfer_write ctx_id r t buf w)))"
  using assms
  by (auto simp: r2d_transfer_write_def r2d_wf_def r2d_size_def Let_def unsupported_def
      dest: transfer_2d_length_eq transfer_2d_eq_completes split: option.splits prod.splits)

lemma r2d_transfer_read_wf:
  assumes "r2d_wf r"
  shows "fst (snd (fst (r2d_transfer_read ctx_id r t buf w))) = r"
    and "completes (fst (fst (r2d_transfer_read ctx_id r t buf w)))"
  using assms
  by (auto simp: r2d_transfer_read_def r2d_wf_def rust_simps
      dest: transfer_2d_eq_completes split: option.splits prod.splits sum.splits)

text \<open>Parameters for concrete runs.\<close>

definition small_3d :: resource_create_3d where
  "small_3d = \<lparr>c3d_target = 2, c3d_format = 1, c3d_bind = 2, c3d_width = 1, c3d_height = 1,
     c3d_depth = 1, c3d_array_size = 1, c3d_last_level = 0, c3d_nr_samples = 0, c3d_flags = 0\<rparr>"

section \<open>Properties of the copy\<close>

text \<open>
  C1. When the rectangle lies inside the resource and the transfer stays inside the address
  space and the destination, and the source chunks are non-empty and together hold every row,
  \<open>transfer_2d\<close> succeeds, gives each byte of the rectangle the value of the corresponding byte of
  the concatenated source, and leaves every other byte of the destination as it was.
\<close>

theorem transfer_2d_pixels:
  assumes "rect_w \<noteq> 0" and "rect_h \<noteq> 0"
    and "unat rect_x + unat rect_w \<le> unat resource_w"
    and "unat rect_y + unat rect_h \<le> unat resource_h"
    and "[] \<notin> set srcs"
    and "unat rect_w * 4 \<le> unat src_stride" and "unat rect_w * 4 \<le> unat dst_stride"
    and "transfer_in_range rect_x rect_y rect_w rect_h dst_stride dst_offset dst
      src_stride src_offset srcs"
    and "\<forall>row < unat rect_h.
      rect_offset src_offset src_stride rect_x rect_y row + unat rect_w * 4 \<le> length (concat srcs)"
  shows "\<exists>dst'. transfer_2d resource_w resource_h rect_x rect_y rect_w rect_h dst_stride
        dst_offset dst src_stride src_offset srcs = (Ok (), dst') \<and>
      length dst' = length dst \<and>
      (\<forall>row < unat rect_h. \<forall>col < unat rect_w * 4.
         dst' ! (rect_offset dst_offset dst_stride rect_x rect_y row + col) =
         concat srcs ! (rect_offset src_offset src_stride rect_x rect_y row + col)) \<and>
      (\<forall>i < length dst.
         (\<forall>row < unat rect_h. i < rect_offset dst_offset dst_stride rect_x rect_y row \<or>
            rect_offset dst_offset dst_stride rect_x rect_y row + unat rect_w * 4 \<le> i) \<longrightarrow>
         dst' ! i = dst ! i)"
proof -
  have eq: "transfer_2d resource_w resource_h rect_x rect_y rect_w rect_h dst_stride
      dst_offset dst src_stride src_offset srcs =
    (Ok (), copy_rows (unat rect_w * 4) (unat dst_stride)
      (unat dst_offset + unat rect_y * unat dst_stride + unat rect_x * 4) (unat src_stride)
      (unat src_offset + unat rect_y * unat src_stride + unat rect_x * 4) (concat srcs) 0
      (unat rect_h) dst)" (is "_ = (_, ?dst')")
    by (rule transfer_2d_copies_rows) (use assms in auto)
  have d: "unat dst_offset + unat rect_y * unat dst_stride + unat rect_x * 4
      + (0 + row) * unat dst_stride + unat rect_w * 4 \<le> length dst" if "row < unat rect_h" for row
    using transfer_in_range_rows [OF assms(8) that] by (simp add: rect_offset_split)
  have s: "unat src_offset + unat rect_y * unat src_stride + unat rect_x * 4
      + (0 + row) * unat src_stride + unat rect_w * 4 \<le> length (concat srcs)"
    if "row < unat rect_h" for row
    using assms(9) that by (simp add: rect_offset_split)
  have "length ?dst' = length dst" using d by (rule length_copy_rows)
  moreover have "?dst' ! (rect_offset dst_offset dst_stride rect_x rect_y row + col) =
      concat srcs ! (rect_offset src_offset src_stride rect_x rect_y row + col)"
    if "row < unat rect_h" "col < unat rect_w * 4" for row col
    using copy_rows_inside [OF d s _ that] assms(7) by (simp add: rect_offset_split)
  moreover have "?dst' ! i = dst ! i" if "i < length dst" and "\<forall>row < unat rect_h.
      i < rect_offset dst_offset dst_stride rect_x rect_y row \<or>
      rect_offset dst_offset dst_stride rect_x rect_y row + unat rect_w * 4 \<le> i" for i
    by (rule copy_rows_frame [OF d that(1)]) (use that(2) in \<open>auto simp: rect_offset_split\<close>)
  ultimately show ?thesis using eq by blast
qed

lemma transfer_2d_pixels_witness:
  "\<exists>dst'. transfer_2d 2 2 1 0 1 2 8 0 (replicate 16 0) 8 0 [[1,2,3,4,5], [6,7,8,9,10,11,12,13,14,15,16]]
      = (Ok (), dst') \<and> dst' ! 4 = 5 \<and> dst' ! 12 = 13 \<and> dst' ! 0 = 0"
proof -
  let ?srcs = "[[1,2,3,4,5], [6,7,8,9,10,11,12,13,14,15,16]] :: u8 list list"
  have less2: "n < 2 \<longleftrightarrow> n = 0 \<or> n = Suc 0" for n :: nat by auto
  note th = transfer_2d_pixels [of 1 2 1 2 0 2 ?srcs 8 8 0 "replicate 16 0" 0]
  obtain dst' where *: "transfer_2d 2 2 1 0 1 2 8 0 (replicate 16 0) 8 0 ?srcs = (Ok (), dst')"
    "\<forall>row < 2. \<forall>col < 4. dst' ! (rect_offset 0 8 1 0 row + col) =
       concat ?srcs ! (rect_offset 0 8 1 0 row + col)"
    "\<forall>i < 16. (\<forall>row < 2. i < rect_offset 0 8 1 0 row \<or> rect_offset 0 8 1 0 row + 4 \<le> i) \<longrightarrow>
       dst' ! i = replicate 16 (0 :: u8) ! i"
    using th by (auto simp: transfer_in_range_def rect_offset_def less2)
  have "dst' ! 4 = 5" using *(2) [rule_format, of 0 0] by (simp add: rect_offset_def)
  moreover have "dst' ! 12 = 13" using *(2) [rule_format, of 1 0] by (simp add: rect_offset_def)
  moreover have "dst' ! 0 = 0" using *(3) [rule_format, of 0] by (simp add: rect_offset_def less2)
  ultimately show ?thesis using *(1) by blast
qed

text \<open>
  C2. For non-empty chunks the way the source is cut into chunks does not matter: the transfer
  from the iovec list is the transfer from one contiguous buffer.
\<close>

theorem transfer_2d_chunk_independent:
  assumes "rect_w \<noteq> 0" and "rect_h \<noteq> 0"
    and "unat rect_x + unat rect_w \<le> unat resource_w"
    and "unat rect_y + unat rect_h \<le> unat resource_h"
    and "srcs \<noteq> []" and "[] \<notin> set srcs"
    and "unat rect_w * 4 \<le> unat src_stride"
    and "transfer_in_range rect_x rect_y rect_w rect_h dst_stride dst_offset dst
      src_stride src_offset srcs"
  shows "transfer_2d resource_w resource_h rect_x rect_y rect_w rect_h dst_stride dst_offset dst
      src_stride src_offset srcs =
    transfer_2d resource_w resource_h rect_x rect_y rect_w rect_h dst_stride dst_offset dst
      src_stride src_offset [concat srcs]"
proof -
  have "concat srcs \<noteq> []" using assms(5,6) by (cases srcs) auto
  then have ne: "[] \<notin> set [concat srcs]" by simp
  have range: "transfer_in_range rect_x rect_y rect_w rect_h dst_stride dst_offset dst
      src_stride src_offset [concat srcs]"
    using assms(8) by (simp add: transfer_in_range_def)
  have lines: "unat rect_h = 1 \<or> unat rect_w * 4 \<le> unat src_stride" using assms(7) by simp
  show ?thesis
    using transfer_2d_copies_rows [OF assms(1-4) assms(6) lines assms(8)]
      transfer_2d_copies_rows [OF assms(1-4) ne lines range] by simp
qed

lemma transfer_2d_chunk_independent_witness:
  "transfer_2d 1 1 0 0 1 1 4 0 [0,0,0,0] 4 0 [[1,2],[3],[4]] =
   transfer_2d 1 1 0 0 1 1 4 0 [0,0,0,0] 4 0 [[1,2,3,4]]"
  using transfer_2d_chunk_independent [of 1 1 0 1 0 1 "[[1,2],[3],[4]]" 4 4 0 "[0,0,0,0]" 0]
  by (simp add: transfer_in_range_def)

text \<open>
  C3. Whatever the guest passes (any rectangle, strides, offsets and chunks), \<open>transfer_2d\<close>
  returns and does not panic on an out-of-range slice, keeps the length of the destination, and never writes in
  front of the destination rectangle.
\<close>

theorem transfer_2d_safe:
  "completes (fst (transfer_2d resource_w resource_h rect_x rect_y rect_w rect_h dst_stride
      dst_offset dst src_stride src_offset srcs)) \<and>
   length (snd (transfer_2d resource_w resource_h rect_x rect_y rect_w rect_h dst_stride
      dst_offset dst src_stride src_offset srcs)) = length dst \<and>
   take ((unat dst_offset + unat rect_y * unat dst_stride + unat rect_x * 4) mod 2 ^ 64)
     (snd (transfer_2d resource_w resource_h rect_x rect_y rect_w rect_h dst_stride
      dst_offset dst src_stride src_offset srcs)) =
   take ((unat dst_offset + unat rect_y * unat dst_stride + unat rect_x * 4) mod 2 ^ 64) dst"
proof (intro conjI)
qed (rule transfer_2d_completes, rule transfer_2d_length, use loop_safe in \<open>auto simp: transfer_2d_def Let_def split: sum.split\<close>)

text \<open>
  C4. A non-empty rectangle that leaves the resource is refused before a byte is written: with
  \<open>CheckedArithmetic\<close> when a corner overflows 32 bits, with \<open>CheckedRange\<close> otherwise.
\<close>

theorem transfer_2d_rejects_rect:
  assumes "rect_w \<noteq> 0" and "rect_h \<noteq> 0"
    and "unat resource_w < unat rect_x + unat rect_w \<or> unat resource_h < unat rect_y + unat rect_h"
  shows "\<exists>e. transfer_2d resource_w resource_h rect_x rect_y rect_w rect_h dst_stride dst_offset
      dst src_stride src_offset srcs = (Err e, dst) \<and>
    ((\<exists>a b. e = CheckedArithmetic a b ''+'') \<or> (\<exists>a b. e = CheckedRange a b))"
  using assms
  by (auto simp: transfer_2d_def checked_add_def checked_range_def)

lemma transfer_2d_rejects_rect_witness:
  "\<exists>e. transfer_2d 4 4 3 0 2 1 16 0 [] 16 0 [] = (Err e, []) \<and>
    ((\<exists>a b. e = CheckedArithmetic a b ''+'') \<or> (\<exists>a b. e = CheckedRange a b))"
  by (rule transfer_2d_rejects_rect) simp_all

text \<open>Unfolding the loop on concrete chunks.\<close>

lemma loop_eval:
  "transfer_2d_loop w h ds doff ss so (src # rest) ch sso dst =
     (if h \<le> ch then (Ok (), dst)
      else case transfer_2d_body w ds doff ss so ch sso src dst of
        Inl e \<Rightarrow> (Inl e, dst)
      | Inr (ns, nl, dst') \<Rightarrow>
          if sso + length src < 2 ^ 64 then
            transfer_2d_loop w h ds doff ss so (if ns then rest else src # rest)
              (if nl then ch + 1 else ch) (if ns then sso + length src else sso) dst'
          else transfer_2d_loop w h ds doff ss so (src # rest) ch sso dst)"
proof (cases "h \<le> ch")
  case True
  then show ?thesis by (simp add: loop_done)
next
  case False
  show ?thesis
  proof (cases "transfer_2d_body w ds doff ss so ch sso src dst")
    case (Inl e)
    with False show ?thesis by (subst transfer_2d_loop.simps) simp
  next
    case (Inr r)
    obtain ns nl dst' where r: "r = (ns, nl, dst')" by (cases r)
    show ?thesis
      using loop_step [OF _ _ Inr [unfolded r], of h rest] False Inr r by simp
  qed
qed

text \<open>
  What happens without the hypothesis on the chunks: an empty chunk inside a line makes the
  loop give up the rest of that line and still report success.
\<close>

lemma transfer_2d_empty_chunk_drops_bytes:
  "transfer_2d 1 1 0 0 1 1 4 0 [0,0,0,0] 4 0 [[1,2],[],[3,4]] = (Ok (), [1,2,0,0])"
  by (simp add: transfer_2d_def loop_eval loop_no_src transfer_2d_body_def Let_def checked_defs
      get_range_def slice_def blit_def)

text \<open>A guest-controlled offset near \<open>2 ^ 64\<close> wraps around to the start of the source.\<close>

lemma transfer_2d_offset_wraps:
  "transfer_2d 1 2 0 1 1 1 4 0 [0,0,0,0,0,0,0,0] 4 (- 4) [[1,2,3,4]] = (Ok (), [0,0,0,0,1,2,3,4])"
  by (simp add: transfer_2d_def loop_eval loop_no_src transfer_2d_body_def Let_def checked_defs
      get_range_def slice_def blit_def)

section \<open>Properties of the component\<close>

text \<open>
  C5. Resources of the 2D component: those it creates are well-formed (host memory of
  stride times height bytes, or a guest blob); a transfer keeps them well-formed, a read does not change the
  resource, and neither transfer reaches the \<open>unwrap\<close> of missing host memory.
\<close>

theorem r2d_preserves_wf:
  "(\<forall>r w'. r2d_create_3d resource_id rc3d w = (Ok r, w') \<longrightarrow> r2d_wf r) \<and>
   (\<forall>r w'. r2d_create_blob ctx_id resource_id rcb iovecs h w = (Ok r, w') \<longrightarrow> r2d_wf r) \<and>
   (r2d_wf resource \<longrightarrow>
      r2d_wf (snd (fst (r2d_transfer_write ctx_id resource t buf w))) \<and>
      completes (fst (fst (r2d_transfer_write ctx_id resource t buf w))) \<and>
      fst (snd (fst (r2d_transfer_read ctx_id resource t buf' w))) = resource \<and>
      completes (fst (fst (r2d_transfer_read ctx_id resource t buf' w))))"
  by (intro conjI allI impI)
    (auto simp: r2d_transfer_write_wf r2d_transfer_read_wf
      dest: r2d_create_3d_wf r2d_create_blob_wf)

lemma r2d_preserves_wf_witness:
  "r2d_wf (snd (fst (r2d_transfer_write 0
     (case fst (r2d_create_3d 7 small_3d some_world) of Inr r \<Rightarrow> r | Inl _ \<Rightarrow> blank_resource 0)
     (transfer_new_2d 0 0 1 1 0) None some_world)))"
  (is "r2d_wf (snd (fst (r2d_transfer_write 0 ?r _ _ _)))")
proof -
  have "r2d_wf ?r" by (simp add: r2d_create_3d_def r2d_wf_def r2d_size_def Let_def small_3d_def)
  with r2d_preserves_wf [where resource = ?r] show ?thesis by blast
qed

text \<open>Copying all rows of a packed image is one block copy.\<close>

lemma copy_rows_packed:
  assumes "doff + (r + n) * line \<le> length dst" and "so + (r + n) * line \<le> length src"
  shows "copy_rows line line doff line so src r n dst =
    blit dst (doff + r * line) (take (n * line) (drop (so + r * line) src))"
  using assms
proof (induction n arbitrary: r dst)
  case 0
  then show ?case by simp
next
  case (Suc n)
  let ?a = "take line (drop (so + r * line) src)"
  let ?b = "take (n * line) (drop (so + Suc r * line) src)"
  have la: "length ?a = line" using Suc.prems(2) by (simp add: algebra_simps)
  have lb: "length ?b = n * line" using Suc.prems(2) by (simp add: algebra_simps)
  have fit: "doff + r * line + length ?a + length ?b \<le> length dst"
    using Suc.prems(1) la lb by (simp add: algebra_simps)
  then have "length (blit dst (doff + r * line) ?a) = length dst" by (intro length_blit) linarith
  then have "copy_rows line line doff line so src r (Suc n) dst =
      blit (blit dst (doff + r * line) ?a) (doff + Suc r * line) ?b"
    using Suc.IH [of "Suc r" "blit dst (doff + r * line) ?a"] Suc.prems by simp
  also have "doff + Suc r * line = doff + r * line + length ?a" using la by simp
  also have "blit (blit dst (doff + r * line) ?a) (doff + r * line + length ?a) ?b =
      blit dst (doff + r * line) (?a @ ?b)"
    by (rule blit_blit_adjacent [OF fit])
  also have "?a @ ?b = take (Suc n * line) (drop (so + r * line) src)"
    by (simp add: take_add add.commute add.left_commute)
  finally show ?case .
qed

lemma transfer_2d_full_image:
  fixes width height :: u32
  defines "line \<equiv> unat width * 4" and "n \<equiv> unat height * (unat width * 4)"
  assumes "width \<noteq> 0" and "height \<noteq> 0" and fits: "line < 2 ^ 32"
    and "[] \<notin> set srcs" and "n \<le> length (concat srcs)" and "length (concat srcs) < 2 ^ 64"
    and "length dst = n"
  shows "transfer_2d width height 0 0 width height (4 * width) 0 dst (4 * width) 0 srcs =
    (Ok (), take n (concat srcs))"
proof -
  have stride: "unat (4 * width) = line"
    using fits by (simp add: line_def unat_word_ariths mult.commute)
  have "(unat height + 1) * line \<le> 2 ^ 32 * (2 ^ 32 - 1)"
    using unat_u32_less [of height] fits by (intro mult_le_mono) linarith+
  then have range: "unat height * line + line < 2 ^ 64" by (simp add: algebra_simps)
  have h: "0 < unat height" using assms(4) by (simp add: unat_gt_0)
  then have last: "(unat height - 1) * line + line = unat height * line"
    by (cases "unat height") (simp_all add: algebra_simps)
  have in_range: "transfer_in_range 0 0 width height (4 * width) 0 dst (4 * width) 0 srcs"
    using range last assms(8,9) stride
    by (simp add: transfer_in_range_def line_def [symmetric] n_def)
  have "transfer_2d width height 0 0 width height (4 * width) 0 dst (4 * width) 0 srcs =
      (Ok (), copy_rows line line 0 line 0 (concat srcs) 0 (unat height) dst)"
    using transfer_2d_copies_rows [of width height 0 width 0 height srcs "4 * width"
        "4 * width" 0 dst 0] assms in_range stride
    by (simp add: line_def)
  also have "copy_rows line line 0 line 0 (concat srcs) 0 (unat height) dst = take n (concat srcs)"
    using copy_rows_packed [of 0 0 "unat height" line dst 0 "concat srcs"] assms(7,9)
    by (simp add: n_def line_def [symmetric] blit_def min_def)
  finally show ?thesis .
qed

text \<open>
  C6. Round trip of an image through the 2D component. A resource is created with
  \<open>create_3d\<close>, given backing iovecs that are not empty and hold at least one image, written in
  full with \<open>transfer_write\<close> and read in full with \<open>transfer_read\<close>: both succeed, and the
  buffer holds exactly the first width * height * 4 bytes of the backing.
\<close>

theorem r2d_write_read_roundtrip:
  assumes "c3d_width rc3d \<noteq> 0" and "c3d_height rc3d \<noteq> 0"
    and "unat (c3d_width rc3d) * 4 < 2 ^ 32"
    and "r2d_create_3d resource_id rc3d w = (Ok r, w1)"
    and "[] \<notin> set (iovec_slices (w_mem w) iovecs)"
    and "unat (c3d_height rc3d) * (unat (c3d_width rc3d) * 4)
      \<le> length (concat (iovec_slices (w_mem w) iovecs))"
    and "length (concat (iovec_slices (w_mem w) iovecs)) < 2 ^ 64"
    and "length buf = unat (c3d_height rc3d) * (unat (c3d_width rc3d) * 4)"
  shows "\<exists>r'. r2d_transfer_write ctx_id (r\<lparr>r_backing_iovecs := Some iovecs\<rparr>)
        (transfer_new_2d 0 0 (c3d_width rc3d) (c3d_height rc3d) 0) None w = ((Ok (), r'), w) \<and>
      r2d_transfer_read ctx_id r'
        ((transfer_new_2d 0 0 (c3d_width rc3d) (c3d_height rc3d) 0)
          \<lparr>t3d_stride := 4 * c3d_width rc3d\<rparr>) (Some buf) w =
      ((Ok (), r', Some (take (unat (c3d_height rc3d) * (unat (c3d_width rc3d) * 4))
         (concat (iovec_slices (w_mem w) iovecs)))), w)"
proof -
  let ?w = "c3d_width rc3d" and ?h = "c3d_height rc3d"
  let ?srcs = "iovec_slices (w_mem w) iovecs"
  define n where "n = unat ?h * (unat ?w * 4)"
  define img where "img = take n (concat ?srcs)"
  have len: "length img = n" using assms(6) by (simp add: img_def n_def)
  have stride: "unat (4 * ?w) = unat ?w * 4"
    using assms(3) by (simp add: unat_word_ariths mult.commute)
  have n64: "n < 2 ^ 64" using u32_product_fits [of ?h "4 * ?w"] stride by (simp add: n_def)
  have n0: "n \<noteq> 0" using assms(1,2) by (simp add: n_def unat_eq_0)
  have size: "(unat (4 * ?w) * unat ?h) mod 2 ^ 64 = n"
    using n64 stride by (simp add: n_def mult.commute)
  have r: "r_info_2d r = Some \<lparr>i2d_width = ?w, i2d_height = ?h,
      i2d_host_mem = Some (replicate n 0), i2d_scanout_stride = None\<rparr>"
    using assms(4) size by (auto simp: r2d_create_3d_def Let_def)
  have wr: "transfer_2d ?w ?h 0 0 ?w ?h (4 * ?w) 0 (replicate n 0) (4 * ?w) 0 ?srcs =
      (Ok (), img)"
    using transfer_2d_full_image [OF assms(1-3,5,6,7), of "replicate n 0"]
    by (simp add: n_def img_def)
  have "img \<noteq> []" using len n0 by auto
  then have rd: "transfer_2d ?w ?h 0 0 ?w ?h (4 * ?w) 0 buf (4 * ?w) 0 [img] = (Ok (), img)"
    using transfer_2d_full_image [OF assms(1-3), of "[img]" buf] len n64 assms(8)
    by (simp add: n_def)
  have "\<not> transfer_is_empty (transfer_new_2d 0 0 ?w ?h 0)"
    using assms(1,2) by (simp add: transfer_is_empty_def transfer_new_2d_def)
  then show ?thesis
    using r wr rd
    by (simp add: r2d_transfer_write_def r2d_transfer_read_def transfer_new_2d_def Let_def
        n_def [symmetric] img_def [symmetric])
qed

lemma r2d_write_read_roundtrip_witness:
  "\<exists>r r'. r2d_create_3d 7 small_3d some_world = (Ok r, some_world) \<and>
    r2d_transfer_write 0 (r\<lparr>r_backing_iovecs :=
        Some [\<lparr>iov_base = 16, iov_len = 3\<rparr>, \<lparr>iov_base = 32, iov_len = 2\<rparr>]\<rparr>)
      (transfer_new_2d 0 0 1 1 0) None some_world = ((Ok (), r'), some_world) \<and>
    r2d_transfer_read 0 r' ((transfer_new_2d 0 0 1 1 0)\<lparr>t3d_stride := 4\<rparr>)
      (Some [0,0,0,0]) some_world =
      ((Ok (), r', Some [16, 17, 18, 32]), some_world)"
proof -
  let ?io = "[\<lparr>iov_base = 16, iov_len = 3\<rparr>, \<lparr>iov_base = 32, iov_len = 2\<rparr>]"
  have up: "[0..<3] = [0, 1, 2 :: nat]" "[0..<2] = [0, Suc 0]" by (simp_all add: upt_rec)
  have mem: "iovec_slices (w_mem some_world) ?io = [[16, 17, 18], [32, 33]]"
    by (simp add: some_world_def iovec_slices_def read_mem_def up)
  obtain r where r: "r2d_create_3d 7 small_3d some_world = (Ok r, some_world)"
    by (auto simp: r2d_create_3d_def Let_def)
  show ?thesis
    using r2d_write_read_roundtrip [of small_3d 7 some_world r some_world ?io "[0,0,0,0]" 0] r mem
    by (auto simp: small_3d_def)
qed

text \<open>
  A guest blob does not survive a snapshot as one: the restored resource has an empty host
  buffer instead of none, so the transfers that were no-ops fail afterwards.
\<close>

lemma r2d_restored_blob_rejects_writes:
  assumes "r2d_create_blob ctx_id resource_id rcb iovecs h w = (Ok r, w1)"
    and "\<not> transfer_is_empty t" and "r_backing_iovecs r' = Some vecs"
    and "r_info_2d r' = r_info_2d (after_restore r)"
  shows "fst (fst (r2d_transfer_write ctx_id r t None w)) = Ok ()"
    and "\<exists>e. fst (fst (r2d_transfer_write ctx_id r' t None w)) = Err e"
proof -
  have info: "r_info_2d r = Some \<lparr>i2d_width = 0, i2d_height = 0, i2d_host_mem = None,
      i2d_scanout_stride = None\<rparr>" and blob: "r_blob_mem r = RUTABAGA_BLOB_MEM_GUEST"
    using assms(1) by (auto simp: r2d_create_blob_def Let_def split: if_splits)
  show "fst (fst (r2d_transfer_write ctx_id r t None w)) = Ok ()"
    using info blob by (simp add: r2d_transfer_write_def)
  have info': "r_info_2d r' = Some \<lparr>i2d_width = 0, i2d_height = 0, i2d_host_mem = Some [],
      i2d_scanout_stride = None\<rparr>"
    using assms(4) info by (simp add: after_restore_def after_restore_2d_def restored_host_mem_size_def)
  have rej: "\<exists>e. transfer_2d 0 0 x y w' h' ds 0 [] ss so srcs = (Err e, [])"
    if "w' \<noteq> 0" "h' \<noteq> 0" for x y w' h' ds ss so srcs
    using that
    by (auto simp: transfer_2d_def checked_add_def checked_range_def unat_eq_0)
  have "t3d_w t \<noteq> 0" "t3d_h t \<noteq> 0" using assms(2) by (auto simp: transfer_is_empty_def)
  with info' assms(2,3) show "\<exists>e. fst (fst (r2d_transfer_write ctx_id r' t None w)) = Err e"
    using rej [of "t3d_w t" "t3d_h t" "t3d_x t" "t3d_y t" 0 0 "t3d_offset t"
        "iovec_slices (w_mem w) vecs"]
    by (auto simp: r2d_transfer_write_def Let_def)
qed

end
