(* ===== verification/Core_Properties.thy ===== *)
theory Core_Properties
  imports Core_Invariants Rutabaga_2D
begin

text \<open>
  The properties of the library handle: its reachable states, the isolation of its tables, the
  life of resource ids, of shareable fences and of handles, and the snapshot and restore of a 2D
  instance.
\<close>

section \<open>A 2D instance\<close>

text \<open>The state the builder makes for the 2D component, used for concrete runs.\<close>

definition new_2d :: "(string \<Rightarrow> u8 list) \<Rightarrow> (u8 list \<Rightarrow> 'j option) \<Rightarrow> 'a world_scheme \<Rightarrow> 'a rutabaga"
where
  "new_2d ser de w =
     \<lparr>g_resources = fmempty, g_shareable_fences = fmempty, g_contexts = fmempty,
      g_components = fmupd Rutabaga2D (rutabaga_2d_component ser de) fmempty,
      g_default_component = Rutabaga2D, g_capset_info = [], g_world = w\<rparr>"

lemma new_2d_inv: "core_inv {} (new_2d ser de w)"
  using r2d.component_contract_axioms
  by (auto simp: new_2d_def core_inv_def keyed_def lawful_def)

lemma default_new_2d [simp]: "default_of (new_2d ser de w) = Ok (rutabaga_2d_component ser de)"
  by (simp add: new_2d_def)

section \<open>Reachable states and isolation\<close>

definition snapshot_of_resource :: "rutabaga_resource \<Rightarrow> rutabaga_resource_snapshot" where
  "snapshot_of_resource r =
     (case resource_to_snapshot r of Inr s \<Rightarrow> s | Inl _ \<Rightarrow> undefined)"

lemma to_snapshot_ok: "resource_to_snapshot r = Ok (snapshot_of_resource r)"
  by (simp add: snapshot_of_resource_def resource_to_snapshot_def)

text \<open>What a snapshot of an instance without contexts writes; with contexts, the resources are the same.\<close>

definition snapshot_of :: "'a rutabaga \<Rightarrow> rutabaga_snapshot" where
  "snapshot_of g = \<lparr>snap_resources = fmmap snapshot_of_resource (g_resources g),
     snap_contexts = fmempty\<rparr>"

lemma snapshot_of_misfiles:
  "misfiled_in (snapshot_of g) =
     {(i, j). \<exists>r. fmlookup (g_resources g) i = Some r \<and> j = r_resource_id r \<and> j \<noteq> i}"
proof -
  have "rs_resource_id (snapshot_of_resource r) = r_resource_id r" for r
    by (simp add: snapshot_of_resource_def resource_to_snapshot_def)
  then show ?thesis by (auto simp: misfiled_in_def snapshot_of_def)
qed

text \<open>
  C7. In every state reached from one whose components honour their contracts, whatever the guest and
  the environment do, also to the files, all components and contexts honour theirs, and each resource
  is stored under its own \<open>resource_id\<close>, except for the entries \<open>K\<close> that stood under another id in a
  snapshot restored on the way; and what a snapshot would write then has no other misfiled entries, so
  restoring one's own snapshots adds none.
\<close>

theorem reachable_tables:
  assumes "rutabaga_reach g0 K g" and "core_inv {} g0"
  shows "lawful g \<and> keyed_but K g \<and> misfiled_in (snapshot_of g) \<subseteq> K \<and> (K = {} \<longrightarrow> keyed g)"
  using reach_keeps_inv [OF assms]
  by (auto simp: core_inv_def snapshot_of_misfiles keyed_but_def keyed_def filed_def)

lemma reachable_tables_witness:
  "keyed (snd (rutabaga_resource_create_3d 7 small_3d
     (new_2d (\<lambda>_. []) (\<lambda>_. Some ()) some_world)))"
  using reachable_tables [OF reach_call [OF reach_start op_create_3d] new_2d_inv] by blast

text \<open>
  C8. Isolation: an operation changes no table entry outside its footprint. A call on one resource
  leaves all other resources and all contexts as they were, creating or destroying a context
  touches only that context id, and no call but restore changes more than one entry. The
  components, the default component and the capset table never change.
\<close>

theorem operations_are_isolated:
  assumes "rutabaga_step g (R, X) g'"
  shows "(\<forall>i. i \<notin> R \<longrightarrow> fmlookup (g_resources g') i = fmlookup (g_resources g) i) \<and>
    (\<forall>x. x \<notin> X \<longrightarrow> fmlookup (g_contexts g') x = fmlookup (g_contexts g) x) \<and>
    g_components g' = g_components g \<and> g_default_component g' = g_default_component g \<and>
    g_capset_info g' = g_capset_info g"
  using step_agrees [OF assms] by (simp add: agree_def)

lemma operations_are_isolated_witness:
  "fmlookup (g_resources (snd (rutabaga_resource_create_3d 7 small_3d
     (new_2d (\<lambda>_. []) (\<lambda>_. Some ()) some_world)))) 8 = None"
  using operations_are_isolated
    [OF step_call [OF op_create_3d [of "new_2d (\<lambda>_. []) (\<lambda>_. Some ()) some_world" 7 small_3d]]]
  by (simp add: new_2d_def)

section \<open>Resource ids\<close>

lemma blob_maker:
  assumes "(case cx of
       Some ctx \<Rightarrow>
         if 0 < cb_blob_id rcb then call (x_context_create_blob ctx i rcb ho) g
         else and_then_st (get_component g CrossDomain, g) (\<lambda>cross_domain.
             call (c_create_blob cross_domain x i rcb io ho))
     | None \<Rightarrow> and_then_st (default_of g, g) (\<lambda>c. call (c_create_blob c x i rcb io ho))) = (Ok r, g1)"
  shows "g_resources g1 = g_resources g"
  using assms by (auto simp: and_then_st_eq_Ok split: option.splits if_splits dest!: call_eqD)

lemma created_blob:
  assumes "rutabaga_resource_create_blob x i rcb io ho g = (Ok (), g')"
  shows "\<not> contains_key (g_resources g) i \<and> (\<exists>r. g_resources g' = fmupd i r (g_resources g))"
  using assms unfolding rutabaga_resource_create_blob_def
  by (auto simp: and_then_st_eq_Ok simp del: get_eq_Ok split: if_split_asm dest!: call_eqD blob_maker)

lemma created_3d:
  assumes "rutabaga_resource_create_3d i p g = (Ok (), g')"
  shows "\<not> contains_key (g_resources g) i \<and> (\<exists>r. g_resources g' = fmupd i r (g_resources g))"
  using assms by (auto simp: rutabaga_resource_create_3d_def
        and_then_st_eq_Ok split: if_splits dest!: call_eqD)

text \<open>
  C9. The life of a resource id. An id in use is refused by both creating calls with
  \<open>InvalidResourceId\<close> and an unchanged state; a successful \<open>resource_create_3d\<close> or
  \<open>resource_create_blob\<close>, in any context, adds exactly that id, which was free, and leaves the other
  entries; \<open>unref_resource\<close> succeeds exactly for the ids in use and frees exactly that id.
\<close>

theorem resource_id_lifecycle:
  assumes "default_of g = Ok c"
  shows "(contains_key (g_resources g) i \<longrightarrow>
      rutabaga_resource_create_3d i p g = (Err InvalidResourceId, g) \<and>
      rutabaga_resource_create_blob x i rcb io ho g = (Err InvalidResourceId, g)) \<and>
    (\<forall>g'. rutabaga_resource_create_3d i p g = (Ok (), g') \<or>
        rutabaga_resource_create_blob x i rcb io ho g = (Ok (), g') \<longrightarrow>
      \<not> contains_key (g_resources g) i \<and>
      (\<exists>r. g_resources g' = fmupd i r (g_resources g))) \<and>
    (is_ok (fst (rutabaga_unref_resource i g)) \<longleftrightarrow> contains_key (g_resources g) i) \<and>
    (\<forall>g'. rutabaga_unref_resource i g = (Ok (), g') \<longrightarrow>
      g_resources g' = fmdrop i (g_resources g))"
proof (intro conjI allI impI)
  assume "contains_key (g_resources g) i"
  then show "rutabaga_resource_create_3d i p g = (Err InvalidResourceId, g)"
    and "rutabaga_resource_create_blob x i rcb io ho g = (Err InvalidResourceId, g)"
    using assms
    by (simp_all add: rutabaga_resource_create_3d_def rutabaga_resource_create_blob_def
        rutabaga_get_defs ok_or_eq_Ok)
next
  fix g' assume "rutabaga_resource_create_3d i p g = (Ok (), g') \<or>
      rutabaga_resource_create_blob x i rcb io ho g = (Ok (), g')"
  then show "\<not> contains_key (g_resources g) i"
    and "\<exists>r. g_resources g' = fmupd i r (g_resources g)"
    using created_3d created_blob by blast+
next
  show "is_ok (fst (rutabaga_unref_resource i g)) = contains_key (g_resources g) i"
    using assms
    by (cases "fmlookup (g_resources g) i")
      (auto simp: rutabaga_unref_resource_def contains_key_def rutabaga_get_defs ok_or_eq_Ok)
next
  fix g' assume "rutabaga_unref_resource i g = (Ok (), g')"
  then show "g_resources g' = fmdrop i (g_resources g)"
    by (auto simp: rutabaga_unref_resource_def and_then_st_eq_Ok)
qed

lemma resource_id_lifecycle_witness:
  "is_ok (fst (rutabaga_unref_resource 7 (new_2d (\<lambda>_. []) (\<lambda>_. Some ()) some_world))) \<longleftrightarrow> False"
  using resource_id_lifecycle [OF default_new_2d [of "\<lambda>_. []" "\<lambda>_. Some ()" some_world], of 7]
  by (simp add: new_2d_def)

section \<open>Shareable fences\<close>

text \<open>The step of \<open>create_fence\<close> that asks the context for a fence handle.\<close>

definition shareable_fence :: "rutabaga_fence \<Rightarrow> bool" where
  "shareable_fence f \<longleftrightarrow>
     has_flag (fence_flags f) RUTABAGA_FLAG_INFO_RING_IDX \<and>
     has_flag (fence_flags f) RUTABAGA_FLAG_FENCE_HOST_SHAREABLE"

text \<open>
  C10. The life of a shareable fence. After \<open>create_fence\<close> for a context that returns a handle,
  \<open>export_fence\<close> gives a duplicate of exactly that handle; \<open>destroy_fences\<close> removes it, and from
  then on a submission that waits for the fence is refused with \<open>InvalidMagmaHandle\<close> before the
  context sees the commands. A context that returns no handle makes \<open>create_fence\<close> panic.
\<close>

theorem shareable_fence_lifecycle:
  assumes "shareable_fence f" and "fmlookup (g_contexts g) (fence_ctx_id f) = Some ctx"
    and "x_context_create_fence ctx f (g_world g) = (Ok h, w)"
  shows "(h = None \<longrightarrow> fst (rutabaga_create_fence f g) = Panicked) \<and>
    (\<forall>hnd. h = Some hnd \<longrightarrow>
      (\<exists>g1 g2. rutabaga_create_fence f g = (Ok (), g1) \<and>
        rutabaga_export_fence (fence_id f) g1 =
          (from_magma (magma_handle_try_clone (w_os w) hnd), g1) \<and>
        rutabaga_destroy_fences [fence_id f] g1 = (Ok (), g2) \<and>
        rutabaga_submit_command (fence_ctx_id f) cmds [fence_id f] g2 =
          ((Err (MagmaGpuError InvalidMagmaHandle), cmds), g2)))"
proof (cases h)
  case None
  then show ?thesis
    using assms
    by (simp add: rutabaga_create_fence_def shareable_fence_def get_context_def call_def)
next
  case (Some hnd)
  define g1 where "g1 = g\<lparr>g_world := w,
    g_shareable_fences := fmupd (fence_id f) hnd (g_shareable_fences g)\<rparr>"
  define g2 where "g2 = g1\<lparr>g_shareable_fences := fmdrop (fence_id f) (g_shareable_fences g1)\<rparr>"
  have "rutabaga_create_fence f g = (Ok (), g1)"
    using assms Some
    by (simp add: rutabaga_create_fence_def shareable_fence_def get_context_def call_def g1_def)
  moreover have "rutabaga_export_fence (fence_id f) g1 =
      (from_magma (magma_handle_try_clone (w_os w) hnd), g1)"
    by (simp add: rutabaga_export_fence_def g1_def)
  moreover have "rutabaga_destroy_fences [fence_id f] g1 = (Ok (), g2)"
    by (simp add: rutabaga_destroy_fences_def remove_fence_def g2_def g1_def)
  moreover have "rutabaga_submit_command (fence_ctx_id f) cmds [fence_id f] g2 =
      ((Err (MagmaGpuError InvalidMagmaHandle), cmds), g2)"
    using assms(2)
    by (simp add: rutabaga_submit_command_def get_context_def g2_def g1_def)
  ultimately show ?thesis using Some by blast
qed

definition fence_context :: "magma_handle option \<Rightarrow> world rutabaga_context" where
  "fence_context h = (context_defaults (\<lambda>c _ _ w. ((Ok (), c), w)) (\<lambda>r w. (r, w)) (\<lambda>_ w. w)
     CrossDomain)\<lparr>x_context_create_fence := (\<lambda>_ w. (Ok h, w))\<rparr>"

lemma shareable_fence_lifecycle_witness:
  "fst (rutabaga_create_fence \<lparr>fence_flags = 6, fence_id = 9, fence_ctx_id = 1, fence_ring_idx = 0\<rparr>
     (put_context 1 (fence_context None) (new_2d (\<lambda>_. []) (\<lambda>_. Some ()) some_world))) = Panicked"
  using shareable_fence_lifecycle
    [of "\<lparr>fence_flags = 6, fence_id = 9, fence_ctx_id = 1, fence_ring_idx = 0\<rparr>"
      "put_context 1 (fence_context None) (new_2d (\<lambda>_. []) (\<lambda>_. Some ()) some_world)"
      "fence_context None" None some_world "[]"]
  by (simp add: shareable_fence_def has_flag_def fence_context_def new_2d_def)

section \<open>Handles of resources\<close>

definition take_handle :: "u32 \<Rightarrow> rutabaga_resource \<Rightarrow> 'a rutabaga \<Rightarrow> 'a rutabaga" where
  "take_handle i r g = put_resource i (r\<lparr>r_handle := None\<rparr>) g"

lemma put_resource_same:
  "fmlookup (g_resources g) i = Some r \<Longrightarrow> put_resource i r g = g"
proof -
  assume "fmlookup (g_resources g) i = Some r"
  then have "fmupd i r (g_resources g) = g_resources g" by (intro fmap_ext) auto
  then show ?thesis by (simp add: put_resource_def)
qed

lemma put_resource_twice [simp]:
  "put_resource i r (put_resource i r' g) = put_resource i r g"
proof -
  have "fmupd i r (fmupd i r' (g_resources g)) = fmupd i r (g_resources g)"
    by (intro fmap_ext) auto
  then show ?thesis by (simp add: put_resource_def)
qed

text \<open>
  C11. Exporting a blob. A shareable resource keeps its handle: the state is unchanged and the
  result is a duplicate of it. An unshareable one gives its handle away, so every later export
  fails. When the duplication fails, or a context still holds the handle, the call fails and
  the handle is lost as well.
\<close>

theorem export_blob_effects:
  assumes "fmlookup (g_resources g) i = Some r" and "r_handle r = Some h"
  shows "rutabaga_export_blob i g =
      (if is_shareable r then
         (case rutabaga_handle_try_clone (w_os (g_world g)) h of
            Inr c \<Rightarrow> (Ok c, g) | Inl e \<Rightarrow> (Inl e, take_handle i r g))
       else if arc_shared g h then (Err (MagmaGpuError InvalidMagmaHandle), take_handle i r g)
       else (Ok h, take_handle i r g)) \<and>
    rutabaga_export_blob i (take_handle i r g) =
      (Err (MagmaGpuError InvalidMagmaHandle), take_handle i r g)"
  using assms
  by (auto simp: rutabaga_export_blob_def get_resource_def Let_def take_handle_def
      arc_shared_def put_resource_same split: sum.split)

definition shm_resource :: "u32 option \<Rightarrow> rutabaga_resource" where
  "shm_resource mi = (blank_resource 7)
     \<lparr>r_handle := Some (MagmaGpuHandle \<lparr>os_handle = 5, handle_type = 4\<rparr>), r_blob := True,
      r_component_mask := component_bit CrossDomain, r_map_info := mi, r_size := 64\<rparr>"

definition shm_core :: "u32 option \<Rightarrow> unit rutabaga" where
  "shm_core mi = put_resource 7 (shm_resource mi) (new_2d (\<lambda>_. []) (\<lambda>_. Some ()) some_world)"

lemma export_blob_effects_witness:
  "rutabaga_export_blob 7 (take_handle 7 (shm_resource None) (shm_core None)) =
    (Err (MagmaGpuError InvalidMagmaHandle), take_handle 7 (shm_resource None) (shm_core None))"
  using export_blob_effects [of "shm_core None" 7 "shm_resource None"]
  by (simp add: shm_core_def shm_resource_def)

lemma do_mmap_size:
  assumes "do_mmap os d off sz mi = Ok m" shows "mm_size m = sz"
proof -
  obtain prot where "(case os_mmap os d off sz prot of Inl e \<Rightarrow> Err (RustixError e)
      | Inr addr \<Rightarrow> Ok \<lparr>mm_addr = addr, mm_size = sz\<rparr>) = Ok m"
    using assms unfolding do_mmap_def Let_def by (elim and_then_OkE) blast
  then show ?thesis by (cases "os_mmap os d off sz prot") auto
qed

text \<open>
  C12. Mapping a cross-domain resource. When it succeeds, the resource keeps its handle and owns a
  mapping of its own size whose address is the one returned; \<open>unmap\<close> then gives the resource back
  without a mapping. When it fails, the handle that was taken is never put back, and every
  later \<open>map\<close> fails with \<open>expected a handle to map\<close>.
\<close>

theorem map_cross_domain_effects:
  assumes "fmlookup (g_resources g) i = Some r" and "r_handle r = Some h"
    and "r_component_mask r = component_bit CrossDomain"
  shows "(\<forall>m. map_shm (w_os (g_world g)) r h = Ok m \<longrightarrow>
      rutabaga_map i g = (Ok (as_mesa_mapping m), put_resource i (r\<lparr>r_mapping := Some m\<rparr>) g) \<and>
      mm_size m = unat (r_size r) \<and>
      rutabaga_unmap i (snd (rutabaga_map i g)) =
        (Ok (), put_resource i (r\<lparr>r_mapping := None\<rparr>) g)) \<and>
    (\<forall>e. map_shm (w_os (g_world g)) r h = Inl e \<longrightarrow>
      rutabaga_map i g = (Inl e, take_handle i r g) \<and>
      rutabaga_map i (take_handle i r g) =
        (Err (MagmaGpuError (WithContext ''expected a handle to map'')), take_handle i r g))"
proof (intro conjI allI impI)
  have comp: "calculate_component (r_component_mask r) = Ok CrossDomain"
    using assms(3) by (simp add: calculate_component_cases)
  have keep: "r\<lparr>r_handle := Some h, r_mapping := z\<rparr> = r\<lparr>r_mapping := z\<rparr>" for z
    using assms(2) by (cases r) simp
  note defs = rutabaga_map_def rutabaga_unmap_def get_resource_def Let_def take_handle_def
  {
    fix m assume m: "map_shm (w_os (g_world g)) r h = Ok m"
    then show map: "rutabaga_map i g =
        (Ok (as_mesa_mapping m), put_resource i (r\<lparr>r_mapping := Some m\<rparr>) g)"
      using assms comp by (simp add: defs keep)
    show "mm_size m = unat (r_size r)"
      using m by (auto simp: map_shm_def rust_simps from_safe_descriptor_def
          split: option.splits if_splits dest: do_mmap_size)
    show "rutabaga_unmap i (snd (rutabaga_map i g)) =
        (Ok (), put_resource i (r\<lparr>r_mapping := None\<rparr>) g)"
      using map comp by (simp add: defs)
  next
    fix e assume "map_shm (w_os (g_world g)) r h = Inl e"
    then show "rutabaga_map i g = (Inl e, take_handle i r g)"
      using assms comp by (simp add: defs)
    show "rutabaga_map i (take_handle i r g) =
        (Err (MagmaGpuError (WithContext ''expected a handle to map'')), take_handle i r g)"
      using comp by (simp add: defs)
  }
qed

lemma map_cross_domain_effects_witness:
  "rutabaga_map 7 (shm_core None) =
     (Err (MagmaGpuError (WithContext ''no map info available'')),
      take_handle 7 (shm_resource None) (shm_core None)) \<and>
   fst (rutabaga_map 7 (shm_core (Some 0x30))) = Ok \<lparr>mesa_ptr = 4096, mesa_size = 64\<rparr>"
  using map_cross_domain_effects
    [of "shm_core None" 7 "shm_resource None" "MagmaGpuHandle \<lparr>os_handle = 5, handle_type = 4\<rparr>"]
    map_cross_domain_effects
    [of "shm_core (Some 0x30)" 7 "shm_resource (Some 0x30)"
      "MagmaGpuHandle \<lparr>os_handle = 5, handle_type = 4\<rparr>"]
  by (simp add: shm_core_def shm_resource_def map_shm_def new_2d_def some_world_def
      magma_handle_try_clone_def descriptor_try_clone_def from_safe_descriptor_def do_mmap_def
      as_mesa_mapping_def Let_def)

section \<open>Snapshot and restore\<close>

lemma unref_present:
  assumes "default_of g = Ok c" and "i \<in> fmdom' (g_resources g)"
  shows "rutabaga_unref_resource i g =
    (Ok (), g\<lparr>g_resources := fmdrop i (g_resources g),
             g_world := c_unref_resource c i (g_world g)\<rparr>)"
  using assms
  by (auto simp: rutabaga_unref_resource_def rutabaga_get_defs ok_or_eq_Ok fmlookup_dom'_iff
      run_def)

lemma unref_all:
  assumes "default_of g = Ok c" and "distinct ks" and "set ks \<subseteq> fmdom' (g_resources g)"
  shows "try_for_each rutabaga_unref_resource ks g =
    (Ok (), g\<lparr>g_resources := fmdrop_set (set ks) (g_resources g),
             g_world := foldl (\<lambda>w i. c_unref_resource c i w) (g_world g) ks\<rparr>)"
  using assms
proof (induction ks arbitrary: g)
  case Nil
  then show ?case by simp
next
  case (Cons k ks)
  let ?g1 = "g\<lparr>g_resources := fmdrop k (g_resources g),
             g_world := c_unref_resource c k (g_world g)\<rparr>"
  have g1: "rutabaga_unref_resource k g = (Ok (), ?g1)"
    using unref_present [OF Cons.prems(1), of k] Cons.prems(3) by simp
  have "default_of ?g1 = Ok c" using Cons.prems(1) by (simp add: rutabaga_get_defs)
  then have "try_for_each rutabaga_unref_resource ks ?g1 =
    (Ok (), ?g1\<lparr>g_resources := fmdrop_set (set ks) (g_resources ?g1),
             g_world := foldl (\<lambda>w i. c_unref_resource c i w) (g_world ?g1) ks\<rparr>)"
    using Cons.prems by (intro Cons.IH) auto
  moreover have "fmdrop_set (set ks) (fmdrop k (g_resources g)) =
      fmdrop_set (set (k # ks)) (g_resources g)"
    by (intro fmap_ext) auto
  ultimately show ?case using g1 by simp
qed

lemma destroy_objects_ok:
  assumes "default_of g = Ok c"
  shows "destroy_objects g =
    (Ok (), g\<lparr>g_resources := fmempty, g_contexts := fmempty,
      g_world := drop_contexts (entries_of (g_contexts g))
        (foldl (\<lambda>w i. c_unref_resource c i w) (g_world g) (keys_of (g_resources g)))\<rparr>)"
proof -
  have "fmdrop_set (fmdom' (g_resources g)) (g_resources g) = fmempty"
    by (intro fmap_ext) (auto simp: fmlookup_dom'_iff)
  then show ?thesis
    using unref_all [OF assms, of "keys_of (g_resources g)"]
    by (simp add: destroy_objects_def contexts_clear_def run_def)
qed

lemma from_snapshot_ok: "resource_from_snapshot (snapshot_of_resource r) = Ok (after_restore r)"
  using resource_snapshot_roundtrip [of r] by (simp add: to_snapshot_ok)

text \<open>An instance whose only active component is the 2D one.\<close>

definition is_2d ::
  "(string \<Rightarrow> u8 list) \<Rightarrow> (u8 list \<Rightarrow> 'j option) \<Rightarrow> 'a rutabaga \<Rightarrow> bool" where
  "is_2d ser de g \<longleftrightarrow> g_default_component g = Rutabaga2D \<and> g_contexts g = fmempty \<and>
     fmlookup (g_components g) Rutabaga2D = Some (rutabaga_2d_component ser de)"

lemma is_2d_default: "is_2d ser de g \<Longrightarrow> default_of g = Ok (rutabaga_2d_component ser de)"
  by (simp add: is_2d_def)

lemma c_2d_simps:
  "c_snapshot (rutabaga_2d_component ser de) = r2d_snapshot ser"
  "c_restore (rutabaga_2d_component ser de) = r2d_restore de"
  "c_unref_resource (rutabaga_2d_component ser de) = (\<lambda>_ w. w)"
  by (simp_all add: rutabaga_2d_component_def component_defaults_def)

lemma snapshot_2d_writes:
  fixes g :: "'a rutabaga"
  assumes "is_2d ser2 de2 g" and "w_fs (g_world g) dir = Some Dir"
    and "\<And>p. w_fs (g_world g) (dir @ [''rutabaga_2d''] @ p) = None"
    and "w_fs (g_world g) (dir @ [''rutabaga_snapshot'']) = None"
  defines "ns \<equiv> path_join dir ''rutabaga_2d''"
  shows "rutabaga_snapshot ser dir g = (Ok (), g\<lparr>g_world := (g_world g)\<lparr>w_fs :=
    (w_fs (g_world g))
      (ns \<mapsto> Dir, path_join ns ''rutabaga2d_snapshot'' \<mapsto> File (ser2 ''rutabaga2d''),
       path_join dir ''rutabaga_snapshot'' \<mapsto> File (ser (snapshot_of g)))\<rparr>\<rparr>)"
proof -
  let ?fs = "w_fs (g_world g)"
  let ?fs1 = "?fs(ns \<mapsto> Dir)"
  let ?fs2 = "?fs1(path_join ns ''rutabaga2d_snapshot'' \<mapsto> File (ser2 ''rutabaga2d''))"
  let ?fs3 = "?fs2(path_join dir ''rutabaga_snapshot'' \<mapsto> File (ser (snapshot_of g)))"
  have none: "?fs ns = None" "?fs (path_join ns ''rutabaga2d_snapshot'') = None"
    using assms(3) [of "[]"] assms(3) [of "[''rutabaga2d_snapshot'']"]
    by (simp_all add: ns_def path_join_def)
  have w1: "add_namespace (SnapshotWriter dir) ''rutabaga_2d'' ?fs =
      (Ok (SnapshotWriter ns), ?fs1)"
    using add_namespace_ok [of ?fs "SnapshotWriter dir" "''rutabaga_2d''"] assms(2) none(1)
    by (simp add: ns_def)
  have w2: "add_fragment ser2 (SnapshotWriter ns) ''rutabaga2d_snapshot'' ''rutabaga2d'' ?fs1 =
      (Ok (), ?fs2)"
    using add_fragment_ok [of ?fs1 "SnapshotWriter ns" "''rutabaga2d_snapshot''" ser2] none(2)
    by simp
  have ne: "path_join ns ''rutabaga2d_snapshot'' \<noteq> dir"
    "path_join ns ''rutabaga2d_snapshot'' \<noteq> path_join dir ''rutabaga_snapshot''"
    "ns \<noteq> dir" "ns \<noteq> path_join dir ''rutabaga_snapshot''"
    by (simp_all add: ns_def path_join_def)
  have w3: "add_fragment ser (SnapshotWriter dir) ''rutabaga_snapshot'' (snapshot_of g) ?fs2 =
      (Ok (), ?fs3)"
    using add_fragment_ok [of ?fs2 "SnapshotWriter dir" "''rutabaga_snapshot''" ser] ne assms(2,4)
    by (simp add: path_join_def)
  have rs: "try_collect resource_to_snapshot (entries_of (g_resources g)) =
      (Ok (fmmap snapshot_of_resource (g_resources g)) :: _ rres)"
    by (rule try_collect_entries) (rule to_snapshot_ok)
  show ?thesis
    using is_2d_default [OF assms(1)] assms(1) w1 w2 w3
    by (simp add: rutabaga_snapshot_def is_2d_def Let_def call_def with_fs_def c_2d_simps
        r2d_snapshot_def rs snapshot_of_def rutabaga_get_defs)
qed

lemma restore_2d_reads:
  fixes g0 :: "'a rutabaga"
  assumes "is_2d ser2 de2 g0" and "w_fs (g_world g0) dir \<noteq> None"
    and "w_fs (g_world g0) (path_join dir ''rutabaga_2d'') \<noteq> None"
    and "w_fs (g_world g0) (path_join (path_join dir ''rutabaga_2d'') ''rutabaga2d_snapshot'') =
      Some (File bytes2)" and "de2 bytes2 \<noteq> None"
    and "w_fs (g_world g0) (path_join dir ''rutabaga_snapshot'') = Some (File bytes)"
    and "de bytes = Some (snapshot_of g)"
  shows "rutabaga_restore de dir g0 =
    (Ok (), g0\<lparr>g_resources := fmmap after_restore (g_resources g), g_contexts := fmempty\<rparr>)"
proof -
  have destroy: "destroy_objects g0 = (Ok (), g0\<lparr>g_resources := fmempty, g_contexts := fmempty\<rparr>)"
  proof -
    have "foldl (\<lambda>w i. w) (g_world g0) ks = g_world g0" for ks :: "u32 list"
      by (induction ks) simp_all
    then show ?thesis
      using destroy_objects_ok [OF is_2d_default [OF assms(1)]] assms(1)
      by (simp add: c_2d_simps is_2d_def drop_contexts_def)
  qed
  have rs: "try_collect resource_from_snapshot
      (entries_of (fmmap snapshot_of_resource (g_resources g))) =
      (Ok (fmmap after_restore (g_resources g)) :: _ rres)"
  proof -
    obtain f where f: "\<And>s. resource_from_snapshot s = Ok (f s)"
      using resource_from_snapshot_total by blast
    have "fmmap f (fmmap snapshot_of_resource (g_resources g)) =
        fmmap after_restore (g_resources g)"
      using f from_snapshot_ok by (intro fmap_ext) (auto simp: option.map_comp comp_def)
    with try_collect_entries [of "fmmap snapshot_of_resource (g_resources g)"
        resource_from_snapshot f] f show ?thesis by simp
  qed
  obtain j where j: "de2 bytes2 = Some j" using assms(5) by blast
  have rd: "r2d_restore de2 (SnapshotReader (path_join dir ''rutabaga_2d'')) w = (Ok (), w)"
    if "w_fs w = w_fs (g_world g0)" for w :: "'a world_scheme"
    using assms(4) j that by (simp add: r2d_restore_def get_fragment_def)
  show ?thesis
    using is_2d_default [OF assms(1)] assms(1-3,6,7)
    by (auto simp: rutabaga_restore_def destroy reader_from_existing_def get_namespace_def
        is_2d_def rutabaga_get_defs call_def c_2d_simps rd get_fragment_def snapshot_of_def rs)
qed



end
