(* ===== verification/Builder.thy ===== *)
theory Builder
  imports Core_Invariants Rutabaga_2D
begin

text \<open>
  \<open>RutabagaBuilder\<close> of \<open>src/rutabaga_core.rs\<close>: its setters and \<open>build\<close>, which chooses the default
  component from the capset mask, initializes the components and collects the capsets.

  The record \<open>build_env\<close> says what the crate was compiled with: the initializers of virglrenderer
  and gfxstream (\<open>None\<close> when the feature is off), and those of Magma, cross-domain and 2D.
\<close>

section \<open>The builder\<close>

definition RUTABAGA_DEFAULT_WIDTH :: u32 where "RUTABAGA_DEFAULT_WIDTH = 1280"
definition RUTABAGA_DEFAULT_HEIGHT :: u32 where "RUTABAGA_DEFAULT_HEIGHT = 1024"

text \<open>The debug handler is an opaque callback, named by a number.\<close>

record rutabaga_builder =
  b_display_width :: u32
  b_display_height :: u32
  b_default_component :: rutabaga_component_type
  b_gfxstream_flags :: gfxstream_flags
  b_virglrenderer_flags :: virgl_renderer_flags
  b_capset_mask :: u64
  b_paths :: "rutabaga_path list option"
  b_debug_handler :: "nat option"
  b_renderer_features :: "string option"
  b_server_descriptor :: "descriptor option"
  b_virtiofs_lookup :: "virtiofs_lookup option"

definition builder_new :: "u64 \<Rightarrow> rutabaga_builder" where
  "builder_new capset_mask =
     \<lparr>b_display_width = RUTABAGA_DEFAULT_WIDTH,
      b_display_height = RUTABAGA_DEFAULT_HEIGHT,
      b_default_component = NoneSelected,
      b_gfxstream_flags = gfxstream_new,
      b_virglrenderer_flags = virgl_use_async_fence_cb (virgl_use_thread_sync virgl_new True) True,
      b_capset_mask = capset_mask,
      b_paths = None,
      b_debug_handler = None,
      b_renderer_features = None,
      b_server_descriptor = None,
      b_virtiofs_lookup = None\<rparr>"

definition set_display_width :: "u32 \<Rightarrow> rutabaga_builder \<Rightarrow> rutabaga_builder" where
  "set_display_width v b = b\<lparr>b_display_width := v\<rparr>"

definition set_display_height :: "u32 \<Rightarrow> rutabaga_builder \<Rightarrow> rutabaga_builder" where
  "set_display_height v b = b\<lparr>b_display_height := v\<rparr>"

definition set_default_component ::
  "rutabaga_component_type \<Rightarrow> rutabaga_builder \<Rightarrow> rutabaga_builder" where
  "set_default_component v b = b\<lparr>b_default_component := v\<rparr>"

definition set_use_egl :: "bool \<Rightarrow> rutabaga_builder \<Rightarrow> rutabaga_builder" where
  "set_use_egl v b = b\<lparr>b_gfxstream_flags := gfxstream_use_egl (b_gfxstream_flags b) v,
     b_virglrenderer_flags := virgl_use_egl (b_virglrenderer_flags b) v\<rparr>"

definition set_use_gles :: "bool \<Rightarrow> rutabaga_builder \<Rightarrow> rutabaga_builder" where
  "set_use_gles v b = b\<lparr>b_gfxstream_flags := gfxstream_use_gles (b_gfxstream_flags b) v,
     b_virglrenderer_flags := virgl_use_gles (b_virglrenderer_flags b) v\<rparr>"

definition set_use_surfaceless :: "bool \<Rightarrow> rutabaga_builder \<Rightarrow> rutabaga_builder" where
  "set_use_surfaceless v b =
     b\<lparr>b_gfxstream_flags := gfxstream_use_surfaceless (b_gfxstream_flags b) v,
       b_virglrenderer_flags := virgl_use_surfaceless (b_virglrenderer_flags b) v\<rparr>"

definition set_use_vulkan :: "bool \<Rightarrow> rutabaga_builder \<Rightarrow> rutabaga_builder" where
  "set_use_vulkan v b = b\<lparr>b_gfxstream_flags := gfxstream_use_vulkan (b_gfxstream_flags b) v,
     b_virglrenderer_flags := virgl_use_venus (b_virglrenderer_flags b) v\<rparr>"

definition set_use_external_blob :: "bool \<Rightarrow> rutabaga_builder \<Rightarrow> rutabaga_builder" where
  "set_use_external_blob v b =
     b\<lparr>b_gfxstream_flags := gfxstream_use_external_blob (b_gfxstream_flags b) v,
       b_virglrenderer_flags := virgl_use_external_blob (b_virglrenderer_flags b) v\<rparr>"

definition set_use_system_blob :: "bool \<Rightarrow> rutabaga_builder \<Rightarrow> rutabaga_builder" where
  "set_use_system_blob v b =
     b\<lparr>b_gfxstream_flags := gfxstream_use_system_blob (b_gfxstream_flags b) v\<rparr>"

definition set_use_render_server :: "bool \<Rightarrow> rutabaga_builder \<Rightarrow> rutabaga_builder" where
  "set_use_render_server v b =
     b\<lparr>b_virglrenderer_flags := virgl_use_render_server (b_virglrenderer_flags b) v\<rparr>"

definition set_wsi :: "rutabaga_wsi \<Rightarrow> rutabaga_builder \<Rightarrow> rutabaga_builder" where
  "set_wsi v b = b\<lparr>b_gfxstream_flags := gfxstream_set_wsi (b_gfxstream_flags b) v\<rparr>"

definition set_rutabaga_paths ::
  "rutabaga_path list option \<Rightarrow> rutabaga_builder \<Rightarrow> rutabaga_builder" where
  "set_rutabaga_paths v b = b\<lparr>b_paths := v\<rparr>"

definition set_debug_handler :: "nat option \<Rightarrow> rutabaga_builder \<Rightarrow> rutabaga_builder" where
  "set_debug_handler v b = b\<lparr>b_debug_handler := v\<rparr>"

definition set_renderer_features :: "string option \<Rightarrow> rutabaga_builder \<Rightarrow> rutabaga_builder" where
  "set_renderer_features v b = b\<lparr>b_renderer_features := v\<rparr>"

definition set_server_descriptor ::
  "descriptor option \<Rightarrow> rutabaga_builder \<Rightarrow> rutabaga_builder" where
  "set_server_descriptor v b = b\<lparr>b_server_descriptor := v\<rparr>"

definition set_virtiofs_lookup :: "virtiofs_lookup \<Rightarrow> rutabaga_builder \<Rightarrow> rutabaga_builder" where
  "set_virtiofs_lookup v b = b\<lparr>b_virtiofs_lookup := Some v\<rparr>"

section \<open>The build environment\<close>

type_synonym 'a init =
  "'a world_scheme \<Rightarrow> 'a world_scheme rutabaga_component rres \<times> 'a world_scheme"

record 'a build_env =
  be_virgl_init ::
    "(virgl_renderer_flags \<Rightarrow> descriptor option \<Rightarrow> rutabaga_path list option \<Rightarrow> 'a init) option"
  be_gfxstream_init ::
    "(u32 \<Rightarrow> u32 \<Rightarrow> gfxstream_flags \<Rightarrow> string option \<Rightarrow> nat option \<Rightarrow> 'a init) option"
  be_magma_init :: "'a init"
  be_cross_domain_init :: "rutabaga_path list option \<Rightarrow> virtiofs_lookup option \<Rightarrow> 'a init"
  be_rutabaga_2d_init :: "'a init"

section \<open>Building\<close>

definition capset_enabled :: "u64 \<Rightarrow> u32 \<Rightarrow> bool" where
  "capset_enabled capset_mask cid \<longleftrightarrow> capset_mask AND capset_bit cid \<noteq> 0"

definition push_capset ::
  "u64 \<Rightarrow> rutabaga_capset_info list \<Rightarrow> u32 \<Rightarrow> rutabaga_capset_info list" where
  "push_capset capset_mask capsets cid =
     (case find (\<lambda>c. cid = capset_id c) RUTABAGA_CAPSETS of
        None \<Rightarrow> capsets
      | Some c \<Rightarrow>
          if capset_mask \<noteq> 0 then
            (if capset_enabled capset_mask (capset_id c) then capsets @ [c] else capsets)
          else capsets @ [c])"

text \<open>The part of \<open>build\<close> that derives the default component and the renderer flags from the
  mask.\<close>

definition apply_capset_mask :: "rutabaga_builder \<Rightarrow> rutabaga_builder" where
  "apply_capset_mask b =
     (let cmask = b_capset_mask b; on = capset_enabled cmask in
      if cmask \<noteq> 0 then
        let supports_gfxstream = on RUTABAGA_CAPSET_GFXSTREAM_VULKAN
              \<or> on RUTABAGA_CAPSET_GFXSTREAM_GLES \<or> on RUTABAGA_CAPSET_GFXSTREAM_COMPOSER;
            supports_virglrenderer = on RUTABAGA_CAPSET_VIRGL2 \<or> on RUTABAGA_CAPSET_VENUS
              \<or> on RUTABAGA_CAPSET_DRM
        in b\<lparr>b_default_component :=
               (if supports_gfxstream then Gfxstream
                else if supports_virglrenderer then VirglRenderer
                else CrossDomain),
             b_virglrenderer_flags :=
               virgl_use_drm
                 (virgl_use_venus
                   (virgl_use_virgl (b_virglrenderer_flags b) (on RUTABAGA_CAPSET_VIRGL2))
                   (on RUTABAGA_CAPSET_VENUS))
                 (on RUTABAGA_CAPSET_DRM),
             b_gfxstream_flags :=
               gfxstream_use_vulkan
                 (gfxstream_use_gles (b_gfxstream_flags b) (on RUTABAGA_CAPSET_GFXSTREAM_GLES))
                 (on RUTABAGA_CAPSET_GFXSTREAM_VULKAN)\<rparr>
      else b)"

text \<open>What \<open>build\<close> has collected while it initializes the components.\<close>

record 'a build_state =
  bs_components :: "(rutabaga_component_type, 'a world_scheme rutabaga_component) fmap"
  bs_capsets :: "rutabaga_capset_info list"
  bs_default :: rutabaga_component_type
  bs_world :: "'a world_scheme"

definition bs_call :: "'a init \<Rightarrow> 'a build_state \<Rightarrow> 'a world_scheme rutabaga_component rres \<times> 'a build_state"
where
  "bs_call f s = (case f (bs_world s) of (r, w) \<Rightarrow> (r, s\<lparr>bs_world := w\<rparr>))"

definition bs_install ::
  "u64 \<Rightarrow> rutabaga_component_type \<Rightarrow> u32 list \<Rightarrow> 'a world_scheme rutabaga_component \<Rightarrow>
   'a build_state \<Rightarrow> 'a build_state" where
  "bs_install cmask t cids c s =
     s\<lparr>bs_components := fmupd t c (bs_components s),
       bs_capsets := foldl (push_capset cmask) (bs_capsets s) cids\<rparr>"

definition build_virgl ::
  "'a build_env \<Rightarrow> rutabaga_builder \<Rightarrow> 'a build_state \<Rightarrow> unit rres \<times> 'a build_state" where
  "build_virgl env b s =
     (case be_virgl_init env of
        None \<Rightarrow> (Ok (), s)
      | Some init \<Rightarrow>
          if bs_default s = VirglRenderer then
            (case bs_call (init (b_virglrenderer_flags b) (b_server_descriptor b) (b_paths b)) s of
               (Inr virgl, s) \<Rightarrow>
                 (Ok (), bs_install (b_capset_mask b) VirglRenderer
                    [RUTABAGA_CAPSET_VIRGL, RUTABAGA_CAPSET_VIRGL2, RUTABAGA_CAPSET_VENUS,
                     RUTABAGA_CAPSET_DRM] virgl s)
             | (Inl (Fail _), s) \<Rightarrow> (Ok (), s\<lparr>bs_default := Rutabaga2D\<rparr>)
             | (Inl fault, s) \<Rightarrow> (Inl fault, s))
          else (Ok (), s))"

definition build_gfxstream ::
  "'a build_env \<Rightarrow> rutabaga_builder \<Rightarrow> 'a build_state \<Rightarrow> unit rres \<times> 'a build_state" where
  "build_gfxstream env b s =
     (case be_gfxstream_init env of
        None \<Rightarrow> (Ok (), s)
      | Some init \<Rightarrow>
          if bs_default s = Gfxstream then
            and_then_st
              (bs_call (init (b_display_width b) (b_display_height b) (b_gfxstream_flags b)
                 (b_renderer_features b) (b_debug_handler b)) s) (\<lambda>gfxstream s.
              (Ok (), bs_install (b_capset_mask b) Gfxstream
                 [RUTABAGA_CAPSET_GFXSTREAM_VULKAN, RUTABAGA_CAPSET_GFXSTREAM_GLES,
                  RUTABAGA_CAPSET_GFXSTREAM_COMPOSER] gfxstream s))
          else (Ok (), s))"

definition build_magma ::
  "'a build_env \<Rightarrow> rutabaga_builder \<Rightarrow> 'a build_state \<Rightarrow> unit rres \<times> 'a build_state" where
  "build_magma env b s =
     (if capset_enabled (b_capset_mask b) RUTABAGA_CAPSET_MAGMA then
        and_then_st (bs_call (be_magma_init env) s) (\<lambda>magma s.
          (Ok (), bs_install (b_capset_mask b) Magma [] magma s))
      else (Ok (), s))"

definition build_cross_domain ::
  "'a build_env \<Rightarrow> rutabaga_builder \<Rightarrow> 'a build_state \<Rightarrow> unit rres \<times> 'a build_state" where
  "build_cross_domain env b s =
     and_then_st (bs_call (be_cross_domain_init env (b_paths b) (b_virtiofs_lookup b)) s)
       (\<lambda>cross_domain s.
         (Ok (), bs_install (b_capset_mask b) CrossDomain [RUTABAGA_CAPSET_CROSS_DOMAIN]
            cross_domain s))"

definition build_2d :: "'a build_env \<Rightarrow> 'a build_state \<Rightarrow> unit rres \<times> 'a build_state" where
  "build_2d env s =
     (if bs_default s = Rutabaga2D then
        and_then_st (bs_call (be_rutabaga_2d_init env) s) (\<lambda>rutabaga_2d s.
          (Ok (), bs_install 0 Rutabaga2D [] rutabaga_2d s))
      else (Ok (), s))"

definition rutabaga_build ::
  "'a build_env \<Rightarrow> rutabaga_builder \<Rightarrow> 'a world_scheme \<Rightarrow> 'a rutabaga rres \<times> 'a world_scheme"
where
  "rutabaga_build env b w =
     (let b = apply_capset_mask b in
      if be_virgl_init env = None \<and> b_default_component b = VirglRenderer
      then (Err InvalidRutabagaBuild, w)
      else if be_gfxstream_init env = None \<and> b_default_component b = Gfxstream
      then (Err InvalidRutabagaBuild, w)
      else
        let s = \<lparr>bs_components = fmempty, bs_capsets = [],
                 bs_default = b_default_component b, bs_world = w\<rparr>
        in
        case and_then_st
               (if b_default_component b \<noteq> Rutabaga2D then
                  and_then_st (build_virgl env b s) (\<lambda>_ s.
                  and_then_st (build_gfxstream env b s) (\<lambda>_ s.
                  and_then_st (build_magma env b s) (\<lambda>_ s.
                  build_cross_domain env b s)))
                else (Ok (), s))
               (\<lambda>_. build_2d env) of
          (Inl e, s) \<Rightarrow> (Inl e, bs_world s)
        | (Inr _, s) \<Rightarrow>
            (Ok \<lparr>g_resources = fmempty, g_shareable_fences = fmempty, g_contexts = fmempty,
                 g_components = bs_components s, g_default_component = bs_default s,
                 g_capset_info = bs_capsets s, g_world = bs_world s\<rparr>, bs_world s))"


section \<open>What each stage of the build leaves\<close>

text \<open>The capsets a component brings, in the order it pushes them.\<close>

definition component_capsets :: "rutabaga_component_type \<Rightarrow> rutabaga_capset_info list" where
  "component_capsets t = filter (\<lambda>c. capset_component c = t) RUTABAGA_CAPSETS"

definition capset_wanted :: "u64 \<Rightarrow> rutabaga_capset_info \<Rightarrow> bool" where
  "capset_wanted cmask c \<longleftrightarrow> cmask = 0 \<or> capset_enabled cmask (capset_id c)"

lemma push_capset_known:
  "c \<in> set RUTABAGA_CAPSETS \<Longrightarrow>
   push_capset cmask cs (capset_id c) = cs @ filter (capset_wanted cmask) [c]"
  using find_by_key [OF capsets_distinct(2), of c]
  by (simp add: push_capset_def capset_wanted_def eq_commute [of "capset_id c"])

lemma push_capsets:
  "set xs \<subseteq> set RUTABAGA_CAPSETS \<Longrightarrow>
   foldl (push_capset cmask) cs (map capset_id xs) = cs @ filter (capset_wanted cmask) xs"
proof (induction xs arbitrary: cs)
  case Nil
  then show ?case by simp
next
  case (Cons c xs)
  then show ?case using push_capset_known [of c cmask cs] by simp
qed

lemma component_capsets_subset: "set (component_capsets t) \<subseteq> set RUTABAGA_CAPSETS"
  by (auto simp: component_capsets_def)

lemma pushed_ids:
  "[RUTABAGA_CAPSET_VIRGL, RUTABAGA_CAPSET_VIRGL2, RUTABAGA_CAPSET_VENUS, RUTABAGA_CAPSET_DRM] =
     map capset_id (component_capsets VirglRenderer)"
  "[RUTABAGA_CAPSET_GFXSTREAM_VULKAN, RUTABAGA_CAPSET_GFXSTREAM_GLES,
    RUTABAGA_CAPSET_GFXSTREAM_COMPOSER] = map capset_id (component_capsets Gfxstream)"
  "[RUTABAGA_CAPSET_CROSS_DOMAIN] = map capset_id (component_capsets CrossDomain)"
  by (simp_all add: component_capsets_def RUTABAGA_CAPSETS_def)

lemma bs_install_pushes:
  "bs_install cmask t (map capset_id (component_capsets t')) c s =
     s\<lparr>bs_components := fmupd t c (bs_components s),
       bs_capsets := bs_capsets s @ filter (capset_wanted cmask) (component_capsets t')\<rparr>"
  "bs_install cmask t [] c s = s\<lparr>bs_components := fmupd t c (bs_components s)\<rparr>"
  by (simp_all add: bs_install_def push_capsets component_capsets_subset)

lemma bs_call_cases:
  obtains w where "bs_call f s = (fst (f (bs_world s)), s\<lparr>bs_world := w\<rparr>)"
  by (cases "f (bs_world s)") (simp add: bs_call_def)

text \<open>What is known of the components and capsets collected so far: \<open>ts\<close> are the installed types,
  and every component comes from its initializer.\<close>

definition init_lawful :: "'a init \<Rightarrow> bool" where
  "init_lawful init \<longleftrightarrow> (\<forall>w c. fst (init w) = Ok c \<longrightarrow> component_contract c)"

definition inits_lawful :: "'a build_env \<Rightarrow> bool" where
  "inits_lawful env \<longleftrightarrow>
     pred_option (\<lambda>init. \<forall>f d p. init_lawful (init f d p)) (be_virgl_init env) \<and>
     pred_option (\<lambda>init. \<forall>x y f r h. init_lawful (init x y f r h)) (be_gfxstream_init env) \<and>
     init_lawful (be_magma_init env) \<and>
     (\<forall>p l. init_lawful (be_cross_domain_init env p l)) \<and>
     init_lawful (be_rutabaga_2d_init env)"

lemma inits_lawfulD:
  assumes "inits_lawful env"
  shows "be_virgl_init env = Some vi \<Longrightarrow> init_lawful (vi vf d p)"
    and "be_gfxstream_init env = Some gi \<Longrightarrow> init_lawful (gi x y gf r h)"
    and "init_lawful (be_magma_init env)"
    and "init_lawful (be_cross_domain_init env p l)"
    and "init_lawful (be_rutabaga_2d_init env)"
  using assms by (simp_all add: inits_lawful_def)

lemma init_lawfulD: "init_lawful init \<Longrightarrow> fst (init w) = Ok c \<Longrightarrow> component_contract c"
  by (auto simp: init_lawful_def)

definition bs_ok :: "'a build_env \<Rightarrow> u64 \<Rightarrow> rutabaga_component_type list \<Rightarrow> 'a build_state \<Rightarrow> bool"
where
  "bs_ok env cmask ts s \<longleftrightarrow>
     fmdom' (bs_components s) = set ts \<and>
     bs_capsets s = filter (capset_wanted cmask)
       (concat (map component_capsets (filter (\<lambda>t. t \<notin> {Magma, Rutabaga2D}) ts))) \<and>
     (inits_lawful env \<longrightarrow> fmpred (\<lambda>t c. component_contract c) (bs_components s))"

lemma bs_ok_world: "bs_ok env m ts (s\<lparr>bs_world := w\<rparr>) = bs_ok env m ts s"
  by (simp add: bs_ok_def)

lemma bs_ok_default: "bs_ok env m ts (s\<lparr>bs_default := t\<rparr>) = bs_ok env m ts s"
  by (simp add: bs_ok_def)

lemma bs_ok_install:
  assumes "bs_ok env m ts s" and "inits_lawful env \<Longrightarrow> component_contract c"
    and "t \<notin> {Magma, Rutabaga2D}"
  shows "bs_ok env m (ts @ [t]) (bs_install m t (map capset_id (component_capsets t)) c s)"
  using assms by (auto simp: bs_ok_def bs_install_pushes intro!: fmpred_upd)

lemmas bs_ok_install_all =
  bs_ok_install [where t = VirglRenderer, folded pushed_ids]
  bs_ok_install [where t = Gfxstream, folded pushed_ids]
  bs_ok_install [where t = CrossDomain, folded pushed_ids]

lemma bs_fields_install [simp]:
  "bs_default (bs_install m t ids c s) = bs_default s"
  "bs_world (bs_install m t ids c s) = bs_world s"
  by (simp_all add: bs_install_def)

lemma bs_ok_install_silent:
  assumes "bs_ok env m ts s" and "inits_lawful env \<Longrightarrow> component_contract c"
    and "t \<in> {Magma, Rutabaga2D}"
  shows "bs_ok env m (ts @ [t]) (bs_install m' t [] c s)"
  using assms by (auto simp: bs_ok_def bs_install_pushes intro!: fmpred_upd)

text \<open>Each stage extends the list of installed types; the final lists are those of \<open>installed\<close>.\<close>

lemma build_virgl_ok:
  assumes "build_virgl env b s = (Ok u, s')" and "bs_ok env (b_capset_mask b) [] s"
  shows "bs_default s' = bs_default s \<and>
      bs_ok env (b_capset_mask b)
        (if bs_default s = VirglRenderer \<and> be_virgl_init env \<noteq> None then [VirglRenderer] else []) s' \<or>
    bs_default s = VirglRenderer \<and> bs_default s' = Rutabaga2D \<and>
      bs_ok env (b_capset_mask b) [] s'"
proof (cases "bs_default s = VirglRenderer \<and> be_virgl_init env \<noteq> None")
  case False
  with assms show ?thesis by (auto simp: build_virgl_def split: option.splits)
next
  case True
  then obtain init where init: "be_virgl_init env = Some init" by blast
  let ?f = "init (b_virglrenderer_flags b) (b_server_descriptor b) (b_paths b)"
  obtain w where call: "bs_call ?f s = (fst (?f (bs_world s)), s\<lparr>bs_world := w\<rparr>)"
    by (rule bs_call_cases)
  show ?thesis
  proof (cases "fst (?f (bs_world s))")
    case (Inl e)
    with assms True init call show ?thesis
      by (cases e) (auto simp: build_virgl_def bs_ok_def)
  next
    case (Inr c)
    have "inits_lawful env \<Longrightarrow> component_contract c"
      using init_lawfulD [OF inits_lawfulD(1) [OF _ init] Inr] .
    from bs_ok_install_all(1) [of env _ "[]" "s\<lparr>bs_world := w\<rparr>" c, OF _ this] assms(2)
    show ?thesis using assms(1) True init call Inr
      by (auto simp: build_virgl_def bs_ok_world)
  qed
qed

lemma build_gfxstream_ok:
  assumes "build_gfxstream env b s = (Ok u, s')" and "bs_ok env (b_capset_mask b) ts s"
  shows "bs_default s' = bs_default s \<and>
    bs_ok env (b_capset_mask b)
      (ts @ (if bs_default s = Gfxstream \<and> be_gfxstream_init env \<noteq> None then [Gfxstream] else [])) s'"
proof (cases "bs_default s = Gfxstream \<and> be_gfxstream_init env \<noteq> None")
  case False
  with assms show ?thesis by (auto simp: build_gfxstream_def split: option.splits)
next
  case True
  then obtain init where init: "be_gfxstream_init env = Some init" by blast
  let ?f = "init (b_display_width b) (b_display_height b) (b_gfxstream_flags b)
      (b_renderer_features b) (b_debug_handler b)"
  obtain w where call: "bs_call ?f s = (fst (?f (bs_world s)), s\<lparr>bs_world := w\<rparr>)"
    by (rule bs_call_cases)
  with assms(1) True init obtain c where c: "fst (?f (bs_world s)) = Ok c"
    by (cases "fst (?f (bs_world s))") (auto simp: build_gfxstream_def)
  then have "inits_lawful env \<Longrightarrow> component_contract c"
    using init_lawfulD [OF inits_lawfulD(2) [OF _ init]] by blast
  from bs_ok_install_all(2) [of env _ ts "s\<lparr>bs_world := w\<rparr>" c, OF _ this] assms(2)
  show ?thesis using assms(1) True init call c
    by (auto simp: build_gfxstream_def bs_ok_world)
qed

lemma build_magma_ok:
  assumes "build_magma env b s = (Ok u, s')" and "bs_ok env (b_capset_mask b) ts s"
  shows "bs_default s' = bs_default s \<and>
    bs_ok env (b_capset_mask b)
      (ts @ (if capset_enabled (b_capset_mask b) RUTABAGA_CAPSET_MAGMA then [Magma] else [])) s'"
proof (cases "capset_enabled (b_capset_mask b) RUTABAGA_CAPSET_MAGMA")
  case False
  with assms show ?thesis by (auto simp: build_magma_def)
next
  case True
  let ?f = "be_magma_init env"
  obtain w where call: "bs_call ?f s = (fst (?f (bs_world s)), s\<lparr>bs_world := w\<rparr>)"
    by (rule bs_call_cases)
  with assms(1) True obtain c where c: "fst (?f (bs_world s)) = Ok c"
    by (cases "fst (?f (bs_world s))") (auto simp: build_magma_def)
  then have "inits_lawful env \<Longrightarrow> component_contract c" using init_lawfulD [OF inits_lawfulD(3)] by blast
  from bs_ok_install_silent [of env _ ts "s\<lparr>bs_world := w\<rparr>" c Magma, OF _ this] assms(2)
  show ?thesis using assms(1) True call c
    by (auto simp: build_magma_def bs_ok_world)
qed

lemma build_cross_domain_ok:
  assumes "build_cross_domain env b s = (Ok u, s')" and "bs_ok env (b_capset_mask b) ts s"
  shows "bs_default s' = bs_default s \<and> bs_ok env (b_capset_mask b) (ts @ [CrossDomain]) s'"
proof -
  let ?f = "be_cross_domain_init env (b_paths b) (b_virtiofs_lookup b)"
  obtain w where call: "bs_call ?f s = (fst (?f (bs_world s)), s\<lparr>bs_world := w\<rparr>)"
    by (rule bs_call_cases)
  with assms(1) obtain c where c: "fst (?f (bs_world s)) = Ok c"
    by (cases "fst (?f (bs_world s))") (auto simp: build_cross_domain_def)
  then have "inits_lawful env \<Longrightarrow> component_contract c" using init_lawfulD [OF inits_lawfulD(4)] by blast
  from bs_ok_install_all(3) [of env _ ts "s\<lparr>bs_world := w\<rparr>" c, OF _ this] assms(2)
  show ?thesis using assms(1) call c
    by (auto simp: build_cross_domain_def bs_ok_world)
qed

lemma build_2d_ok:
  assumes "build_2d env s = (Ok u, s')" and "bs_ok env m ts s"
  shows "bs_default s' = bs_default s \<and>
    bs_ok env m (ts @ (if bs_default s = Rutabaga2D then [Rutabaga2D] else [])) s'"
proof (cases "bs_default s = Rutabaga2D")
  case False
  with assms show ?thesis by (auto simp: build_2d_def)
next
  case True
  let ?f = "be_rutabaga_2d_init env"
  obtain w where call: "bs_call ?f s = (fst (?f (bs_world s)), s\<lparr>bs_world := w\<rparr>)"
    by (rule bs_call_cases)
  with assms(1) True obtain c where c: "fst (?f (bs_world s)) = Ok c"
    by (cases "fst (?f (bs_world s))") (auto simp: build_2d_def)
  then have "inits_lawful env \<Longrightarrow> component_contract c" using init_lawfulD [OF inits_lawfulD(5)] by blast
  from bs_ok_install_silent [of env _ ts "s\<lparr>bs_world := w\<rparr>" c Rutabaga2D, OF _ this] assms(2)
  show ?thesis using assms(1) True call c
    by (auto simp: build_2d_def bs_ok_world)
qed

text \<open>The component types a built instance holds, in the order they were installed: \<open>d0\<close> is the
  default the build started with, \<open>d\<close> the one it ended with.\<close>

definition installed_types ::
  "rutabaga_component_type \<Rightarrow> rutabaga_component_type \<Rightarrow> bool \<Rightarrow> rutabaga_component_type list" where
  "installed_types d0 d magma =
     (if d0 = Rutabaga2D then [Rutabaga2D]
      else (if d \<in> {VirglRenderer, Gfxstream} then [d] else []) @ (if magma then [Magma] else []) @
        [CrossDomain] @ (if d = Rutabaga2D then [Rutabaga2D] else []))"

abbreviation magma_on :: "rutabaga_builder \<Rightarrow> bool" where
  "magma_on b \<equiv> capset_enabled (b_capset_mask b) RUTABAGA_CAPSET_MAGMA"

lemma set_installed_types:
  "set (installed_types d0 d magma) =
     (if d0 = Rutabaga2D then {Rutabaga2D}
      else {CrossDomain} \<union> ({d} \<inter> {VirglRenderer, Gfxstream, Rutabaga2D}) \<union>
        (if magma then {Magma} else {}))"
  by (cases d; cases magma) (auto simp: installed_types_def)

lemma missing_default:
  assumes "d = d0 \<or> d0 = VirglRenderer \<and> d = Rutabaga2D"
    and "cmask = (0 :: u64) \<Longrightarrow> d0 = t"
    and "cmask \<noteq> 0 \<Longrightarrow> d0 \<in> {Gfxstream, VirglRenderer, CrossDomain}"
    and "magma \<Longrightarrow> cmask \<noteq> 0"
  shows "d \<notin> set (installed_types d0 d magma) \<longleftrightarrow> cmask = 0 \<and> t \<in> {NoneSelected, Magma}"
proof (cases "cmask = 0")
  case True
  with assms(1,2,4) show ?thesis by (cases t) (auto simp: installed_types_def)
next
  case False
  with assms(1,3) show ?thesis by (auto simp: installed_types_def)
qed

lemma apply_capset_mask_keeps [simp]: "b_capset_mask (apply_capset_mask b) = b_capset_mask b"
  by (simp add: apply_capset_mask_def Let_def)

definition build_stages ::
  "'a build_env \<Rightarrow> rutabaga_builder \<Rightarrow> 'a build_state \<Rightarrow> unit rres \<times> 'a build_state" where
  "build_stages env b s =
     and_then_st (build_virgl env b s) (\<lambda>_ s.
     and_then_st (build_gfxstream env b s) (\<lambda>_ s.
     and_then_st (build_magma env b s) (\<lambda>_ s. build_cross_domain env b s)))"

lemma build_stages_ok:
  assumes "build_stages env b s = (Ok u, s')" and "bs_ok env (b_capset_mask b) [] s"
    and "bs_default s = VirglRenderer \<longrightarrow> be_virgl_init env \<noteq> None"
    and "bs_default s = Gfxstream \<longrightarrow> be_gfxstream_init env \<noteq> None"
  shows "(bs_default s' = bs_default s \<or> bs_default s = VirglRenderer \<and> bs_default s' = Rutabaga2D) \<and>
    bs_ok env (b_capset_mask b)
      ((if bs_default s' \<in> {VirglRenderer, Gfxstream} then [bs_default s'] else []) @
       (if magma_on b then [Magma] else []) @ [CrossDomain]) s'"
proof -
  obtain u1 s1 where 1: "build_virgl env b s = (Ok u1, s1)"
    using assms(1) by (auto simp: build_stages_def and_then_st_eq_Ok)
  note v = build_virgl_ok [OF 1 assms(2)]
  obtain u2 s2 where 2: "build_gfxstream env b s1 = (Ok u2, s2)"
    using assms(1) 1 by (auto simp: build_stages_def and_then_st_eq_Ok)
  obtain u3 s3 where 3: "build_magma env b s2 = (Ok u3, s3)"
    using assms(1) 1 2 by (auto simp: build_stages_def and_then_st_eq_Ok)
  have 4: "build_cross_domain env b s3 = (Ok u, s')"
    using assms(1) 1 2 3 by (auto simp: build_stages_def)
  from v obtain ts where ts: "bs_ok env (b_capset_mask b) ts s1"
    and d1: "bs_default s1 = bs_default s \<and>
        ts = (if bs_default s = VirglRenderer then [VirglRenderer] else []) \<or>
      bs_default s = VirglRenderer \<and> bs_default s1 = Rutabaga2D \<and> ts = []"
    using assms(3) by (auto split: if_splits)
  note g = build_gfxstream_ok [OF 2 ts]
  note m = build_magma_ok [OF 3 conjunct2 [OF g]]
  note c = build_cross_domain_ok [OF 4 conjunct2 [OF m]]
  have d: "bs_default s' = bs_default s1" using g m c by simp
  have eq: "ts @ (if bs_default s1 = Gfxstream \<and> be_gfxstream_init env \<noteq> None then [Gfxstream] else [])
      = (if bs_default s1 \<in> {VirglRenderer, Gfxstream} then [bs_default s1] else [])"
    using d1 assms(4) by auto
  have "bs_ok env (b_capset_mask b)
      (((if bs_default s1 \<in> {VirglRenderer, Gfxstream} then [bs_default s1] else []) @
        (if magma_on b then [Magma] else [])) @ [CrossDomain]) s'"
    using conjunct2 [OF c] unfolding eq .
  with d d1 show ?thesis by (simp only: append_assoc) blast
qed

lemma rutabaga_build_ok:
  assumes "rutabaga_build env b w = (Ok g, w')"
  obtains s where
    "bs_ok env (b_capset_mask b)
       (installed_types (b_default_component (apply_capset_mask b)) (g_default_component g)
          (magma_on b)) s"
    and "g_default_component g = b_default_component (apply_capset_mask b) \<or>
      b_default_component (apply_capset_mask b) = VirglRenderer \<and> g_default_component g = Rutabaga2D"
    and "g_components g = bs_components s" and "g_capset_info g = bs_capsets s"
    and "g_resources g = fmempty" and "g_contexts g = fmempty"
proof -
  let ?b = "apply_capset_mask b"
  let ?d = "b_default_component ?b"
  let ?s = "\<lparr>bs_components = fmempty, bs_capsets = [], bs_default = ?d, bs_world = w\<rparr>"
  have s0: "bs_ok env (b_capset_mask ?b) [] ?s" by (simp add: bs_ok_def)
  have inits: "?d = VirglRenderer \<longrightarrow> be_virgl_init env \<noteq> None"
    "?d = Gfxstream \<longrightarrow> be_gfxstream_init env \<noteq> None"
    using assms by (auto simp: rutabaga_build_def Let_def split: if_splits)
  let ?p = "if ?d \<noteq> Rutabaga2D then build_stages env ?b ?s else (Ok (), ?s)"
  obtain r s where r: "and_then_st ?p (\<lambda>_. build_2d env) = (r, s)" by fastforce
  with assms have "r = Ok ()" "w' = bs_world s"
    and g: "g = \<lparr>g_resources = fmempty, g_shareable_fences = fmempty, g_contexts = fmempty,
      g_components = bs_components s, g_default_component = bs_default s,
      g_capset_info = bs_capsets s, g_world = w'\<rparr>"
    by (auto simp: rutabaga_build_def Let_def build_stages_def split: if_splits sum.splits)
  then obtain u s1 where 1: "?p = (Ok u, s1)" and 2: "build_2d env s1 = (Ok (), s)"
    using r by (auto simp: and_then_st_eq_Ok)
  show thesis
  proof (cases "?d = Rutabaga2D")
    case True
    then have s1: "s1 = ?s" using 1 by simp
    have "bs_ok env (b_capset_mask b) [] s1" using s0 s1 by simp
    from build_2d_ok [OF 2 this] True s1 show thesis
      by (intro that) (simp_all add: g installed_types_def)
  next
    case False
    then have "build_stages env ?b ?s = (Ok u, s1)" using 1 by simp
    from build_stages_ok [OF this s0] inits
    have st: "bs_default s1 = ?d \<or> ?d = VirglRenderer \<and> bs_default s1 = Rutabaga2D"
      "bs_ok env (b_capset_mask b)
        ((if bs_default s1 \<in> {VirglRenderer, Gfxstream} then [bs_default s1] else []) @
         (if magma_on b then [Magma] else []) @ [CrossDomain]) s1"
      by simp_all
    from build_2d_ok [OF 2 st(2)] st(1) False show thesis
      by (intro that) (simp_all add: g installed_types_def)
  qed
qed

section \<open>Properties\<close>

text \<open>A build environment for the witnesses: neither C library compiled in.\<close>

definition plain_env :: "unit build_env" where
  "plain_env =
     \<lparr>be_virgl_init = None, be_gfxstream_init = None,
      be_magma_init = \<lambda>w. (Ok component_defaults, w),
      be_cross_domain_init = \<lambda>_ _ w. (Ok component_defaults, w),
      be_rutabaga_2d_init = \<lambda>w. (Ok (rutabaga_2d_component (\<lambda>_. []) (\<lambda>_. Some ())), w)\<rparr>"

lemma plain_build:
  "\<exists>g. rutabaga_build plain_env (builder_new 0xA0) some_world = (Ok g, some_world) \<and>
    g_default_component g = CrossDomain"
  by (simp add: rutabaga_build_def plain_env_def apply_capset_mask_def builder_new_def Let_def
      capset_enabled_def capset_bit_def build_virgl_def build_gfxstream_def build_magma_def
      build_cross_domain_def build_2d_def bs_call_def)

lemma plain_inits: "inits_lawful plain_env"
proof -
  have "component_contract (component_defaults :: world rutabaga_component)"
    by unfold_locales (auto simp: component_defaults_def blank_resource_def unsupported_def)
  then show ?thesis
    by (simp add: inits_lawful_def init_lawful_def plain_env_def r2d.component_contract_axioms)
qed

lemma built_types:
  assumes "rutabaga_build env b w = (Ok g, w')"
  shows "g_default_component g = b_default_component (apply_capset_mask b) \<or>
      b_default_component (apply_capset_mask b) = VirglRenderer \<and> g_default_component g = Rutabaga2D"
    and "fmdom' (g_components g) = set (installed_types (b_default_component (apply_capset_mask b))
      (g_default_component g) (magma_on b))"
    and "g_default_component g \<notin> set (installed_types (b_default_component (apply_capset_mask b))
        (g_default_component g) (magma_on b)) \<longleftrightarrow>
      b_capset_mask b = 0 \<and> b_default_component b \<in> {NoneSelected, Magma}"
proof -
  let ?start = "b_default_component (apply_capset_mask b)" and ?d = "g_default_component g"
  obtain s where s: "bs_ok env (b_capset_mask b) (installed_types ?start ?d (magma_on b)) s"
    and d: "?d = ?start \<or> ?start = VirglRenderer \<and> ?d = Rutabaga2D"
    and g: "g_components g = bs_components s"
    by (rule rutabaga_build_ok [OF assms], rule that, assumption+)
  have d0: "b_capset_mask b = 0 \<Longrightarrow> ?start = b_default_component b"
    "b_capset_mask b \<noteq> 0 \<Longrightarrow> ?start \<in> {Gfxstream, VirglRenderer, CrossDomain}"
    by (simp_all add: apply_capset_mask_def Let_def)
  have magma: "magma_on b \<Longrightarrow> b_capset_mask b \<noteq> 0" by (auto simp: capset_enabled_def)
  have dom: "fmdom' (g_components g) = set (installed_types ?start ?d (magma_on b))"
    using s g by (simp add: bs_ok_def)
  show "?d = ?start \<or> ?start = VirglRenderer \<and> ?d = Rutabaga2D" by (rule d)
  show "fmdom' (g_components g) = set (installed_types ?start ?d (magma_on b))" by (rule dom)
  show "?d \<notin> set (installed_types ?start ?d (magma_on b)) \<longleftrightarrow>
      b_capset_mask b = 0 \<and> b_default_component b \<in> {NoneSelected, Magma}"
    by (rule missing_default [OF d d0 magma])
qed



text \<open>
  The capsets of a built instance are those of the table whose component is installed and
  whose bit the mask has (all of them without a mask), each once, and a context created for one of
  them is sent to its own component. Magma is the exception: its capset is never listed, so the
  requests for it go to the default component although Magma is installed.
\<close>

lemma advertised_capsets:
  assumes "rutabaga_build env b w = (Ok g, w')"
  shows "set (g_capset_info g) =
      {c \<in> set RUTABAGA_CAPSETS. capset_component c \<in> fmdom' (g_components g) - {Magma} \<and>
        (b_capset_mask b = 0 \<or> capset_enabled (b_capset_mask b) (capset_id c))} \<and>
    distinct (g_capset_info g) \<and>
    (\<forall>c \<in> set (g_capset_info g). component_type_for g (capset_id c) = capset_component c) \<and>
    component_type_for g RUTABAGA_CAPSET_MAGMA = g_default_component g"
proof -
  let ?start = "b_default_component (apply_capset_mask b)" and ?d = "g_default_component g"
  obtain s where s: "bs_ok env (b_capset_mask b) (installed_types ?start ?d (magma_on b)) s"
    and d: "?d = ?start \<or> ?start = VirglRenderer \<and> ?d = Rutabaga2D"
    and g: "g_components g = bs_components s" "g_capset_info g = bs_capsets s"
    by (rule rutabaga_build_ok [OF assms], rule that, assumption+)
  let ?ts = "filter (\<lambda>t. t \<notin> {Magma, Rutabaga2D}) (installed_types ?start ?d (magma_on b))"
  let ?all = "concat (map component_capsets ?ts)"
  have caps: "g_capset_info g = filter (capset_wanted (b_capset_mask b)) ?all"
    and dom: "fmdom' (g_components g) = set (installed_types ?start ?d (magma_on b))"
    using s g by (simp_all add: bs_ok_def)
  have none2d: "capset_component c \<noteq> Rutabaga2D" if "c \<in> set RUTABAGA_CAPSETS" for c
    using that by (auto simp: RUTABAGA_CAPSETS_def)
  have 1: "set (g_capset_info g) =
      {c \<in> set RUTABAGA_CAPSETS. capset_component c \<in> fmdom' (g_components g) - {Magma} \<and>
        (b_capset_mask b = 0 \<or> capset_enabled (b_capset_mask b) (capset_id c))}"
    unfolding caps dom using none2d
    by (auto simp: component_capsets_def capset_wanted_def)
  have "distinct ?all"
    by (cases ?d) (simp_all add: installed_types_def component_capsets_def RUTABAGA_CAPSETS_def)
  then have 2: "distinct (g_capset_info g)" by (simp add: caps)
  have sub: "set (g_capset_info g) \<subseteq> set RUTABAGA_CAPSETS" using 1 by blast
  have inj: "inj_on capset_id (set RUTABAGA_CAPSETS)"
    using capsets_distinct(2) by (simp add: distinct_map)
  with 2 sub have "distinct (map capset_id (g_capset_info g))"
    by (auto simp: distinct_map intro: inj_on_subset)
  then have 3: "\<forall>c \<in> set (g_capset_info g). component_type_for g (capset_id c) = capset_component c"
    by (auto simp: component_type_for_def capset_id_to_component_type_def find_by_key)
  have "capset_component c = Magma"
    if "c \<in> set RUTABAGA_CAPSETS" "capset_id c = RUTABAGA_CAPSET_MAGMA" for c
    using that by (auto simp: RUTABAGA_CAPSETS_def)
  then have "find (\<lambda>c. capset_id c = RUTABAGA_CAPSET_MAGMA) (g_capset_info g) = None"
    using 1 unfolding find_None_iff by blast
  then have 4: "component_type_for g RUTABAGA_CAPSET_MAGMA = ?d"
    by (simp add: component_type_for_def capset_id_to_component_type_def)
  show ?thesis using 1 2 3 4 by blast
qed

text \<open>A built instance satisfies the table invariant, when the initializers hand out lawful
  components.\<close>

lemma built_inv:
  assumes "inits_lawful env" and "rutabaga_build env b w = (Ok g0, w')"
  shows "core_inv {} g0"
proof -
  obtain s where "bs_ok env (b_capset_mask b)
      (installed_types (b_default_component (apply_capset_mask b)) (g_default_component g0)
        (magma_on b)) s"
    and g0: "g_components g0 = bs_components s" "g_resources g0 = fmempty" "g_contexts g0 = fmempty"
    by (rule rutabaga_build_ok [OF assms(2)], rule that, assumption+)
  with assms(1) have "fmpred (\<lambda>t c. component_contract c) (g_components g0)"
    by (simp add: bs_ok_def)
  then show ?thesis
    by (auto simp: core_inv_def keyed_but_def lawful_def g0 fmpred_iff)
qed

end
