(* ===== verification/Magma_Component.thy ===== *)
theory Magma_Component
  imports Component
begin

text \<open>
  The resources a context keeps (\<open>src/context_common.rs\<close>) and the Magma component and context of
  \<open>src/magma/component.rs\<close> and \<open>src/magma/context.rs\<close>.

  The state of a context lives in the world. A world that hosts Magma contexts is accessed
  through the lens \<open>res_get\<close>, \<open>res_put\<close>, the table of the context's resources.
\<close>

section \<open>Context resources\<close>

record context_resource =
  cr_handle :: "rutabaga_handle option"
  cr_backing_iovecs :: "rutabaga_iovec list option"

type_synonym context_resources = "(u32, context_resource) fmap"

text \<open>\<open>attach\<close>, the same in the Magma and the cross-domain context: guest memory is moved into
  the context, any other resource shares its handle.\<close>

definition attach_resource ::
  "rutabaga_resource \<Rightarrow> context_resources \<Rightarrow> rutabaga_resource \<times> context_resources" where
  "attach_resource resource m =
     (if r_blob_mem resource = RUTABAGA_BLOB_MEM_GUEST then
        (resource\<lparr>r_backing_iovecs := None\<rparr>,
         fmupd (r_resource_id resource)
           \<lparr>cr_handle = None, cr_backing_iovecs = r_backing_iovecs resource\<rparr> m)
      else
        (case r_handle resource of
           Some handle \<Rightarrow>
             (resource, fmupd (r_resource_id resource)
                \<lparr>cr_handle = Some handle, cr_backing_iovecs = None\<rparr> m)
         | None \<Rightarrow> (resource, m)))"

definition detach_resource :: "rutabaga_resource \<Rightarrow> context_resources \<Rightarrow> context_resources" where
  "detach_resource resource m = fmdrop (r_resource_id resource) m"

text \<open>An \<open>Arc\<close> of a handle is shared while some entry holds a clone of it.\<close>

definition resources_hold :: "rutabaga_handle \<Rightarrow> context_resources \<Rightarrow> bool" where
  "resources_hold h m = list_ex (\<lambda>(i, cr). cr_handle cr = Some h) (entries_of m)"

section \<open>The Magma context and component\<close>

record 'w resource_lens =
  res_get :: "'w \<Rightarrow> context_resources"
  res_put :: "context_resources \<Rightarrow> 'w \<Rightarrow> 'w"

definition magma_context_create_blob ::
  "u32 \<Rightarrow> resource_create_blob \<Rightarrow> rutabaga_handle option \<Rightarrow> 'w \<Rightarrow> rutabaga_resource rres \<times> 'w" where
  "magma_context_create_blob resource_id rcb handle_opt w = (unsupported, w)"

definition magma_submit_cmd ::
  "u8 list \<Rightarrow> u64 list \<Rightarrow> magma_handle list \<Rightarrow> 'w \<Rightarrow> (unit rres \<times> u8 list) \<times> 'w" where
  "magma_submit_cmd commands fence_ids shareable_fences w = ((Ok (), commands), w)"

definition magma_attach ::
  "'w resource_lens \<Rightarrow> rutabaga_resource \<Rightarrow> 'w \<Rightarrow> rutabaga_resource \<times> 'w" where
  "magma_attach l resource w =
     (case attach_resource resource (res_get l w) of (r, m) \<Rightarrow> (r, res_put l m w))"

definition magma_detach :: "'w resource_lens \<Rightarrow> rutabaga_resource \<Rightarrow> 'w \<Rightarrow> 'w" where
  "magma_detach l resource w = res_put l (detach_resource resource (res_get l w)) w"

definition magma_context_create_fence :: "rutabaga_fence \<Rightarrow> 'w \<Rightarrow> magma_handle option rres \<times> 'w"
where
  "magma_context_create_fence fence w = (Ok None, w)"

definition magma_component_type :: rutabaga_component_type where
  "magma_component_type = Magma"

definition magma_context :: "'w resource_lens \<Rightarrow> 'w rutabaga_context" where
  "magma_context l =
     (context_defaults magma_submit_cmd (magma_attach l) (magma_detach l) magma_component_type)
     \<lparr>x_context_create_blob := magma_context_create_blob,
      x_context_create_fence := magma_context_create_fence,
      x_holds := \<lambda>h w. resources_hold h (res_get l w)\<rparr>"

text \<open>\<open>MagmaVirtioGpuContext::new\<close> starts with an empty table; \<open>lens\<close> says where the table of a
  context id lives.\<close>

definition magma_create_context ::
  "(u32 \<Rightarrow> 'w resource_lens) \<Rightarrow> u32 \<Rightarrow> u32 \<Rightarrow> string option \<Rightarrow> 'w \<Rightarrow>
   'w rutabaga_context rres \<times> 'w" where
  "magma_create_context lens ctx_id context_init context_name w =
     (Ok (magma_context (lens ctx_id)), res_put (lens ctx_id) fmempty w)"

definition magma_get_capset_info :: "u32 \<Rightarrow> 'w \<Rightarrow> u32 \<times> u32" where
  "magma_get_capset_info capset w = (0, 0)"

definition magma_get_capset :: "u32 \<Rightarrow> u32 \<Rightarrow> 'w \<Rightarrow> u8 list" where
  "magma_get_capset capset version w = []"

definition magma_component :: "(u32 \<Rightarrow> 'w resource_lens) \<Rightarrow> 'w rutabaga_component" where
  "magma_component lens = component_defaults
     \<lparr>c_get_capset_info := magma_get_capset_info,
      c_get_capset := magma_get_capset,
      c_create_context := magma_create_context lens\<rparr>"

lemmas magma_defs = magma_context_create_blob_def magma_submit_cmd_def magma_attach_def
  magma_detach_def magma_context_create_fence_def magma_create_context_def

lemma attach_resource_id: "r_resource_id (fst (attach_resource r m)) = r_resource_id r"
  by (simp add: attach_resource_def split: option.split)

interpretation magma_ctx: context_contract "magma_context l" for l
  by unfold_locales
    (simp_all add: magma_context_def context_defaults_def magma_context_create_blob_def
      magma_attach_def attach_resource_id unsupported_def case_prod_unfold)

interpretation magma: component_contract "magma_component lens" for lens
proof (rule component_contract.intro)
qed (auto simp: magma_component_def component_defaults_def blank_resource_def unsupported_def
      magma_create_context_def intro: magma_ctx.context_contract_axioms)

section \<open>Properties of attaching and detaching\<close>

text \<open>
  Attaching a guest-memory resource moves its iovecs into the context: the resource itself
  has none afterwards, and detaching drops the entry without giving the iovecs back, so a resource
  that was attached once has lost its backing. Any other resource is unchanged and the context
  holds its handle until it is detached.
\<close>

lemma attach_moves_backing:
  shows "(r_blob_mem r = RUTABAGA_BLOB_MEM_GUEST \<longrightarrow>
      attach_resource r m = (r\<lparr>r_backing_iovecs := None\<rparr>,
        fmupd (r_resource_id r) \<lparr>cr_handle = None, cr_backing_iovecs = r_backing_iovecs r\<rparr> m)) \<and>
    (r_blob_mem r \<noteq> RUTABAGA_BLOB_MEM_GUEST \<longrightarrow> fst (attach_resource r m) = r \<and>
      (\<forall>h. r_handle r = Some h \<longrightarrow> resources_hold h (snd (attach_resource r m)))) \<and>
    fmlookup (detach_resource r (snd (attach_resource r m))) (r_resource_id r) = None"
proof -
  have "resources_hold h (fmupd i \<lparr>cr_handle = Some h, cr_backing_iovecs = None\<rparr> m')" for h i m'
    unfolding resources_hold_def entries_of_def
    by (auto simp: list_ex_iff intro!: bexI [of _ i])
  then show ?thesis
    by (auto simp: attach_resource_def detach_resource_def split: option.split)
qed

end
