(* ===== verification/Formats.thy ===== *)
theory Formats
  imports Rutabaga_Utils "HOL-Library.Char_ord"
begin

text \<open>
  DRM formats and canonical image layouts: \<open>src/rutabaga_gralloc/formats.rs\<close> (the
  conversions to Vulkan formats are in \<open>Vulkano\<close>) and the structs
  \<open>ImageAllocationInfo\<close>, \<open>ImageMemoryRequirements\<close> and \<open>RutabagaGrallocFlags\<close> of
  \<open>src/rutabaga_gralloc/gralloc.rs\<close>. Fixed-size arrays are lists of that length.
\<close>

section \<open>Usage flags and image structs\<close>

definition RUTABAGA_GRALLOC_USE_SCANOUT :: u32 where [simp]: "RUTABAGA_GRALLOC_USE_SCANOUT = 1"
definition RUTABAGA_GRALLOC_USE_RENDERING :: u32 where
  [simp]: "RUTABAGA_GRALLOC_USE_RENDERING = 4"
definition RUTABAGA_GRALLOC_USE_LINEAR :: u32 where [simp]: "RUTABAGA_GRALLOC_USE_LINEAR = 16"
definition RUTABAGA_GRALLOC_USE_TEXTURING :: u32 where
  [simp]: "RUTABAGA_GRALLOC_USE_TEXTURING = 32"
definition RUTABAGA_GRALLOC_USE_CAMERA_WRITE :: u32 where
  [simp]: "RUTABAGA_GRALLOC_USE_CAMERA_WRITE = 64"
definition RUTABAGA_GRALLOC_USE_CAMERA_READ :: u32 where
  [simp]: "RUTABAGA_GRALLOC_USE_CAMERA_READ = 128"
definition RUTABAGA_GRALLOC_USE_SW_READ_OFTEN :: u32 where
  [simp]: "RUTABAGA_GRALLOC_USE_SW_READ_OFTEN = 512"
definition RUTABAGA_GRALLOC_USE_SW_WRITE_OFTEN :: u32 where
  [simp]: "RUTABAGA_GRALLOC_USE_SW_WRITE_OFTEN = 2048"

datatype gralloc_flags = GrallocFlags (gralloc_bits: u32)

definition gralloc_flags_empty :: gralloc_flags where
  "gralloc_flags_empty = GrallocFlags 0"

definition gralloc_flags_new :: "u32 \<Rightarrow> gralloc_flags" where
  "gralloc_flags_new raw = GrallocFlags raw"

definition gralloc_use_scanout :: "gralloc_flags \<Rightarrow> bool \<Rightarrow> gralloc_flags" where
  "gralloc_use_scanout f e =
     (if e then GrallocFlags (gralloc_bits f OR RUTABAGA_GRALLOC_USE_SCANOUT)
      else GrallocFlags (gralloc_bits f AND NOT RUTABAGA_GRALLOC_USE_SCANOUT))"

definition gralloc_use_rendering :: "gralloc_flags \<Rightarrow> bool \<Rightarrow> gralloc_flags" where
  "gralloc_use_rendering f e =
     (if e then GrallocFlags (gralloc_bits f OR RUTABAGA_GRALLOC_USE_RENDERING)
      else GrallocFlags (gralloc_bits f AND NOT RUTABAGA_GRALLOC_USE_RENDERING))"

definition gralloc_use_linear :: "gralloc_flags \<Rightarrow> bool \<Rightarrow> gralloc_flags" where
  "gralloc_use_linear f e =
     (if e then GrallocFlags (gralloc_bits f OR RUTABAGA_GRALLOC_USE_LINEAR)
      else GrallocFlags (gralloc_bits f AND NOT RUTABAGA_GRALLOC_USE_LINEAR))"

definition gralloc_use_sw_write :: "gralloc_flags \<Rightarrow> bool \<Rightarrow> gralloc_flags" where
  "gralloc_use_sw_write f e =
     (if e then GrallocFlags (gralloc_bits f OR RUTABAGA_GRALLOC_USE_SW_WRITE_OFTEN)
      else GrallocFlags (gralloc_bits f AND NOT RUTABAGA_GRALLOC_USE_SW_WRITE_OFTEN))"

definition gralloc_use_sw_read :: "gralloc_flags \<Rightarrow> bool \<Rightarrow> gralloc_flags" where
  "gralloc_use_sw_read f e =
     (if e then GrallocFlags (gralloc_bits f OR RUTABAGA_GRALLOC_USE_SW_READ_OFTEN)
      else GrallocFlags (gralloc_bits f AND NOT RUTABAGA_GRALLOC_USE_SW_READ_OFTEN))"

definition gralloc_uses_texturing :: "gralloc_flags \<Rightarrow> bool" where
  "gralloc_uses_texturing f \<longleftrightarrow> gralloc_bits f AND RUTABAGA_GRALLOC_USE_TEXTURING \<noteq> 0"

definition gralloc_uses_rendering :: "gralloc_flags \<Rightarrow> bool" where
  "gralloc_uses_rendering f \<longleftrightarrow> gralloc_bits f AND RUTABAGA_GRALLOC_USE_RENDERING \<noteq> 0"

definition gralloc_host_visible :: "gralloc_flags \<Rightarrow> bool" where
  "gralloc_host_visible f \<longleftrightarrow>
     gralloc_bits f AND RUTABAGA_GRALLOC_USE_SW_READ_OFTEN \<noteq> 0 \<or>
     gralloc_bits f AND RUTABAGA_GRALLOC_USE_SW_WRITE_OFTEN \<noteq> 0 \<or>
     gralloc_bits f AND RUTABAGA_GRALLOC_USE_CAMERA_WRITE \<noteq> 0 \<or>
     gralloc_bits f AND RUTABAGA_GRALLOC_USE_CAMERA_READ \<noteq> 0"

definition gralloc_host_cached :: "gralloc_flags \<Rightarrow> bool" where
  "gralloc_host_cached f \<longleftrightarrow>
     gralloc_bits f AND RUTABAGA_GRALLOC_USE_CAMERA_READ \<noteq> 0 \<or>
     gralloc_bits f AND RUTABAGA_GRALLOC_USE_SW_READ_OFTEN \<noteq> 0"

datatype drm_format = DrmFormat (drm_code: u32)

record image_allocation_info =
  ia_width :: u32
  ia_height :: u32
  ia_drm_format :: drm_format
  ia_flags :: gralloc_flags

record image_memory_requirements =
  irq_info :: image_allocation_info
  irq_map_info :: u32
  irq_strides :: "u32 list"
  irq_offsets :: "u32 list"
  irq_modifier :: u64
  irq_size :: u64
  irq_vulkan_info :: "vulkan_info option"

text \<open>\<open>ImageMemoryRequirements::default()\<close>\<close>

definition image_requirements_default :: image_memory_requirements where
  "image_requirements_default =
     \<lparr>irq_info = \<lparr>ia_width = 0, ia_height = 0, ia_drm_format = DrmFormat 0,
                  ia_flags = GrallocFlags 0\<rparr>,
      irq_map_info = 0, irq_strides = [0, 0, 0, 0], irq_offsets = [0, 0, 0, 0],
      irq_modifier = 0, irq_size = 0, irq_vulkan_info = None\<rparr>"

section \<open>Fourcc codes\<close>

definition byte_string :: "string \<Rightarrow> u8 list" where
  "byte_string s = map of_char s"

definition DRM_FORMAT_R8 :: "u8 list" where "DRM_FORMAT_R8 = byte_string ''R8  ''"
definition DRM_FORMAT_RGB565 :: "u8 list" where "DRM_FORMAT_RGB565 = byte_string ''RG16''"
definition DRM_FORMAT_BGR888 :: "u8 list" where "DRM_FORMAT_BGR888 = byte_string ''BG24''"
definition DRM_FORMAT_XRGB8888 :: "u8 list" where "DRM_FORMAT_XRGB8888 = byte_string ''XR24''"
definition DRM_FORMAT_XBGR8888 :: "u8 list" where "DRM_FORMAT_XBGR8888 = byte_string ''XB24''"
definition DRM_FORMAT_ARGB8888 :: "u8 list" where "DRM_FORMAT_ARGB8888 = byte_string ''AR24''"
definition DRM_FORMAT_ABGR8888 :: "u8 list" where "DRM_FORMAT_ABGR8888 = byte_string ''AB24''"
definition DRM_FORMAT_XRGB2101010 :: "u8 list" where
  "DRM_FORMAT_XRGB2101010 = byte_string ''XR30''"
definition DRM_FORMAT_XBGR2101010 :: "u8 list" where
  "DRM_FORMAT_XBGR2101010 = byte_string ''XB30''"
definition DRM_FORMAT_ARGB2101010 :: "u8 list" where
  "DRM_FORMAT_ARGB2101010 = byte_string ''AR30''"
definition DRM_FORMAT_ABGR2101010 :: "u8 list" where
  "DRM_FORMAT_ABGR2101010 = byte_string ''AB30''"
definition DRM_FORMAT_ABGR16161616F :: "u8 list" where
  "DRM_FORMAT_ABGR16161616F = byte_string ''AB4H''"
definition DRM_FORMAT_NV12 :: "u8 list" where "DRM_FORMAT_NV12 = byte_string ''NV12''"
definition DRM_FORMAT_YVU420 :: "u8 list" where "DRM_FORMAT_YVU420 = byte_string ''YV12''"

lemmas drm_format_defs = DRM_FORMAT_R8_def DRM_FORMAT_RGB565_def DRM_FORMAT_BGR888_def
  DRM_FORMAT_XRGB8888_def DRM_FORMAT_XBGR8888_def DRM_FORMAT_ARGB8888_def
  DRM_FORMAT_ABGR8888_def DRM_FORMAT_XRGB2101010_def DRM_FORMAT_XBGR2101010_def
  DRM_FORMAT_ARGB2101010_def DRM_FORMAT_ABGR2101010_def DRM_FORMAT_ABGR16161616F_def
  DRM_FORMAT_NV12_def DRM_FORMAT_YVU420_def

definition drm_format_new :: "u8 \<Rightarrow> u8 \<Rightarrow> u8 \<Rightarrow> u8 \<Rightarrow> drm_format" where
  "drm_format_new a b c d =
     DrmFormat (ucast a OR push_bit 8 (ucast b) OR push_bit 16 (ucast c) OR push_bit 24 (ucast d))"

definition drm_to_bytes :: "drm_format \<Rightarrow> u8 list" where
  "drm_to_bytes f =
     (let f = drm_code f in
      [ucast f, ucast (drop_bit 8 f), ucast (drop_bit 16 f), ucast (drop_bit 24 f)])"

lemma drm_to_bytes_new: "drm_to_bytes (drm_format_new a b c d) = [a, b, c, d]"
  by (simp add: drm_to_bytes_def drm_format_new_def Let_def)
    (intro conjI bit_word_eqI; auto simp: bit_simps dest: bit_imp_le_length)

text \<open>The debug output: the four characters, or the bytes in hexadecimal.\<close>

definition is_ascii_graphic :: "u8 \<Rightarrow> bool" where
  "is_ascii_graphic b \<longleftrightarrow> 33 \<le> b \<and> b \<le> 126"

definition hex_digit :: "nat \<Rightarrow> char" where
  "hex_digit d = char_of (if d < 10 then 48 + d else 87 + d)"

definition hex_byte :: "u8 \<Rightarrow> string" where
  "hex_byte b = [hex_digit (unat b div 16), hex_digit (unat b mod 16)]"

definition drm_format_fmt :: "drm_format \<Rightarrow> string" where
  "drm_format_fmt f =
     (let b = drm_to_bytes f in
      if list_all is_ascii_graphic b
      then ''fourcc('' @ map (\<lambda>x. char_of (unat x)) b @ '')''
      else ''fourcc(0x'' @ concat (map hex_byte b) @ '')'')"

lemma drm_format_fmt_examples:
  "drm_format_fmt (drm_format_new 0x58 0x52 0x32 0x34) = ''fourcc(XR24)''"
  "drm_format_fmt (drm_format_new 0 1 2 16) = ''fourcc(0x00010210)''"
  by (simp_all add: drm_format_fmt_def drm_to_bytes_new is_ascii_graphic_def hex_byte_def
      hex_digit_def char_of_def bit_0)

section \<open>Planar layouts\<close>

record planar_layout =
  num_planes :: nat
  horizontal_subsampling :: "u32 list"
  vertical_subsampling :: "u32 list"
  bytes_per_pixel :: "u32 list"

definition PACKED_1BPP :: planar_layout where
  "PACKED_1BPP = \<lparr>num_planes = 1, horizontal_subsampling = [1, 0, 0],
     vertical_subsampling = [1, 0, 0], bytes_per_pixel = [1, 0, 0]\<rparr>"

definition PACKED_2BPP :: planar_layout where
  "PACKED_2BPP = \<lparr>num_planes = 1, horizontal_subsampling = [1, 0, 0],
     vertical_subsampling = [1, 0, 0], bytes_per_pixel = [2, 0, 0]\<rparr>"

definition PACKED_3BPP :: planar_layout where
  "PACKED_3BPP = \<lparr>num_planes = 1, horizontal_subsampling = [1, 0, 0],
     vertical_subsampling = [1, 0, 0], bytes_per_pixel = [3, 0, 0]\<rparr>"

definition PACKED_4BPP :: planar_layout where
  "PACKED_4BPP = \<lparr>num_planes = 1, horizontal_subsampling = [1, 0, 0],
     vertical_subsampling = [1, 0, 0], bytes_per_pixel = [4, 0, 0]\<rparr>"

definition PACKED_8BPP :: planar_layout where
  "PACKED_8BPP = \<lparr>num_planes = 1, horizontal_subsampling = [1, 0, 0],
     vertical_subsampling = [1, 0, 0], bytes_per_pixel = [8, 0, 0]\<rparr>"

definition BIPLANAR_YUV420 :: planar_layout where
  "BIPLANAR_YUV420 = \<lparr>num_planes = 2, horizontal_subsampling = [1, 2, 0],
     vertical_subsampling = [1, 2, 0], bytes_per_pixel = [1, 2, 0]\<rparr>"

definition TRIPLANAR_YUV420 :: planar_layout where
  "TRIPLANAR_YUV420 = \<lparr>num_planes = 3, horizontal_subsampling = [1, 2, 2],
     vertical_subsampling = [1, 2, 2], bytes_per_pixel = [1, 1, 1]\<rparr>"

lemmas layout_defs = PACKED_1BPP_def PACKED_2BPP_def PACKED_3BPP_def PACKED_4BPP_def
  PACKED_8BPP_def BIPLANAR_YUV420_def TRIPLANAR_YUV420_def

definition planar_layout_of :: "drm_format \<Rightarrow> planar_layout rres" where
  "planar_layout_of f =
     (let b = drm_to_bytes f in
      if b = DRM_FORMAT_R8 then Ok PACKED_1BPP
      else if b = DRM_FORMAT_RGB565 then Ok PACKED_2BPP
      else if b = DRM_FORMAT_BGR888 then Ok PACKED_3BPP
      else if b \<in> {DRM_FORMAT_ABGR2101010, DRM_FORMAT_ABGR8888, DRM_FORMAT_XBGR2101010,
                   DRM_FORMAT_XBGR8888, DRM_FORMAT_ARGB2101010, DRM_FORMAT_ARGB8888,
                   DRM_FORMAT_XRGB2101010, DRM_FORMAT_XRGB8888} then Ok PACKED_4BPP
      else if b = DRM_FORMAT_ABGR16161616F then Ok PACKED_8BPP
      else if b = DRM_FORMAT_NV12 then Ok BIPLANAR_YUV420
      else if b = DRM_FORMAT_YVU420 then Ok TRIPLANAR_YUV420
      else Err InvalidGrallocDrmFormat)"

section \<open>Canonical layout\<close>

definition stride_from_layout :: "planar_layout \<Rightarrow> u32 \<Rightarrow> nat \<Rightarrow> nat rres" where
  "stride_from_layout layout width plane =
     (let bpp = unat (bytes_per_pixel layout ! plane);
          hs = unat (horizontal_subsampling layout ! plane) in
      and_then (checked_div 32 ''width'' (unat width) ''horizontal_subsampling'' hs)
        (\<lambda>subsampled_width.
          checked_mul 32 ''bytes_per_pixel'' bpp ''subsampled_width'' subsampled_width))"

text \<open>The loop over the planes; \<open>sz\<close> is the running total.\<close>

fun canonical_planes ::
  "planar_layout \<Rightarrow> image_allocation_info \<Rightarrow> nat list \<Rightarrow> image_memory_requirements \<Rightarrow> nat \<Rightarrow>
   (image_memory_requirements \<times> nat) rres" where
  "canonical_planes layout info [] reqs sz = Ok (reqs, sz)"
| "canonical_planes layout info (plane # planes) reqs sz =
     and_then (stride_from_layout layout (ia_width info) plane) (\<lambda>plane_stride.
     let reqs = reqs\<lparr>irq_strides := (irq_strides reqs)[plane := of_nat plane_stride]\<rparr>;
         reqs = (if 0 < plane
                 then reqs\<lparr>irq_offsets := (irq_offsets reqs)[plane := of_nat sz]\<rparr> else reqs);
         height = unat (ia_height info);
         vs = unat (vertical_subsampling layout ! plane) in
     and_then (checked_div 32 ''height'' height ''vertical_subsampling'' vs)
       (\<lambda>subsampled_height.
     and_then (checked_mul 32 ''subsampled_height'' subsampled_height
                 ''plane_stride'' plane_stride) (\<lambda>plane_size.
     and_then (checked_add 32 ''size'' sz ''plane_size'' plane_size) (\<lambda>sz.
     canonical_planes layout info planes reqs sz))))"

definition canonical_image_requirements ::
  "image_allocation_info \<Rightarrow> image_memory_requirements rres" where
  "canonical_image_requirements info =
     and_then (planar_layout_of (ia_drm_format info)) (\<lambda>layout.
     and_then (canonical_planes layout info [0..<num_planes layout]
                 image_requirements_default 0)
       (\<lambda>(reqs, sz). Ok (reqs\<lparr>irq_info := info, irq_size := of_nat sz\<rparr>)))"

lemma canonical_planes_lengths:
  "canonical_planes layout info ps reqs sz = Ok (reqs', sz') \<Longrightarrow>
   length (irq_strides reqs') = length (irq_strides reqs) \<and>
   length (irq_offsets reqs') = length (irq_offsets reqs)"
  by (induction ps arbitrary: reqs sz) (auto simp: and_then_eq_Ok Let_def split: if_splits)

lemma canonical_info: "canonical_image_requirements info = Ok low \<Longrightarrow> irq_info low = info"
  by (auto simp: canonical_image_requirements_def and_then_eq_Ok)

lemma canonical_lengths:
  "canonical_image_requirements info = Ok low \<Longrightarrow>
   length (irq_strides low) = 4 \<and> length (irq_offsets low) = 4"
  by (auto simp: canonical_image_requirements_def and_then_eq_Ok image_requirements_default_def
      dest!: canonical_planes_lengths)

section \<open>Properties\<close>

text \<open>The abstract layout of an image: the stride, the size and the offset of each plane.\<close>

definition plane_stride :: "planar_layout \<Rightarrow> image_allocation_info \<Rightarrow> nat \<Rightarrow> nat" where
  "plane_stride layout info p =
     unat (bytes_per_pixel layout ! p) *
     (unat (ia_width info) div unat (horizontal_subsampling layout ! p))"

definition plane_size :: "planar_layout \<Rightarrow> image_allocation_info \<Rightarrow> nat \<Rightarrow> nat" where
  "plane_size layout info p =
     (unat (ia_height info) div unat (vertical_subsampling layout ! p)) *
     plane_stride layout info p"

definition plane_offset :: "planar_layout \<Rightarrow> image_allocation_info \<Rightarrow> nat \<Rightarrow> nat" where
  "plane_offset layout info p = sum_list (map (plane_size layout info) [0..<p])"

definition layout_ok :: "planar_layout \<Rightarrow> bool" where
  "layout_ok layout \<longleftrightarrow> 0 < num_planes layout \<and> num_planes layout \<le> 3 \<and>
     (\<forall>p < num_planes layout. horizontal_subsampling layout ! p \<noteq> 0 \<and>
        vertical_subsampling layout ! p \<noteq> 0)"

lemma planar_layout_ok: "planar_layout_of f = Ok layout \<Longrightarrow> layout_ok layout"
  by (auto simp: planar_layout_of_def layout_ok_def layout_defs Let_def less_Suc_eq numeral_eq_Suc
      nth_Cons' split: if_splits)

lemma plane_offset_Suc: "plane_offset layout info (Suc p) = plane_offset layout info p + plane_size layout info p"
  by (simp add: plane_offset_def)

lemma plane_offset_0 [simp]: "plane_offset layout info 0 = 0"
  by (simp add: plane_offset_def)

text \<open>A plane that the 32-bit arithmetic can represent.\<close>

definition plane_fits :: "planar_layout \<Rightarrow> image_allocation_info \<Rightarrow> nat \<Rightarrow> bool" where
  "plane_fits layout info p \<longleftrightarrow>
     plane_stride layout info p < 2 ^ 32 \<and> plane_offset layout info (Suc p) < 2 ^ 32"

text \<open>What the loop writes for one plane.\<close>

definition set_plane ::
  "planar_layout \<Rightarrow> image_allocation_info \<Rightarrow> nat \<Rightarrow> image_memory_requirements \<Rightarrow>
   image_memory_requirements" where
  "set_plane layout info p reqs =
     reqs\<lparr>irq_strides := (irq_strides reqs)[p := of_nat (plane_stride layout info p)],
          irq_offsets := (if 0 < p
            then (irq_offsets reqs)[p := of_nat (plane_offset layout info p)]
            else irq_offsets reqs)\<rparr>"

lemma stride_from_layout_eq:
  assumes "unat (horizontal_subsampling layout ! p) \<noteq> 0"
  shows "stride_from_layout layout (ia_width info) p = Ok s \<longleftrightarrow>
    plane_stride layout info p < 2 ^ 32 \<and> s = plane_stride layout info p"
  using assms
  by (auto simp: stride_from_layout_def plane_stride_def Let_def checked_div_def
      checked_mul_eq_Ok)

lemma canonical_planes_step:
  assumes "layout_ok layout" and "p < num_planes layout"
  shows "canonical_planes layout info (p # ps) reqs (plane_offset layout info p) =
      Ok r \<longleftrightarrow>
    plane_fits layout info p \<and>
    canonical_planes layout info ps (set_plane layout info p reqs)
      (plane_offset layout info (Suc p)) = Ok r"
proof -
  have hs: "unat (horizontal_subsampling layout ! p) \<noteq> 0"
    and vs: "unat (vertical_subsampling layout ! p) \<noteq> 0"
    using assms by (auto simp: layout_ok_def unat_eq_0)
  have size: "unat (ia_height info) div unat (vertical_subsampling layout ! p) *
      plane_stride layout info p = plane_size layout info p"
    by (simp add: plane_size_def)
  have small: "plane_offset layout info p + plane_size layout info p < 2 ^ 32 \<Longrightarrow>
      plane_size layout info p < 2 ^ 32" by simp
  have upd: "(if 0 < p
        then reqs\<lparr>irq_strides := (irq_strides reqs)[p := of_nat (plane_stride layout info p)]\<rparr>
          \<lparr>irq_offsets := (irq_offsets (reqs\<lparr>irq_strides :=
            (irq_strides reqs)[p := of_nat (plane_stride layout info p)]\<rparr>))
              [p := of_nat (plane_offset layout info p)]\<rparr>
        else reqs\<lparr>irq_strides := (irq_strides reqs)[p := of_nat (plane_stride layout info p)]\<rparr>) =
      set_plane layout info p reqs"
    by (simp add: set_plane_def)
  show ?thesis
    using hs vs small
    unfolding canonical_planes.simps Let_def
    by (auto simp only: and_then_eq_Ok stride_from_layout_eq [OF hs] checked_div_eq_Ok
        checked_mul_eq_Ok checked_add_eq_Ok size upd plane_offset_Suc plane_fits_def simp_thms)
qed

lemma canonical_planes_all:
  assumes "layout_ok layout" and "n = num_planes layout" and "k \<le> n"
  shows "canonical_planes layout info [k..<n] reqs (plane_offset layout info k) = Ok r \<longleftrightarrow>
    (\<forall>p \<in> {k..<n}. plane_fits layout info p) \<and>
    r = (fold (set_plane layout info) [k..<n] reqs, plane_offset layout info n)"
  using assms(3)
proof (induction "n - k" arbitrary: k reqs)
  case 0
  then show ?case by auto
next
  case (Suc m)
  then have k: "k < n" by simp
  then have split: "[k..<n] = k # [Suc k..<n]" by (simp add: upt_conv_Cons)
  have range: "{k..<n} = insert k {Suc k..<n}" using k by auto
  have "canonical_planes layout info [k..<n] reqs (plane_offset layout info k) = Ok r \<longleftrightarrow>
      plane_fits layout info k \<and> canonical_planes layout info [Suc k..<n]
        (set_plane layout info k reqs) (plane_offset layout info (Suc k)) = Ok r"
    unfolding split using k assms(2) by (intro canonical_planes_step assms(1)) simp
  also have "\<dots> \<longleftrightarrow> plane_fits layout info k \<and> (\<forall>p \<in> {Suc k..<n}. plane_fits layout info p) \<and>
      r = (fold (set_plane layout info) [Suc k..<n] (set_plane layout info k reqs),
           plane_offset layout info n)"
    using Suc.hyps(1) [of "Suc k" "set_plane layout info k reqs"] Suc.hyps(2) k by simp
  finally show ?case by (simp add: split range conj_assoc del: canonical_planes.simps)
qed

lemma fold_set_plane:
  fixes layout :: planar_layout and info :: image_allocation_info
  assumes "length (irq_strides reqs) = 4" and "length (irq_offsets reqs) = 4" and "n \<le> 4"
  defines "res \<equiv> fold (set_plane layout info) [0..<n] reqs"
  shows "length (irq_strides res) = 4 \<and> length (irq_offsets res) = 4 \<and>
    (\<forall>p < 4. irq_strides res ! p =
      (if p < n then of_nat (plane_stride layout info p) else irq_strides reqs ! p)) \<and>
    (\<forall>p < 4. irq_offsets res ! p =
      (if 0 < p \<and> p < n then of_nat (plane_offset layout info p) else irq_offsets reqs ! p)) \<and>
    irq_map_info res = irq_map_info reqs \<and> irq_modifier res = irq_modifier reqs \<and>
    irq_vulkan_info res = irq_vulkan_info reqs"
  unfolding res_def using assms(3)
proof (induction n)
  case 0
  then show ?case using assms(1,2) by simp
next
  case (Suc n)
  then show ?case
    using assms(1,2) by (auto simp: set_plane_def nth_list_update less_Suc_eq)
qed

lemma plane_fits_mono:
  "plane_fits layout info p \<Longrightarrow> plane_offset layout info p < 2 ^ 32"
  by (simp add: plane_fits_def plane_offset_Suc)

text \<open>The value of the requirements, and their entries plane by plane.\<close>

lemma canonical_value:
  assumes "planar_layout_of (ia_drm_format info) = Ok layout"
  shows "canonical_image_requirements info = Ok reqs \<longleftrightarrow>
    (\<forall>p < num_planes layout. plane_fits layout info p) \<and>
    reqs = (fold (set_plane layout info) [0..<num_planes layout] image_requirements_default)
      \<lparr>irq_info := info, irq_size := of_nat (plane_offset layout info (num_planes layout))\<rparr>"
  using canonical_planes_all [OF planar_layout_ok [OF assms] refl, of 0 info image_requirements_default]
  by (auto simp: canonical_image_requirements_def assms and_then_eq_Ok)

lemma canonical_entries:
  assumes "layout_ok layout" and fits: "\<And>p. p < num_planes layout \<Longrightarrow> plane_fits layout info p"
    and "reqs = fold (set_plane layout info) [0..<num_planes layout] image_requirements_default"
  shows "\<forall>p < 4. unat (irq_strides reqs ! p) =
       (if p < num_planes layout then plane_stride layout info p else 0) \<and>
     unat (irq_offsets reqs ! p) = (if p < num_planes layout then plane_offset layout info p else 0)"
proof -
  let ?d = image_requirements_default
  have n: "num_planes layout \<le> 4" using assms(1) by (auto simp: layout_ok_def)
  have d4: "length (irq_strides ?d) = 4" "length (irq_offsets ?d) = 4"
    by (simp_all add: image_requirements_default_def)
  have d0: "irq_strides ?d ! p = 0" "irq_offsets ?d ! p = 0" if "p < 4" for p
    using that by (auto simp: image_requirements_default_def nth_Cons' numeral_eq_Suc)
  have "unat (of_nat (plane_stride layout info p) :: u32) = plane_stride layout info p"
    "unat (of_nat (plane_offset layout info p) :: u32) = plane_offset layout info p"
    if "p < num_planes layout" for p
    using fits [OF that] plane_fits_mono [OF fits [OF that]] by (simp_all add: plane_fits_def unat_of_nat)
  then show ?thesis
    using fold_set_plane [OF d4 n, of layout info] d0 by (auto simp: assms(3))
qed

lemma canonical_total:
  assumes "layout_ok layout" and "\<And>p. p < num_planes layout \<Longrightarrow> plane_fits layout info p"
  shows "unat (of_nat (plane_offset layout info (num_planes layout)) :: u64) =
    plane_offset layout info (num_planes layout)"
proof -
  obtain m where m: "num_planes layout = Suc m"
    using assms(1) by (cases "num_planes layout") (auto simp: layout_ok_def)
  then have "plane_offset layout info (num_planes layout) < 2 ^ 32"
    using assms(2) [of m] by (simp add: plane_fits_def)
  then show ?thesis by (simp add: unat_of_nat)
qed

lemma is_ok_iff: "is_ok r \<longleftrightarrow> (\<exists>x. r = Ok x)"
  by (cases r) auto

text \<open>
  C15. The canonical layout of an image in a known format. The call succeeds exactly when every
  stride and every running total fits 32 bits; then plane \<open>p\<close> has stride
  bytes-per-pixel * (width / subsampling), starts where plane \<open>p - 1\<close> ends (plane 0 at 0), the
  size is the end of the last plane, unused planes are zero, and the request is recorded. An
  unknown format is refused.
\<close>

theorem canonical_layout:
  shows "(planar_layout_of (ia_drm_format info) = Ok layout \<longrightarrow>
      (is_ok (canonical_image_requirements info) \<longleftrightarrow>
        (\<forall>p < num_planes layout. plane_fits layout info p)) \<and>
      (\<forall>reqs. canonical_image_requirements info = Ok reqs \<longrightarrow>
        unat (irq_size reqs) = plane_offset layout info (num_planes layout) \<and>
        irq_info reqs = info \<and>
        (\<forall>p < 4. unat (irq_strides reqs ! p) =
           (if p < num_planes layout then plane_stride layout info p else 0) \<and>
           unat (irq_offsets reqs ! p) =
           (if p < num_planes layout then plane_offset layout info p else 0)))) \<and>
    (planar_layout_of (ia_drm_format info) = Err e \<longrightarrow>
      canonical_image_requirements info = Err InvalidGrallocDrmFormat)"
proof (intro conjI impI allI)
  assume layout: "planar_layout_of (ia_drm_format info) = Ok layout"
  show "is_ok (canonical_image_requirements info) = (\<forall>p < num_planes layout. plane_fits layout info p)"
    unfolding is_ok_iff canonical_value [OF layout] by blast
next
  fix reqs p
  assume layout: "planar_layout_of (ia_drm_format info) = Ok layout"
    and "canonical_image_requirements info = Ok reqs"
  then have fits: "\<And>p. p < num_planes layout \<Longrightarrow> plane_fits layout info p"
    and reqs: "reqs = (fold (set_plane layout info) [0..<num_planes layout] image_requirements_default)
      \<lparr>irq_info := info, irq_size := of_nat (plane_offset layout info (num_planes layout))\<rparr>"
    by (auto simp: canonical_value)
  note ok = planar_layout_ok [OF layout]
  show "unat (irq_size reqs) = plane_offset layout info (num_planes layout)" "irq_info reqs = info"
    using canonical_total [OF ok fits] by (simp_all add: reqs)
  show "unat (irq_strides reqs ! p) =
      (if p < num_planes layout then plane_stride layout info p else 0)"
    "unat (irq_offsets reqs ! p) =
      (if p < num_planes layout then plane_offset layout info p else 0)" if "p < 4"
    using canonical_entries [OF ok fits refl] that by (simp_all add: reqs)
next
  assume "planar_layout_of (ia_drm_format info) = Err e"
  then show "canonical_image_requirements info = Err InvalidGrallocDrmFormat"
    by (auto simp: canonical_image_requirements_def planar_layout_of_def Let_def split: if_splits)
qed

lemma canonical_layout_witness:
  "unat (irq_size (case canonical_image_requirements
      \<lparr>ia_width = 10, ia_height = 10, ia_drm_format = drm_format_new 0x4E 0x56 0x31 0x32,
       ia_flags = GrallocFlags 0\<rparr> of Inr r \<Rightarrow> r | Inl _ \<Rightarrow> image_requirements_default)) = 150"
proof -
  let ?info = "\<lparr>ia_width = 10, ia_height = 10,
    ia_drm_format = drm_format_new 0x4E 0x56 0x31 0x32, ia_flags = GrallocFlags 0\<rparr>"
  have layout: "planar_layout_of (ia_drm_format ?info) = Ok BIPLANAR_YUV420"
    by (simp add: planar_layout_of_def drm_to_bytes_new drm_format_defs byte_string_def Let_def)
  have off: "plane_offset BIPLANAR_YUV420 ?info (Suc 0) = 100"
    "plane_offset BIPLANAR_YUV420 ?info 2 = 150"
    "plane_offset BIPLANAR_YUV420 ?info (Suc (Suc 0)) = 150"
    by (simp_all add: plane_offset_def plane_size_def plane_stride_def BIPLANAR_YUV420_def
        upt_rec)
  have "\<forall>p < num_planes BIPLANAR_YUV420. plane_fits BIPLANAR_YUV420 ?info p"
    using off by (auto simp: plane_fits_def plane_stride_def BIPLANAR_YUV420_def less_2_cases_iff)
  then obtain reqs where "canonical_image_requirements ?info = Ok reqs"
    "unat (irq_size reqs) = plane_offset BIPLANAR_YUV420 ?info (num_planes BIPLANAR_YUV420)"
    using canonical_layout [of ?info BIPLANAR_YUV420] layout
    by (cases "canonical_image_requirements ?info") auto
  with off show ?thesis by (simp add: BIPLANAR_YUV420_def)
qed

text \<open>
  A fourcc code is recovered from its four bytes, in either direction, so the match on
  bytes in \<open>planar_layout\<close> sees exactly the code the guest sent.
\<close>

lemma fourcc_roundtrip:
  "drm_to_bytes (drm_format_new a b c d) = [a, b, c, d] \<and>
   (case drm_to_bytes f of [a, b, c, d] \<Rightarrow> drm_format_new a b c d = f | _ \<Rightarrow> False)"
proof
  show "drm_to_bytes (drm_format_new a b c d) = [a, b, c, d]" by (rule drm_to_bytes_new)
  obtain w where f: "f = DrmFormat w" by (cases f)
  have "ucast (ucast w :: u8) OR push_bit 8 (ucast (ucast (drop_bit 8 w) :: u8)) OR
      push_bit 16 (ucast (ucast (drop_bit 16 w) :: u8)) OR
      push_bit 24 (ucast (ucast (drop_bit 24 w) :: u8)) = w"
    apply (rule bit_word_eqI)
    subgoal for n by (cases "n < 8"; cases "n < 16"; cases "n < 24") (auto simp: bit_simps)
    done
  then show "case drm_to_bytes f of [a, b, c, d] \<Rightarrow> drm_format_new a b c d = f | _ \<Rightarrow> False"
    by (simp add: f drm_to_bytes_def drm_format_new_def Let_def)
qed

end
