(* ===== verification/Gralloc.thy ===== *)
theory Gralloc
  imports Formats Snapshot
begin

text \<open>
  The allocator of \<open>src/rutabaga_gralloc/gralloc.rs\<close>: the \<open>Gralloc\<close> trait as a record of
  methods, the container \<open>RutabagaGralloc\<close> that selects a backend, and the system backend of
  \<open>src/rutabaga_gralloc/system_gralloc.rs\<close>.

  The minigbm and Vulkano backends (theories \<open>Minigbm\<close> and \<open>Vulkano\<close>) are compiled only with the
  features \<open>gbm\<close> and \<open>vulkano\<close>. A build is described by the record \<open>gralloc_build\<close>: for each of the two the
  initializer, or \<open>None\<close> when the feature is off.

  The locale \<open>gralloc_records\<close> is what users of any backend rely on; \<open>gralloc_contract\<close> adds what the
  system backend promises beyond it.
\<close>

section \<open>Backends\<close>

datatype gralloc_backend_flags = GrallocBackendFlags (backend_bits: u32)

definition RUTABAGA_GRALLOC_BACKEND_SYSTEM :: u32 where
  [simp]: "RUTABAGA_GRALLOC_BACKEND_SYSTEM = 1"
definition RUTABAGA_GRALLOC_BACKEND_GBM :: u32 where [simp]: "RUTABAGA_GRALLOC_BACKEND_GBM = 2"
definition RUTABAGA_GRALLOC_BACKEND_VULKANO :: u32 where
  [simp]: "RUTABAGA_GRALLOC_BACKEND_VULKANO = 4"

definition backend_flags_new :: gralloc_backend_flags where
  "backend_flags_new = GrallocBackendFlags
     (RUTABAGA_GRALLOC_BACKEND_SYSTEM OR RUTABAGA_GRALLOC_BACKEND_GBM OR
      RUTABAGA_GRALLOC_BACKEND_VULKANO)"

definition disable_vulkano :: "gralloc_backend_flags \<Rightarrow> gralloc_backend_flags" where
  "disable_vulkano f =
     GrallocBackendFlags (backend_bits f AND NOT RUTABAGA_GRALLOC_BACKEND_VULKANO)"

definition uses_system :: "gralloc_backend_flags \<Rightarrow> bool" where
  "uses_system f \<longleftrightarrow> has_flag (backend_bits f) RUTABAGA_GRALLOC_BACKEND_SYSTEM"

definition uses_gbm :: "gralloc_backend_flags \<Rightarrow> bool" where
  "uses_gbm f \<longleftrightarrow> has_flag (backend_bits f) RUTABAGA_GRALLOC_BACKEND_GBM"

definition uses_vulkano :: "gralloc_backend_flags \<Rightarrow> bool" where
  "uses_vulkano f \<longleftrightarrow> has_flag (backend_bits f) RUTABAGA_GRALLOC_BACKEND_VULKANO"

record 'w gralloc_methods =
  gr_supports_external_gpu_memory :: "'w \<Rightarrow> bool"
  gr_supports_dmabuf :: "'w \<Rightarrow> bool"
  gr_get_image_memory_requirements ::
    "image_allocation_info \<Rightarrow> 'w \<Rightarrow> image_memory_requirements rres \<times> 'w"
  gr_allocate_memory :: "image_memory_requirements \<Rightarrow> 'w \<Rightarrow> magma_handle rres \<times> 'w"
  gr_import_and_map :: "magma_handle \<Rightarrow> vulkan_info \<Rightarrow> u64 \<Rightarrow> 'w \<Rightarrow> mesa_mapping rres \<times> 'w"

definition gralloc_defaults ::
  "('w \<Rightarrow> bool) \<Rightarrow> ('w \<Rightarrow> bool) \<Rightarrow>
   (image_allocation_info \<Rightarrow> 'w \<Rightarrow> image_memory_requirements rres \<times> 'w) \<Rightarrow>
   (image_memory_requirements \<Rightarrow> 'w \<Rightarrow> magma_handle rres \<times> 'w) \<Rightarrow> 'w gralloc_methods" where
  "gralloc_defaults ext dma get alloc =
     \<lparr>gr_supports_external_gpu_memory = ext, gr_supports_dmabuf = dma,
      gr_get_image_memory_requirements = get, gr_allocate_memory = alloc,
      gr_import_and_map = \<lambda>_ _ _ w. (Err (MagmaGpuError Unsupported), w)\<rparr>"

datatype gralloc_backend = Vulkano | Minigbm | System

primrec backend_rank :: "gralloc_backend \<Rightarrow> nat" where
  "backend_rank Vulkano = 0"
| "backend_rank Minigbm = 1"
| "backend_rank System = 2"

lemma backend_rank_inject [simp]: "backend_rank a = backend_rank b \<longleftrightarrow> a = b"
  by (cases a; cases b) simp_all

instantiation gralloc_backend :: linorder
begin

definition less_eq_gralloc_backend :: "gralloc_backend \<Rightarrow> gralloc_backend \<Rightarrow> bool" where
  "a \<le> b \<longleftrightarrow> backend_rank a \<le> backend_rank b"

definition less_gralloc_backend :: "gralloc_backend \<Rightarrow> gralloc_backend \<Rightarrow> bool" where
  "a < b \<longleftrightarrow> backend_rank a < backend_rank b"

instance
  by standard (auto simp: less_eq_gralloc_backend_def less_gralloc_backend_def)

end

section \<open>The system backend\<close>

definition shared_memory_new :: "os \<Rightarrow> u64 \<Rightarrow> descriptor mres" where
  "shared_memory_new os sz =
     (case os_memfd os (unat sz) of Inl e \<Rightarrow> Err (RustixError e) | Inr fd \<Rightarrow> Ok fd)"

definition system_get_image_memory_requirements ::
  "image_allocation_info \<Rightarrow> 'a world_scheme \<Rightarrow> image_memory_requirements rres \<times> 'a world_scheme"
where
  "system_get_image_memory_requirements info w =
     (and_then (canonical_image_requirements info) (\<lambda>reqs.
        Ok (reqs\<lparr>irq_map_info := RUTABAGA_MAP_CACHE_CACHED\<rparr>)), w)"

definition system_allocate_memory ::
  "image_memory_requirements \<Rightarrow> 'a world_scheme \<Rightarrow> magma_handle rres \<times> 'a world_scheme" where
  "system_allocate_memory reqs w =
     (and_then (from_magma (shared_memory_new (w_os w) (irq_size reqs))) (\<lambda>fd.
        Ok \<lparr>os_handle = fd, handle_type = MAGMA_GPU_HANDLE_TYPE_MEM_SHM\<rparr>), w)"

definition system_gralloc :: "'a world_scheme gralloc_methods" where
  "system_gralloc = gralloc_defaults (\<lambda>_. False) (\<lambda>_. False)
     system_get_image_memory_requirements system_allocate_memory"

definition system_gralloc_init :: "'a world_scheme gralloc_methods rres" where
  "system_gralloc_init = Ok system_gralloc"

section \<open>The container\<close>

record 'a gralloc_build =
  gb_minigbm_init ::
    "('a world_scheme \<Rightarrow> 'a world_scheme gralloc_methods rres \<times> 'a world_scheme) option"
  gb_vulkano_init ::
    "('a world_scheme \<Rightarrow> 'a world_scheme gralloc_methods rres \<times> 'a world_scheme) option"

type_synonym 'a rutabaga_gralloc = "(gralloc_backend, 'a world_scheme gralloc_methods) fmap"

text \<open>An optional backend whose initialization may fail silently.\<close>

definition try_backend ::
  "bool \<Rightarrow> gralloc_backend \<Rightarrow>
   ('a world_scheme \<Rightarrow> 'a world_scheme gralloc_methods rres \<times> 'a world_scheme) option \<Rightarrow>
   'a rutabaga_gralloc \<Rightarrow> 'a world_scheme \<Rightarrow> 'a rutabaga_gralloc \<times> 'a world_scheme" where
  "try_backend wanted t init m w =
     (case init of
        None \<Rightarrow> (m, w)
      | Some f \<Rightarrow>
          if wanted then
            (case f w of (Inl e, w) \<Rightarrow> (m, w) | (Inr b, w) \<Rightarrow> (fmupd t b m, w))
          else (m, w))"

definition rutabaga_gralloc_new ::
  "'a gralloc_build \<Rightarrow> gralloc_backend_flags \<Rightarrow> 'a world_scheme \<Rightarrow>
   'a rutabaga_gralloc rres \<times> 'a world_scheme" where
  "rutabaga_gralloc_new env flags w =
     and_then_st
       (if uses_system flags
        then and_then system_gralloc_init (\<lambda>b. Ok (fmupd System b fmempty))
        else Ok fmempty, w)
       (\<lambda>m w.
         case try_backend (uses_gbm flags) Minigbm (gb_minigbm_init env) m w of
           (m, w) \<Rightarrow>
             (case try_backend (uses_vulkano flags) Vulkano (gb_vulkano_init env) m w of
                (m, w) \<Rightarrow> (Ok m, w)))"

definition gralloc_supports_external_gpu_memory ::
  "'a rutabaga_gralloc \<Rightarrow> 'a world_scheme \<Rightarrow> bool" where
  "gralloc_supports_external_gpu_memory m w =
     list_ex (\<lambda>(t, b). gr_supports_external_gpu_memory b w) (entries_of m)"

definition gralloc_supports_dmabuf :: "'a rutabaga_gralloc \<Rightarrow> 'a world_scheme \<Rightarrow> bool" where
  "gralloc_supports_dmabuf m w = list_ex (\<lambda>(t, b). gr_supports_dmabuf b w) (entries_of m)"

definition determine_optimal_backend ::
  "'a gralloc_build \<Rightarrow> 'a rutabaga_gralloc \<Rightarrow> gralloc_backend" where
  "determine_optimal_backend env m =
     (let backend = System;
          backend = (if gb_minigbm_init env \<noteq> None \<and> contains_key m Minigbm
                     then Minigbm else backend);
          backend = (if gb_vulkano_init env \<noteq> None then Vulkano else backend)
      in backend)"

definition gralloc_get_image_memory_requirements ::
  "'a gralloc_build \<Rightarrow> 'a rutabaga_gralloc \<Rightarrow> image_allocation_info \<Rightarrow> 'a world_scheme \<Rightarrow>
   image_memory_requirements rres \<times> 'a world_scheme" where
  "gralloc_get_image_memory_requirements env m info w =
     and_then_st
       (ok_or InvalidGrallocBackend (fmlookup m (determine_optimal_backend env m)), w) (\<lambda>b w.
     and_then_st (gr_get_image_memory_requirements b info w) (\<lambda>reqs w.
     and_then_st (from_magma (round_up_to_page_size (w_os w) (irq_size reqs)), w) (\<lambda>sz w.
     (Ok (reqs\<lparr>irq_size := sz\<rparr>), w))))"

definition gralloc_allocate_memory ::
  "'a gralloc_build \<Rightarrow> 'a rutabaga_gralloc \<Rightarrow> image_memory_requirements \<Rightarrow> 'a world_scheme \<Rightarrow>
   magma_handle rres \<times> 'a world_scheme" where
  "gralloc_allocate_memory env m reqs w =
     and_then_st
       (ok_or InvalidGrallocBackend (fmlookup m (determine_optimal_backend env m)), w) (\<lambda>b.
     gr_allocate_memory b reqs)"

definition gralloc_import_and_map ::
  "'a rutabaga_gralloc \<Rightarrow> magma_handle \<Rightarrow> vulkan_info \<Rightarrow> u64 \<Rightarrow> 'a world_scheme \<Rightarrow>
   mesa_mapping rres \<times> 'a world_scheme" where
  "gralloc_import_and_map m handle vk sz w =
     and_then_st (ok_or InvalidGrallocBackend (fmlookup m Vulkano), w) (\<lambda>b.
     gr_import_and_map b handle vk sz)"

section \<open>The contract of a backend\<close>

text \<open>The requirements record the request and describe four planes.\<close>

definition four_plane_lists :: "image_memory_requirements \<Rightarrow> bool" where
  "four_plane_lists reqs \<longleftrightarrow> length (irq_strides reqs) = 4 \<and> length (irq_offsets reqs) = 4"

locale gralloc_records =
  fixes b :: "'w gralloc_methods"
  assumes records_info:
      "gr_get_image_memory_requirements b info w = (Ok reqs, w') \<Longrightarrow> irq_info reqs = info"
    and records_planes:
      "gr_get_image_memory_requirements b info w = (Ok reqs, w') \<Longrightarrow> four_plane_lists reqs"

text \<open>The container keeps this: it only changes the size.\<close>

lemma gralloc_requirements_recorded:
  assumes "fmpred (\<lambda>t b. gralloc_records b) m"
    and "gralloc_get_image_memory_requirements env m info w = (Ok reqs, w')"
  shows "irq_info reqs = info \<and> four_plane_lists reqs"
proof -
  obtain b reqs0 w1 sz where "fmlookup m (determine_optimal_backend env m) = Some b"
    "gr_get_image_memory_requirements b info w = (Ok reqs0, w1)" "reqs = reqs0\<lparr>irq_size := sz\<rparr>"
    using assms(2) by (auto simp: gralloc_get_image_memory_requirements_def rust_simps)
  moreover then have "gralloc_records b" using assms(1) by (auto simp: fmpred_iff)
  ultimately show ?thesis
    using gralloc_records.records_info [of b info w reqs0 w1]
      gralloc_records.records_planes [of b info w reqs0 w1]
    by (simp add: four_plane_lists_def)
qed

text \<open>They are also no smaller than the canonical layout.\<close>

definition at_least :: "image_memory_requirements \<Rightarrow> image_memory_requirements \<Rightarrow> bool" where
  "at_least reqs low \<longleftrightarrow> unat (irq_size low) \<le> unat (irq_size reqs) \<and>
     (\<forall>p < 4. irq_strides low ! p \<le> irq_strides reqs ! p)"

locale gralloc_contract = gralloc_records b for b :: "'a world_scheme gralloc_methods" +
  assumes canonical_min:
      "gr_get_image_memory_requirements b info w = (Ok reqs, w') \<Longrightarrow>
       canonical_image_requirements info = Ok low \<Longrightarrow> at_least reqs low"
begin

text \<open>Rounding the size up to a page keeps the contract.\<close>

lemma rounded:
  assumes "gr_get_image_memory_requirements b info w = (Ok reqs, w1)"
    and "round_up_to_page_size (w_os w1) (irq_size reqs) = Ok sz"
    and "canonical_image_requirements info = Ok low"
  shows "irq_info (reqs\<lparr>irq_size := sz\<rparr>) = info" and "at_least (reqs\<lparr>irq_size := sz\<rparr>) low"
    and "os_page_size (w_os w1) dvd unat sz"
  using records_info [OF assms(1)] canonical_min [OF assms(1,3)]
    round_up_to_page_size_ok [OF assms(2)]
  by (auto simp: at_least_def)

end

interpretation system: gralloc_contract system_gralloc
  by unfold_locales
    (auto simp: system_gralloc_def gralloc_defaults_def system_get_image_memory_requirements_def
      four_plane_lists_def at_least_def and_then_eq_Ok canonical_lengths
      dest: canonical_lengths intro: canonical_info)

lemma fmdom_gralloc_new:
  assumes "rutabaga_gralloc_new env backend_flags_new w = (Ok m, w')"
  shows "fmlookup m System = Some system_gralloc"
    and "gb_minigbm_init env = None \<Longrightarrow> fmlookup m Minigbm = None"
    and "gb_vulkano_init env = None \<Longrightarrow> fmlookup m Vulkano = None"
  using assms
  by (auto simp: rutabaga_gralloc_new_def backend_flags_new_def uses_system_def uses_gbm_def
      uses_vulkano_def has_flag_def system_gralloc_init_def try_backend_def
      split: option.splits prod.splits sum.splits)

text \<open>
  A gralloc built without the two optional backends serves every image request with the
  system backend: the requirements record the request, have cached mapping, strides and offsets
  of the canonical layout and the size of it rounded up to the next page; allocating from them
  gives a shared-memory handle of that size or the error of the system call.
\<close>

lemma system_only_requirements:
  assumes "gb_minigbm_init env = None" and "gb_vulkano_init env = None"
    and "rutabaga_gralloc_new env backend_flags_new w = (Ok m, w0)"
    and "gralloc_get_image_memory_requirements env m info w1 = (Ok reqs, w2)"
  shows "\<exists>low. canonical_image_requirements info = Ok low \<and>
      irq_info reqs = info \<and> irq_map_info reqs = RUTABAGA_MAP_CACHE_CACHED \<and>
      irq_strides reqs = irq_strides low \<and> irq_offsets reqs = irq_offsets low \<and>
      os_page_size (w_os w1) dvd unat (irq_size reqs) \<and>
      unat (irq_size low) \<le> unat (irq_size reqs) \<and>
      unat (irq_size reqs) < unat (irq_size low) + os_page_size (w_os w1) \<and>
      (case os_memfd (w_os w2) (unat (irq_size reqs)) of
         Inl e \<Rightarrow> fst (gralloc_allocate_memory env m reqs w2) = Err (MagmaGpuError (RustixError e))
       | Inr fd \<Rightarrow> fst (gralloc_allocate_memory env m reqs w2) =
           Ok \<lparr>os_handle = fd, handle_type = MAGMA_GPU_HANDLE_TYPE_MEM_SHM\<rparr>)"
proof -
  have opt: "determine_optimal_backend env m = System"
    using assms(1,2) by (simp add: determine_optimal_backend_def)
  note sys = fmdom_gralloc_new(1) [OF assms(3)]
  have get: "gr_get_image_memory_requirements system_gralloc info w1 =
      (and_then (canonical_image_requirements info) (\<lambda>reqs.
        Ok (reqs\<lparr>irq_map_info := RUTABAGA_MAP_CACHE_CACHED\<rparr>)), w1)"
    by (simp add: system_gralloc_def gralloc_defaults_def
        system_get_image_memory_requirements_def)
  obtain low sz where low: "canonical_image_requirements info = Ok low"
    and sz: "round_up_to_page_size (w_os w1) (irq_size low) = Ok sz"
    and reqs: "reqs = low\<lparr>irq_map_info := RUTABAGA_MAP_CACHE_CACHED, irq_size := sz\<rparr>"
    and w2: "w2 = w1"
    using assms(4) sys
    by (auto simp: gralloc_get_image_memory_requirements_def opt get and_then_st_eq_Ok
        and_then_eq_Ok)
  have "irq_info reqs = info"
    using low by (auto simp: canonical_image_requirements_def reqs and_then_eq_Ok)
  moreover have "fst (gralloc_allocate_memory env m reqs w2) =
      (case os_memfd (w_os w2) (unat (irq_size reqs)) of
         Inl e \<Rightarrow> Err (MagmaGpuError (RustixError e))
       | Inr fd \<Rightarrow> Ok \<lparr>os_handle = fd, handle_type = MAGMA_GPU_HANDLE_TYPE_MEM_SHM\<rparr>)"
    using sys
    by (simp add: gralloc_allocate_memory_def opt system_gralloc_def gralloc_defaults_def
        system_allocate_memory_def shared_memory_new_def split: sum.split)
  ultimately show ?thesis
    using low round_up_to_page_size_ok [OF sz]
    by (intro exI [of _ low]) (simp add: reqs w2 split: sum.split)
qed

end
