(* ===== verification/CD_Protocol.thy ===== *)
theory CD_Protocol
  imports Prelude
begin

text \<open>
  The wire structs of the cross-domain protocol, \<open>src/cross_domain/cross_domain_protocol.rs\<close>.

  The structs are \<open>repr(C)\<close>: the language lays their fields out in the order of the declaration, each
  at the next multiple of its alignment, and the target is little-endian. The bytes of a value are
  thus given by its type alone. \<open>encode\<close> writes this memory image out, as the code gets it from
  \<open>as_bytes\<close>, and \<open>decode\<close> reads a value from it, as \<open>read_from_prefix\<close> does once it has found enough
  bytes; neither translates a function of the repository, which only calls the derived traits.
  A fixed array is a list; the predicates \<open>wf\<close> give its length.
\<close>

unbundle bit_operations_syntax

section \<open>Little-endian numbers\<close>

definition le_bytes :: "nat \<Rightarrow> 'a::len word \<Rightarrow> u8 list" where
  "le_bytes n w = map (\<lambda>i. ucast (drop_bit (8 * i) w)) [0..<n]"

fun of_le_bytes :: "u8 list \<Rightarrow> 'a::len word" where
  "of_le_bytes [] = 0"
| "of_le_bytes (b # bs) = ucast b OR push_bit 8 (of_le_bytes bs)"

definition le_at :: "nat \<Rightarrow> nat \<Rightarrow> u8 list \<Rightarrow> 'a::len word" where
  "le_at off n bs = of_le_bytes (take n (drop off bs))"

definition bytes_at :: "nat \<Rightarrow> nat \<Rightarrow> u8 list \<Rightarrow> u8 list" where
  "bytes_at off n bs = take n (drop off bs)"

definition array_at :: "nat \<Rightarrow> nat \<Rightarrow> u8 list \<Rightarrow> u32 list" where
  "array_at off n bs = map (\<lambda>i. le_at (off + 4 * i) 4 bs) [0..<n]"

definition array_bytes :: "u32 list \<Rightarrow> u8 list" where
  "array_bytes ws = concat (map (le_bytes 4) ws)"

lemma length_le_bytes [simp]: "length (le_bytes n w) = n"
  by (simp add: le_bytes_def)

lemma length_array_bytes [simp]: "length (array_bytes ws) = 4 * length ws"
  by (induction ws) (simp_all add: array_bytes_def)

lemma bit_of_le_bytes:
  "bit (of_le_bytes bs :: 'a::len word) i \<longleftrightarrow>
     i < LENGTH('a) \<and> i div 8 < length bs \<and> bit (bs ! (i div 8)) (i mod 8)"
proof (induction bs arbitrary: i)
  case Nil
  then show ?case by simp
next
  case (Cons b bs)
  show ?case
  proof (cases "i < 8")
    case True
    then show ?thesis by (auto simp: bit_simps)
  next
    case False
    then obtain k where k: "i = k + 8" by (metis add.commute le_Suc_ex not_less)
    have "i div 8 = Suc (k div 8)" "i mod 8 = k mod 8" by (simp_all add: k)
    with False k show ?thesis
      by (auto simp: bit_or_iff bit_push_bit_iff bit_ucast_iff Cons dest: bit_imp_le_length)
  qed
qed

lemma of_le_bytes_le_bytes [simp]:
  assumes "LENGTH('a) \<le> 8 * n"
  shows "of_le_bytes (le_bytes n w) = (w :: 'a::len word)"
proof (rule bit_eqI)
  fix i assume "possible_bit TYPE('a word) i"
  then have "i < LENGTH('a)" by simp
  then have "i div 8 < n" using assms by (simp add: less_mult_imp_div_less)
  then show "bit (of_le_bytes (le_bytes n w) :: 'a word) i = bit w i"
    using \<open>i < LENGTH('a)\<close>
    by (simp add: bit_of_le_bytes le_bytes_def bit_ucast_iff bit_drop_bit_eq)
qed

text \<open>A field is read by walking over the fields before it.\<close>

lemma le_at_simps [simp]:
  "length xs \<le> off \<Longrightarrow> le_at off n (xs @ ys) = le_at (off - length xs) n ys"
  "LENGTH('a) \<le> 8 * n \<Longrightarrow> le_at 0 n (le_bytes n w @ ys) = (w :: 'a::len word)"
  "LENGTH('a) \<le> 8 * n \<Longrightarrow> le_at 0 n (le_bytes n w) = (w :: 'a::len word)"
  by (simp_all add: le_at_def)

lemma bytes_at_simps [simp]:
  "length xs \<le> off \<Longrightarrow> bytes_at off n (xs @ ys) = bytes_at (off - length xs) n ys"
  "length xs = n \<Longrightarrow> bytes_at 0 n (xs @ ys) = xs"
  by (simp_all add: bytes_at_def)

lemma array_at_skip [simp]:
  "length xs \<le> off \<Longrightarrow> array_at off n (xs @ ys) = array_at (off - length xs) n ys"
  by (simp add: array_at_def)

lemma array_at_here [simp]: "length ws = n \<Longrightarrow> array_at 0 n (array_bytes ws @ ys) = ws"
proof (induction ws arbitrary: n)
  case Nil
  then show ?case by (simp add: array_at_def)
next
  case (Cons w ws)
  then obtain m where n: "n = Suc m" "length ws = m" by auto
  have "array_at 0 n (array_bytes (w # ws) @ ys) =
      w # map (\<lambda>i. le_at (4 * Suc i) 4 (le_bytes 4 w @ (array_bytes ws @ ys))) [0..<m]"
    unfolding n array_at_def upt_conv_Cons [OF zero_less_Suc]
    by (simp add: array_bytes_def flip: map_Suc_upt del: upt_Suc)
  also have "\<dots> = w # array_at 0 m (array_bytes ws @ ys)"
    by (simp add: array_at_def)
  finally show ?case using Cons n by simp
qed

lemma array_at_end [simp]: "length ws = n \<Longrightarrow> array_at 0 n (array_bytes ws) = ws"
  using array_at_here [of ws n "[]"] by simp

lemma length_array_at [simp]: "length (array_at off n bs) = n"
  by (simp add: array_at_def)

text \<open>\<open>T::read_from_prefix\<close> for a struct of \<open>n\<close> bytes\<close>

definition read_from_prefix :: "nat \<Rightarrow> (u8 list \<Rightarrow> 'a) \<Rightarrow> u8 list \<Rightarrow> 'a option" where
  "read_from_prefix n decode bs = (if length bs < n then None else Some (decode bs))"

lemma read_from_prefix_eq_Some [simp]:
  "read_from_prefix n decode bs = Some x \<longleftrightarrow> n \<le> length bs \<and> x = decode bs"
  by (auto simp: read_from_prefix_def)

section \<open>Constants\<close>

definition CROSS_DOMAIN_CMD_INIT :: u8 where [simp]: "CROSS_DOMAIN_CMD_INIT = 1"
definition CROSS_DOMAIN_CMD_GET_IMAGE_REQUIREMENTS :: u8 where
  [simp]: "CROSS_DOMAIN_CMD_GET_IMAGE_REQUIREMENTS = 2"
definition CROSS_DOMAIN_CMD_POLL :: u8 where [simp]: "CROSS_DOMAIN_CMD_POLL = 3"
definition CROSS_DOMAIN_CMD_SEND :: u8 where [simp]: "CROSS_DOMAIN_CMD_SEND = 4"
definition CROSS_DOMAIN_CMD_RECEIVE :: u8 where [simp]: "CROSS_DOMAIN_CMD_RECEIVE = 5"
definition CROSS_DOMAIN_CMD_READ :: u8 where [simp]: "CROSS_DOMAIN_CMD_READ = 6"
definition CROSS_DOMAIN_CMD_WRITE :: u8 where [simp]: "CROSS_DOMAIN_CMD_WRITE = 7"
definition CROSS_DOMAIN_CMD_CREATE_ATOMIC_MEMORY_SENTINEL :: u8 where
  [simp]: "CROSS_DOMAIN_CMD_CREATE_ATOMIC_MEMORY_SENTINEL = 8"
definition CROSS_DOMAIN_CMD_SIGNAL_ATOMIC_MEMORY_SENTINEL :: u8 where
  [simp]: "CROSS_DOMAIN_CMD_SIGNAL_ATOMIC_MEMORY_SENTINEL = 9"
definition CROSS_DOMAIN_CMD_DESTROY_ATOMIC_MEMORY_SENTINEL :: u8 where
  [simp]: "CROSS_DOMAIN_CMD_DESTROY_ATOMIC_MEMORY_SENTINEL = 10"
definition CROSS_DOMAIN_CMD_READ_CREATE_EVENT :: u8 where
  [simp]: "CROSS_DOMAIN_CMD_READ_CREATE_EVENT = 11"
definition CROSS_DOMAIN_CMD_IMPORT_VIRTIOFS_HANDLE :: u8 where
  [simp]: "CROSS_DOMAIN_CMD_IMPORT_VIRTIOFS_HANDLE = 12"
definition CROSS_DOMAIN_CMD_ASSIGN_SOCKET_UUID :: u8 where
  [simp]: "CROSS_DOMAIN_CMD_ASSIGN_SOCKET_UUID = 13"

definition CROSS_DOMAIN_CHANNEL_TYPE_INTERNAL_SOCKET :: u32 where
  [simp]: "CROSS_DOMAIN_CHANNEL_TYPE_INTERNAL_SOCKET = 0xffffffff"
definition CROSS_DOMAIN_MAX_IDENTIFIERS :: nat where [simp]: "CROSS_DOMAIN_MAX_IDENTIFIERS = 28"
definition CROSS_DOMAIN_ID_TYPE_VIRTGPU_BLOB :: u32 where
  [simp]: "CROSS_DOMAIN_ID_TYPE_VIRTGPU_BLOB = 1"
definition CROSS_DOMAIN_ID_TYPE_READ_PIPE :: u32 where
  [simp]: "CROSS_DOMAIN_ID_TYPE_READ_PIPE = 3"
definition CROSS_DOMAIN_ID_TYPE_WRITE_PIPE :: u32 where
  [simp]: "CROSS_DOMAIN_ID_TYPE_WRITE_PIPE = 4"
definition CROSS_DOMAIN_ID_TYPE_EVENT :: u32 where [simp]: "CROSS_DOMAIN_ID_TYPE_EVENT = 5"
definition CROSS_DOMAIN_ID_TYPE_VIRTIO_FS_BLOB :: u32 where
  [simp]: "CROSS_DOMAIN_ID_TYPE_VIRTIO_FS_BLOB = 6"
definition CROSS_DOMAIN_ID_TYPE_SOCKET :: u32 where [simp]: "CROSS_DOMAIN_ID_TYPE_SOCKET = 7"
definition CROSS_DOMAIN_QUERY_RING :: u32 where [simp]: "CROSS_DOMAIN_QUERY_RING = 0"
definition CROSS_DOMAIN_CHANNEL_RING :: u32 where [simp]: "CROSS_DOMAIN_CHANNEL_RING = 1"
definition CROSS_DOMAIN_PIPE_READ_START :: u32 where
  [simp]: "CROSS_DOMAIN_PIPE_READ_START = 0x80000000"
definition CROSS_DOMAIN_ATOMIC_MEMORY_SENTINEL_START :: u32 where
  [simp]: "CROSS_DOMAIN_ATOMIC_MEMORY_SENTINEL_START = 0x40000000"


section \<open>The structs\<close>

text \<open>Signed 32-bit fields are kept as their bit pattern.\<close>

named_theorems wire \<open>encoders and decoders of the wire structs\<close>

record cd_capabilities =
  caps_version :: u32
  caps_supported_channels :: u32
  caps_supports_dmabuf :: u32
  caps_supports_external_gpu_memory :: u32

definition encode_capabilities :: "cd_capabilities \<Rightarrow> u8 list" where
  [wire]: "encode_capabilities x =
     le_bytes 4 (caps_version x) @ le_bytes 4 (caps_supported_channels x) @
     le_bytes 4 (caps_supports_dmabuf x) @ le_bytes 4 (caps_supports_external_gpu_memory x)"

definition decode_capabilities :: "u8 list \<Rightarrow> cd_capabilities" where
  [wire]: "decode_capabilities bs =
     \<lparr>caps_version = le_at 0 4 bs, caps_supported_channels = le_at 4 4 bs,
      caps_supports_dmabuf = le_at 8 4 bs,
      caps_supports_external_gpu_memory = le_at 12 4 bs\<rparr>"

record cd_image_requirements =
  cir_strides :: "u32 list"
  cir_offsets :: "u32 list"
  cir_modifier :: u64
  cir_size :: u64
  cir_blob_id :: u32
  cir_map_info :: u32
  cir_memory_idx :: u32
  cir_physical_device_idx :: u32

definition encode_image_requirements :: "cd_image_requirements \<Rightarrow> u8 list" where
  [wire]: "encode_image_requirements x =
     array_bytes (cir_strides x) @ array_bytes (cir_offsets x) @
     le_bytes 8 (cir_modifier x) @ le_bytes 8 (cir_size x) @ le_bytes 4 (cir_blob_id x) @
     le_bytes 4 (cir_map_info x) @ le_bytes 4 (cir_memory_idx x) @
     le_bytes 4 (cir_physical_device_idx x)"

definition decode_image_requirements :: "u8 list \<Rightarrow> cd_image_requirements" where
  [wire]: "decode_image_requirements bs =
     \<lparr>cir_strides = array_at 0 4 bs, cir_offsets = array_at 16 4 bs,
      cir_modifier = le_at 32 8 bs, cir_size = le_at 40 8 bs, cir_blob_id = le_at 48 4 bs,
      cir_map_info = le_at 52 4 bs, cir_memory_idx = le_at 56 4 bs,
      cir_physical_device_idx = le_at 60 4 bs\<rparr>"

definition wf_image_requirements :: "cd_image_requirements \<Rightarrow> bool" where
  [wire]: "wf_image_requirements x \<longleftrightarrow> length (cir_strides x) = 4 \<and> length (cir_offsets x) = 4"

record cd_header =
  hdr_cmd :: u8
  hdr_ring_idx :: u8
  hdr_cmd_size :: u16
  hdr_pad :: u32

definition encode_header :: "cd_header \<Rightarrow> u8 list" where
  [wire]: "encode_header x =
     le_bytes 1 (hdr_cmd x) @ le_bytes 1 (hdr_ring_idx x) @ le_bytes 2 (hdr_cmd_size x) @
     le_bytes 4 (hdr_pad x)"

definition decode_header :: "u8 list \<Rightarrow> cd_header" where
  [wire]: "decode_header bs =
     \<lparr>hdr_cmd = le_at 0 1 bs, hdr_ring_idx = le_at 1 1 bs, hdr_cmd_size = le_at 2 2 bs,
      hdr_pad = le_at 4 4 bs\<rparr>"

record cd_init =
  init_hdr :: cd_header
  init_query_ring_id :: u32
  init_channel_ring_id :: u32
  init_channel_type :: u32
  init_internal_socket_uuid :: "u8 list"

definition encode_init :: "cd_init \<Rightarrow> u8 list" where
  [wire]: "encode_init x =
     encode_header (init_hdr x) @ le_bytes 4 (init_query_ring_id x) @
     le_bytes 4 (init_channel_ring_id x) @ le_bytes 4 (init_channel_type x) @
     init_internal_socket_uuid x"

definition decode_init :: "u8 list \<Rightarrow> cd_init" where
  [wire]: "decode_init bs =
     \<lparr>init_hdr = decode_header bs, init_query_ring_id = le_at 8 4 bs,
      init_channel_ring_id = le_at 12 4 bs, init_channel_type = le_at 16 4 bs,
      init_internal_socket_uuid = bytes_at 20 16 bs\<rparr>"

definition wf_init :: "cd_init \<Rightarrow> bool" where
  [wire]: "wf_init x \<longleftrightarrow> length (init_internal_socket_uuid x) = 16"

record cd_get_image_requirements =
  gir_hdr :: cd_header
  gir_width :: u32
  gir_height :: u32
  gir_drm_format :: u32
  gir_flags :: u32

definition encode_get_image_requirements :: "cd_get_image_requirements \<Rightarrow> u8 list" where
  [wire]: "encode_get_image_requirements x =
     encode_header (gir_hdr x) @ le_bytes 4 (gir_width x) @ le_bytes 4 (gir_height x) @
     le_bytes 4 (gir_drm_format x) @ le_bytes 4 (gir_flags x)"

definition decode_get_image_requirements :: "u8 list \<Rightarrow> cd_get_image_requirements" where
  [wire]: "decode_get_image_requirements bs =
     \<lparr>gir_hdr = decode_header bs, gir_width = le_at 8 4 bs, gir_height = le_at 12 4 bs,
      gir_drm_format = le_at 16 4 bs, gir_flags = le_at 20 4 bs\<rparr>"

record cd_send_receive =
  sr_hdr :: cd_header
  sr_num_identifiers :: u32
  sr_opaque_data_size :: u32
  sr_identifiers :: "u32 list"
  sr_identifier_types :: "u32 list"
  sr_identifier_sizes :: "u32 list"

definition encode_send_receive :: "cd_send_receive \<Rightarrow> u8 list" where
  [wire]: "encode_send_receive x =
     encode_header (sr_hdr x) @ le_bytes 4 (sr_num_identifiers x) @
     le_bytes 4 (sr_opaque_data_size x) @ array_bytes (sr_identifiers x) @
     array_bytes (sr_identifier_types x) @ array_bytes (sr_identifier_sizes x)"

definition decode_send_receive :: "u8 list \<Rightarrow> cd_send_receive" where
  [wire]: "decode_send_receive bs =
     \<lparr>sr_hdr = decode_header bs, sr_num_identifiers = le_at 8 4 bs,
      sr_opaque_data_size = le_at 12 4 bs, sr_identifiers = array_at 16 28 bs,
      sr_identifier_types = array_at 128 28 bs, sr_identifier_sizes = array_at 240 28 bs\<rparr>"

definition wf_send_receive :: "cd_send_receive \<Rightarrow> bool" where
  [wire]: "wf_send_receive x \<longleftrightarrow> length (sr_identifiers x) = 28 \<and> length (sr_identifier_types x) = 28 \<and> length (sr_identifier_sizes x) = 28"

record cd_read_write =
  rw_hdr :: cd_header
  rw_identifier :: u32
  rw_hang_up :: u32
  rw_opaque_data_size :: u32
  rw_pad :: u32

definition encode_read_write :: "cd_read_write \<Rightarrow> u8 list" where
  [wire]: "encode_read_write x =
     encode_header (rw_hdr x) @ le_bytes 4 (rw_identifier x) @ le_bytes 4 (rw_hang_up x) @
     le_bytes 4 (rw_opaque_data_size x) @ le_bytes 4 (rw_pad x)"

definition decode_read_write :: "u8 list \<Rightarrow> cd_read_write" where
  [wire]: "decode_read_write bs =
     \<lparr>rw_hdr = decode_header bs, rw_identifier = le_at 8 4 bs, rw_hang_up = le_at 12 4 bs,
      rw_opaque_data_size = le_at 16 4 bs, rw_pad = le_at 20 4 bs\<rparr>"

record cd_create_sentinel =
  cas_hdr :: cd_header
  cas_fs_id :: u64
  cas_handle :: u64
  cas_id :: u32
  cas_pad :: u32

definition encode_create_sentinel :: "cd_create_sentinel \<Rightarrow> u8 list" where
  [wire]: "encode_create_sentinel x =
     encode_header (cas_hdr x) @ le_bytes 8 (cas_fs_id x) @ le_bytes 8 (cas_handle x) @
     le_bytes 4 (cas_id x) @ le_bytes 4 (cas_pad x)"

definition decode_create_sentinel :: "u8 list \<Rightarrow> cd_create_sentinel" where
  [wire]: "decode_create_sentinel bs =
     \<lparr>cas_hdr = decode_header bs, cas_fs_id = le_at 8 8 bs, cas_handle = le_at 16 8 bs,
      cas_id = le_at 24 4 bs, cas_pad = le_at 28 4 bs\<rparr>"

record cd_signal_sentinel =
  sas_hdr :: cd_header
  sas_id :: u32
  sas_pad :: u32

definition encode_signal_sentinel :: "cd_signal_sentinel \<Rightarrow> u8 list" where
  [wire]: "encode_signal_sentinel x =
     encode_header (sas_hdr x) @ le_bytes 4 (sas_id x) @ le_bytes 4 (sas_pad x)"

definition decode_signal_sentinel :: "u8 list \<Rightarrow> cd_signal_sentinel" where
  [wire]: "decode_signal_sentinel bs =
     \<lparr>sas_hdr = decode_header bs, sas_id = le_at 8 4 bs, sas_pad = le_at 12 4 bs\<rparr>"

record cd_destroy_sentinel =
  das_hdr :: cd_header
  das_id :: u32
  das_pad :: u32

definition encode_destroy_sentinel :: "cd_destroy_sentinel \<Rightarrow> u8 list" where
  [wire]: "encode_destroy_sentinel x =
     encode_header (das_hdr x) @ le_bytes 4 (das_id x) @ le_bytes 4 (das_pad x)"

definition decode_destroy_sentinel :: "u8 list \<Rightarrow> cd_destroy_sentinel" where
  [wire]: "decode_destroy_sentinel bs =
     \<lparr>das_hdr = decode_header bs, das_id = le_at 8 4 bs, das_pad = le_at 12 4 bs\<rparr>"

record cd_create_event =
  cev_hdr :: cd_header
  cev_id :: u32
  cev_pad :: u32

definition encode_create_event :: "cd_create_event \<Rightarrow> u8 list" where
  [wire]: "encode_create_event x =
     encode_header (cev_hdr x) @ le_bytes 4 (cev_id x) @ le_bytes 4 (cev_pad x)"

definition decode_create_event :: "u8 list \<Rightarrow> cd_create_event" where
  [wire]: "decode_create_event bs =
     \<lparr>cev_hdr = decode_header bs, cev_id = le_at 8 4 bs, cev_pad = le_at 12 4 bs\<rparr>"

record cd_import_virtiofs =
  ivf_hdr :: cd_header
  ivf_fs_id :: u64
  ivf_handle :: u64
  ivf_id :: u32
  ivf_pad :: u32

definition encode_import_virtiofs :: "cd_import_virtiofs \<Rightarrow> u8 list" where
  [wire]: "encode_import_virtiofs x =
     encode_header (ivf_hdr x) @ le_bytes 8 (ivf_fs_id x) @ le_bytes 8 (ivf_handle x) @
     le_bytes 4 (ivf_id x) @ le_bytes 4 (ivf_pad x)"

definition decode_import_virtiofs :: "u8 list \<Rightarrow> cd_import_virtiofs" where
  [wire]: "decode_import_virtiofs bs =
     \<lparr>ivf_hdr = decode_header bs, ivf_fs_id = le_at 8 8 bs, ivf_handle = le_at 16 8 bs,
      ivf_id = le_at 24 4 bs, ivf_pad = le_at 28 4 bs\<rparr>"

record cd_assign_socket_uuid =
  asu_hdr :: cd_header
  asu_socket_uuid :: "u8 list"
  asu_id :: u32
  asu_pad :: u32

definition encode_assign_socket_uuid :: "cd_assign_socket_uuid \<Rightarrow> u8 list" where
  [wire]: "encode_assign_socket_uuid x =
     encode_header (asu_hdr x) @ asu_socket_uuid x @ le_bytes 4 (asu_id x) @
     le_bytes 4 (asu_pad x)"

definition decode_assign_socket_uuid :: "u8 list \<Rightarrow> cd_assign_socket_uuid" where
  [wire]: "decode_assign_socket_uuid bs =
     \<lparr>asu_hdr = decode_header bs, asu_socket_uuid = bytes_at 8 16 bs,
      asu_id = le_at 24 4 bs, asu_pad = le_at 28 4 bs\<rparr>"

definition wf_assign_socket_uuid :: "cd_assign_socket_uuid \<Rightarrow> bool" where
  [wire]: "wf_assign_socket_uuid x \<longleftrightarrow> length (asu_socket_uuid x) = 16"

record cd_init_legacy =
  inl_hdr :: cd_header
  inl_query_ring_id :: u32
  inl_channel_type :: u32

definition encode_init_legacy :: "cd_init_legacy \<Rightarrow> u8 list" where
  [wire]: "encode_init_legacy x =
     encode_header (inl_hdr x) @ le_bytes 4 (inl_query_ring_id x) @
     le_bytes 4 (inl_channel_type x)"

definition decode_init_legacy :: "u8 list \<Rightarrow> cd_init_legacy" where
  [wire]: "decode_init_legacy bs =
     \<lparr>inl_hdr = decode_header bs, inl_query_ring_id = le_at 8 4 bs,
      inl_channel_type = le_at 12 4 bs\<rparr>"

record cd_init_v1 =
  iv1_hdr :: cd_header
  iv1_query_ring_id :: u32
  iv1_channel_ring_id :: u32
  iv1_channel_type :: u32

definition encode_init_v1 :: "cd_init_v1 \<Rightarrow> u8 list" where
  [wire]: "encode_init_v1 x =
     encode_header (iv1_hdr x) @ le_bytes 4 (iv1_query_ring_id x) @
     le_bytes 4 (iv1_channel_ring_id x) @ le_bytes 4 (iv1_channel_type x)"

definition decode_init_v1 :: "u8 list \<Rightarrow> cd_init_v1" where
  [wire]: "decode_init_v1 bs =
     \<lparr>iv1_hdr = decode_header bs, iv1_query_ring_id = le_at 8 4 bs,
      iv1_channel_ring_id = le_at 12 4 bs, iv1_channel_type = le_at 16 4 bs\<rparr>"

text \<open>The two older forms of the init command\<close>

definition upgrade_legacy :: "cd_init_legacy \<Rightarrow> cd_init" where
  "upgrade_legacy x =
     \<lparr>init_hdr = inl_hdr x, init_query_ring_id = inl_query_ring_id x,
      init_channel_ring_id = inl_query_ring_id x, init_channel_type = inl_channel_type x,
      init_internal_socket_uuid = replicate 16 0\<rparr>"

definition upgrade_v1 :: "cd_init_v1 \<Rightarrow> cd_init" where
  "upgrade_v1 x =
     \<lparr>init_hdr = iv1_hdr x, init_query_ring_id = iv1_query_ring_id x,
      init_channel_ring_id = iv1_channel_ring_id x, init_channel_type = iv1_channel_type x,
      init_internal_socket_uuid = replicate 16 0\<rparr>"

section \<open>Sizes and round trips\<close>

lemma length_encode_header [simp]: "length (encode_header x) = 8"
  by (simp add: wire)

lemma decode_header_encode [simp]:
  "decode_header (encode_header x) = x" "decode_header (encode_header x @ rest) = x"
  by (simp_all add: wire)

lemma capabilities_wire [simp]:
  "length (encode_capabilities x) = 16"
  "decode_capabilities (encode_capabilities x @ rest) = x"
  by (simp_all add: encode_capabilities_def decode_capabilities_def)

lemma image_requirements_wire [simp]:
  "wf_image_requirements x \<Longrightarrow> length (encode_image_requirements x) = 64"
  "wf_image_requirements x \<Longrightarrow> decode_image_requirements (encode_image_requirements x @ rest) = x"
  by (simp_all add: encode_image_requirements_def decode_image_requirements_def wf_image_requirements_def)

lemma init_wire [simp]:
  "wf_init x \<Longrightarrow> length (encode_init x) = 36"
  "wf_init x \<Longrightarrow> decode_init (encode_init x @ rest) = x"
  by (simp_all add: encode_init_def decode_init_def wf_init_def)

lemma get_image_requirements_wire [simp]:
  "length (encode_get_image_requirements x) = 24"
  "decode_get_image_requirements (encode_get_image_requirements x @ rest) = x"
  by (simp_all add: encode_get_image_requirements_def decode_get_image_requirements_def)

lemma send_receive_wire [simp]:
  "wf_send_receive x \<Longrightarrow> length (encode_send_receive x) = 352"
  "wf_send_receive x \<Longrightarrow> decode_send_receive (encode_send_receive x @ rest) = x"
  by (simp_all add: encode_send_receive_def decode_send_receive_def wf_send_receive_def)

lemma read_write_wire [simp]:
  "length (encode_read_write x) = 24"
  "decode_read_write (encode_read_write x @ rest) = x"
  by (simp_all add: encode_read_write_def decode_read_write_def)

lemma create_sentinel_wire [simp]:
  "length (encode_create_sentinel x) = 32"
  "decode_create_sentinel (encode_create_sentinel x @ rest) = x"
  by (simp_all add: encode_create_sentinel_def decode_create_sentinel_def)

lemma signal_sentinel_wire [simp]:
  "length (encode_signal_sentinel x) = 16"
  "decode_signal_sentinel (encode_signal_sentinel x @ rest) = x"
  by (simp_all add: encode_signal_sentinel_def decode_signal_sentinel_def)

lemma destroy_sentinel_wire [simp]:
  "length (encode_destroy_sentinel x) = 16"
  "decode_destroy_sentinel (encode_destroy_sentinel x @ rest) = x"
  by (simp_all add: encode_destroy_sentinel_def decode_destroy_sentinel_def)

lemma create_event_wire [simp]:
  "length (encode_create_event x) = 16"
  "decode_create_event (encode_create_event x @ rest) = x"
  by (simp_all add: encode_create_event_def decode_create_event_def)

lemma import_virtiofs_wire [simp]:
  "length (encode_import_virtiofs x) = 32"
  "decode_import_virtiofs (encode_import_virtiofs x @ rest) = x"
  by (simp_all add: encode_import_virtiofs_def decode_import_virtiofs_def)

lemma assign_socket_uuid_wire [simp]:
  "wf_assign_socket_uuid x \<Longrightarrow> length (encode_assign_socket_uuid x) = 32"
  "wf_assign_socket_uuid x \<Longrightarrow> decode_assign_socket_uuid (encode_assign_socket_uuid x @ rest) = x"
  by (simp_all add: encode_assign_socket_uuid_def decode_assign_socket_uuid_def wf_assign_socket_uuid_def)

lemma init_legacy_wire [simp]:
  "length (encode_init_legacy x) = 16"
  "decode_init_legacy (encode_init_legacy x @ rest) = x"
  by (simp_all add: encode_init_legacy_def decode_init_legacy_def)

lemma init_v1_wire [simp]:
  "length (encode_init_v1 x) = 20"
  "decode_init_v1 (encode_init_v1 x @ rest) = x"
  by (simp_all add: encode_init_v1_def decode_init_v1_def)

end
