(* ===== verification/CD_Common.thy ===== *)
theory CD_Common
  imports CD_Protocol Magma_Component Gralloc
begin

text \<open>
  What the cross-domain context and its worker thread share, \<open>src/cross_domain/common.rs\<close>: the item
  table, the job queue, the connection and the rings.

  A context runs in a \<open>cd_world\<close>, which adds to the world the system calls of the subsystem, the
  contexts and the sockets. A system call is asked with the number of calls made before, so that
  two calls need not get the same answer; what a call does outside is a log of \<open>cd_effect\<close>s. A worker is spawned with the descriptors of its wait context, its
  kill event and its resample event, a sentinel thread with the watcher id, its event and the value
  it starts from.
  Pipes, events and tubes are thin wrappers of descriptors (\<open>util/sys/linux/pipe.rs\<close>,
  \<open>event.rs\<close>, \<open>tube.rs\<close>) and are modelled by their descriptor.

  Every mutex is taken for the length of one operation, so an operation is one step.
\<close>

section \<open>System calls\<close>

record wait_event =
  ev_connection_id :: u64
  ev_hung_up :: bool
  ev_readable :: bool

datatype tube_type = Packet | Stream

datatype descriptor_type = UnknownType | MemoryType u32 u32 | WritePipeType | EventType | SocketType tube_type

text \<open>A control message of a socket carries descriptors or is of another kind.\<close>

datatype control_message = ScmRights "descriptor list" | OtherMessage

text \<open>Each returns an errno or a result. \<open>sys_epoll_wait\<close> is the wait that is not interrupted: its
  events are the data and the flags of \<open>epoll_event\<close>. \<open>sys_read_link\<close> reads
  \<open>/proc/self/fd/<descriptor>\<close>.\<close>

record cd_sys =
  sys_eventfd :: "nat \<Rightarrow> int + descriptor"
  sys_event_write :: "nat \<Rightarrow> descriptor \<Rightarrow> u64 \<Rightarrow> int + unit"
  sys_event_read :: "nat \<Rightarrow> descriptor \<Rightarrow> int + u64"
  sys_pipe :: "nat \<Rightarrow> int + descriptor \<times> descriptor"
  sys_pipe_read :: "nat \<Rightarrow> descriptor \<Rightarrow> nat \<Rightarrow> int + u8 list"
  sys_pipe_write :: "nat \<Rightarrow> descriptor \<Rightarrow> u8 list \<Rightarrow> int + nat"
  sys_socket :: "nat \<Rightarrow> tube_type \<Rightarrow> int + descriptor"
  sys_unix_addr :: "nat \<Rightarrow> string \<Rightarrow> int + string"
  sys_connect :: "nat \<Rightarrow> descriptor \<Rightarrow> string \<Rightarrow> int + unit"
  sys_socket_type :: "nat \<Rightarrow> descriptor \<Rightarrow> int + u32"
  sys_bind :: "nat \<Rightarrow> descriptor \<Rightarrow> string \<Rightarrow> int + unit"
  sys_listen :: "nat \<Rightarrow> descriptor \<Rightarrow> nat \<Rightarrow> int + unit"
  sys_set_nonblock :: "nat \<Rightarrow> descriptor \<Rightarrow> int + unit"
  sys_accept :: "nat \<Rightarrow> descriptor \<Rightarrow> int + descriptor"
  sys_sendmsg :: "nat \<Rightarrow> descriptor \<Rightarrow> u8 list \<Rightarrow> descriptor list \<Rightarrow> int + nat"
  sys_recvmsg :: "nat \<Rightarrow> descriptor \<Rightarrow> nat \<Rightarrow> int + u8 list \<times> control_message list"
  sys_epoll_create :: "nat \<Rightarrow> int + descriptor"
  sys_epoll_add :: "nat \<Rightarrow> descriptor \<Rightarrow> u64 \<Rightarrow> descriptor \<Rightarrow> int + unit"
  sys_epoll_delete :: "nat \<Rightarrow> descriptor \<Rightarrow> descriptor \<Rightarrow> int + unit"
  sys_epoll_wait :: "nat \<Rightarrow> descriptor \<Rightarrow> int + (u64 \<times> u32) list"
  sys_read_link :: "nat \<Rightarrow> descriptor \<Rightarrow> int + string"
  sys_fstat_mode :: "nat \<Rightarrow> descriptor \<Rightarrow> int + u32"
  sys_seek_end :: "nat \<Rightarrow> descriptor \<Rightarrow> int + u64"
  sys_spawn :: "nat \<Rightarrow> io_error + unit"

datatype cd_effect =
    EventWritten descriptor u64
  | PipeWritten descriptor "u8 list"
  | MessageSent descriptor "u8 list" "descriptor list"
  | EpollAdded descriptor u64 descriptor
  | EpollDeleted descriptor descriptor
  | WorkerSpawned descriptor descriptor descriptor
  | SentinelSpawned u32 descriptor u32
  | FutexWoken u64

section \<open>Items and jobs\<close>

datatype cd_item =
    ImageRequirements image_memory_requirements
  | Blob magma_handle
  | WaylandReadPipe descriptor
  | WaylandWritePipe descriptor
  | EventItem descriptor
  | RegularFile descriptor
  | SocketItem descriptor

datatype cd_job =
    HandleFence rutabaga_fence
  | AddReadPipe u32
  | Finish
  | AddAtomicMemorySentinel u32 descriptor
  | AddReadEvent u32

record cd_items =
  items_descriptor_id :: u32
  items_read_pipe_id :: u32
  items_table :: "(u32, cd_item) fmap"

definition cd_items_default :: cd_items where
  "cd_items_default =
     \<lparr>items_descriptor_id = 1, items_read_pipe_id = CROSS_DOMAIN_PIPE_READ_START,
      items_table = fmempty\<rparr>"

definition add_item :: "cd_items \<Rightarrow> cd_item \<Rightarrow> u32 \<times> cd_items" where
  "add_item its item =
     (let (item_id, its) =
        (case item of
           WaylandReadPipe _ \<Rightarrow>
             let its = its\<lparr>items_read_pipe_id := items_read_pipe_id its + 1\<rparr>
             in (max (items_read_pipe_id its) CROSS_DOMAIN_PIPE_READ_START, its)
         | _ \<Rightarrow>
             let its = its\<lparr>items_descriptor_id := items_descriptor_id its + 1\<rparr>
             in (items_descriptor_id its, its))
      in (item_id, its\<lparr>items_table := fmupd item_id item (items_table its)\<rparr>))"

section \<open>The state shared with the worker\<close>

text \<open>\<open>CrossDomainState\<close>; its \<open>context_resources\<close> and \<open>sentinel_manager\<close> are the ones of the
  context (the same \<open>Arc\<close>s), so they are fields of \<open>cd_context\<close> only.\<close>

record cd_state =
  st_query_ring_id :: u32
  st_channel_ring_id :: u32
  st_connection :: "descriptor option"
  st_jobs :: "cd_job list option"

definition cd_state_new :: "u32 \<Rightarrow> u32 \<Rightarrow> descriptor option \<Rightarrow> cd_state" where
  "cd_state_new query_ring_id channel_ring_id connection =
     \<lparr>st_query_ring_id = query_ring_id, st_channel_ring_id = channel_ring_id,
      st_connection = connection, st_jobs = Some []\<rparr>"

definition add_job :: "cd_job \<Rightarrow> cd_state \<Rightarrow> cd_state" where
  "add_job job st = st\<lparr>st_jobs := map_option (\<lambda>queue. queue @ [job]) (st_jobs st)\<rparr>"

text \<open>What \<open>wait_for_job\<close> returns when it returns: the outer \<open>None\<close> is a thread that waits.\<close>

definition wait_for_job :: "cd_state \<Rightarrow> (cd_job option \<times> cd_state) option" where
  "wait_for_job st =
     (case st_jobs st of
        None \<Rightarrow> Some (None, st)
      | Some [] \<Rightarrow> None
      | Some (job # queue) \<Rightarrow> Some (Some job, st\<lparr>st_jobs := Some queue\<rparr>))"

record sentinel_instance =
  si_mapping :: memory_mapping
  si_shutdown :: bool
  si_evt :: descriptor

text \<open>\<open>CrossDomainContext\<close>. \<open>cx_worker\<close> says that a join handle is held. The states of workers
  that an earlier init left running, which only those workers still hold, are \<open>cx_orphans\<close>. The
  gralloc and the virtio-fs lookup never change and are arguments of the operations.\<close>

record cd_context =
  cx_paths :: "rutabaga_path list option"
  cx_state :: "cd_state option"
  cx_resources :: context_resources
  cx_items :: cd_items
  cx_watchers :: "(u32, sentinel_instance) fmap"
  cx_worker :: bool
  cx_resample_evt :: "descriptor option"
  cx_kill_evt :: "descriptor option"
  cx_orphans :: "cd_state list"

record cd_world = world +
  cdw_sys :: cd_sys
  cdw_tick :: nat
  cdw_log :: "cd_effect list"
  cdw_sockets :: "(u128, descriptor) fmap"
  cdw_contexts :: "(u32, cd_context) fmap"

definition ask :: "(cd_sys \<Rightarrow> nat \<Rightarrow> 'r) \<Rightarrow> 'a cd_world_scheme \<Rightarrow> 'r \<times> 'a cd_world_scheme" where
  "ask call w = (call (cdw_sys w) (cdw_tick w), w\<lparr>cdw_tick := Suc (cdw_tick w)\<rparr>)"

definition emit :: "cd_effect \<Rightarrow> 'a cd_world_scheme \<Rightarrow> 'a cd_world_scheme" where
  "emit e w = w\<lparr>cdw_log := cdw_log w @ [e]\<rparr>"

text \<open>A system call that fails with an errno, as an operation of the library\<close>

definition errno_rres :: "int + 'r \<Rightarrow> 'r rres" where
  "errno_rres r = (case r of Inl e \<Rightarrow> Err (MagmaGpuError (RustixError e)) | Inr x \<Rightarrow> Ok x)"

definition sys_rres :: "(cd_sys \<Rightarrow> nat \<Rightarrow> int + 'r) \<Rightarrow> 'a cd_world_scheme \<Rightarrow> 'r rres \<times> 'a cd_world_scheme"
where
  "sys_rres call w = (case ask call w of (r, w) \<Rightarrow> (errno_rres r, w))"

lemma errno_rres_simps [simp]:
  "errno_rres (Inl e) = Err (MagmaGpuError (RustixError e))" "errno_rres (Inr x) = Ok x"
  by (simp_all add: errno_rres_def)

lemma errno_rres_eq_Ok [simp]: "errno_rres r = Inr x \<longleftrightarrow> r = Inr x"
  by (cases r) simp_all

text \<open>An operation of the world as an operation of a state that contains the world\<close>

definition in_world :: "('w \<Rightarrow> 'r \<times> 'w) \<Rightarrow> 's \<times> 'w \<Rightarrow> 'r \<times> ('s \<times> 'w)" where
  "in_world f s = (case f (snd s) of (r, w) \<Rightarrow> (r, (fst s, w)))"

definition upd_world :: "('w \<Rightarrow> 'w) \<Rightarrow> 's \<times> 'w \<Rightarrow> 's \<times> 'w" where
  "upd_world f s = (fst s, f (snd s))"

definition upd_state :: "('s \<Rightarrow> 's) \<Rightarrow> 's \<times> 'w \<Rightarrow> 's \<times> 'w" where
  "upd_state f s = (f (fst s), snd s)"

lemma in_world_simps [simp]:
  "fst (snd (in_world f s)) = fst s" "fst (in_world f s) = fst (f (snd s))"
  "snd (snd (in_world f s)) = snd (f (snd s))"
  by (simp_all add: in_world_def split: prod.split)

lemma in_world_eq: "in_world f (x, w) = (fst (f w), (x, snd (f w)))"
  by (simp add: in_world_def split: prod.split)

lemma upd_simps [simp]:
  "upd_world f (x, w) = (x, f w)" "upd_state g (x, w) = (g x, w)"
  by (simp_all add: upd_world_def upd_state_def)

section \<open>Events, pipes and tubes\<close>

definition thread_spawn :: "'a cd_world_scheme \<Rightarrow> unit rres \<times> 'a cd_world_scheme" where
  "thread_spawn w =
     (case ask sys_spawn w of
        (Inl e, w) \<Rightarrow> (Err (MagmaGpuError (IoError e)), w) | (Inr u, w) \<Rightarrow> (Ok u, w))"

definition event_new :: "'a cd_world_scheme \<Rightarrow> descriptor rres \<times> 'a cd_world_scheme" where
  "event_new w = sys_rres sys_eventfd w"

definition event_add :: "descriptor \<Rightarrow> u64 \<Rightarrow> 'a cd_world_scheme \<Rightarrow> unit rres \<times> 'a cd_world_scheme"
where
  "event_add d v w =
     and_then_st (sys_rres (\<lambda>s t. sys_event_write s t d v) w) (\<lambda>_ w.
       (Ok (), emit (EventWritten d v) w))"

definition event_signal :: "descriptor \<Rightarrow> 'a cd_world_scheme \<Rightarrow> unit rres \<times> 'a cd_world_scheme" where
  "event_signal d w = event_add d 1 w"

definition event_wait :: "descriptor \<Rightarrow> 'a cd_world_scheme \<Rightarrow> u64 rres \<times> 'a cd_world_scheme" where
  "event_wait d w = sys_rres (\<lambda>s t. sys_event_read s t d) w"

definition event_try_clone :: "descriptor \<Rightarrow> 'a cd_world_scheme \<Rightarrow> descriptor rres" where
  "event_try_clone d w =
     from_magma (map_err IoError (descriptor_try_clone (w_os w) d))"

definition create_pipe ::
  "'a cd_world_scheme \<Rightarrow> (descriptor \<times> descriptor) rres \<times> 'a cd_world_scheme" where
  "create_pipe w = sys_rres sys_pipe w"

text \<open>The kernel never returns more bytes than the buffer holds.\<close>

definition pipe_read ::
  "descriptor \<Rightarrow> nat \<Rightarrow> 'a cd_world_scheme \<Rightarrow> u8 list rres \<times> 'a cd_world_scheme" where
  "pipe_read d n w =
     and_then_st (sys_rres (\<lambda>s t. sys_pipe_read s t d n) w) (\<lambda>bs w. (Ok (take n bs), w))"

definition pipe_write ::
  "descriptor \<Rightarrow> u8 list \<Rightarrow> 'a cd_world_scheme \<Rightarrow> nat rres \<times> 'a cd_world_scheme" where
  "pipe_write d bs w =
     and_then_st (sys_rres (\<lambda>s t. sys_pipe_write s t d bs) w) (\<lambda>n w.
       (Ok n, emit (PipeWritten d (take n bs)) w))"

definition tube_new ::
  "string \<Rightarrow> tube_type \<Rightarrow> 'a cd_world_scheme \<Rightarrow> descriptor rres \<times> 'a cd_world_scheme" where
  "tube_new pth kind w =
     and_then_st (sys_rres (\<lambda>s t. sys_socket s t kind) w) (\<lambda>socket w.
     and_then_st (sys_rres (\<lambda>s t. sys_unix_addr s t pth) w) (\<lambda>unix_addr w.
     and_then_st (sys_rres (\<lambda>s t. sys_connect s t socket unix_addr) w) (\<lambda>_ w.
     (Ok socket, w))))"

text \<open>Socket types: 1 is \<open>SOCK_STREAM\<close>, 5 is \<open>SOCK_SEQPACKET\<close>.\<close>

definition tube_try_from :: "descriptor \<Rightarrow> 'a cd_world_scheme \<Rightarrow> descriptor rres \<times> 'a cd_world_scheme"
where
  "tube_try_from d w =
     and_then_st (sys_rres (\<lambda>s t. sys_socket_type s t d) w) (\<lambda>ty w.
       (if ty = 5 \<or> ty = 1 then Ok d else Err (MagmaGpuError Unsupported), w))"

definition tube_type_try_from :: "u32 \<Rightarrow> io_error fault + tube_type" where
  "tube_type_try_from ty =
     (if ty = 5 then Ok Packet else if ty = 1 then Ok Stream else Err IoUnsupported)"

text \<open>The ancillary buffer has room for \<open>MAX_IDENTIFIERS\<close> descriptors; a message that does not fit
  is not pushed, and the result of the push is not looked at.\<close>

definition MAX_IDENTIFIERS :: nat where [simp]: "MAX_IDENTIFIERS = 28"

definition tube_send ::
  "descriptor \<Rightarrow> u8 list \<Rightarrow> descriptor list \<Rightarrow> 'a cd_world_scheme \<Rightarrow> nat rres \<times> 'a cd_world_scheme"
where
  "tube_send d opaque_data descriptors w =
     (let pushed = (if length descriptors \<le> MAX_IDENTIFIERS then descriptors else []) in
      and_then_st (sys_rres (\<lambda>s t. sys_sendmsg s t d opaque_data pushed) w) (\<lambda>n w.
        (Ok n, emit (MessageSent d opaque_data pushed) w)))"

fun received_descriptors :: "control_message list \<Rightarrow> descriptor list mres" where
  "received_descriptors [] = Ok []"
| "received_descriptors (ScmRights fds # cmsgs) =
     and_then (received_descriptors cmsgs) (\<lambda>ds. Ok (fds @ ds))"
| "received_descriptors (OtherMessage # cmsgs) = Err Unsupported"

definition tube_receive ::
  "descriptor \<Rightarrow> nat \<Rightarrow> 'a cd_world_scheme \<Rightarrow>
   (u8 list \<times> descriptor list) rres \<times> 'a cd_world_scheme" where
  "tube_receive d n w =
     and_then_st (sys_rres (\<lambda>s t. sys_recvmsg s t d n) w) (\<lambda>(bs, cmsgs) w.
       (from_magma (and_then (received_descriptors cmsgs) (\<lambda>ds. Ok (take n bs, ds))), w))"

definition listener_bind :: "string \<Rightarrow> 'a cd_world_scheme \<Rightarrow> descriptor rres \<times> 'a cd_world_scheme" where
  "listener_bind pth w =
     and_then_st (sys_rres (\<lambda>s t. sys_socket s t Packet) w) (\<lambda>socket w.
     and_then_st (sys_rres (\<lambda>s t. sys_unix_addr s t pth) w) (\<lambda>unix_addr w.
     and_then_st (sys_rres (\<lambda>s t. sys_bind s t socket unix_addr) w) (\<lambda>_ w.
     and_then_st (sys_rres (\<lambda>s t. sys_listen s t socket 128) w) (\<lambda>_ w.
     and_then_st (sys_rres (\<lambda>s t. sys_set_nonblock s t socket) w) (\<lambda>_ w.
     (Ok socket, w))))))"

definition listener_accept ::
  "descriptor \<Rightarrow> 'a cd_world_scheme \<Rightarrow> descriptor rres \<times> 'a cd_world_scheme" where
  "listener_accept d w = sys_rres (\<lambda>s t. sys_accept s t d) w"

definition wait_ctx_new :: "'a cd_world_scheme \<Rightarrow> descriptor rres \<times> 'a cd_world_scheme" where
  "wait_ctx_new w = sys_rres sys_epoll_create w"

definition wait_ctx_add ::
  "descriptor \<Rightarrow> u64 \<Rightarrow> descriptor \<Rightarrow> 'a cd_world_scheme \<Rightarrow> unit rres \<times> 'a cd_world_scheme" where
  "wait_ctx_add epoll token d w =
     and_then_st (sys_rres (\<lambda>s t. sys_epoll_add s t epoll token d) w) (\<lambda>_ w.
       (Ok (), emit (EpollAdded epoll token d) w))"

definition wait_ctx_delete ::
  "descriptor \<Rightarrow> descriptor \<Rightarrow> 'a cd_world_scheme \<Rightarrow> unit rres \<times> 'a cd_world_scheme" where
  "wait_ctx_delete epoll d w =
     and_then_st (sys_rres (\<lambda>s t. sys_epoll_delete s t epoll d) w) (\<lambda>_ w.
       (Ok (), emit (EpollDeleted epoll d) w))"

text \<open>Bit 0 of the flags is \<open>EPOLLIN\<close>, bit 4 is \<open>EPOLLHUP\<close>.\<close>

definition wait_event_of :: "u64 \<times> u32 \<Rightarrow> wait_event" where
  "wait_event_of e =
     \<lparr>ev_connection_id = fst e, ev_hung_up = bit (snd e) 4, ev_readable = bit (snd e) 0\<rparr>"

definition wait_ctx_wait ::
  "descriptor \<Rightarrow> 'a cd_world_scheme \<Rightarrow> wait_event list rres \<times> 'a cd_world_scheme" where
  "wait_ctx_wait epoll w =
     and_then_st (sys_rres (\<lambda>s t. sys_epoll_wait s t epoll) w) (\<lambda>events w.
       (Ok (map wait_event_of events), w))"

section \<open>The type of a descriptor\<close>

definition starts_with :: "string \<Rightarrow> string \<Rightarrow> bool" where
  "starts_with p s \<longleftrightarrow> take (length p) s = p"

definition sys_call ::
  "(cd_sys \<Rightarrow> nat \<Rightarrow> int + 'r) \<Rightarrow> 'a cd_world_scheme \<Rightarrow> (io_error fault + 'r) \<times> 'a cd_world_scheme"
where
  "sys_call call w = (case ask call w of (r, w) \<Rightarrow> (map_err OsError (errno_result r), w))"

definition get_memory_handle_type ::
  "descriptor \<Rightarrow> 'a cd_world_scheme \<Rightarrow> (io_error fault + u32) \<times> 'a cd_world_scheme" where
  "get_memory_handle_type d w =
     (case ask (\<lambda>s t. sys_read_link s t d) w of
        (Inl _, w) \<Rightarrow> (Err IoUnsupported, w)
      | (Inr path_str, w) \<Rightarrow>
          (Ok (if starts_with ''/dmabuf:'' path_str then MAGMA_GPU_HANDLE_TYPE_MEM_DMABUF
               else if starts_with ''/memfd:'' path_str then MAGMA_GPU_HANDLE_TYPE_MEM_SHM
               else MAGMA_GPU_HANDLE_TYPE_MEM_SHM), w))"

text \<open>An event by its link, a socket by its mode (\<open>S_IFSOCK\<close> is octal 0140000), memory when it can
  be sought, else the write end of a pipe by its access mode.\<close>

definition is_eventfd :: "int + string \<Rightarrow> bool" where
  "is_eventfd link =
     (case link of Inl _ \<Rightarrow> False | Inr path_str \<Rightarrow> starts_with ''anon_inode:[eventfd]'' path_str)"

definition is_socket :: "int + u32 \<Rightarrow> bool" where
  "is_socket stat = (case stat of Inl _ \<Rightarrow> False | Inr mode \<Rightarrow> mode AND 0xf000 = 0xc000)"

definition determine_type ::
  "descriptor \<Rightarrow> 'a cd_world_scheme \<Rightarrow> (io_error fault + descriptor_type) \<times> 'a cd_world_scheme"
where
  "determine_type d w =
     (case ask (\<lambda>s t. sys_read_link s t d) w of (link, w) \<Rightarrow>
      if is_eventfd link then (Ok EventType, w)
      else case ask (\<lambda>s t. sys_fstat_mode s t d) w of (stat, w) \<Rightarrow>
      if is_socket stat then
        and_then_st (sys_call (\<lambda>s t. sys_socket_type s t d) w) (\<lambda>ty w.
        and_then_st (tube_type_try_from ty, w) (\<lambda>ty w. (Ok (SocketType ty), w)))
      else case ask (\<lambda>s t. sys_seek_end s t d) w of
        (Inr seek_size, w) \<Rightarrow>
          and_then_st
            (if seek_size < 2 ^ 32 then Ok (ucast seek_size) else Err IoUnsupported, w) (\<lambda>sz w.
          and_then_st (get_memory_handle_type d w) (\<lambda>handle_type w.
            (Ok (MemoryType sz handle_type), w)))
      | (Inl _, w) \<Rightarrow>
          and_then_st (map_err OsError (errno_result (os_getfl (w_os w) d)), w) (\<lambda>flags w.
          (if flags AND 3 = 1 then Ok WritePipeType else Err IoUnsupported, w)))"

text \<open>An I/O error as an error of the library\<close>

definition io_rres :: "(io_error fault + 'r) \<Rightarrow> 'r rres" where
  "io_rres r = map_err (\<lambda>e. MagmaGpuError (IoError e)) r"

definition CROSS_DOMAIN_CONTEXT_CHANNEL_ID :: u64 where
  [simp]: "CROSS_DOMAIN_CONTEXT_CHANNEL_ID = 1"
definition CROSS_DOMAIN_RESAMPLE_ID :: u64 where [simp]: "CROSS_DOMAIN_RESAMPLE_ID = 2"
definition CROSS_DOMAIN_KILL_ID :: u64 where [simp]: "CROSS_DOMAIN_KILL_ID = 3"

definition send_msg ::
  "cd_state \<Rightarrow> u8 list \<Rightarrow> descriptor list \<Rightarrow> 'a cd_world_scheme \<Rightarrow> nat rres \<times> 'a cd_world_scheme"
where
  "send_msg st opaque_data descriptors w =
     (case st_connection st of
        Some connection \<Rightarrow> tube_send connection opaque_data descriptors w
      | None \<Rightarrow> (Err InvalidCrossDomainChannel, w))"

definition receive_msg ::
  "cd_state \<Rightarrow> nat \<Rightarrow> 'a cd_world_scheme \<Rightarrow>
   (u8 list \<times> descriptor list) rres \<times> 'a cd_world_scheme" where
  "receive_msg st n w =
     (case st_connection st of
        Some connection \<Rightarrow> tube_receive connection n w
      | None \<Rightarrow> (Err InvalidCrossDomainChannel, w))"

section \<open>Writing to a ring\<close>

text \<open>A command of any type \<open>T\<close> is the list of its bytes.\<close>

datatype ring_write =
    Write "u8 list" "u8 list option"
  | WriteFromPipe cd_read_write descriptor bool
  | WriteFromEvent cd_read_write descriptor bool

definition write_at :: "u64 \<Rightarrow> nat \<Rightarrow> u8 list \<Rightarrow> 'a cd_world_scheme \<Rightarrow> 'a cd_world_scheme" where
  "write_at base off bs w = w\<lparr>w_mem := write_mem (w_mem w) (base + of_nat off) bs\<rparr>"

definition u32_try_from :: "nat \<Rightarrow> u32 rres" where
  "u32_try_from n = (if n < 2 ^ 32 then Ok (of_nat n) else Err (MagmaGpuError TryFromIntError))"

text \<open>The slice is the first iovec; an empty iovec list makes the index panic.\<close>

definition ring_slice :: "context_resources \<Rightarrow> u32 \<Rightarrow> (u64 \<times> nat) rres" where
  "ring_slice resources ring_id =
     and_then (ok_or InvalidResourceId (fmlookup resources ring_id)) (\<lambda>resource.
     and_then (ok_or InvalidIovec (cr_backing_iovecs resource)) (\<lambda>iovecs.
     case iovecs of
       [] \<Rightarrow> Panicked
     | iov # _ \<Rightarrow> Ok (iov_base iov, unat (iov_len iov))))"

definition READ_WRITE_SIZE :: nat where [simp]: "READ_WRITE_SIZE = 24"

fun write_to_slice ::
  "ring_write \<Rightarrow> u64 \<Rightarrow> nat \<Rightarrow> 'a cd_world_scheme \<Rightarrow> nat rres \<times> 'a cd_world_scheme" where
  "write_to_slice (Write cmd opaque_data_opt) base len w =
     (if len < length cmd then (Err InvalidIovec, w)
      else
        let w = write_at base 0 cmd w in
        case opaque_data_opt of
          None \<Rightarrow> (Ok 0, w)
        | Some opaque_data \<Rightarrow>
            if len - length cmd < length opaque_data then (Err InvalidIovec, w)
            else (Ok 0, write_at base (length cmd) opaque_data w))"
| "write_to_slice (WriteFromPipe cmd_read read_pipe readable) base len w =
     (if len < READ_WRITE_SIZE then (Err InvalidIovec, w)
      else
        and_then_st
          (if readable
           then and_then_st (pipe_read read_pipe (len - READ_WRITE_SIZE) w) (\<lambda>bs w.
             (Ok (length bs), write_at base READ_WRITE_SIZE bs w))
           else (Ok 0, w)) (\<lambda>bytes_read w.
        let cmd_read = (if bytes_read = 0 then cmd_read\<lparr>rw_hang_up := 1\<rparr> else cmd_read) in
        and_then_st (u32_try_from bytes_read, w) (\<lambda>n w.
          (Ok bytes_read,
           write_at base 0 (encode_read_write (cmd_read\<lparr>rw_opaque_data_size := n\<rparr>)) w))))"
| "write_to_slice (WriteFromEvent cmd_read evt readable) base len w =
     (if len < READ_WRITE_SIZE then (Err InvalidIovec, w)
      else
        and_then_st
          (if readable
           then and_then_st (event_wait evt w) (\<lambda>v w.
             if len - READ_WRITE_SIZE < 8 then (Panicked, w)
             else (Ok 8, write_at base READ_WRITE_SIZE (le_bytes 8 v) w))
           else (Ok 0, w)) (\<lambda>bytes_read w.
        and_then_st (u32_try_from bytes_read, w) (\<lambda>n w.
          (Ok bytes_read,
           write_at base 0 (encode_read_write (cmd_read\<lparr>rw_opaque_data_size := n\<rparr>)) w))))"

definition write_to_ring ::
  "context_resources \<Rightarrow> ring_write \<Rightarrow> u32 \<Rightarrow> 'a cd_world_scheme \<Rightarrow> nat rres \<times> 'a cd_world_scheme"
where
  "write_to_ring resources rw ring_id w =
     and_then_st (ring_slice resources ring_id, w) (\<lambda>(base, len) w. write_to_slice rw base len w)"

text \<open>A world for concrete runs: every call succeeds, and the only event of the epoll is the
  channel's.\<close>

definition some_sys :: cd_sys where
  "some_sys = \<lparr>sys_eventfd = \<lambda>t. Inr (200 + t), sys_event_write = \<lambda>_ _ _. Inr (),
     sys_event_read = \<lambda>_ _. Inr 1, sys_pipe = \<lambda>t. Inr (300 + t, 400 + t),
     sys_pipe_read = \<lambda>_ _ _. Inr [7, 8], sys_pipe_write = \<lambda>_ _ bs. Inr (length bs),
     sys_socket = \<lambda>t _. Inr (500 + t), sys_unix_addr = \<lambda>_ p. Inr p, sys_connect = \<lambda>_ _ _. Inr (),
     sys_socket_type = \<lambda>_ _. Inr 1, sys_bind = \<lambda>_ _ _. Inr (), sys_listen = \<lambda>_ _ _. Inr (),
     sys_set_nonblock = \<lambda>_ _. Inr (), sys_accept = \<lambda>t _. Inr (700 + t),
     sys_sendmsg = \<lambda>_ _ bs _. Inr (length bs),
     sys_recvmsg = \<lambda>_ _ _. Inr ([1, 2, 3], []), sys_epoll_create = \<lambda>t. Inr (600 + t),
     sys_epoll_add = \<lambda>_ _ _ _. Inr (), sys_epoll_delete = \<lambda>_ _ _. Inr (),
     sys_epoll_wait = \<lambda>_ _. Inr [(1, 1)], sys_read_link = \<lambda>_ _. Inr ''/memfd:x'',
     sys_fstat_mode = \<lambda>_ _. Inr 0x8000, sys_seek_end = \<lambda>_ _. Inr 4096, sys_spawn = \<lambda>_. Inr ()\<rparr>"

definition some_cd_world :: cd_world where
  "some_cd_world = world.extend some_world
     \<lparr>cdw_sys = some_sys, cdw_tick = 0, cdw_log = [], cdw_sockets = fmempty,
      cdw_contexts = fmempty\<rparr>"

lemma some_cd_world_simps [simp]:
  "w_os some_cd_world = w_os some_world" "w_mem some_cd_world = w_mem some_world"
  "w_fences some_cd_world = []" "cdw_sys some_cd_world = some_sys" "cdw_tick some_cd_world = 0"
  "cdw_log some_cd_world = []" "cdw_sockets some_cd_world = fmempty"
  "cdw_contexts some_cd_world = fmempty"
  by (simp_all add: some_cd_world_def some_world_def world.extend_def)

end
