(* ===== verification/CD_Sentinel.thy ===== *)
theory CD_Sentinel
  imports CD_Common
begin

text \<open>
  The atomic memory sentinels of a cross-domain context,
  \<open>src/cross_domain/atomic_memory_sentinel_manager.rs\<close> over
  \<open>util/atomic_memory_sentinel.rs\<close>: the manager's operations, and the watcher thread with its
  shutdown protocol as a state machine.
\<close>

section \<open>The manager\<close>

type_synonym watchers = "(u32, sentinel_instance) fmap"

definition atomic_memory_sentinel_new :: "memory_mapping \<Rightarrow> memory_mapping rres" where
  "atomic_memory_sentinel_new m =
     (if mm_size m < 4
      then Err (MagmaGpuError (WithContext ''memory mapping too small for AtomicU32'')) else Ok m)"

definition sentinel_load :: "memory_mapping \<Rightarrow> 'a cd_world_scheme \<Rightarrow> u32" where
  "sentinel_load m w = of_le_bytes (read_mem (w_mem w) (mm_addr m) 4)"

text \<open>\<open>signal\<close> and \<open>wake_all\<close> wake the waiters of the futex; neither changes its value.\<close>

definition sentinel_wake :: "memory_mapping \<Rightarrow> 'a cd_world_scheme \<Rightarrow> 'a cd_world_scheme" where
  "sentinel_wake m w = emit (FutexWoken (mm_addr m)) w"

definition instance_shutdown ::
  "sentinel_instance \<Rightarrow> 'a cd_world_scheme \<Rightarrow> sentinel_instance \<times> 'a cd_world_scheme" where
  "instance_shutdown si w = (si\<lparr>si_shutdown := True\<rparr>, sentinel_wake (si_mapping si) w)"

definition create_watcher ::
  "virtiofs_lookup option \<Rightarrow> u32 \<Rightarrow> u64 \<Rightarrow> u64 \<Rightarrow> watchers \<times> 'a cd_world_scheme \<Rightarrow>
   descriptor rres \<times> (watchers \<times> 'a cd_world_scheme)" where
  "create_watcher lookup_opt i fs_id handle s =
     (if contains_key (fst s) i then (Err AlreadyInUse, s)
      else
        and_then_st (ok_or InvalidCrossDomainItemId lookup_opt, s) (\<lambda>lookup s.
        and_then_st (lookup fs_id handle, s) (\<lambda>d s.
        and_then_st
          (from_magma (from_safe_descriptor (w_os (snd s)) d 4
             (RUTABAGA_MAP_ACCESS_RW OR RUTABAGA_MAP_CACHE_CACHED)), s) (\<lambda>mapping s.
        and_then_st (atomic_memory_sentinel_new mapping, s) (\<lambda>sentinel s.
        let initial_value = sentinel_load sentinel (snd s) in
        and_then_st (in_world event_new s) (\<lambda>memory_watcher_evt s.
        and_then_st (event_try_clone memory_watcher_evt (snd s), s) (\<lambda>evt_for_waitctx s.
        and_then_st (in_world thread_spawn s) (\<lambda>_ s.
        let s = upd_world (emit (SentinelSpawned i memory_watcher_evt initial_value)) s in
        and_then_st (event_try_clone evt_for_waitctx (snd s), s) (\<lambda>evt s.
        (Ok evt_for_waitctx,
         upd_state
           (fmupd i \<lparr>si_mapping = sentinel, si_shutdown = False, si_evt = evt\<rparr>) s))))))))))"

definition handle_event ::
  "u32 \<Rightarrow> watchers \<times> 'a cd_world_scheme \<Rightarrow>
   cd_signal_sentinel option rres \<times> (watchers \<times> 'a cd_world_scheme)" where
  "handle_event i s =
     (case fmlookup (fst s) i of
        None \<Rightarrow> (Err InvalidCrossDomainItemId, s)
      | Some watcher \<Rightarrow>
          if si_shutdown watcher then (Ok None, s)
          else
            and_then_st (in_world (event_wait (si_evt watcher)) s) (\<lambda>_ s.
              (Ok (Some
                 \<lparr>sas_hdr = \<lparr>hdr_cmd = CROSS_DOMAIN_CMD_SIGNAL_ATOMIC_MEMORY_SENTINEL,
                             hdr_ring_idx = 0, hdr_cmd_size = 0, hdr_pad = 0\<rparr>,
                  sas_id = i, sas_pad = 0\<rparr>), s)))"

definition signal_watcher ::
  "u32 \<Rightarrow> watchers \<times> 'a cd_world_scheme \<Rightarrow> unit rres \<times> (watchers \<times> 'a cd_world_scheme)" where
  "signal_watcher i s =
     (case fmlookup (fst s) i of
        None \<Rightarrow> (Err InvalidCrossDomainItemId, s)
      | Some watcher \<Rightarrow> (Ok (), upd_world (sentinel_wake (si_mapping watcher)) s))"

definition destroy_watcher ::
  "u32 \<Rightarrow> watchers \<times> 'a cd_world_scheme \<Rightarrow> unit rres \<times> (watchers \<times> 'a cd_world_scheme)" where
  "destroy_watcher i s =
     (case fmlookup (fst s) i of
        None \<Rightarrow> (Err InvalidCrossDomainItemId, s)
      | Some watcher \<Rightarrow>
          (case instance_shutdown watcher (snd s) of
             (watcher, w) \<Rightarrow> (Ok (), (fmupd i watcher (fst s), w))))"

definition is_shutdown :: "u32 \<Rightarrow> watchers \<Rightarrow> bool" where
  "is_shutdown i ws = (case fmlookup ws i of None \<Rightarrow> True | Some watcher \<Rightarrow> si_shutdown watcher)"

text \<open>\<open>remove_watcher\<close>, with the drop of an instance that was not shut down.\<close>

definition remove_watcher :: "u32 \<Rightarrow> watchers \<times> 'a cd_world_scheme \<Rightarrow> watchers \<times> 'a cd_world_scheme"
where
  "remove_watcher i s =
     (case fmlookup (fst s) i of
        None \<Rightarrow> s
      | Some watcher \<Rightarrow>
          (fmdrop i (fst s),
           if si_shutdown watcher then snd s else snd (instance_shutdown watcher (snd s))))"

definition get_event :: "u32 \<Rightarrow> watchers \<Rightarrow> descriptor option" where
  "get_event i ws = map_option si_evt (fmlookup ws i)"

definition drop_manager :: "watchers \<Rightarrow> 'a cd_world_scheme \<Rightarrow> 'a cd_world_scheme" where
  "drop_manager ws w =
     foldl (\<lambda>w (i, watcher). snd (instance_shutdown watcher w)) w (entries_of ws)"

text \<open>A failed call keeps the table; a successful one inserts a running instance.\<close>

lemma create_watcher_cases:
  obtains (error) e w' where "create_watcher lookup i fs h (ws, w) = (Inl e, (ws, w'))"
  | (created) d si w' where "\<not> contains_key ws i" "\<not> si_shutdown si"
      "create_watcher lookup i fs h (ws, w) = (Ok d, (fmupd i si ws, w'))"
proof -
  define r where "r = create_watcher lookup i fs h (ws, w)"
  have "(\<exists>e w'. r = (Inl e, (ws, w'))) \<or>
    (\<not> contains_key ws i \<and> (\<exists>d m e w'.
       r = (Ok d, (fmupd i \<lparr>si_mapping = m, si_shutdown = False, si_evt = e\<rparr> ws, w'))))"
    unfolding r_def create_watcher_def
    by (auto simp: Let_def and_then_st_def in_world_eq split: sum.splits prod.splits)
  then show thesis
    by (elim disjE exE conjE)
      (auto simp: r_def intro: error created [of "\<lparr>si_mapping = m, si_shutdown = False, si_evt = e\<rparr>" for m e])
qed

section \<open>The watcher thread\<close>

text \<open>
  One instance with its thread and the owner that shuts it down, over the shared futex word. The
  thread's program counter names the statement it runs next; \<open>Blocked v\<close> is a thread inside
  \<open>futex_wait\<close>. The owner stores the flag, wakes the waiters once, and joins.
\<close>

datatype thread_pc =
    Start | Wait u32 | Blocked u32 | Load | Check u32 | SignalOther u32 | SignalLast | Exited

datatype owner_pc = Running | StoreFlag | WakeAll | Join | Joined

record sentinel_run =
  sr_pc :: thread_pc
  sr_owner :: owner_pc
  sr_futex :: u32
  sr_flag :: bool
  sr_signals :: nat
  sr_seen :: u32

definition sentinel_start :: "u32 \<Rightarrow> sentinel_run" where
  "sentinel_start initial_value =
     \<lparr>sr_pc = Start, sr_owner = Running, sr_futex = initial_value, sr_flag = False,
      sr_signals = 0, sr_seen = initial_value\<rparr>"

text \<open>One step of the thread; \<open>None\<close> when it cannot move. The signal of the event always succeeds
  (the other branch leaves the loop as well).\<close>

definition thread_step :: "sentinel_run \<Rightarrow> sentinel_run option" where
  "thread_step s =
     (case sr_pc s of
        Start \<Rightarrow> Some (s\<lparr>sr_pc := Wait (sr_seen s), sr_signals := Suc (sr_signals s)\<rparr>)
      | Wait v \<Rightarrow> Some (s\<lparr>sr_pc := if sr_futex s = v then Blocked v else Load\<rparr>)
      | Blocked v \<Rightarrow> None
      | Load \<Rightarrow> Some (s\<lparr>sr_pc := Check (sr_futex s)\<rparr>)
      | Check v \<Rightarrow> Some (s\<lparr>sr_pc := if sr_flag s then SignalLast else SignalOther v\<rparr>)
      | SignalOther v \<Rightarrow>
          Some (s\<lparr>sr_pc := Wait v, sr_signals := Suc (sr_signals s), sr_seen := v\<rparr>)
      | SignalLast \<Rightarrow> Some (s\<lparr>sr_pc := Exited, sr_signals := Suc (sr_signals s)\<rparr>)
      | Exited \<Rightarrow> None)"

definition woken :: "thread_pc \<Rightarrow> thread_pc" where
  "woken pc = (case pc of Blocked v \<Rightarrow> Load | _ \<Rightarrow> pc)"

text \<open>One step of the owner, which runs \<open>shutdown\<close> once it leaves \<open>Running\<close>.\<close>

definition owner_step :: "sentinel_run \<Rightarrow> sentinel_run option" where
  "owner_step s =
     (case sr_owner s of
        Running \<Rightarrow> None
      | StoreFlag \<Rightarrow> Some (s\<lparr>sr_owner := WakeAll, sr_flag := True\<rparr>)
      | WakeAll \<Rightarrow> Some (s\<lparr>sr_owner := Join, sr_pc := woken (sr_pc s)\<rparr>)
      | Join \<Rightarrow> if sr_pc s = Exited then Some (s\<lparr>sr_owner := Joined\<rparr>) else None
      | Joined \<Rightarrow> None)"

text \<open>The steps of the run: the two above, the owner calling \<open>signal_watcher\<close> or starting
  \<open>shutdown\<close>, and the guest storing to the word (a guest that also wakes is \<open>signal_step\<close>).\<close>

lemmas step_defs = thread_step_def owner_step_def woken_def

inductive sentinel_step :: "sentinel_run \<Rightarrow> sentinel_run \<Rightarrow> bool" where
  by_thread: "thread_step s = Some s' \<Longrightarrow> sentinel_step s s'"
| by_owner: "owner_step s = Some s' \<Longrightarrow> sentinel_step s s'"
| signal_step: "sr_owner s = Running \<Longrightarrow> sentinel_step s (s\<lparr>sr_pc := woken (sr_pc s)\<rparr>)"
| shutdown_call: "sr_owner s = Running \<Longrightarrow> sentinel_step s (s\<lparr>sr_owner := StoreFlag\<rparr>)"
| guest_store: "sentinel_step s (s\<lparr>sr_futex := v\<rparr>)"

inductive sentinel_reach :: "u32 \<Rightarrow> sentinel_run \<Rightarrow> bool" for v where
  reach_init: "sentinel_reach v (sentinel_start v)"
| reach_next: "sentinel_reach v s \<Longrightarrow> sentinel_step s s' \<Longrightarrow> sentinel_reach v s'"

inductive_cases sentinel_stepE: "sentinel_step s s'"

text \<open>The two threads alone, with no help from the guest.\<close>

definition local_step :: "sentinel_run \<Rightarrow> sentinel_run \<Rightarrow> bool" where
  "local_step s s' \<longleftrightarrow> thread_step s = Some s' \<or> owner_step s = Some s'"

definition hung :: "sentinel_run \<Rightarrow> bool" where
  "hung s \<longleftrightarrow> sr_owner s = Join \<and> sr_flag s \<and> (\<exists>v. sr_pc s = Blocked v)"

lemma hung_stays: "sentinel_step s s' \<Longrightarrow> hung s \<Longrightarrow> hung s'"
  by (erule sentinel_stepE) (auto simp: hung_def step_defs)

lemma hung_stuck:
  "hung s \<Longrightarrow> thread_step s = None \<and> owner_step s = None \<and> sr_owner s \<noteq> Joined"
  by (auto simp: hung_def step_defs)

lemma hung_stays_long: "sentinel_step\<^sup>*\<^sup>* s s' \<Longrightarrow> hung s \<Longrightarrow> hung s'"
  by (induction rule: rtranclp_induct) (auto intro: hung_stays)

text \<open>A schedule as a list of steps\<close>

datatype sched = T | Ow | Sig | Call

fun run_sched :: "sched list \<Rightarrow> sentinel_run \<Rightarrow> sentinel_run option" where
  "run_sched [] s = Some s"
| "run_sched (T # cs) s = Option.bind (thread_step s) (run_sched cs)"
| "run_sched (Ow # cs) s = Option.bind (owner_step s) (run_sched cs)"
| "run_sched (Sig # cs) s =
     (if sr_owner s = Running then run_sched cs (s\<lparr>sr_pc := woken (sr_pc s)\<rparr>) else None)"
| "run_sched (Call # cs) s =
     (if sr_owner s = Running then run_sched cs (s\<lparr>sr_owner := StoreFlag\<rparr>) else None)"

lemma run_sched_reach: "run_sched cs s = Some s' \<Longrightarrow> sentinel_reach v s \<Longrightarrow> sentinel_reach v s'"
proof (induction cs s rule: run_sched.induct)
  case (1 s)
  then show ?case by simp
next
  case (2 cs s)
  then show ?case by (auto simp: bind_eq_Some_conv
        intro: reach_next by_thread)
next
  case (3 cs s)
  then show ?case by (auto simp: bind_eq_Some_conv
        intro: reach_next by_owner)
next
  case (4 cs s)
  then show ?case by (auto split: if_splits intro: reach_next signal_step)
next
  case (5 cs s)
  then show ?case by (auto split: if_splits intro: reach_next shutdown_call)
qed

lemma run_sched_local:
  "run_sched cs s = Some s' \<Longrightarrow> set cs \<subseteq> {T, Ow} \<Longrightarrow> local_step\<^sup>*\<^sup>* s s'"
  by (induction cs s rule: run_sched.induct)
    (auto simp: bind_eq_Some_conv local_step_def intro: converse_rtranclp_into_rtranclp)

lemma hang_schedule:
  "\<exists>s. run_sched [T, T, Sig, T, T, Call, Ow, Ow, T, T] (sentinel_start v) = Some s \<and> hung s"
  by (simp add: sentinel_start_def hung_def step_defs)

text \<open>A shutdown that met a blocked thread, \<open>n\<close> signals after the start\<close>

definition shutting_down :: "nat \<Rightarrow> sentinel_run \<Rightarrow> bool" where
  "shutting_down n s \<longleftrightarrow>
     (case sr_owner s of
        StoreFlag \<Rightarrow> (\<exists>v. sr_pc s = Blocked v) \<and> sr_signals s = n
      | WakeAll \<Rightarrow> sr_flag s \<and> (\<exists>v. sr_pc s = Blocked v) \<and> sr_signals s = n
      | Join \<Rightarrow> sr_flag s \<and>
          (case sr_pc s of
             Load \<Rightarrow> sr_signals s = n | Check v \<Rightarrow> sr_signals s = n | SignalLast \<Rightarrow> sr_signals s = n
           | Exited \<Rightarrow> sr_signals s = Suc n | _ \<Rightarrow> False)
      | Joined \<Rightarrow> sr_pc s = Exited \<and> sr_signals s = Suc n
      | Running \<Rightarrow> False)"

lemma shutting_down_step: "shutting_down n s \<Longrightarrow> local_step s s' \<Longrightarrow> shutting_down n s'"
  by (cases "sr_owner s"; cases "sr_pc s")
    (auto simp: shutting_down_def local_step_def step_defs split: if_splits)

lemma shutting_down_end:
  "shutting_down n s \<Longrightarrow> thread_step s = None \<Longrightarrow> owner_step s = None \<Longrightarrow>
   sr_owner s = Joined \<and> sr_pc s = Exited \<and> sr_signals s = Suc n"
  by (cases "sr_owner s"; cases "sr_pc s") (auto simp: shutting_down_def step_defs split: if_splits)

text \<open>The steps left until the owner has joined\<close>

definition steps_left :: "sentinel_run \<Rightarrow> nat" where
  "steps_left s =
     (case sr_owner s of
        StoreFlag \<Rightarrow> 6 | WakeAll \<Rightarrow> 5
      | Join \<Rightarrow> (case sr_pc s of Load \<Rightarrow> 4 | Check v \<Rightarrow> 3 | SignalLast \<Rightarrow> 2 | _ \<Rightarrow> 1)
      | _ \<Rightarrow> 0)"

lemma shutting_down_progress:
  "shutting_down n s \<Longrightarrow> local_step s s' \<Longrightarrow> steps_left s = Suc (steps_left s')"
  by (cases "sr_owner s"; cases "sr_pc s")
    (auto simp: shutting_down_def steps_left_def local_step_def step_defs split: if_splits)

lemma shutting_down_run:
  "(local_step ^^ k) s s' \<Longrightarrow> shutting_down n s \<Longrightarrow>
   shutting_down n s' \<and> steps_left s = k + steps_left s'"
proof (induction k arbitrary: s')
  case 0
  then show ?case by simp
next
  case (Suc k)
  then obtain t where "(local_step ^^ k) s t" "local_step t s'" by (auto simp: relcompp_apply)
  with Suc.IH [of t] Suc.prems(2) show ?case
    using shutting_down_step shutting_down_progress by fastforce
qed

definition blocked_run :: sentinel_run where
  "blocked_run =
     \<lparr>sr_pc = Blocked 5, sr_owner = StoreFlag, sr_futex = 5, sr_flag = False, sr_signals = 1,
      sr_seen = 5\<rparr>"

section \<open>Properties\<close>

text \<open>
  C16. Shutting a sentinel down can hang. The comment in the thread loop relies on \<open>shutdown\<close>
  changing the futex value, but it only wakes the waiters of that moment. When the thread reads
  the flag just before it is set, the wake-up meets no waiter, the thread blocks on the unchanged
  value and the owner waits in \<open>join\<close>. From there every later state is hung too, whatever the
  guest stores in the word: the futex is private to the process, so no wake-up of the guest reaches
  it, and only a signal that interrupts the wait would.
\<close>

theorem sentinel_shutdown_can_hang:
  "\<exists>s. sentinel_reach v s \<and> sr_owner s = Join \<and> sr_flag s \<and>
    (\<forall>s'. sentinel_step\<^sup>*\<^sup>* s s' \<longrightarrow>
      thread_step s' = None \<and> owner_step s' = None \<and> sr_owner s' \<noteq> Joined)"
proof -
  obtain s where "run_sched [T, T, Sig, T, T, Call, Ow, Ow, T, T] (sentinel_start v) = Some s"
    and hung: "hung s" using hang_schedule [of v] by blast
  then have "sentinel_reach v s" using run_sched_reach reach_init by blast
  moreover have "thread_step s' = None \<and> owner_step s' = None \<and> sr_owner s' \<noteq> Joined"
    if "sentinel_step\<^sup>*\<^sup>* s s'" for s'
    using hung_stuck [OF hung_stays_long [OF that hung]] .
  ultimately show ?thesis using hung unfolding hung_def by blast
qed

lemma sentinel_shutdown_can_hang_witness:
  "\<exists>s. sentinel_reach 0 s \<and> sr_owner s = Join \<and> thread_step s = None \<and> owner_step s = None"
  using sentinel_shutdown_can_hang [of 0] by blast

text \<open>
  C17. Shutting down a sentinel whose thread is blocked works and ends: however the two threads are
  scheduled they make at most six steps, and when neither can move the thread has exited, the other
  side was notified once more, and the owner has joined it.
\<close>

theorem sentinel_shutdown_of_blocked:
  assumes "sr_owner s = StoreFlag" and "sr_pc s = Blocked v" and "(local_step ^^ k) s s'"
  shows "k \<le> 6 \<and> (thread_step s' = None \<and> owner_step s' = None \<longrightarrow>
    k = 6 \<and> sr_owner s' = Joined \<and> sr_pc s' = Exited \<and> sr_signals s' = Suc (sr_signals s))"
proof -
  have "shutting_down (sr_signals s) s" using assms(1,2) by (simp add: shutting_down_def)
  with assms(3) have "shutting_down (sr_signals s) s'" and k: "steps_left s = k + steps_left s'"
    using shutting_down_run by blast+
  moreover have "steps_left s = 6" using assms(1) by (simp add: steps_left_def)
  ultimately show ?thesis using shutting_down_end [of "sr_signals s" s'] k
    by (auto simp: steps_left_def)
qed

lemma sentinel_shutdown_of_blocked_witness:
  "\<exists>s'. (local_step ^^ 6) blocked_run s' \<and> sr_owner s' = Joined \<and> sr_signals s' = 2"
proof -
  let ?fin = "\<lparr>sr_pc = Exited, sr_owner = Joined, sr_futex = 5, sr_flag = True, sr_signals = 2,
      sr_seen = 5\<rparr> :: sentinel_run"
  have "run_sched [Ow, Ow, T, T, T, Ow] blocked_run = Some ?fin"
    by (simp add: blocked_run_def step_defs)
  then have "local_step\<^sup>*\<^sup>* blocked_run ?fin" by (rule run_sched_local) simp
  then obtain k where run: "(local_step ^^ k) blocked_run ?fin" by (auto simp: rtranclp_power)
  have "k = 6 \<and> sr_owner ?fin = Joined \<and> sr_pc ?fin = Exited \<and>
      sr_signals ?fin = Suc (sr_signals blocked_run)"
    using sentinel_shutdown_of_blocked [OF _ _ run] by (simp add: blocked_run_def step_defs)
  then show ?thesis using run by (intro exI [of _ ?fin]) (simp add: blocked_run_def)
qed

text \<open>
  The life of a watcher id. A failed creation changes no watcher; a successful one adds exactly
  the new id, which was free, and hands out a clone of its event. Destroying an id that exists marks
  it, wakes its futex and keeps it in the table, so the id can neither be created again nor signal
  the guest until the worker removes it; all operations on an unknown id fail without an effect.
\<close>

lemma watcher_lifecycle:
  "(case create_watcher lookup i fs h (ws, w) of
      (Inl e, (ws', w')) \<Rightarrow> ws' = ws
    | (Inr d, (ws', w')) \<Rightarrow> \<not> contains_key ws i \<and> \<not> is_shutdown i ws' \<and>
        (\<forall>j. j \<noteq> i \<longrightarrow> fmlookup ws' j = fmlookup ws j)) \<and>
   (contains_key ws i \<longrightarrow>
      create_watcher lookup i fs h (ws, w) = (Err AlreadyInUse, (ws, w)) \<and>
      (\<exists>ws' w'. destroy_watcher i (ws, w) = (Ok (), (ws', w')) \<and> is_shutdown i ws' \<and>
         contains_key ws' i \<and> (\<exists>a. cdw_log w' = cdw_log w @ [FutexWoken a]) \<and>
         handle_event i (ws', w') = (Ok None, (ws', w')) \<and>
         fst (remove_watcher i (ws', w')) = fmdrop i ws')) \<and>
   (\<not> contains_key ws i \<longrightarrow>
      destroy_watcher i (ws, w) = (Err InvalidCrossDomainItemId, (ws, w)) \<and>
      signal_watcher i (ws, w) = (Err InvalidCrossDomainItemId, (ws, w)) \<and>
      handle_event i (ws, w) = (Err InvalidCrossDomainItemId, (ws, w)))"
proof -
  have create: "case create_watcher lookup i fs h (ws, w) of
      (Inl e, (ws', w')) \<Rightarrow> ws' = ws
    | (Inr d, (ws', w')) \<Rightarrow> \<not> contains_key ws i \<and> \<not> is_shutdown i ws' \<and>
        (\<forall>j. j \<noteq> i \<longrightarrow> fmlookup ws' j = fmlookup ws j)"
    by (rule create_watcher_cases [of lookup i fs h ws w]) (auto simp: is_shutdown_def)
  show ?thesis
  proof (cases "fmlookup ws i")
    case None
    then have "\<not> contains_key ws i" by (simp add: contains_key_def)
    with None create show ?thesis
      by (simp add: destroy_watcher_def signal_watcher_def handle_event_def)
  next
    case (Some watcher)
    then have "contains_key ws i" by (simp add: contains_key_def)
    with Some create show ?thesis
      by (auto simp: create_watcher_def destroy_watcher_def instance_shutdown_def is_shutdown_def
          sentinel_wake_def emit_def handle_event_def remove_watcher_def contains_key_def)
  qed
qed

end
