(* ===== verification/CD_Context.thy ===== *)
theory CD_Context
  imports CD_Sentinel
begin

text \<open>
  The cross-domain context, \<open>src/cross_domain/context.rs\<close>: the commands of the guest, one operation
  each, the loop that reads them from a command buffer, and the trait methods.

  An operation acts on a context and the world it lives in. What a context never changes is the
  record \<open>cd_env\<close>: the gralloc with its build configuration and the virtio-fs lookup.
\<close>

type_synonym 'a cd_st = "cd_context \<times> 'a cd_world_scheme"

record 'a cd_env =
  ce_build :: "'a cd_world_ext gralloc_build"
  ce_gralloc :: "'a cd_world_ext rutabaga_gralloc"
  ce_lookup :: "virtiofs_lookup option"

definition cd_context_new :: "rutabaga_path list option \<Rightarrow> cd_context" where
  "cd_context_new paths =
     \<lparr>cx_paths = paths, cx_state = None, cx_resources = fmempty, cx_items = cd_items_default,
      cx_watchers = fmempty, cx_worker = False, cx_resample_evt = None, cx_kill_evt = None,
      cx_orphans = []\<rparr>"

section \<open>Init\<close>

text \<open>The paths are taken out of the context by the first attempt, successful or not.\<close>

definition get_connection :: "cd_init \<Rightarrow> 'a cd_st \<Rightarrow> descriptor rres \<times> 'a cd_st" where
  "get_connection ci s =
     and_then_st
       (ok_or InvalidCrossDomainChannel (cx_paths (fst s)), upd_state (cx_paths_update (\<lambda>_. None)) s)
       (\<lambda>paths s.
     and_then_st
       (ok_or InvalidCrossDomainChannel (find (\<lambda>p. path_type p = init_channel_type ci) paths), s)
       (\<lambda>p s.
     in_world (tube_new (path_path p) Stream) s))"

definition get_internal_socket_connection ::
  "u128 \<Rightarrow> 'a cd_world_scheme \<Rightarrow> descriptor rres \<times> 'a cd_world_scheme" where
  "get_internal_socket_connection uuid w =
     and_then_st
       (ok_or InvalidCrossDomainInternalSocketUuid (fmlookup (cdw_sockets w) uuid), w) (\<lambda>socket w.
       (Ok socket, w\<lparr>cdw_sockets := fmdrop uuid (cdw_sockets w)\<rparr>))"

text \<open>Replacing the state leaves an earlier worker with the old one.\<close>

definition replace_state :: "cd_state \<Rightarrow> cd_context \<Rightarrow> cd_context" where
  "replace_state st x =
     x\<lparr>cx_state := Some st,
       cx_orphans := cx_orphans x @
         (case cx_state x of
            Some old \<Rightarrow> if st_connection old = None then [] else [old] | None \<Rightarrow> [])\<rparr>"

definition initialize :: "cd_init \<Rightarrow> 'a cd_st \<Rightarrow> unit rres \<times> 'a cd_st" where
  "initialize ci s =
     (if \<not> contains_key (cx_resources (fst s)) (init_query_ring_id ci)
      then (Err InvalidResourceId, s)
      else if init_channel_type ci \<noteq> 0 then
        (if \<not> contains_key (cx_resources (fst s)) (init_channel_ring_id ci)
         then (Err InvalidResourceId, s)
         else
           and_then_st
             (if init_channel_type ci = CROSS_DOMAIN_CHANNEL_TYPE_INTERNAL_SOCKET
              then in_world
                (get_internal_socket_connection (of_le_bytes (init_internal_socket_uuid ci))) s
              else get_connection ci s) (\<lambda>connection s.
           and_then_st (in_world event_new s) (\<lambda>kill_evt s.
           and_then_st (event_try_clone kill_evt (snd s), s) (\<lambda>thread_kill_evt s.
           and_then_st (in_world event_new s) (\<lambda>resample_evt s.
           and_then_st (event_try_clone resample_evt (snd s), s) (\<lambda>thread_resample_evt s.
           and_then_st (in_world wait_ctx_new s) (\<lambda>wait_ctx s.
           and_then_st
             (in_world (wait_ctx_add wait_ctx CROSS_DOMAIN_CONTEXT_CHANNEL_ID connection) s) (\<lambda>_ s.
           let st = cd_state_new (init_query_ring_id ci) (init_channel_ring_id ci)
                 (Some connection)
           in
             case in_world thread_spawn s of
               (Inl _, s) \<Rightarrow> (Panicked, s)
             | (Inr _, s) \<Rightarrow>
                 (Ok (),
                  upd_state (\<lambda>x. (replace_state st x)
                      \<lparr>cx_worker := True, cx_resample_evt := Some resample_evt,
                       cx_kill_evt := Some kill_evt\<rparr>)
                    (upd_world (emit (WorkerSpawned wait_ctx thread_kill_evt thread_resample_evt))
                      s))))))))))
      else
        (Ok (),
         upd_state
           (replace_state (cd_state_new (init_query_ring_id ci) (init_channel_ring_id ci) None)) s))"

section \<open>Image requirements\<close>

definition get_image_requirements ::
  "'a cd_env \<Rightarrow> cd_get_image_requirements \<Rightarrow> 'a cd_st \<Rightarrow> unit rres \<times> 'a cd_st" where
  "get_image_requirements env cmd s =
     (let info = \<lparr>ia_width = gir_width cmd, ia_height = gir_height cmd,
                  ia_drm_format = DrmFormat (gir_drm_format cmd),
                  ia_flags = gralloc_flags_new (gir_flags cmd)\<rparr>
      in
      and_then_st
        (in_world (gralloc_get_image_memory_requirements (ce_build env) (ce_gralloc env) info) s)
        (\<lambda>reqs s.
      let response =
            \<lparr>cir_strides = irq_strides reqs, cir_offsets = irq_offsets reqs,
             cir_modifier = irq_modifier reqs, cir_size = irq_size reqs, cir_blob_id = 0,
             cir_map_info = irq_map_info reqs, cir_memory_idx = -1,
             cir_physical_device_idx = -1\<rparr>;
          response = (case irq_vulkan_info reqs of
               None \<Rightarrow> response
             | Some vk \<Rightarrow> response\<lparr>cir_memory_idx := vk_memory_idx vk,
                                  cir_physical_device_idx := -1\<rparr>)
      in
        case cx_state (fst s) of
          None \<Rightarrow> (Err InvalidCrossDomainState, s)
        | Some st \<Rightarrow>
            (case add_item (cx_items (fst s)) (ImageRequirements reqs) of
               (blob_id, its) \<Rightarrow>
                 let s = upd_state (cx_items_update (\<lambda>_. its)) s in
                 and_then_st
                   (in_world
                     (write_to_ring (cx_resources (fst s))
                       (Write (encode_image_requirements (response\<lparr>cir_blob_id := blob_id\<rparr>)) None)
                       (st_query_ring_id st)) s)
                   (\<lambda>_ s. (Ok (), s)))))"

section \<open>Send\<close>

text \<open>What the loop over the identifiers has gathered: the descriptors to send, the write end of
  the pipe and the id of its read end.\<close>

record send_acc =
  sa_descriptors :: "descriptor list"
  sa_write_pipe :: "descriptor option"
  sa_read_pipe_id :: "u32 option"

definition clone_io :: "os \<Rightarrow> descriptor \<Rightarrow> descriptor rres" where
  "clone_io os d = from_magma (map_err IoError (descriptor_try_clone os d))"

definition send_identifier ::
  "u32 \<Rightarrow> u32 \<Rightarrow> send_acc \<Rightarrow> 'a cd_st \<Rightarrow> send_acc rres \<times> 'a cd_st" where
  "send_identifier identifier identifier_type acc s =
     (if identifier_type = CROSS_DOMAIN_ID_TYPE_VIRTGPU_BLOB then
        and_then_st
          (ok_or InvalidResourceId (fmlookup (cx_resources (fst s)) identifier), s) (\<lambda>cr s.
          case Option.bind (cr_handle cr) as_mesa_handle of
            None \<Rightarrow> (Err (MagmaGpuError InvalidMagmaHandle), s)
          | Some mesa_handle \<Rightarrow>
              and_then_st (clone_io (w_os (snd s)) (os_handle mesa_handle), s) (\<lambda>d s.
                (Ok (acc\<lparr>sa_descriptors := sa_descriptors acc @ [d]\<rparr>), s)))
      else if identifier_type = CROSS_DOMAIN_ID_TYPE_READ_PIPE then
        (if sa_write_pipe acc \<noteq> None
         then (Err (MagmaGpuError (WithContext ''expected just one pipe pair'')), s)
         else
           and_then_st (in_world create_pipe s) (\<lambda>(read_pipe, write_pipe) s.
           and_then_st (clone_io (w_os (snd s)) write_pipe, s) (\<lambda>d s.
           case add_item (cx_items (fst s)) (WaylandReadPipe read_pipe) of
             (read_pipe_id, its) \<Rightarrow>
               let s = upd_state (cx_items_update (\<lambda>_. its)) s in
               if read_pipe_id \<noteq> identifier then (Err InvalidCrossDomainItemId, s)
               else (Ok \<lparr>sa_descriptors = sa_descriptors acc @ [d],
                         sa_write_pipe = Some write_pipe, sa_read_pipe_id = Some read_pipe_id\<rparr>,
                     s))))
      else if identifier_type = CROSS_DOMAIN_ID_TYPE_VIRTIO_FS_BLOB then
        (let its = cx_items (fst s); item = fmlookup (items_table its) identifier;
             s = upd_state (cx_items_update (\<lambda>its.
                   its\<lparr>items_table := fmdrop identifier (items_table its)\<rparr>)) s
         in
           case item of
             Some (RegularFile file) \<Rightarrow>
               (Ok (acc\<lparr>sa_descriptors := sa_descriptors acc @ [file]\<rparr>), s)
           | _ \<Rightarrow> (Err InvalidCrossDomainItemId, s))
      else (Err InvalidCrossDomainItemType, s))"

fun send_identifiers ::
  "(u32 \<times> u32) list \<Rightarrow> send_acc \<Rightarrow> 'a cd_st \<Rightarrow> send_acc rres \<times> 'a cd_st" where
  "send_identifiers [] acc s = (Ok acc, s)"
| "send_identifiers ((i, t) # rest) acc s =
     and_then_st (send_identifier i t acc s) (\<lambda>acc s. send_identifiers rest acc s)"

definition upd_jobs :: "cd_job \<Rightarrow> cd_context \<Rightarrow> cd_context" where
  "upd_jobs job x = x\<lparr>cx_state := map_option (add_job job) (cx_state x)\<rparr>"

definition cd_send :: "cd_send_receive \<Rightarrow> u8 list \<Rightarrow> 'a cd_st \<Rightarrow> unit rres \<times> 'a cd_st" where
  "cd_send cmd opaque_data s =
     (let num_identifiers = unat (sr_num_identifiers cmd) in
      if CROSS_DOMAIN_MAX_IDENTIFIERS < num_identifiers
      then (Err (MagmaGpuError (WithContext ''max cross domain identifiers exceeded'')), s)
      else
        and_then_st
          (send_identifiers
            (take num_identifiers (zip (sr_identifiers cmd) (sr_identifier_types cmd)))
            \<lparr>sa_descriptors = [], sa_write_pipe = None, sa_read_pipe_id = None\<rparr> s) (\<lambda>acc s.
          case (cx_state (fst s), cx_resample_evt (fst s)) of
            (Some st, Some resample_evt) \<Rightarrow>
              and_then_st (in_world (send_msg st opaque_data (sa_descriptors acc)) s) (\<lambda>_ s.
                case sa_read_pipe_id acc of
                  None \<Rightarrow> (Ok (), s)
                | Some read_pipe_id \<Rightarrow>
                    in_world (event_signal resample_evt)
                      (upd_state (upd_jobs (AddReadPipe read_pipe_id)) s))
          | _ \<Rightarrow> (Err InvalidCrossDomainState, s)))"

definition SEND_RECEIVE_SIZE :: nat where [simp]: "SEND_RECEIVE_SIZE = 352"

definition process_cmd_send :: "u8 list \<Rightarrow> 'a cd_st \<Rightarrow> unit rres \<times> 'a cd_st" where
  "process_cmd_send commands s =
     and_then_st
       (ok_or InvalidCommandBuffer
         (read_from_prefix SEND_RECEIVE_SIZE decode_send_receive commands), s) (\<lambda>cmd s.
     let opaque_data_size = unat (sr_opaque_data_size cmd) in
     and_then_st
       (ok_or (InvalidCommandSize opaque_data_size)
         (get_range SEND_RECEIVE_SIZE (SEND_RECEIVE_SIZE + opaque_data_size) commands), s)
       (\<lambda>opaque_data s. cd_send cmd opaque_data s))"

section \<open>Sentinels, events, imports and sockets\<close>

definition in_watchers ::
  "(watchers \<times> 'a cd_world_scheme \<Rightarrow> 'r \<times> (watchers \<times> 'a cd_world_scheme)) \<Rightarrow>
   'a cd_st \<Rightarrow> 'r \<times> 'a cd_st" where
  "in_watchers f s =
     (case f (cx_watchers (fst s), snd s) of (r, (ws, w)) \<Rightarrow> (r, ((fst s)\<lparr>cx_watchers := ws\<rparr>, w)))"

definition atomic_memory_sentinel_signal ::
  "cd_signal_sentinel \<Rightarrow> 'a cd_st \<Rightarrow> unit rres \<times> 'a cd_st" where
  "atomic_memory_sentinel_signal cmd s = in_watchers (signal_watcher (sas_id cmd)) s"

definition atomic_memory_sentinel_destroy ::
  "cd_destroy_sentinel \<Rightarrow> 'a cd_st \<Rightarrow> unit rres \<times> 'a cd_st" where
  "atomic_memory_sentinel_destroy cmd s = in_watchers (destroy_watcher (das_id cmd)) s"

definition atomic_memory_sentinel_create ::
  "'a cd_env \<Rightarrow> cd_create_sentinel \<Rightarrow> 'a cd_st \<Rightarrow> unit rres \<times> 'a cd_st" where
  "atomic_memory_sentinel_create env cmd s =
     and_then_st
       (in_watchers (create_watcher (ce_lookup env) (cas_id cmd) (cas_fs_id cmd) (cas_handle cmd)) s)
       (\<lambda>evt s.
     and_then_st (ok_or InvalidCrossDomainState (cx_state (fst s)), s) (\<lambda>_ s.
     (Ok (), upd_state (upd_jobs (AddAtomicMemorySentinel (cas_id cmd) evt)) s)))"

definition read_event_new :: "cd_create_event \<Rightarrow> 'a cd_st \<Rightarrow> unit rres \<times> 'a cd_st" where
  "read_event_new cmd s =
     (case fmlookup (items_table (cx_items (fst s))) (cev_id cmd) of
        None \<Rightarrow> (Err InvalidCrossDomainItemId, s)
      | Some (EventItem _) \<Rightarrow>
          and_then_st (unwrap (cx_state (fst s)), s) (\<lambda>_ s.
          let s = upd_state (upd_jobs (AddReadEvent (cev_id cmd))) s in
          and_then_st (unwrap (cx_resample_evt (fst s)), s) (\<lambda>resample_evt s.
          in_world (event_signal resample_evt) s))
      | Some _ \<Rightarrow> (Err InvalidCrossDomainItemType, s))"

definition put_item :: "u32 \<Rightarrow> cd_item \<Rightarrow> cd_context \<Rightarrow> cd_context" where
  "put_item i item x =
     x\<lparr>cx_items := (cx_items x)\<lparr>items_table := fmupd i item (items_table (cx_items x))\<rparr>\<rparr>"

definition del_item :: "u32 \<Rightarrow> cd_context \<Rightarrow> cd_context" where
  "del_item i x = x\<lparr>cx_items := (cx_items x)\<lparr>items_table := fmdrop i (items_table (cx_items x))\<rparr>\<rparr>"

abbreviation get_item :: "cd_context \<Rightarrow> u32 \<Rightarrow> cd_item option" where
  "get_item x i \<equiv> fmlookup (items_table (cx_items x)) i"

definition import_virtiofs_handle ::
  "'a cd_env \<Rightarrow> cd_import_virtiofs \<Rightarrow> 'a cd_st \<Rightarrow> unit rres \<times> 'a cd_st" where
  "import_virtiofs_handle env cmd s =
     (if get_item (fst s) (ivf_id cmd) \<noteq> None then (Err InvalidCrossDomainItemId, s)
      else
        case ce_lookup env of
          None \<Rightarrow> (Err InvalidCrossDomainState, s)
        | Some lookup \<Rightarrow>
            and_then_st (lookup (ivf_fs_id cmd) (ivf_handle cmd), s) (\<lambda>file s.
              (Ok (), upd_state (put_item (ivf_id cmd) (RegularFile file)) s)))"

definition socket_assign_uuid :: "cd_assign_socket_uuid \<Rightarrow> 'a cd_st \<Rightarrow> unit rres \<times> 'a cd_st" where
  "socket_assign_uuid cmd s =
     and_then_st
       (ok_or InvalidCrossDomainItemId (get_item (fst s) (asu_id cmd)), s) (\<lambda>item s.
     let s = upd_state (del_item (asu_id cmd)) s in
     case item of
       SocketItem fd \<Rightarrow>
         and_then_st (in_world (tube_try_from fd) s) (\<lambda>tube s.
           (Ok (), upd_world (\<lambda>w. w\<lparr>cdw_sockets :=
              fmupd (of_le_bytes (asu_socket_uuid cmd)) tube (cdw_sockets w)\<rparr>) s))
     | _ \<Rightarrow> (Err InvalidCrossDomainItemType, s))"

section \<open>Write\<close>

definition cd_write :: "cd_read_write \<Rightarrow> u8 list \<Rightarrow> 'a cd_st \<Rightarrow> unit rres \<times> 'a cd_st" where
  "cd_write cmd opaque_data s =
     and_then_st
       (ok_or InvalidCrossDomainItemId (get_item (fst s) (rw_identifier cmd)), s) (\<lambda>item s.
     let s = upd_state (del_item (rw_identifier cmd)) s;
         put_back = (\<lambda>s. if rw_hang_up cmd = 0
                         then upd_state (put_item (rw_identifier cmd) item) s else s)
     in
     case item of
       WaylandWritePipe write_pipe \<Rightarrow>
         and_then_st
           (if unat (rw_opaque_data_size cmd) \<noteq> 0
            then and_then_st (in_world (pipe_write write_pipe opaque_data) s) (\<lambda>_ s. (Ok (), s))
            else (Ok (), s)) (\<lambda>_ s. (Ok (), put_back s))
     | EventItem evt \<Rightarrow>
         (if length opaque_data \<noteq> 8 then (Err InvalidCrossDomainWriteLength, s)
          else and_then_st (in_world (event_add evt (of_le_bytes opaque_data)) s) (\<lambda>_ s.
            (Ok (), put_back s)))
     | _ \<Rightarrow> (Err InvalidCrossDomainItemType, s))"

definition process_cmd_write :: "u8 list \<Rightarrow> 'a cd_st \<Rightarrow> unit rres \<times> 'a cd_st" where
  "process_cmd_write commands s =
     and_then_st
       (ok_or InvalidCommandBuffer (read_from_prefix READ_WRITE_SIZE decode_read_write commands), s)
       (\<lambda>cmd s.
     let opaque_data_size = unat (rw_opaque_data_size cmd) in
     and_then_st
       (ok_or (InvalidCommandSize opaque_data_size)
         (get_range READ_WRITE_SIZE (READ_WRITE_SIZE + opaque_data_size) commands), s)
       (\<lambda>opaque_data s. cd_write cmd opaque_data s))"

section \<open>The command loop\<close>

definition read_cmd ::
  "nat \<Rightarrow> (u8 list \<Rightarrow> 'c) \<Rightarrow> u8 list \<Rightarrow> ('c \<Rightarrow> 's \<Rightarrow> unit rres \<times> 's) \<Rightarrow> 's \<Rightarrow> unit rres \<times> 's" where
  "read_cmd n decode commands run s =
     and_then_st (ok_or InvalidCommandBuffer (read_from_prefix n decode commands), s) run"

text \<open>One command. The three forms of init are told apart by their size; any other size is an
  unknown command.\<close>

definition run_command ::
  "'a cd_env \<Rightarrow> cd_header \<Rightarrow> u8 list \<Rightarrow> 'a cd_st \<Rightarrow> unit rres \<times> 'a cd_st" where
  "run_command env hdr commands s =
     (let cmd = hdr_cmd hdr; cmd_size = unat (hdr_cmd_size hdr) in
      if cmd = CROSS_DOMAIN_CMD_INIT \<and> cmd_size = 16 then
        read_cmd 16 decode_init_legacy commands (\<lambda>c. initialize (upgrade_legacy c)) s
      else if cmd = CROSS_DOMAIN_CMD_INIT \<and> cmd_size = 20 then
        read_cmd 20 decode_init_v1 commands (\<lambda>c. initialize (upgrade_v1 c)) s
      else if cmd = CROSS_DOMAIN_CMD_INIT \<and> cmd_size = 36 then
        read_cmd 36 decode_init commands initialize s
      else if cmd = CROSS_DOMAIN_CMD_GET_IMAGE_REQUIREMENTS then
        read_cmd 24 decode_get_image_requirements commands (get_image_requirements env) s
      else if cmd = CROSS_DOMAIN_CMD_SEND then process_cmd_send commands s
      else if cmd = CROSS_DOMAIN_CMD_POLL then (Ok (), s)
      else if cmd = CROSS_DOMAIN_CMD_WRITE then process_cmd_write commands s
      else if cmd = CROSS_DOMAIN_CMD_CREATE_ATOMIC_MEMORY_SENTINEL then
        read_cmd 32 decode_create_sentinel commands (atomic_memory_sentinel_create env) s
      else if cmd = CROSS_DOMAIN_CMD_SIGNAL_ATOMIC_MEMORY_SENTINEL then
        read_cmd 16 decode_signal_sentinel commands atomic_memory_sentinel_signal s
      else if cmd = CROSS_DOMAIN_CMD_DESTROY_ATOMIC_MEMORY_SENTINEL then
        read_cmd 16 decode_destroy_sentinel commands atomic_memory_sentinel_destroy s
      else if cmd = CROSS_DOMAIN_CMD_READ_CREATE_EVENT then
        read_cmd 16 decode_create_event commands read_event_new s
      else if cmd = CROSS_DOMAIN_CMD_ASSIGN_SOCKET_UUID then
        read_cmd 32 decode_assign_socket_uuid commands socket_assign_uuid s
      else if cmd = CROSS_DOMAIN_CMD_IMPORT_VIRTIOFS_HANDLE then
        read_cmd 32 decode_import_virtiofs commands (import_virtiofs_handle env) s
      else (Err (MagmaGpuError (WithContext ''invalid cross domain command'')), s))"

text \<open>The loop advances by the size the header claims; \<open>None\<close> is a loop that never ends.\<close>

partial_function (option) submit_loop ::
  "'a cd_env \<Rightarrow> u8 list \<Rightarrow> 'a cd_st \<Rightarrow> (unit rres \<times> 'a cd_st) option" where
  "submit_loop env commands s =
     (if commands = [] then Some (Ok (), s)
      else
        case read_from_prefix 8 decode_header commands of
          None \<Rightarrow> Some (Err InvalidCommandBuffer, s)
        | Some hdr \<Rightarrow>
            (case run_command env hdr commands s of
               (Inl e, s) \<Rightarrow> Some (Inl e, s)
             | (Inr _, s) \<Rightarrow>
                 if length commands < unat (hdr_cmd_size hdr)
                 then Some (Err (InvalidCommandSize (unat (hdr_cmd_size hdr))), s)
                 else submit_loop env (drop (unat (hdr_cmd_size hdr)) commands) s))"

section \<open>The remaining trait methods\<close>

text \<open>The resource of a blob, from the image requirements or from an item used up by the call\<close>

definition blob_resource ::
  "u32 \<Rightarrow> resource_create_blob \<Rightarrow> rutabaga_handle \<Rightarrow> u32 \<Rightarrow> resource_3d_info option \<Rightarrow>
   vulkan_info option \<Rightarrow> rutabaga_resource" where
  "blob_resource resource_id rcb handle map_info info_3d vk =
     \<lparr>r_resource_id = resource_id, r_handle = Some handle, r_blob = True,
      r_blob_mem = cb_blob_mem rcb, r_blob_flags = cb_blob_flags rcb,
      r_map_info = Some map_info, r_info_2d = None, r_info_3d = info_3d, r_vulkan_info = vk,
      r_backing_iovecs = None, r_component_mask = component_bit CrossDomain,
      r_size = cb_size rcb, r_mapping = None\<rparr>"

definition requirements_3d_info :: "image_memory_requirements \<Rightarrow> resource_3d_info" where
  "requirements_3d_info reqs =
     \<lparr>i3d_width = ia_width (irq_info reqs), i3d_height = ia_height (irq_info reqs),
      i3d_drm_fourcc = drm_code (ia_drm_format (irq_info reqs)), i3d_strides = irq_strides reqs,
      i3d_offsets = irq_offsets reqs, i3d_modifier = irq_modifier reqs\<rparr>"

definition cd_context_create_blob ::
  "'a cd_env \<Rightarrow> u32 \<Rightarrow> resource_create_blob \<Rightarrow> rutabaga_handle option \<Rightarrow> 'a cd_st \<Rightarrow>
   rutabaga_resource rres \<times> 'a cd_st" where
  "cd_context_create_blob env resource_id rcb handle_opt s =
     (let item_id = (ucast (cb_blob_id rcb) :: u32) in
      and_then_st (ok_or InvalidCrossDomainItemId (get_item (fst s) item_id), s) (\<lambda>item s.
      case item of
        ImageRequirements reqs \<Rightarrow>
          if irq_size reqs \<noteq> cb_size rcb
          then (Err (MagmaGpuError (WithContext ''blob size mismatch'')), s)
          else
            and_then_st
              (case handle_opt of
                 Some handle \<Rightarrow> (Ok handle, s)
               | None \<Rightarrow>
                   and_then_st
                     (in_world (gralloc_allocate_memory (ce_build env) (ce_gralloc env) reqs) s)
                     (\<lambda>h s. (Ok (MagmaGpuHandle h), s))) (\<lambda>hnd s.
            (Ok (blob_resource resource_id rcb hnd
                   (irq_map_info reqs OR RUTABAGA_MAP_ACCESS_RW)
                   (Some (requirements_3d_info reqs)) (irq_vulkan_info reqs)), s))
      | _ \<Rightarrow>
          let s = upd_state (del_item item_id) s in
          (case item of
             Blob hnd \<Rightarrow>
               and_then_st
                 (io_rres (determine_map_access_mode (w_os (snd s)) (os_handle hnd)), s)
                 (\<lambda>map_access s.
                 (Ok (blob_resource resource_id rcb (MagmaGpuHandle hnd)
                        (RUTABAGA_MAP_CACHE_CACHED OR map_access) None None), s))
           | _ \<Rightarrow> (Err InvalidCrossDomainItemType, s))))"

definition cd_attach ::
  "rutabaga_resource \<Rightarrow> 'a cd_st \<Rightarrow> rutabaga_resource \<times> 'a cd_st" where
  "cd_attach resource s =
     (case attach_resource resource (cx_resources (fst s)) of
        (r, m) \<Rightarrow> (r, upd_state (cx_resources_update (\<lambda>_. m)) s))"

definition cd_detach :: "rutabaga_resource \<Rightarrow> 'a cd_st \<Rightarrow> 'a cd_st" where
  "cd_detach resource s = upd_state (cx_resources_update (detach_resource resource)) s"

definition cd_context_create_fence ::
  "rutabaga_fence \<Rightarrow> 'a cd_st \<Rightarrow> magma_handle option rres \<times> 'a cd_st" where
  "cd_context_create_fence fence s =
     (let ring = (ucast (fence_ring_idx fence) :: u32) in
      if ring = CROSS_DOMAIN_QUERY_RING then (Ok None, upd_world (fence_handler_call fence) s)
      else if ring = CROSS_DOMAIN_CHANNEL_RING then
        (Ok None, upd_state (upd_jobs (HandleFence fence)) s)
      else (Err (MagmaGpuError (WithContext ''unexpected ring type'')), s))"

text \<open>\<open>Drop\<close>: the worker is told to finish and joined. Its state goes with it, and the sentinel
  manager once no other worker holds it.\<close>

definition cd_finish :: "'a cd_st \<Rightarrow> 'a cd_st" where
  "cd_finish s =
     (let s = upd_state (upd_jobs Finish) s in
      case cx_kill_evt (fst s) of
        None \<Rightarrow> s
      | Some kill_evt \<Rightarrow>
          upd_state (\<lambda>x. x\<lparr>cx_kill_evt := None, cx_worker := False\<rparr>)
            (snd (in_world (event_signal kill_evt) s)))"

definition cd_drop :: "'a cd_st \<Rightarrow> 'a cd_world_scheme" where
  "cd_drop s =
     (let s = cd_finish s in
      if cx_orphans (fst s) = [] then drop_manager (cx_watchers (fst s)) (snd s) else snd s)"

section \<open>The context as a trait object\<close>

text \<open>The object of context id \<open>ctx_id\<close> lives under that key. A command loop that never ends
  makes the call hang.\<close>

definition cd_get :: "u32 \<Rightarrow> 'a cd_world_scheme \<Rightarrow> cd_context" where
  "cd_get ctx_id w =
     (case fmlookup (cdw_contexts w) ctx_id of Some x \<Rightarrow> x | None \<Rightarrow> cd_context_new None)"

definition cd_put :: "u32 \<Rightarrow> 'a cd_st \<Rightarrow> 'a cd_world_scheme" where
  "cd_put ctx_id s =
     (snd s)\<lparr>cdw_contexts := fmupd ctx_id (fst s) (cdw_contexts (snd s))\<rparr>"

definition on_context ::
  "u32 \<Rightarrow> ('a cd_st \<Rightarrow> 'r \<times> 'a cd_st) \<Rightarrow> 'a cd_world_scheme \<Rightarrow> 'r \<times> 'a cd_world_scheme" where
  "on_context ctx_id f w = (case f (cd_get ctx_id w, w) of (r, s) \<Rightarrow> (r, cd_put ctx_id s))"

definition cd_submit_cmd ::
  "'a cd_env \<Rightarrow> u8 list \<Rightarrow> u64 list \<Rightarrow> magma_handle list \<Rightarrow> 'a cd_st \<Rightarrow> (unit rres \<times> u8 list) \<times> 'a cd_st"
where
  "cd_submit_cmd env commands fence_ids shareable_fences s =
     (case submit_loop env commands s of
        None \<Rightarrow> ((Hung, commands), s)
      | Some (r, s) \<Rightarrow> ((r, commands), s))"

definition cd_context_object ::
  "'a cd_env \<Rightarrow> u32 \<Rightarrow> 'a cd_world_scheme rutabaga_context" where
  "cd_context_object env ctx_id =
     (context_defaults
        (\<lambda>commands fence_ids fences.
          on_context ctx_id (cd_submit_cmd env commands fence_ids fences))
        (\<lambda>resource. on_context ctx_id (cd_attach resource))
        (\<lambda>resource w. cd_put ctx_id (cd_detach resource (cd_get ctx_id w, w)))
        CrossDomain)
     \<lparr>x_context_create_blob := \<lambda>resource_id rcb handle_opt.
        on_context ctx_id (cd_context_create_blob env resource_id rcb handle_opt),
      x_context_create_fence := \<lambda>fence. on_context ctx_id (cd_context_create_fence fence),
      x_drop := \<lambda>w. (cd_drop (cd_get ctx_id w, w))
        \<lparr>cdw_contexts := fmdrop ctx_id (cdw_contexts w)\<rparr>,
      x_holds := \<lambda>h w. resources_hold h (cx_resources (cd_get ctx_id w))\<rparr>"

end
