(* ===== verification/CD_Component.thy ===== *)
theory CD_Component
  imports CD_Context Builder
begin

text \<open>
  The cross-domain component, \<open>src/cross_domain/component.rs\<close>, with the contracts of the component
  and its contexts, and a build environment that uses it.
\<close>

section \<open>\<open>CrossDomain\<close>\<close>

text \<open>The sockets between contexts are shared by all contexts of the component and live in the
  world.\<close>

record 'a cross_domain =
  cdm_paths :: "rutabaga_path list option"
  cdm_env :: "'a cd_env"

definition cd_get_capset_info :: "u32 \<Rightarrow> 'a cd_world_scheme \<Rightarrow> u32 \<times> u32" where
  "cd_get_capset_info cid w = (0, 16)"

text \<open>\<open>1 << path_type\<close> on a \<open>u32\<close> takes the shift modulo 32.\<close>

definition path_type_bit :: "u32 \<Rightarrow> u32" where
  "path_type_bit t = push_bit (unat t mod 32) 1"

definition cd_capabilities_of :: "'a cross_domain \<Rightarrow> 'a cd_world_scheme \<Rightarrow> cd_capabilities" where
  "cd_capabilities_of c w =
     \<lparr>caps_version = 1,
      caps_supported_channels =
        (case cdm_paths c of
           None \<Rightarrow> 0
         | Some paths \<Rightarrow> foldl (\<lambda>channels p. channels OR path_type_bit (path_type p)) 0 paths),
      caps_supports_dmabuf =
        (if gralloc_supports_dmabuf (ce_gralloc (cdm_env c)) w then 1 else 0),
      caps_supports_external_gpu_memory =
        (if gralloc_supports_external_gpu_memory (ce_gralloc (cdm_env c)) w then 1 else 0)\<rparr>"

definition cd_get_capset ::
  "'a cross_domain \<Rightarrow> u32 \<Rightarrow> u32 \<Rightarrow> 'a cd_world_scheme \<Rightarrow> u8 list" where
  "cd_get_capset c cid version w = encode_capabilities (cd_capabilities_of c w)"

definition cd_create_blob ::
  "u32 \<Rightarrow> u32 \<Rightarrow> resource_create_blob \<Rightarrow> rutabaga_iovec list option \<Rightarrow>
   rutabaga_handle option \<Rightarrow> 'a cd_world_scheme \<Rightarrow> rutabaga_resource rres \<times> 'a cd_world_scheme" where
  "cd_create_blob ctx_id resource_id rcb iovec_opt handle_opt w =
     (if cb_blob_mem rcb \<noteq> RUTABAGA_BLOB_MEM_GUEST
         \<and> cb_blob_flags rcb \<noteq> RUTABAGA_BLOB_FLAG_USE_MAPPABLE
      then (Err (MagmaGpuError (WithContext ''expected only guest memory blobs'')), w)
      else
        (Ok \<lparr>r_resource_id = resource_id, r_handle = None, r_blob = True,
             r_blob_mem = cb_blob_mem rcb, r_blob_flags = cb_blob_flags rcb, r_map_info = None,
             r_info_2d = None, r_info_3d = None, r_vulkan_info = None,
             r_backing_iovecs = iovec_opt, r_component_mask = component_bit CrossDomain,
             r_size = cb_size rcb, r_mapping = None\<rparr>, w))"

definition cd_create_context ::
  "'a cross_domain \<Rightarrow> u32 \<Rightarrow> u32 \<Rightarrow> string option \<Rightarrow> 'a cd_world_scheme \<Rightarrow>
   'a cd_world_scheme rutabaga_context rres \<times> 'a cd_world_scheme" where
  "cd_create_context c ctx_id context_init context_name w =
     (Ok (cd_context_object (cdm_env c) ctx_id),
      w\<lparr>cdw_contexts := fmupd ctx_id (cd_context_new (cdm_paths c)) (cdw_contexts w)\<rparr>)"

definition cd_create_fence :: "rutabaga_fence \<Rightarrow> 'a cd_world_scheme \<Rightarrow> unit rres \<times> 'a cd_world_scheme"
where
  "cd_create_fence fence w = (Ok (), fence_handler_call fence w)"

definition cross_domain_component ::
  "'a cross_domain \<Rightarrow> 'a cd_world_scheme rutabaga_component" where
  "cross_domain_component c = component_defaults
     \<lparr>c_get_capset_info := cd_get_capset_info,
      c_get_capset := cd_get_capset c,
      c_create_blob := cd_create_blob,
      c_create_context := cd_create_context c,
      c_create_fence := cd_create_fence\<rparr>"

definition cross_domain_init ::
  "'a cd_world_ext gralloc_build \<Rightarrow> rutabaga_path list option \<Rightarrow> virtiofs_lookup option \<Rightarrow>
   'a cd_world_scheme \<Rightarrow> 'a cd_world_scheme rutabaga_component rres \<times> 'a cd_world_scheme" where
  "cross_domain_init build paths lookup w =
     and_then_st (rutabaga_gralloc_new build backend_flags_new w) (\<lambda>gralloc w.
       (Ok (cross_domain_component
              \<lparr>cdm_paths = paths,
               cdm_env = \<lparr>ce_build = build, ce_gralloc = gralloc, ce_lookup = lookup\<rparr>\<rparr>),
        w\<lparr>cdw_sockets := fmempty\<rparr>))"

section \<open>The contracts\<close>

lemma create_blob_keeps_id:
  "cd_context_create_blob env i rcb h s = (Ok r, s') \<Longrightarrow> r_resource_id r = i"
  by (auto simp: cd_context_create_blob_def blob_resource_def Let_def and_then_st_eq_Ok
      split: cd_item.splits if_splits option.splits)

interpretation cdx: context_contract "cd_context_object env ctx_id" for env ctx_id
proof
  fix resource_id rcb handle_opt w r w'
  assume "x_context_create_blob (cd_context_object env ctx_id) resource_id rcb handle_opt w =
    (Ok r, w')"
  then show "r_resource_id r = resource_id"
    by (auto simp: cd_context_object_def context_defaults_def on_context_def
        dest: create_blob_keeps_id split: prod.splits)
next
  fix r w
  show "r_resource_id (fst (x_attach (cd_context_object env ctx_id) r w)) = r_resource_id r"
    using attach_resource_id [of r]
    by (simp add: cd_context_object_def context_defaults_def on_context_def cd_attach_def
        case_prod_unfold)
qed

interpretation cdm: component_contract "cross_domain_component c" for c
proof (rule component_contract.intro)
qed (auto simp: cross_domain_component_def component_defaults_def blank_resource_def
      unsupported_def cd_create_blob_def cd_create_context_def intro: cdx.context_contract_axioms
      split: if_splits)

text \<open>The initializer satisfies what the builder asks of it.\<close>

lemma cross_domain_init_lawful: "init_lawful (cross_domain_init build paths lookup)"
proof (unfold init_lawful_def, intro allI impI)
  fix w c assume "fst (cross_domain_init build paths lookup w) = Ok c"
  then obtain d where "c = cross_domain_component d"
    by (cases "rutabaga_gralloc_new build backend_flags_new w"; cases "fst (rutabaga_gralloc_new build backend_flags_new w)")
      (auto simp: cross_domain_init_def)
  then show "component_contract c" by (simp add: cdm.component_contract_axioms)
qed

end

