(* ===== verification/CD_Worker.thy ===== *)
theory CD_Worker
  imports CD_Component
begin

text \<open>
  The worker thread of a cross-domain context, \<open>src/cross_domain/worker.rs\<close>: it takes one job at a
  time from the queue of its state; for a fence it waits for one event, serves it, and signals the
  fence when the guest may look at the ring.

  The worker shares the state, the items, the rings and the watchers with its context. Its
  operations act on the state it was spawned with and the context, in the world; \<open>on_current\<close>
  applies them to the state the context still holds.
\<close>

type_synonym 'a wk_st = "(cd_state \<times> cd_context) \<times> 'a cd_world_scheme"

text \<open>The descriptors the thread was spawned with\<close>

record cd_worker =
  wk_wait_ctx :: descriptor
  wk_kill_evt :: descriptor
  wk_resample_evt :: descriptor

definition CROSS_DOMAIN_DEFAULT_BUFFER_SIZE :: nat where
  [simp]: "CROSS_DOMAIN_DEFAULT_BUFFER_SIZE = 4096"
definition CROSS_DOMAIN_MAX_SEND_RECV_SIZE :: nat where
  [simp]: "CROSS_DOMAIN_MAX_SEND_RECV_SIZE = CROSS_DOMAIN_DEFAULT_BUFFER_SIZE - SEND_RECEIVE_SIZE"

abbreviation wk_state :: "'a wk_st \<Rightarrow> cd_state" where "wk_state s \<equiv> fst (fst s)"
abbreviation wk_context :: "'a wk_st \<Rightarrow> cd_context" where "wk_context s \<equiv> snd (fst s)"

definition wk_job :: "cd_job \<Rightarrow> 'a wk_st \<Rightarrow> 'a wk_st" where
  "wk_job job s = upd_state (\<lambda>(st, x). (add_job job st, x)) s"

definition wk_items :: "(cd_items \<Rightarrow> cd_items) \<Rightarrow> 'a wk_st \<Rightarrow> 'a wk_st" where
  "wk_items f s = upd_state (\<lambda>(st, x). (st, x\<lparr>cx_items := f (cx_items x)\<rparr>)) s"

definition wk_watchers ::
  "(watchers \<times> 'a cd_world_scheme \<Rightarrow> 'r \<times> (watchers \<times> 'a cd_world_scheme)) \<Rightarrow>
   'a wk_st \<Rightarrow> 'r \<times> 'a wk_st" where
  "wk_watchers f s =
     (case f (cx_watchers (wk_context s), snd s) of (r, (ws, w)) \<Rightarrow>
        (r, ((wk_state s, (wk_context s)\<lparr>cx_watchers := ws\<rparr>), w)))"

definition wk_write :: "ring_write \<Rightarrow> 'a wk_st \<Rightarrow> nat rres \<times> 'a wk_st" where
  "wk_write rw s =
     in_world (write_to_ring (cx_resources (wk_context s)) rw (st_channel_ring_id (wk_state s))) s"

definition signal_fence :: "rutabaga_fence \<Rightarrow> 'a wk_st \<Rightarrow> 'a wk_st" where
  "signal_fence fence s = upd_world (fence_handler_call fence) s"

section \<open>Receiving from the channel\<close>

text \<open>What one received descriptor becomes: its type, its size and its item.\<close>

definition classify_file ::
  "descriptor \<Rightarrow> descriptor_type \<Rightarrow> (u32 \<times> u32 \<times> cd_item) rres" where
  "classify_file file t =
     (case t of
        EventType \<Rightarrow> Ok (CROSS_DOMAIN_ID_TYPE_EVENT, 0, EventItem file)
      | MemoryType sz hty \<Rightarrow>
          Ok (CROSS_DOMAIN_ID_TYPE_VIRTGPU_BLOB, sz,
              Blob \<lparr>os_handle = file, handle_type = hty\<rparr>)
      | WritePipeType \<Rightarrow> Ok (CROSS_DOMAIN_ID_TYPE_WRITE_PIPE, 0, WaylandWritePipe file)
      | SocketType _ \<Rightarrow> Ok (CROSS_DOMAIN_ID_TYPE_SOCKET, 0, SocketItem file)
      | UnknownType \<Rightarrow> Err InvalidCrossDomainItemType)"

definition receive_file :: "descriptor \<Rightarrow> 'a wk_st \<Rightarrow> (u32 \<times> u32 \<times> u32) rres \<times> 'a wk_st" where
  "receive_file file s =
     and_then_st
       (case in_world (determine_type file) s of (r, s) \<Rightarrow> (io_rres r, s)) (\<lambda>t s.
     and_then_st (classify_file file t, s) (\<lambda>(identifier_type, identifier_size, item) s.
     case add_item (cx_items (wk_context s)) item of
       (identifier, its) \<Rightarrow>
         (Ok (identifier, identifier_type, identifier_size), wk_items (\<lambda>_. its) s)))"

fun receive_files :: "descriptor list \<Rightarrow> 'a wk_st \<Rightarrow> (u32 \<times> u32 \<times> u32) list rres \<times> 'a wk_st" where
  "receive_files [] s = (Ok [], s)"
| "receive_files (file # files) s =
     and_then_st (receive_file file s) (\<lambda>i s.
     and_then_st (receive_files files s) (\<lambda>is s. (Ok (i # is), s)))"

text \<open>An array of \<open>CROSS_DOMAIN_MAX_IDENTIFIERS\<close> entries that starts with the given ones\<close>

definition identifier_array :: "u32 list \<Rightarrow> u32 list" where
  "identifier_array is =
     take CROSS_DOMAIN_MAX_IDENTIFIERS is @ replicate (CROSS_DOMAIN_MAX_IDENTIFIERS - length is) 0"

definition process_receive :: "rutabaga_fence \<Rightarrow> 'a wk_st \<Rightarrow> unit rres \<times> 'a wk_st" where
  "process_receive fence s =
     and_then_st (in_world (receive_msg (wk_state s) CROSS_DOMAIN_MAX_SEND_RECV_SIZE) s)
       (\<lambda>(data, files) s.
     and_then_st (u32_try_from (length files), s) (\<lambda>num_identifiers s.
     and_then_st (u32_try_from (length data), s) (\<lambda>opaque_data_size s.
     and_then_st (receive_files (take CROSS_DOMAIN_MAX_IDENTIFIERS files) s) (\<lambda>is s.
     let cmd_receive =
           \<lparr>sr_hdr = \<lparr>hdr_cmd = CROSS_DOMAIN_CMD_RECEIVE, hdr_ring_idx = 0, hdr_cmd_size = 0,
                      hdr_pad = 0\<rparr>,
            sr_num_identifiers = num_identifiers, sr_opaque_data_size = opaque_data_size,
            sr_identifiers = identifier_array (map fst is),
            sr_identifier_types = identifier_array (map (fst \<circ> snd) is),
            sr_identifier_sizes = identifier_array (map (snd \<circ> snd) is)\<rparr>
     in
       and_then_st (wk_write (Write (encode_send_receive cmd_receive) (Some data)) s) (\<lambda>_ s.
       (Ok (), signal_fence fence s))))))"

section \<open>Serving one event\<close>

text \<open>The token of a sentinel: the fence goes back to the queue unless the guest was notified.\<close>

definition handle_sentinel ::
  "cd_worker \<Rightarrow> rutabaga_fence \<Rightarrow> u32 \<Rightarrow> 'a wk_st \<Rightarrow> unit rres \<times> 'a wk_st" where
  "handle_sentinel wk fence memory_watcher_id s =
     (if is_shutdown memory_watcher_id (cx_watchers (wk_context s)) then
        and_then_st
          (case get_event memory_watcher_id (cx_watchers (wk_context s)) of
             None \<Rightarrow> (Ok (), s)
           | Some evt \<Rightarrow> in_world (wait_ctx_delete (wk_wait_ctx wk) evt) s) (\<lambda>_ s.
        (Ok (),
         snd (wk_watchers (\<lambda>sw. ((), remove_watcher memory_watcher_id sw))
           (wk_job (HandleFence fence) s))))
      else
        and_then_st (wk_watchers (handle_event memory_watcher_id) s) (\<lambda>cmd_opt s.
        case cmd_opt of
          None \<Rightarrow> (Ok (), wk_job (HandleFence fence) s)
        | Some cmd \<Rightarrow>
            and_then_st (wk_write (Write (encode_signal_sentinel cmd) None) s) (\<lambda>_ s.
            (Ok (), signal_fence fence s))))"

text \<open>The token of an item: a read pipe or an event.\<close>

definition handle_item ::
  "cd_worker \<Rightarrow> rutabaga_fence \<Rightarrow> wait_event \<Rightarrow> 'a wk_st \<Rightarrow> unit rres \<times> 'a wk_st" where
  "handle_item wk fence event s =
     and_then_st (u32_try_from (unat (ev_connection_id event)), s) (\<lambda>item_id s.
     let cmd_read = \<lparr>rw_hdr = \<lparr>hdr_cmd = CROSS_DOMAIN_CMD_READ, hdr_ring_idx = 0,
                                hdr_cmd_size = 0, hdr_pad = 0\<rparr>,
                     rw_identifier = item_id, rw_hang_up = 0, rw_opaque_data_size = 0,
                     rw_pad = 0\<rparr>
     in
     and_then_st (ok_or InvalidCrossDomainItemId (get_item (wk_context s) item_id), s) (\<lambda>item s.
     and_then_st
       (case item of
          WaylandReadPipe readpipe \<Rightarrow>
            and_then_st (wk_write (WriteFromPipe cmd_read readpipe (ev_readable event)) s)
              (\<lambda>bytes_read s.
            if ev_hung_up event \<and> bytes_read = 0 then
              and_then_st (in_world (wait_ctx_delete (wk_wait_ctx wk) readpipe) s) (\<lambda>_ s.
                (Ok bytes_read, s))
            else (Ok bytes_read, s))
        | EventItem evt \<Rightarrow> wk_write (WriteFromEvent cmd_read evt (ev_readable event)) s
        | _ \<Rightarrow> (Err InvalidCrossDomainItemType, s)) (\<lambda>bytes_read s.
     let s = (if ev_hung_up event \<and> bytes_read = 0
              then wk_items (\<lambda>its. its\<lparr>items_table := fmdrop item_id (items_table its)\<rparr>) s else s)
     in (Ok (), signal_fence fence s))))"

definition is_sentinel_token :: "u64 \<Rightarrow> bool" where
  "is_sentinel_token token \<longleftrightarrow>
     unat CROSS_DOMAIN_ATOMIC_MEMORY_SENTINEL_START \<le> unat token \<and>
     unat token < unat CROSS_DOMAIN_PIPE_READ_START"

definition handle_fence ::
  "cd_worker \<Rightarrow> rutabaga_fence \<Rightarrow> 'a wk_st \<Rightarrow> unit rres \<times> 'a wk_st" where
  "handle_fence wk fence s =
     and_then_st (in_world (wait_ctx_wait (wk_wait_ctx wk)) s) (\<lambda>events s.
     case events of
       [] \<Rightarrow> (Ok (), s)
     | event # _ \<Rightarrow>
         (let token = ev_connection_id event in
          if token = CROSS_DOMAIN_CONTEXT_CHANNEL_ID then process_receive fence s
          else if token = CROSS_DOMAIN_RESAMPLE_ID then
            and_then_st (in_world (event_wait (wk_resample_evt wk)) s) (\<lambda>_ s.
              (Ok (), wk_job (HandleFence fence) s))
          else if token = CROSS_DOMAIN_KILL_ID then (Ok (), signal_fence fence s)
          else if is_sentinel_token token then handle_sentinel wk fence (ucast token) s
          else handle_item wk fence event s))"

section \<open>Jobs\<close>

text \<open>One job; the flag tells that the thread goes on.\<close>

definition run_job :: "cd_worker \<Rightarrow> cd_job \<Rightarrow> 'a wk_st \<Rightarrow> bool rres \<times> 'a wk_st" where
  "run_job wk job s =
     (case job of
        HandleFence fence \<Rightarrow> and_then_st (handle_fence wk fence s) (\<lambda>_ s. (Ok True, s))
      | AddReadPipe read_pipe_id \<Rightarrow>
          and_then_st (ok_or InvalidCrossDomainItemId (get_item (wk_context s) read_pipe_id), s)
            (\<lambda>item s.
          case item of
            WaylandReadPipe read_pipe \<Rightarrow>
              and_then_st (in_world (wait_ctx_add (wk_wait_ctx wk) (ucast read_pipe_id) read_pipe) s)
                (\<lambda>_ s. (Ok True, s))
          | _ \<Rightarrow> (Err InvalidCrossDomainItemType, s))
      | AddReadEvent efd_id \<Rightarrow>
          and_then_st (ok_or InvalidCrossDomainItemId (get_item (wk_context s) efd_id), s)
            (\<lambda>item s.
          case item of
            EventItem evt \<Rightarrow>
              and_then_st (in_world (wait_ctx_add (wk_wait_ctx wk) (ucast efd_id) evt) s)
                (\<lambda>_ s. (Ok True, s))
          | _ \<Rightarrow> (Err InvalidCrossDomainItemType, s))
      | AddAtomicMemorySentinel i recv \<Rightarrow>
          and_then_st (in_world (wait_ctx_add (wk_wait_ctx wk) (ucast i) recv) s)
            (\<lambda>_ s. (Ok True, s))
      | Finish \<Rightarrow> (Ok False, s))"

text \<open>The start of \<open>run\<close>, and one turn of its loop: \<open>None\<close> while the thread waits for a job.\<close>

definition worker_start :: "cd_worker \<Rightarrow> 'a wk_st \<Rightarrow> unit rres \<times> 'a wk_st" where
  "worker_start wk s =
     and_then_st
       (in_world (wait_ctx_add (wk_wait_ctx wk) CROSS_DOMAIN_RESAMPLE_ID (wk_resample_evt wk)) s)
       (\<lambda>_ s.
     in_world (wait_ctx_add (wk_wait_ctx wk) CROSS_DOMAIN_KILL_ID (wk_kill_evt wk)) s)"

definition worker_turn :: "cd_worker \<Rightarrow> 'a wk_st \<Rightarrow> (bool rres \<times> 'a wk_st) option" where
  "worker_turn wk s =
     (case wait_for_job (wk_state s) of
        None \<Rightarrow> None
      | Some (job_opt, st) \<Rightarrow>
          let s = upd_state (\<lambda>(_, x). (st, x)) s in
          (case job_opt of None \<Rightarrow> Some (Ok False, s) | Some job \<Rightarrow> Some (run_job wk job s)))"

definition on_current ::
  "('a wk_st \<Rightarrow> ('r \<times> 'a wk_st) option) \<Rightarrow> 'a cd_st \<Rightarrow> ('r \<times> 'a cd_st) option" where
  "on_current f s =
     (case cx_state (fst s) of
        None \<Rightarrow> None
      | Some st \<Rightarrow>
          (case f ((st, fst s), snd s) of
             None \<Rightarrow> None
           | Some (r, ((st, x), w)) \<Rightarrow> Some (r, (x\<lparr>cx_state := Some st\<rparr>, w))))"

end
