(* ===== verification/CD_Fences.thy ===== *)
theory CD_Fences
  imports CD_Worker "HOL-Library.Multiset"
begin

text \<open>
  Where the fences of a cross-domain context are: submitted by the guest, queued for a worker,
  or signalled. The rules for \<open>post\<close> go through an operation statement by statement; the runs of a
  context interleave the guest's calls with the turns of its workers.
\<close>

section \<open>Postconditions of operations\<close>

text \<open>\<open>Q\<close> holds after a success, \<open>E\<close> after an error or a panic.\<close>

definition post :: "('e + 'x) \<times> 's \<Rightarrow> ('x \<Rightarrow> 's \<Rightarrow> bool) \<Rightarrow> ('s \<Rightarrow> bool) \<Rightarrow> bool" where
  "post p Q E = (case p of (Inr x, s) \<Rightarrow> Q x s | (Inl _, s) \<Rightarrow> E s)"

lemma post_simps [simp]:
  "post (Inr x, s) Q E = Q x s" "post (Inl e, s) Q E = E s"
  "post (and_then_st p f) Q E = post p (\<lambda>x s. post (f x s) Q E) E"
  by (simp_all add: post_def and_then_st_def split: sum.split prod.split)

lemma post_keeps:
  assumes "I (snd p)" and "\<And>x s. I s \<Longrightarrow> Q x s" and "\<And>s. I s \<Longrightarrow> E s"
  shows "post p Q E"
  using assms by (auto simp: post_def split: sum.split prod.split)

lemma post_pure [simp]: "post (r, s) Q E \<longleftrightarrow> (case r of Inr x \<Rightarrow> Q x s | Inl _ \<Rightarrow> E s)"
  by (simp add: post_def split: sum.split)

lemma post_snd: "post p (\<lambda>_. I) I \<longleftrightarrow> I (snd p)"
  by (auto simp: post_def split: sum.split prod.split)

section \<open>Operations that leave the fences alone\<close>

named_theorems quiet \<open>operations of the world that signal no fence\<close>

lemma quiet_base [quiet]:
  "w_fences (snd (sys_rres c w)) = w_fences w"
  "w_fences (emit e w) = w_fences w"
  "w_fences (write_at b off bs w) = w_fences w"
  "w_fences (snd (thread_spawn w)) = w_fences w"
  "w_fences (snd (ask c' w)) = w_fences w"
  by (simp_all add: sys_rres_def ask_def emit_def write_at_def thread_spawn_def
      split: prod.split sum.split)

lemma quiet_then [quiet]:
  assumes "w_fences (snd p) = F" and "\<And>x w. p = (Inr x, w) \<Longrightarrow> w_fences w = F \<Longrightarrow>
    w_fences (snd (f x w)) = F"
  shows "w_fences (snd (and_then_st p f)) = F"
  using assms by (cases p; cases "fst p") auto

lemma quiet_calls [quiet]:
  "w_fences (snd (event_new w)) = w_fences w"
  "w_fences (snd (event_add d v w)) = w_fences w"
  "w_fences (snd (event_signal d w)) = w_fences w"
  "w_fences (snd (event_wait d w)) = w_fences w"
  "w_fences (snd (create_pipe w)) = w_fences w"
  "w_fences (snd (pipe_read d n w)) = w_fences w"
  "w_fences (snd (pipe_write d bs w)) = w_fences w"
  "w_fences (snd (tube_new pth kind w)) = w_fences w"
  "w_fences (snd (tube_try_from d w)) = w_fences w"
  "w_fences (snd (wait_ctx_add e t d w)) = w_fences w"
  "w_fences (snd (wait_ctx_delete e d w)) = w_fences w"
  "w_fences (snd (wait_ctx_wait e w)) = w_fences w"
  "w_fences (snd (wait_ctx_new w)) = w_fences w"
  by (auto simp: event_new_def event_add_def event_signal_def event_wait_def create_pipe_def
      pipe_read_def pipe_write_def tube_new_def tube_try_from_def wait_ctx_add_def
      wait_ctx_delete_def wait_ctx_wait_def wait_ctx_new_def quiet_base intro!: quiet_then)

lemma quiet_pure [quiet]: "w_fences w = F \<Longrightarrow> w_fences (snd (r, w)) = F"
  by simp

lemma quiet_type [quiet]:
  "w_fences (snd (sys_call c w)) = w_fences w"
  "w_fences (snd (get_memory_handle_type d w)) = w_fences w"
  "w_fences (snd (determine_type d w)) = w_fences w"
proof -
  show c: "w_fences (snd (sys_call c w)) = w_fences w" for c :: "cd_sys \<Rightarrow> nat \<Rightarrow> int + 'x" and w
    by (simp add: sys_call_def ask_def)
  show h: "w_fences (snd (get_memory_handle_type d w)) = w_fences w" for w
    by (auto simp: get_memory_handle_type_def ask_def split: sum.split)
  show "w_fences (snd (determine_type d w)) = w_fences w"
    by (auto simp: determine_type_def ask_def c h intro!: quiet_then split: sum.split)
qed

lemma quiet_msgs [quiet]:
  "w_fences (snd (send_msg st bs ds w)) = w_fences w"
  "w_fences (snd (receive_msg st n w)) = w_fences w"
  by (auto simp: send_msg_def receive_msg_def tube_send_def tube_receive_def quiet_base
      intro!: quiet_then split: option.split)

lemma quiet_slice [quiet]: "w_fences (snd (write_to_slice rw b len w)) = w_fences w"
  by (cases rw)
    (auto simp: Let_def quiet_base quiet_calls intro!: quiet_then split: option.split)

lemma quiet_ring [quiet]: "w_fences (snd (write_to_ring m rw i w)) = w_fences w"
  unfolding write_to_ring_def by (rule quiet_then) (auto simp: quiet_slice)

lemma quiet_socket [quiet]: "w_fences (snd (get_internal_socket_connection u w)) = w_fences w"
  unfolding get_internal_socket_connection_def by (rule quiet_then) auto

text \<open>The gralloc is a parameter; it has no fence handler.\<close>

definition env_quiet :: "'a cd_env \<Rightarrow> bool" where
  "env_quiet env \<longleftrightarrow>
     (\<forall>info w. w_fences (snd (gralloc_get_image_memory_requirements (ce_build env) (ce_gralloc env)
        info w)) = w_fences w) \<and>
     (\<forall>reqs w. w_fences (snd (gralloc_allocate_memory (ce_build env) (ce_gralloc env) reqs w))
        = w_fences w)"

section \<open>One fence in the worker\<close>

text \<open>The worker never changes which states its context holds.\<close>

definition owner_kept :: "cd_context \<Rightarrow> 'a wk_st \<Rightarrow> bool" where
  "owner_kept x0 s \<longleftrightarrow>
     cx_state (wk_context s) = cx_state x0 \<and> cx_orphans (wk_context s) = cx_orphans x0"

lemma owner_kept_simps [simp]:
  "owner_kept x0 (snd (in_world f s)) = owner_kept x0 s"
  "owner_kept x0 (wk_items g s) = owner_kept x0 s"
  "owner_kept x0 (snd (wk_watchers h s)) = owner_kept x0 s"
  "owner_kept x0 (wk_job j s) = owner_kept x0 s"
  "owner_kept x0 (signal_fence fence s) = owner_kept x0 s"
  by (simp_all add: owner_kept_def wk_items_def wk_watchers_def wk_job_def signal_fence_def
      upd_state_def upd_world_def case_prod_unfold)

text \<open>Nothing was signalled and the queue is the old one.\<close>

definition untouched :: "cd_context \<Rightarrow> rutabaga_fence list \<Rightarrow> cd_state \<Rightarrow> 'a wk_st \<Rightarrow> bool" where
  "untouched x0 F st s \<longleftrightarrow>
     owner_kept x0 s \<and> w_fences (snd s) = F \<and> wk_state s = st"

text \<open>The fence was signalled, or it is the last job of the queue.\<close>

definition signalled ::
  "cd_context \<Rightarrow> rutabaga_fence \<Rightarrow> rutabaga_fence list \<Rightarrow> cd_state \<Rightarrow> 'a wk_st \<Rightarrow> bool" where
  "signalled x0 fence F st s \<longleftrightarrow>
     owner_kept x0 s \<and> w_fences (snd s) = F @ [fence] \<and> wk_state s = st"

definition requeued ::
  "cd_context \<Rightarrow> rutabaga_fence \<Rightarrow> rutabaga_fence list \<Rightarrow> cd_state \<Rightarrow> 'a wk_st \<Rightarrow> bool" where
  "requeued x0 fence F st s \<longleftrightarrow>
     owner_kept x0 s \<and> w_fences (snd s) = F \<and> wk_state s = add_job (HandleFence fence) st"

lemma signal_untouched: "untouched x0 F st s \<Longrightarrow> signalled x0 fence F st (signal_fence fence s)"
  by (cases s) (simp add: untouched_def signalled_def signal_fence_def fence_handler_call_def owner_kept_def)

lemma requeue_untouched:
  "untouched x0 F st s \<Longrightarrow> requeued x0 fence F st (wk_job (HandleFence fence) s)"
  by (cases s) (auto simp: untouched_def requeued_def wk_job_def owner_kept_def)

lemma untouched_in_world:
  "(\<And>w. w_fences (snd (f w)) = w_fences w) \<Longrightarrow> untouched x0 F st s \<Longrightarrow>
   untouched x0 F st (snd (in_world f s))"
  by (simp add: untouched_def)

lemma untouched_wk:
  "untouched x0 F st s \<Longrightarrow> untouched x0 F st (snd (wk_write rw s))"
  "untouched x0 F st s \<Longrightarrow> untouched x0 F st (wk_items g s)"
  by (auto simp: wk_write_def wk_items_def untouched_def owner_kept_def quiet_ring upd_state_def
      split: prod.split)

lemma quiet_pairs:
  "sys_rres c w = (r, w') \<Longrightarrow> w_fences w' = w_fences w"
  "ask c' w = (r', w') \<Longrightarrow> w_fences w' = w_fences w"
  "determine_type d w = (r'', w') \<Longrightarrow> w_fences w' = w_fences w"
  by (metis quiet_base(1) snd_conv, metis quiet_base(5) snd_conv, metis quiet_type(3) snd_conv)

lemma quiet_sentinels [quiet]:
  "w_fences (snd (snd (handle_event i sw))) = w_fences (snd sw)"
  "w_fences (snd (remove_watcher i sw)) = w_fences (snd sw)"
  "w_fences (snd (snd (signal_watcher i sw))) = w_fences (snd sw)"
  "w_fences (snd (snd (destroy_watcher i sw))) = w_fences (snd sw)"
  by (auto simp: handle_event_def remove_watcher_def signal_watcher_def destroy_watcher_def
      instance_shutdown_def sentinel_wake_def upd_world_def and_then_st_def in_world_def
      event_wait_def quiet_base dest!: quiet_pairs split: option.split prod.split sum.split)

lemma untouched_watchers:
  "(\<And>sw. w_fences (snd (snd (f sw))) = w_fences (snd sw)) \<Longrightarrow> untouched x0 F st s \<Longrightarrow>
   untouched x0 F st (snd (wk_watchers f s))"
  by (simp add: wk_watchers_def untouched_def owner_kept_def case_prod_unfold)

lemma receive_file_untouched: "untouched x0 F st s \<Longrightarrow> untouched x0 F st (snd (receive_file d s))"
  unfolding receive_file_def post_snd [symmetric]
  by (cases "determine_type d (snd s)"; cases "io_rres (fst (determine_type d (snd s)))")
    (auto simp: untouched_def owner_kept_def wk_items_def upd_state_def in_world_def dest!: quiet_pairs
      split: sum.splits prod.splits)

lemma receive_files_untouched: "untouched x0 F st s \<Longrightarrow> untouched x0 F st (snd (receive_files ds s))"
proof (induction ds arbitrary: s)
  case Nil
  then show ?case by simp
next
  case (Cons d ds)
  show ?case
    unfolding receive_files.simps post_snd [symmetric] post_simps
    by (rule post_keeps [where I = "untouched x0 F st"], rule receive_file_untouched, rule Cons.prems)
      (auto intro!: post_keeps [where I = "untouched x0 F st"] Cons.IH)
qed

lemma post_case_sum:
  "(\<And>e. r = Inl e \<Longrightarrow> E s) \<Longrightarrow> (\<And>x. r = Inr x \<Longrightarrow> Q x s) \<Longrightarrow> post (r, s) Q E"
  by (cases r) auto

text \<open>One statement of the worker that touches nothing\<close>

lemma wk_stmt:
  assumes "untouched x0 F st (snd p)" and "\<And>x s. untouched x0 F st s \<Longrightarrow> Q x s"
  shows "post p Q (untouched x0 F st)"
  by (rule post_keeps [where I = "untouched x0 F st"]) (use assms in auto)

lemma wk_call:
  "(\<And>w. w_fences (snd (f w)) = w_fences w) \<Longrightarrow> untouched x0 F st s \<Longrightarrow>
   (\<And>x s. untouched x0 F st s \<Longrightarrow> Q x s) \<Longrightarrow> post (in_world f s) Q (untouched x0 F st)"
  "untouched x0 F st s \<Longrightarrow> (\<And>x s. untouched x0 F st s \<Longrightarrow> P x s) \<Longrightarrow>
   post (wk_write rw s) P (untouched x0 F st)"
  "untouched x0 F st s \<Longrightarrow> (\<And>x s. untouched x0 F st s \<Longrightarrow> R x s) \<Longrightarrow>
   post (receive_files ds s) R (untouched x0 F st)"
  "(\<And>sw. w_fences (snd (snd (g sw))) = w_fences (snd sw)) \<Longrightarrow> untouched x0 F st s \<Longrightarrow>
   (\<And>x s. untouched x0 F st s \<Longrightarrow> S x s) \<Longrightarrow> post (wk_watchers g s) S (untouched x0 F st)"
  by (rule wk_stmt; simp add: untouched_in_world untouched_wk receive_files_untouched
      untouched_watchers)+

lemma process_receive_post:
  assumes "untouched x0 F st s"
  shows "post (process_receive fence s) (\<lambda>_. signalled x0 fence F st) (untouched x0 F st)"
  unfolding process_receive_def post_simps
  apply (rule wk_call(1) [OF quiet_msgs(2) assms])
  apply (clarsimp simp del: post_pure split: prod.split)
  apply (rule post_case_sum, assumption, rule post_case_sum, assumption)
  apply (rule wk_call(3), assumption)
  apply (rule wk_call(2), assumption)
  apply (simp add: signal_untouched)
  done

lemma handle_sentinel_post:
  assumes "untouched x0 F st s"
  shows "post (handle_sentinel wk fence i s)
    (\<lambda>_ s'. signalled x0 fence F st s' \<or> requeued x0 fence F st s') (untouched x0 F st)"
proof (cases "is_shutdown i (cx_watchers (wk_context s))")
  case True
  have drop: "requeued x0 fence F st
      (snd (wk_watchers (\<lambda>sw. ((), remove_watcher i sw)) (wk_job (HandleFence fence) s')))"
    if "untouched x0 F st s'" for s' :: "'a wk_st"
    using requeue_untouched [OF that, of fence]
    by (simp add: wk_watchers_def requeued_def owner_kept_def case_prod_unfold quiet_sentinels)
  from True assms show ?thesis
    unfolding handle_sentinel_def if_P [OF True] post_simps
    by (cases "get_event i (cx_watchers (wk_context s))")
      (auto simp del: post_pure simp: quiet_calls intro!: wk_call(1) disjI2 drop)
next
  case False
  show ?thesis
    unfolding handle_sentinel_def if_not_P [OF False] post_simps
    apply (rule wk_call(4) [OF quiet_sentinels(1) assms])
    apply (simp del: post_pure split: option.split)
    apply (auto simp del: post_pure intro!: wk_call(2) intro: requeue_untouched signal_untouched)
    done
qed

lemma handle_item_post:
  assumes "untouched x0 F st s"
  shows "post (handle_item wk fence event s) (\<lambda>_. signalled x0 fence F st) (untouched x0 F st)"
proof -
  show ?thesis
    unfolding handle_item_def Let_def post_simps
    by (rule post_case_sum, rule assms, rule post_case_sum, rule assms)
      (auto simp del: post_pure simp: assms quiet_calls
        intro!: wk_call(1,2) signal_untouched untouched_wk(2) split: cd_item.split)
qed

lemma handle_fence_post:
  assumes "untouched x0 F st s"
  shows "post (handle_fence wk fence s)
    (\<lambda>_ s'. signalled x0 fence F st s' \<or> requeued x0 fence F st s' \<or>
       fst (wait_ctx_wait (wk_wait_ctx wk) (snd s)) = Ok [] \<and> untouched x0 F st s')
    (untouched x0 F st)"
proof -
  obtain r s1 where r: "in_world (wait_ctx_wait (wk_wait_ctx wk)) s = (r, s1)"
    by (cases "in_world (wait_ctx_wait (wk_wait_ctx wk)) s")
  then have fst_r: "fst (wait_ctx_wait (wk_wait_ctx wk) (snd s)) = r"
    by (metis fst_conv in_world_simps(2))
  have u: "untouched x0 F st s1"
    using untouched_in_world [where f = "wait_ctx_wait (wk_wait_ctx wk)", OF quiet_calls(12) assms] r by simp
  have weak: "post p (\<lambda>_. signalled x0 fence F st) (untouched x0 F st) \<Longrightarrow>
      post p (\<lambda>_ s'. signalled x0 fence F st s' \<or> requeued x0 fence F st s' \<or> X s') (untouched x0 F st)"
    "post p (\<lambda>_ s'. signalled x0 fence F st s' \<or> requeued x0 fence F st s') (untouched x0 F st) \<Longrightarrow>
      post p (\<lambda>_ s'. signalled x0 fence F st s' \<or> requeued x0 fence F st s' \<or> X s') (untouched x0 F st)"
    for p :: "unit rres \<times> 'a wk_st" and X
    by (auto simp: post_def split: prod.splits sum.splits)
  have resample: "post (in_world (event_wait (wk_resample_evt wk)) s1)
      (\<lambda>_ s'. requeued x0 fence F st (wk_job (HandleFence fence) s')) (untouched x0 F st)"
    by (rule wk_call(1) [OF quiet_calls(4) u]) (rule requeue_untouched)
  show ?thesis
  proof (cases r)
    case (Inl e)
    with r u show ?thesis by (simp add: handle_fence_def)
  next
    case (Inr events)
    show ?thesis
    proof (cases events)
      case Nil
      with r Inr u fst_r show ?thesis by (simp add: handle_fence_def)
    next
      case (Cons event rest)
      have "post (handle_fence wk fence s) Q E =
          post (let token = ev_connection_id event in
            if token = CROSS_DOMAIN_CONTEXT_CHANNEL_ID then process_receive fence s1
            else if token = CROSS_DOMAIN_RESAMPLE_ID then
              and_then_st (in_world (event_wait (wk_resample_evt wk)) s1) (\<lambda>_ s.
                (Ok (), wk_job (HandleFence fence) s))
            else if token = CROSS_DOMAIN_KILL_ID then (Ok (), signal_fence fence s1)
            else if is_sentinel_token token then handle_sentinel wk fence (ucast token) s1
            else handle_item wk fence event s1) Q E" for Q E
        unfolding handle_fence_def r Inr Cons and_then_st_simps list.case ..
      then show ?thesis
        using weak(1) [OF process_receive_post [OF u, of fence]]
          weak(2) [OF handle_sentinel_post [OF u, of wk fence]]
          weak(1) [OF handle_item_post [OF u, of wk fence event]]
          resample signal_untouched [OF u, of fence]
        by (auto simp del: post_pure simp: Let_def post_def split: prod.splits sum.splits)
    qed
  qed
qed

section \<open>Runs of a context\<close>

definition job_fences :: "cd_job list \<Rightarrow> rutabaga_fence multiset" where
  "job_fences queue =
     mset (concat (map (\<lambda>job. case job of HandleFence f \<Rightarrow> [f] | _ \<Rightarrow> []) queue))"

definition state_fences :: "cd_state \<Rightarrow> rutabaga_fence multiset" where
  "state_fences st = (case st_jobs st of None \<Rightarrow> {#} | Some queue \<Rightarrow> job_fences queue)"

definition queued_fences :: "cd_context \<Rightarrow> rutabaga_fence multiset" where
  "queued_fences x =
     (case cx_state x of None \<Rightarrow> {#} | Some st \<Rightarrow> state_fences st) +
     sum_list (map state_fences (cx_orphans x))"

definition on_orphan ::
  "nat \<Rightarrow> ('a wk_st \<Rightarrow> ('r \<times> 'a wk_st) option) \<Rightarrow> 'a cd_st \<Rightarrow> ('r \<times> 'a cd_st) option" where
  "on_orphan k f s =
     (if k < length (cx_orphans (fst s)) then
        case f ((cx_orphans (fst s) ! k, fst s), snd s) of
          None \<Rightarrow> None
        | Some (r, ((st, x), w)) \<Rightarrow> Some (r, (x\<lparr>cx_orphans := (cx_orphans x)[k := st]\<rparr>, w))
      else None)"

text \<open>The calls the guest makes on one context, interleaved with the turns of its worker and of the
  workers that earlier inits left behind. The list is the fences submitted so far.\<close>

inductive cd_run ::
  "'a cd_env \<Rightarrow> 'a cd_st \<Rightarrow> rutabaga_fence list \<Rightarrow> 'a cd_st \<Rightarrow> bool" for env s0 where
  run_start: "cd_run env s0 [] s0"
| run_submit: "cd_run env s0 fs s \<Longrightarrow> submit_loop env commands s = Some (r, s') \<Longrightarrow>
    cd_run env s0 fs s'"
| run_fence: "cd_run env s0 fs s \<Longrightarrow> cd_context_create_fence f s = (fr, s') \<Longrightarrow>
    cd_run env s0 (fs @ [f]) s'"
| run_create_blob: "cd_run env s0 fs s \<Longrightarrow> cd_context_create_blob env i rcb h s = (br, s') \<Longrightarrow>
    cd_run env s0 fs s'"
| run_attach: "cd_run env s0 fs s \<Longrightarrow> cd_attach res s = (res', s') \<Longrightarrow> cd_run env s0 fs s'"
| run_detach: "cd_run env s0 fs s \<Longrightarrow> cd_run env s0 fs (cd_detach res s)"
| run_worker: "cd_run env s0 fs s \<Longrightarrow> on_current (worker_turn wk) s = Some (wr, s') \<Longrightarrow>
    cd_run env s0 fs s'"
| run_orphan: "cd_run env s0 fs s \<Longrightarrow> on_orphan k (worker_turn wk) s = Some (wr, s') \<Longrightarrow>
    cd_run env s0 fs s'"

text \<open>All fences of the context that the guest or a worker can still hear of\<close>

definition fences_of :: "'a cd_st \<Rightarrow> rutabaga_fence multiset" where
  "fences_of s = mset (w_fences (snd s)) + queued_fences (fst s)"

definition bounded :: "rutabaga_fence multiset \<Rightarrow> 'a cd_st \<Rightarrow> bool" where
  "bounded M s \<longleftrightarrow> fences_of s \<subseteq># M"

lemma job_fences_simps [simp]:
  "job_fences [] = {#}"
  "job_fences (HandleFence f # q) = add_mset f (job_fences q)"
  "job_fences (q @ q') = job_fences q + job_fences q'"
  "(\<And>f. job \<noteq> HandleFence f) \<Longrightarrow> job_fences (job # q) = job_fences q"
  by (auto simp: job_fences_def split: cd_job.split)

lemma state_fences_add_job [simp]:
  "(\<And>f. job \<noteq> HandleFence f) \<Longrightarrow> state_fences (add_job job st) = state_fences st"
  "st_jobs st \<noteq> None \<Longrightarrow> state_fences (add_job (HandleFence f) st) = add_mset f (state_fences st)"
  by (auto simp: state_fences_def add_job_def split: option.split)

lemma state_fences_add_fence:
  "state_fences (add_job (HandleFence f) st) \<subseteq># add_mset f (state_fences st)"
  by (auto simp: state_fences_def add_job_def split: option.split)

lemma state_fences_new [simp]: "state_fences (cd_state_new q c conn) = {#}"
  by (simp add: state_fences_def cd_state_new_def)

lemma queued_jobs [simp]:
  "(\<And>f. job \<noteq> HandleFence f) \<Longrightarrow> queued_fences (upd_jobs job x) = queued_fences x"
  by (auto simp: queued_fences_def upd_jobs_def split: option.split)

lemma queued_updates [simp]:
  "queued_fences (cx_items_update g_is x) = queued_fences x"
  "queued_fences (cx_watchers_update g_ws x) = queued_fences x"
  "queued_fences (cx_paths_update g_ps x) = queued_fences x"
  "queued_fences (cx_resources_update g_rs x) = queued_fences x"
  "queued_fences (cx_worker_update g_wr x) = queued_fences x"
  "queued_fences (cx_resample_evt_update g_rt x) = queued_fences x"
  "queued_fences (cx_kill_evt_update g_kt x) = queued_fences x"
  "queued_fences (put_item i item x) = queued_fences x"
  "queued_fences (del_item i x) = queued_fences x"
  by (simp_all add: queued_fences_def put_item_def del_item_def)

lemma queued_replace: "queued_fences (replace_state (cd_state_new q c conn) x) \<subseteq># queued_fences x"
  by (auto simp: queued_fences_def replace_state_def split: option.split)

section \<open>The guest's operations\<close>

lemma bounded_upd:
  "queued_fences (f (fst s)) \<subseteq># queued_fences (fst s) \<Longrightarrow> bounded M s \<Longrightarrow> bounded M (upd_state f s)"
  unfolding bounded_def fences_of_def
  by (cases s) (simp, meson subset_mset.add_left_mono subset_mset.order_trans)

lemma bounded_world:
  "w_fences (f (snd s)) = w_fences (snd s) \<Longrightarrow> bounded M s \<Longrightarrow> bounded M (upd_world f s)"
  by (cases s) (simp add: bounded_def fences_of_def)

lemma bounded_in_world:
  "(\<And>w. w_fences (snd (f w)) = w_fences w) \<Longrightarrow> bounded M s \<Longrightarrow> bounded M (snd (in_world f s))"
  by (simp add: bounded_def fences_of_def)

lemma bounded_in_watchers:
  "(\<And>sw. w_fences (snd (snd (f sw))) = w_fences (snd sw)) \<Longrightarrow> bounded M s \<Longrightarrow>
   bounded M (snd (in_watchers f s))"
  by (simp add: bounded_def fences_of_def in_watchers_def case_prod_unfold)

lemma bounded_stmt:
  assumes "bounded M (snd p)" and "\<And>x s. bounded M s \<Longrightarrow> Q x s"
  shows "post p Q (bounded M)"
  by (rule post_keeps [where I = "bounded M"]) (use assms in auto)

lemma bounded_pure:
  "bounded M s \<Longrightarrow> (\<And>x. r = Inr x \<Longrightarrow> Q x s) \<Longrightarrow> post (r, s) Q (bounded M)"
  by (cases r) auto

lemma bounded_call:
  "(\<And>w. w_fences (snd (f w)) = w_fences w) \<Longrightarrow> bounded M s \<Longrightarrow>
   (\<And>x s. bounded M s \<Longrightarrow> Q x s) \<Longrightarrow> post (in_world f s) Q (bounded M)"
  by (rule bounded_stmt) (simp_all add: bounded_in_world)

lemma bounded_post: "post p (\<lambda>_. bounded M) (bounded M) \<Longrightarrow> bounded M (snd p)"
  by (simp add: post_snd)

lemma get_connection_bounded: "bounded M s \<Longrightarrow> bounded M (snd (get_connection ci s))"
  unfolding get_connection_def
  by (rule bounded_post)
    (auto simp del: post_pure intro!: bounded_pure bounded_call bounded_upd quiet_calls)

lemma initialize_bounded: "bounded M s \<Longrightarrow> bounded M (snd (initialize ci s))"
proof (rule bounded_post)
  assume s: "bounded M s"
  have spawn: "post (case in_world thread_spawn s of (Inl _, s) \<Rightarrow> (Panicked, s)
      | (Inr _, s) \<Rightarrow> (Ok (), upd_state (\<lambda>x. (replace_state (cd_state_new q c d) x)
          \<lparr>cx_worker := True, cx_resample_evt := r, cx_kill_evt := k\<rparr>)
          (upd_world (emit e) s))) (\<lambda>_. bounded M) (bounded M)"
    if "bounded M s" for s :: "'a cd_st" and q c d r k e
  proof -
    obtain res t where Pair: "in_world thread_spawn s = (res, t)"
      by (cases "in_world thread_spawn s")
    then have t: "bounded M t" using bounded_in_world [OF quiet_base(4) that] by simp
    have "bounded M (upd_state (\<lambda>x. (replace_state (cd_state_new q c d) x)
          \<lparr>cx_worker := True, cx_resample_evt := r, cx_kill_evt := k\<rparr>) (upd_world (emit e) t))"
      by (intro bounded_upd bounded_world t) (simp_all add: queued_replace quiet_base)
    with t Pair show ?thesis by (cases res) auto
  qed
  show "post (initialize ci s) (\<lambda>_. bounded M) (bounded M)"
    unfolding initialize_def
    using s
    by (auto simp del: post_pure simp: Let_def spawn quiet_calls quiet_base quiet_socket
        intro!: bounded_pure bounded_call bounded_stmt [OF get_connection_bounded] bounded_upd
        intro: queued_replace)
qed

lemma get_image_requirements_bounded:
  "env_quiet env \<Longrightarrow> bounded M s \<Longrightarrow> bounded M (snd (get_image_requirements env cmd s))"
  unfolding get_image_requirements_def Let_def
  by (rule bounded_post)
    (auto simp del: post_pure simp: env_quiet_def quiet_ring
      intro!: bounded_pure bounded_call bounded_upd split: option.split prod.split)

lemma send_identifier_bounded:
  "bounded M s \<Longrightarrow> bounded M (snd (send_identifier i t acc s))"
  unfolding send_identifier_def Let_def
  by (rule bounded_post)
    (auto simp del: post_pure simp: quiet_calls
      intro!: bounded_pure bounded_call bounded_upd split: option.split prod.split cd_item.split)

lemma send_identifiers_bounded:
  "bounded M s \<Longrightarrow> bounded M (snd (send_identifiers ids acc s))"
proof (induction ids arbitrary: acc s)
  case Nil
  then show ?case by simp
next
  case (Cons i ids)
  then show ?case
    by (cases i, intro bounded_post)
      (auto simp del: post_pure
        intro!: bounded_stmt [OF send_identifier_bounded] bounded_stmt [OF Cons.IH])
qed

lemma cd_send_bounded: "bounded M s \<Longrightarrow> bounded M (snd (cd_send cmd bs s))"
  unfolding cd_send_def Let_def
  by (rule bounded_post)
    (auto simp del: post_pure simp: quiet_calls quiet_msgs
      intro!: bounded_pure bounded_call bounded_upd bounded_stmt [OF send_identifiers_bounded]
        bounded_stmt [OF bounded_in_world]
      split: option.split prod.split)

lemma process_cmd_send_bounded: "bounded M s \<Longrightarrow> bounded M (snd (process_cmd_send cs s))"
  unfolding process_cmd_send_def Let_def
  by (rule bounded_post)
    (auto simp del: post_pure intro!: bounded_pure bounded_stmt [OF cd_send_bounded])

lemma quiet_create_watcher [quiet]:
  "w_fences (snd (snd (create_watcher l i f h sw))) = w_fences (snd sw)"
  unfolding create_watcher_def Let_def
  by (auto simp: and_then_st_def in_world_def upd_world_def upd_state_def quiet_base event_new_def
      thread_spawn_def dest!: quiet_pairs split: sum.split prod.split)

lemma sentinel_commands_bounded:
  assumes "bounded M s"
  shows "bounded M (snd (atomic_memory_sentinel_signal c1 s))"
    and "bounded M (snd (atomic_memory_sentinel_destroy c2 s))"
    and "bounded M (snd (atomic_memory_sentinel_create env c3 s))"
  unfolding atomic_memory_sentinel_signal_def atomic_memory_sentinel_destroy_def
    atomic_memory_sentinel_create_def
  using assms
  by (auto intro!: bounded_in_watchers quiet_sentinels)
    (rule bounded_post,
      auto simp del: post_pure intro!: bounded_pure bounded_upd bounded_stmt
        bounded_in_watchers quiet_create_watcher)

lemma item_commands_bounded:
  assumes "bounded M s"
  shows "bounded M (snd (read_event_new c1 s))"
    and "bounded M (snd (import_virtiofs_handle env c2 s))"
    and "bounded M (snd (socket_assign_uuid c3 s))"
    and "bounded M (snd (cd_write c4 bs s))"
  unfolding read_event_new_def import_virtiofs_handle_def socket_assign_uuid_def cd_write_def Let_def
  using assms
  by (rule_tac [!] bounded_post)
    (auto simp del: post_pure simp: quiet_calls
      intro!: bounded_pure bounded_call bounded_upd bounded_world
        bounded_stmt [OF bounded_in_world]
      split: option.split cd_item.split)

lemma process_cmd_write_bounded: "bounded M s \<Longrightarrow> bounded M (snd (process_cmd_write cs s))"
  unfolding process_cmd_write_def Let_def
  by (rule bounded_post)
    (auto simp del: post_pure intro!: bounded_pure bounded_stmt [OF item_commands_bounded(4)])

lemma read_cmd_bounded:
  "bounded M s \<Longrightarrow> (\<And>c s. bounded M s \<Longrightarrow> bounded M (snd (act c s))) \<Longrightarrow>
   bounded M (snd (read_cmd n decode cs act s))"
  unfolding read_cmd_def
  by (rule bounded_post) (auto simp del: post_pure intro!: bounded_pure bounded_stmt)

lemma run_command_bounded:
  assumes "env_quiet env" and "bounded M s"
  shows "bounded M (snd (run_command env hdr cs s))"
  using assms unfolding run_command_def Let_def
  by (auto intro!: read_cmd_bounded initialize_bounded get_image_requirements_bounded
      process_cmd_send_bounded process_cmd_write_bounded sentinel_commands_bounded
      item_commands_bounded)

lemma submit_loop_bounded:
  assumes "env_quiet env" and "submit_loop env cs s = Some (r, s')" and "bounded M s"
  shows "bounded M s'"
proof -
  have "env_quiet env \<longrightarrow> bounded M s \<longrightarrow> bounded M (snd (r, s'))"
  proof (rule submit_loop.raw_induct
      [where P = "\<lambda>env cs s rs. env_quiet env \<longrightarrow> bounded M s \<longrightarrow> bounded M (snd rs)",
        OF _ assms(2)])
    fix loop and env :: "'a cd_env" and cs s rs
    assume IH: "\<And>env cs s rs. loop env cs s = Some rs \<Longrightarrow>
        env_quiet env \<longrightarrow> bounded M s \<longrightarrow> bounded M (snd rs)"
      and eq: "(if cs = [] then Some (Ok (), s)
        else case read_from_prefix 8 decode_header cs of None \<Rightarrow> Some (Err InvalidCommandBuffer, s)
          | Some hdr \<Rightarrow> (case run_command env hdr cs s of (Inl e, s) \<Rightarrow> Some (Inl e, s)
            | (Inr x, s) \<Rightarrow> if length cs < unat (hdr_cmd_size hdr)
                then Some (Err (InvalidCommandSize (unat (hdr_cmd_size hdr))), s)
                else loop env (drop (unat (hdr_cmd_size hdr)) cs) s)) = Some rs"
    show "env_quiet env \<longrightarrow> bounded M s \<longrightarrow> bounded M (snd rs)"
    proof (intro impI)
      assume env: "env_quiet env" and s: "bounded M s"
      obtain q s1 where q: "run_command env (decode_header cs) cs s = (q, s1)"
        by (cases "run_command env (decode_header cs) cs s")
      then have s1: "bounded M s1"
        using run_command_bounded [OF env s, of "decode_header cs" cs] by simp
      show "bounded M (snd rs)"
      proof (cases q)
        case (Inl e)
        with eq s s1 q show ?thesis
          by (auto simp: run_command_bounded [OF env s] split: if_splits option.splits)
      next
        case (Inr u)
        with eq s s1 q env show ?thesis
          by (auto split: if_splits option.splits dest!: IH [rule_format])
      qed
    qed
  qed
  with assms show ?thesis by simp
qed

lemma create_fence_bounded:
  assumes "cd_context_create_fence f s = (r, s')" and "bounded M s"
  shows "bounded (add_mset f M) s'"
proof -
  have sub: "queued_fences (upd_jobs (HandleFence f) x) \<subseteq># add_mset f (queued_fences x)" for x
    using subset_mset.add_right_mono [OF state_fences_add_fence]
    by (auto simp: queued_fences_def upd_jobs_def split: option.split)
  have mono: "A \<subseteq># add_mset f B \<Longrightarrow> F + B \<subseteq># M \<Longrightarrow> F + A \<subseteq># add_mset f M"
    for A B F :: "rutabaga_fence multiset"
    by (metis mset_subset_eq_add_mset_cancel subset_mset.add_left_mono subset_mset.order_trans
        union_mset_add_mset_right)
  show ?thesis
  proof (cases s)
    case (Pair x w)
    with assms sub [of x] show ?thesis
      by (auto simp: cd_context_create_fence_def Let_def bounded_def fences_of_def
          fence_handler_call_def intro: mono subset_mset.order_trans split: if_splits)
  qed
qed

lemma create_blob_bounded:
  assumes "env_quiet env" and "bounded M s"
  shows "bounded M (snd (cd_context_create_blob env i rcb h s))"
  using assms unfolding cd_context_create_blob_def Let_def
  by (intro bounded_post)
    (auto simp del: post_pure simp: env_quiet_def
      intro!: bounded_pure bounded_call bounded_upd split: option.split cd_item.split)

lemma attach_bounded:
  "bounded M s \<Longrightarrow> bounded M (snd (cd_attach res s))" "bounded M s \<Longrightarrow> bounded M (cd_detach res s)"
  by (auto simp: cd_attach_def cd_detach_def case_prod_unfold intro!: bounded_upd)

section \<open>The workers' turns\<close>

lemma run_job_post:
  assumes "untouched x0 F st s"
  shows "post (run_job wk job s)
    (\<lambda>_ s'. untouched x0 F st s' \<or>
      (\<exists>f. job = HandleFence f \<and> (signalled x0 f F st s' \<or> requeued x0 f F st s')))
    (untouched x0 F st)"
proof (cases job)
  case (HandleFence f)
  show ?thesis
    using handle_fence_post [OF assms, of wk f]
    by (auto simp: run_job_def HandleFence post_def and_then_st_def
        split: prod.splits sum.splits)
next
  case (AddReadPipe i)
  then show ?thesis using assms
    by (auto simp del: post_pure simp: run_job_def quiet_calls
        intro!: post_case_sum wk_call(1) split: cd_item.split)
next
  case Finish
  then show ?thesis using assms by (simp add: run_job_def)
next
  case (AddAtomicMemorySentinel i d)
  then show ?thesis using assms
    by (auto simp del: post_pure simp: run_job_def quiet_calls intro!: wk_call(1))
next
  case (AddReadEvent i)
  then show ?thesis using assms
    by (auto simp del: post_pure simp: run_job_def quiet_calls
        intro!: post_case_sum wk_call(1) split: cd_item.split)
qed

text \<open>A turn moves at most the fence it took from the queue to the signalled ones.\<close>

lemma worker_turn_fences:
  assumes "worker_turn wk ((st, x), w) = Some (r, ((st', x'), w'))"
  shows "mset (w_fences w') + state_fences st' \<subseteq># mset (w_fences w) + state_fences st"
    and "cx_state x' = cx_state x \<and> cx_orphans x' = cx_orphans x"
proof -
  have "(mset (w_fences w') + state_fences st' \<subseteq># mset (w_fences w) + state_fences st) \<and>
    cx_state x' = cx_state x \<and> cx_orphans x' = cx_orphans x"
  proof (cases "st_jobs st")
    case None
    with assms show ?thesis by (auto simp: worker_turn_def wait_for_job_def)
  next
    case (Some queue)
    show ?thesis
    proof (cases queue)
      case Nil
      with assms Some show ?thesis by (auto simp: worker_turn_def wait_for_job_def)
    next
      case (Cons job rest)
      let ?st = "st\<lparr>st_jobs := Some rest\<rparr>" and ?F = "w_fences w"
      have r: "run_job wk job ((?st, x), w) = (r, ((st', x'), w'))"
        using assms Some Cons by (auto simp: worker_turn_def wait_for_job_def Let_def)
      have "untouched x ?F ?st ((?st, x), w)" by (simp add: untouched_def owner_kept_def)
      from run_job_post [OF this, of wk job]
      have "untouched x ?F ?st ((st', x'), w') \<or> (\<exists>f. job = HandleFence f \<and>
          (signalled x f ?F ?st ((st', x'), w') \<or> requeued x f ?F ?st ((st', x'), w')))"
        unfolding r by (auto simp: post_def split: sum.splits)
      then show ?thesis using Some Cons
        by (auto simp: untouched_def signalled_def requeued_def owner_kept_def state_fences_def
            add_job_def; cases job; auto)
    qed
  qed
  then show "mset (w_fences w') + state_fences st' \<subseteq># mset (w_fences w) + state_fences st"
    and "cx_state x' = cx_state x \<and> cx_orphans x' = cx_orphans x" by simp_all
qed

lemma current_turn_bounded:
  assumes "on_current (worker_turn wk) s = Some (r, s')" and "bounded M s"
  shows "bounded M s'"
proof -
  obtain st x' st' w' where st: "cx_state (fst s) = Some st"
    and t: "worker_turn wk ((st, fst s), snd s) = Some (r, ((st', x'), w'))"
    and s': "s' = (x'\<lparr>cx_state := Some st'\<rparr>, w')"
    using assms(1) by (auto simp: on_current_def split: option.splits)
  have "fences_of s' = mset (w_fences w') + state_fences st' +
      sum_list (map state_fences (cx_orphans (fst s)))"
    using worker_turn_fences(2) [OF t] by (simp add: s' fences_of_def queued_fences_def)
  also have "\<dots> \<subseteq># fences_of s"
    using worker_turn_fences(1) [OF t] st
    by (simp add: fences_of_def queued_fences_def flip: union_assoc)
  finally show ?thesis
    using assms(2) unfolding bounded_def by (rule subset_mset.order_trans)
qed

lemma sum_list_update_mset:
  "k < length xs \<Longrightarrow>
   sum_list (map g (xs[k := y])) + g (xs ! k) = sum_list (map g xs) + (g y :: 'b multiset)"
proof (induction xs arbitrary: k)
  case Nil
  then show ?case by simp
next
  case (Cons x xs)
  then show ?case by (cases k) (auto simp: ac_simps)
qed

lemma orphan_turn_bounded:
  assumes "on_orphan k (worker_turn wk) s = Some (r, s')" and "bounded M s"
  shows "bounded M s'"
proof -
  let ?os = "cx_orphans (fst s)"
  obtain x' st' w' where k: "k < length ?os"
    and t: "worker_turn wk ((?os ! k, fst s), snd s) = Some (r, ((st', x'), w'))"
    and s': "s' = (x'\<lparr>cx_orphans := (cx_orphans x')[k := st']\<rparr>, w')"
    using assms(1) by (auto simp: on_orphan_def split: option.splits if_splits)
  let ?c = "case cx_state (fst s) of None \<Rightarrow> {#} | Some st \<Rightarrow> state_fences st"
  have "fences_of s' + state_fences (?os ! k) =
      mset (w_fences w') + state_fences st' + (?c + sum_list (map state_fences ?os))"
    using worker_turn_fences(2) [OF t] sum_list_update_mset [OF k, of state_fences st']
    by (simp add: s' fences_of_def queued_fences_def ac_simps)
  also have "\<dots> \<subseteq># mset (w_fences (snd s)) + state_fences (?os ! k) +
      (?c + sum_list (map state_fences ?os))"
    using worker_turn_fences(1) [OF t] by (rule subset_mset.add_right_mono)
  also have "\<dots> = fences_of s + state_fences (?os ! k)"
    by (simp add: fences_of_def queued_fences_def ac_simps)
  finally have "fences_of s' \<subseteq># fences_of s" by simp
  with assms(2) show ?thesis unfolding bounded_def by (rule subset_mset.order_trans [rotated])
qed

lemma cd_run_bounded:
  assumes "env_quiet env" and "cd_run env s0 fs s"
  shows "bounded (fences_of s0 + mset fs) s"
  using assms(2)
proof induction
  case run_start
  then show ?case by (simp add: bounded_def)
next
  case (run_fence fs s f r s')
  then show ?case using create_fence_bounded [OF run_fence(2)] by simp
next
  case (run_submit fs s commands r s')
  then show ?case using submit_loop_bounded assms(1) by blast
next
  case (run_create_blob fs s i rcb h r s')
  then show ?case by (metis create_blob_bounded [OF assms(1)] snd_conv)
next
  case (run_attach fs s res res' s')
  then show ?case by (metis attach_bounded(1) snd_conv)
qed (auto intro: current_turn_bounded orphan_turn_bounded attach_bounded(2))

end
