(* ===== verification/CD_Items.thy ===== *)
theory CD_Items
  imports CD_Fences
begin

text \<open>
  The item table and the rings of a cross-domain context: the ids handed out by \<open>add_item\<close>, what
  an import by the guest does to them, and where \<open>write_to_ring\<close> writes.
\<close>

text \<open>What the components below the contexts are in concrete runs: a gralloc with the system backend
  and a lookup that knows every handle.\<close>

definition some_env :: "unit cd_env" where
  "some_env = \<lparr>ce_build = \<lparr>gb_minigbm_init = None, gb_vulkano_init = None\<rparr>,
     ce_gralloc = fmupd System system_gralloc fmempty, ce_lookup = Some (\<lambda>fs h. Ok 77)\<rparr>"

section \<open>Ids of items\<close>

definition is_read_pipe :: "cd_item \<Rightarrow> bool" where
  "is_read_pipe item = (case item of WaylandReadPipe _ \<Rightarrow> True | _ \<Rightarrow> False)"

fun add_items :: "cd_items \<Rightarrow> cd_item list \<Rightarrow> u32 list \<times> cd_items" where
  "add_items its [] = ([], its)"
| "add_items its (item # rest) =
     (case add_item its item of (i, its) \<Rightarrow>
      case add_items its rest of (is, its) \<Rightarrow> (i # is, its))"

text \<open>The counters after \<open>k\<close> descriptors and \<open>m\<close> read pipes, and the ids used so far\<close>

definition items_at :: "nat \<Rightarrow> nat \<Rightarrow> cd_items \<Rightarrow> bool" where
  "items_at k m its \<longleftrightarrow>
     unat (items_descriptor_id its) = 1 + k \<and> unat (items_read_pipe_id its) = 2 ^ 31 + m \<and>
     (\<forall>i. fmlookup (items_table its) i \<noteq> None \<longrightarrow>
        unat i \<le> 1 + k \<or> (2 ^ 31 < unat i \<and> unat i \<le> 2 ^ 31 + m))"

lemma items_at_default: "items_at 0 0 cd_items_default"
  by (simp add: items_at_def cd_items_default_def)

lemma unat_Suc_u32: "unat (i :: u32) + 1 < 2 ^ 32 \<Longrightarrow> unat (i + 1) = unat i + 1"
  by (simp add: unat_word_ariths)

lemma add_item_step:
  assumes "items_at k m its" and "k + m < 2 ^ 31 - 2" and "add_item its item = (i, its')"
  shows "fmlookup (items_table its) i = None"
    and "items_table its' = fmupd i item (items_table its)"
    and "if is_read_pipe item then unat i = 2 ^ 31 + Suc m \<and> items_at k (Suc m) its'
         else unat i = 2 + k \<and> items_at (Suc k) m its'"
proof -
  have d: "unat (items_descriptor_id its + 1) = 2 + k"
    using assms(1,2) by (simp add: items_at_def unat_Suc_u32)
  have p: "unat (items_read_pipe_id its + 1) = 2 ^ 31 + Suc m"
    using assms(1,2) by (simp add: items_at_def unat_Suc_u32)
  then have le: "\<not> items_read_pipe_id its + 1 < CROSS_DOMAIN_PIPE_READ_START"
    by (simp add: word_less_nat_alt)
  have i: "i = (if is_read_pipe item then items_read_pipe_id its + 1 else items_descriptor_id its + 1)"
    and its': "items_table its' = fmupd i item (items_table its)"
    and n: "items_descriptor_id its' =
       (if is_read_pipe item then items_descriptor_id its else items_descriptor_id its + 1)"
      "items_read_pipe_id its' =
       (if is_read_pipe item then items_read_pipe_id its + 1 else items_read_pipe_id its)"
    using assms(3) le
    by (cases item; auto simp: add_item_def is_read_pipe_def max_def Let_def not_less
        split: if_splits)+
  show "items_table its' = fmupd i item (items_table its)" by (rule its')
  show "fmlookup (items_table its) i = None"
  proof (rule ccontr)
    assume "fmlookup (items_table its) i \<noteq> None"
    then have "unat i \<le> 1 + k \<or> (2 ^ 31 < unat i \<and> unat i \<le> 2 ^ 31 + m)"
      using assms(1) unfolding items_at_def by blast
    then show False using d p assms(2) by (auto simp: i split: if_splits)
  qed
  show "if is_read_pipe item then unat i = 2 ^ 31 + Suc m \<and> items_at k (Suc m) its'
        else unat i = 2 + k \<and> items_at (Suc k) m its'"
    using assms(1) d p by (auto simp: items_at_def i its' n split: if_splits)
qed

lemma add_items_ids:
  assumes "items_at k m its" and "k + m + length items < 2 ^ 31 - 2"
    and "add_items its items = (is, its')"
  shows "length is = length items \<and> distinct is \<and>
    (\<forall>j. fmlookup (items_table its) j \<noteq> None \<longrightarrow>
       j \<notin> set is \<and> fmlookup (items_table its') j = fmlookup (items_table its) j) \<and>
    (\<forall>n < length items. fmlookup (items_table its') (is ! n) = Some (items ! n) \<and>
       (is_read_pipe (items ! n) \<longleftrightarrow> 2 ^ 31 < unat (is ! n)))"
  using assms
proof (induction items arbitrary: k m its "is")
  case Nil
  then show ?case by simp
next
  case (Cons item items)
  obtain i its1 is1 where add: "add_item its item = (i, its1)"
    and rest: "add_items its1 items = (is1, its')" and "is": "is = i # is1"
    using Cons.prems(3) by (auto split: prod.splits)
  have small: "k + m < 2 ^ 31 - 2" using Cons.prems(2) by simp
  note step = add_item_step [OF Cons.prems(1) small add]
  have "if is_read_pipe item then 2 ^ 31 < unat i else unat i \<le> 2 ^ 31"
    using step(3) small by (auto split: if_splits)
  then have upper: "is_read_pipe item \<longleftrightarrow> 2 ^ 31 < unat i" by (auto split: if_splits)
  obtain k' m' where "items_at k' m' its1" and "k' + m' = Suc (k + m)"
    using step(3) by (metis add_Suc add_Suc_right)
  then have IH: "length is1 = length items \<and> distinct is1 \<and>
    (\<forall>j. fmlookup (items_table its1) j \<noteq> None \<longrightarrow>
       j \<notin> set is1 \<and> fmlookup (items_table its') j = fmlookup (items_table its1) j) \<and>
    (\<forall>n < length items. fmlookup (items_table its') (is1 ! n) = Some (items ! n) \<and>
       (is_read_pipe (items ! n) \<longleftrightarrow> 2 ^ 31 < unat (is1 ! n)))"
    using Cons.IH [OF _ _ rest] Cons.prems(2) by simp
  have keep: "j \<noteq> i \<and> fmlookup (items_table its1) j = fmlookup (items_table its) j"
    if "fmlookup (items_table its) j \<noteq> None" for j
    using that step(1,2) by auto
  have old: "j \<notin> set is \<and> fmlookup (items_table its') j = fmlookup (items_table its) j"
    if "fmlookup (items_table its) j \<noteq> None" for j
    using that keep [OF that] IH by (metis "is" set_ConsD)
  have "i \<notin> set is1 \<and> fmlookup (items_table its') i = Some item"
    using IH step(2) by simp
  then show ?case using IH old upper "is" by (auto simp: nth_Cons split: nat.split)
qed

text \<open>
  The ids of a context's items. From the empty table, fewer than \<open>2 ^ 31 - 2\<close> calls of
  \<open>add_item\<close> hand out pairwise different ids, every item is found under its id, and exactly the read
  pipes get ids in the upper half of the range, where the worker tells them from other tokens.
\<close>

lemma add_item_ids_unique:
  assumes "length items < 2 ^ 31 - 2" and "add_items cd_items_default items = (is, its)"
  shows "length is = length items \<and> distinct is \<and>
    (\<forall>n < length items. fmlookup (items_table its) (is ! n) = Some (items ! n) \<and>
       (is_read_pipe (items ! n) \<longleftrightarrow> 2 ^ 31 < unat (is ! n)))"
  using add_items_ids [OF items_at_default _ assms(2)] assms(1) by simp

text \<open>
  An id chosen by the guest is not reserved. After a successful import of a virtio-fs handle
  under the id that the counter reaches next, the next item of the host (any but a read pipe) takes
  that id and replaces the imported file in the table.
\<close>

lemma imported_handle_overwritten:
  assumes "import_virtiofs_handle env cmd (x, w) = (Ok (), (x', w'))"
    and "ivf_id cmd = items_descriptor_id (cx_items x) + 1" and "\<not> is_read_pipe item"
  shows "\<exists>fd its. get_item x' (ivf_id cmd) = Some (RegularFile fd) \<and>
    add_item (cx_items x') item = (ivf_id cmd, its) \<and>
    fmlookup (items_table its) (ivf_id cmd) = Some item"
proof -
  obtain fd where "x' = put_item (ivf_id cmd) (RegularFile fd) x"
    using assms(1) by (auto simp: import_virtiofs_handle_def and_then_st_eq_Ok
        split: option.splits if_splits)
  then show ?thesis using assms(2,3)
    by (cases item) (auto simp: put_item_def add_item_def is_read_pipe_def Let_def)
qed

section \<open>Writes to a ring\<close>

text \<open>The memory changes only inside the \<open>len\<close> bytes from \<open>base\<close>.\<close>

definition changed_inside :: "u64 \<Rightarrow> nat \<Rightarrow> 'a cd_world_scheme \<Rightarrow> 'a cd_world_scheme \<Rightarrow> bool" where
  "changed_inside base len w w' \<longleftrightarrow>
     (\<forall>a. w_mem w' a \<noteq> w_mem w a \<longrightarrow> (\<exists>i < len. a = base + of_nat i))"

lemma changed_inside_refl [simp]: "w_mem w' = w_mem w \<Longrightarrow> changed_inside base len w w'"
  by (simp add: changed_inside_def)

lemma changed_inside_trans:
  "changed_inside base len w w1 \<Longrightarrow> changed_inside base len w1 w2 \<Longrightarrow> changed_inside base len w w2"
  unfolding changed_inside_def by metis

lemma write_at_inside:
  assumes "off + length bs \<le> len"
  shows "changed_inside base len w (write_at base off bs w)"
  unfolding changed_inside_def
proof (intro allI impI)
  fix a assume "w_mem (write_at base off bs w) a \<noteq> w_mem w a"
  then have i: "unat (a - (base + of_nat off)) < length bs"
    by (simp add: write_at_def write_mem_def Let_def split: if_splits)
  have "a = base + of_nat (off + unat (a - (base + of_nat off)))" by simp
  with i assms show "\<exists>i < len. a = base + of_nat i"
    by (metis add_less_cancel_left order_less_le_trans)
qed

lemma calls_keep_mem:
  "w_mem (snd (sys_rres c w)) = w_mem w"
  "w_mem (snd (pipe_read d n w)) = w_mem w"
  "w_mem (snd (event_wait d w)) = w_mem w"
  "sys_rres c w = (r, w') \<Longrightarrow> w_mem w' = w_mem w"
  "pipe_read d n w = (r', w') \<Longrightarrow> w_mem w' = w_mem w"
  "event_wait d w = (r'', w') \<Longrightarrow> w_mem w' = w_mem w"
proof -
  show call: "w_mem (snd (sys_rres c w)) = w_mem w" for c :: "cd_sys \<Rightarrow> nat \<Rightarrow> int + 'x" and w
    by (simp add: sys_rres_def ask_def)
  show read: "w_mem (snd (pipe_read d n w)) = w_mem w" for w
    using call [of "\<lambda>s t. sys_pipe_read s t d n" w]
    by (cases "sys_rres (\<lambda>s t. sys_pipe_read s t d n) w")
      (auto simp: pipe_read_def and_then_st_def split: sum.split)
  show wait: "w_mem (snd (event_wait d w)) = w_mem w" for w
    by (simp add: event_wait_def call)
  show "sys_rres c w = (r, w') \<Longrightarrow> w_mem w' = w_mem w"
    "pipe_read d n w = (r', w') \<Longrightarrow> w_mem w' = w_mem w"
    "event_wait d w = (r'', w') \<Longrightarrow> w_mem w' = w_mem w"
    using call read wait by (metis snd_conv)+
qed

lemma pipe_read_length: "pipe_read d n w = (Ok bs, w') \<Longrightarrow> length bs \<le> n"
  by (auto simp: pipe_read_def and_then_st_eq_Ok)

lemma write_at_more:
  "changed_inside base len w w1 \<Longrightarrow> off + length bs \<le> len \<Longrightarrow>
   changed_inside base len w (write_at base off bs w1)"
  using changed_inside_trans write_at_inside by blast

lemma write_to_slice_inside:
  "changed_inside base len w (snd (write_to_slice rw base len w))"
proof (cases rw)
  case (Write cmd data)
  then show ?thesis by (auto simp: Let_def intro!: write_at_more split: option.split)
next
  case (WriteFromPipe c d readable)
  have "length bs \<le> len - 24" if "pipe_read d (len - 24) w = (Ok bs, w1)" for bs w1
    using pipe_read_length [OF that] .
  then show ?thesis
    by (auto simp: WriteFromPipe Let_def and_then_st_def not_less u32_try_from_def calls_keep_mem(5)
        intro!: write_at_more split: prod.split sum.split)
next
  case (WriteFromEvent c d readable)
  then show ?thesis
    by (auto simp: Let_def and_then_st_def not_less u32_try_from_def calls_keep_mem(6)
        intro!: write_at_more split: prod.split sum.split)
qed

text \<open>A panic of \<open>write_to_slice\<close>: an event read into a slice with no room for its value\<close>

lemma calls_complete:
  "fst (sys_rres c w) \<noteq> Panicked" "fst (pipe_read d n w) \<noteq> Panicked"
  "fst (event_wait d w) \<noteq> Panicked"
  by (auto simp: sys_rres_def errno_rres_def pipe_read_def event_wait_def and_then_st_def
      split: prod.splits sum.splits)

definition event_overflow :: "ring_write \<Rightarrow> nat \<Rightarrow> 'a cd_world_scheme \<Rightarrow> bool" where
  "event_overflow rw len w \<longleftrightarrow>
     (case rw of
        WriteFromEvent c evt readable \<Rightarrow>
          readable \<and> is_ok (fst (event_wait evt w)) \<and> 24 \<le> len \<and> len < 32
      | _ \<Rightarrow> False)"

lemma write_to_slice_panic:
  "fst (write_to_slice rw base len w) = Panicked \<longleftrightarrow> event_overflow rw len w"
proof (cases rw)
  case (Write cmd data)
  then show ?thesis by (auto simp: event_overflow_def Let_def split: if_splits option.splits)
next
  case (WriteFromPipe c d readable)
  obtain r w1 where r: "pipe_read d (len - 24) w = (r, w1)" by (cases "pipe_read d (len - 24) w")
  with calls_complete(2) [of d "len - 24" w] have "r \<noteq> Panicked" by simp
  then show ?thesis using r
    by (cases r) (auto simp: event_overflow_def WriteFromPipe Let_def u32_try_from_def split: if_splits)
next
  case (WriteFromEvent c d readable)
  obtain r w1 where r: "event_wait d w = (r, w1)" by (cases "event_wait d w")
  with calls_complete(3) [of d w] have "r \<noteq> Panicked" by simp
  then show ?thesis using r
    by (cases r) (auto simp: event_overflow_def WriteFromEvent Let_def u32_try_from_def split: if_splits)
qed

lemma read_write_at:
  assumes "length bs \<le> 2 ^ 64"
  shows "read_mem (w_mem (write_at base 0 bs w)) base (length bs) = bs"
  using read_write_mem [OF assms] by (simp add: write_at_def)

lemma unat_sub_wrap: "d < n \<Longrightarrow> unat (d - n) = 2 ^ 64 + unat d - unat (n :: u64)"
  by (auto simp: unat_sub_if_size word_size word_le_nat_alt word_less_nat_alt)

text \<open>Two adjacent writes are one, in either order.\<close>

lemma write_at_append:
  assumes "length xs + length ys \<le> 2 ^ 64"
  shows "write_at base (length xs) ys (write_at base 0 xs w) = write_at base 0 (xs @ ys) w"
    and "write_at base 0 xs (write_at base (length xs) ys w) = write_at base 0 (xs @ ys) w"
proof -
  let ?n = "of_nat (length xs) :: u64"
  have "write_mem (write_mem (w_mem w) base xs) (base + ?n) ys a = write_mem (w_mem w) base (xs @ ys) a \<and>
      write_mem (write_mem (w_mem w) (base + ?n) ys) base xs a = write_mem (w_mem w) base (xs @ ys) a" for a
  proof -
    let ?i = "unat (a - base)"
    have split: "a - (base + ?n) = (a - base) - ?n" by simp
    show ?thesis
    proof (cases "ys = []")
      case True
      then show ?thesis by (simp add: write_mem_def)
    next
      case False
      then have "length xs < 2 ^ 64" using assms by (cases ys) auto
      then have n: "unat ?n = length xs" by (simp add: unat_of_nat)
      show ?thesis
      proof (cases "length xs \<le> ?i")
        case True
        then have "unat ((a - base) - ?n) = ?i - length xs"
          using n by (simp add: unat_sub word_le_nat_alt)
        with True show ?thesis
          by (auto simp: write_mem_def Let_def split nth_append)
      next
        case False
        then have "a - base < ?n" using n by (simp add: word_less_nat_alt)
        then have "unat ((a - base) - ?n) = 2 ^ 64 + ?i - length xs"
          using n by (simp only: unat_sub_wrap)
        then have "\<not> unat ((a - base) - ?n) < length ys" using assms by linarith
        with False show ?thesis by (auto simp: write_mem_def Let_def split nth_append)
      qed
    qed
  qed
  then show "write_at base (length xs) ys (write_at base 0 xs w) = write_at base 0 (xs @ ys) w"
    and "write_at base 0 xs (write_at base (length xs) ys w) = write_at base 0 (xs @ ys) w"
    by (simp_all add: write_at_def fun_eq_iff)
qed

text \<open>What a write takes out of its pipe or event, and what the guest finds in the ring after it\<close>

fun ring_payload :: "ring_write \<Rightarrow> nat \<Rightarrow> 'a cd_world_scheme \<Rightarrow> u8 list \<Rightarrow> bool" where
  "ring_payload (Write cmd data) len w bs \<longleftrightarrow> bs = []"
| "ring_payload (WriteFromPipe c p readable) len w bs \<longleftrightarrow>
     (if readable then fst (pipe_read p (len - 24) w) = Ok bs else bs = [])"
| "ring_payload (WriteFromEvent c evt readable) len w bs \<longleftrightarrow>
     (if readable then \<exists>v. fst (event_wait evt w) = Ok v \<and> bs = le_bytes 8 v else bs = [])"

fun ring_message :: "ring_write \<Rightarrow> u8 list \<Rightarrow> u8 list" where
  "ring_message (Write cmd data) bs = cmd @ (case data of None \<Rightarrow> [] | Some opaque \<Rightarrow> opaque)"
| "ring_message (WriteFromPipe c p readable) bs =
     encode_read_write (c\<lparr>rw_hang_up := if bs = [] then 1 else rw_hang_up c,
       rw_opaque_data_size := of_nat (length bs)\<rparr>) @ bs"
| "ring_message (WriteFromEvent c evt readable) bs =
     encode_read_write (c\<lparr>rw_opaque_data_size := of_nat (length bs)\<rparr>) @ bs"

lemma read_after_write:
  assumes "length bs \<le> len" "len < 2 ^ 64" and "w' = write_at base 0 bs w"
  shows "length bs \<le> len \<and> read_mem (w_mem w') base (length bs) = bs"
  using assms read_write_at [of bs base w] by simp

lemma write_payload:
  assumes "length xs = 24" "24 + length ys \<le> 2 ^ 64"
  shows "write_at base 0 xs (write_at base 24 ys w) = write_at base 0 (xs @ ys) w"
  using write_at_append(2) [of xs ys base w] assms by simp

lemma write_to_slice_message:
  assumes "write_to_slice rw base len w = (Ok n, w')" and "len < 2 ^ 64"
  shows "\<exists>bs. ring_payload rw len w bs \<and>
    n = length bs \<and> length (ring_message rw bs) \<le> len \<and>
    read_mem (w_mem w') base (length (ring_message rw bs)) = ring_message rw bs"
proof (cases rw)
  case (Write cmd data)
  then have "n = 0" and fit: "length (ring_message rw []) \<le> len"
    and "w' = write_at base 0 (ring_message rw []) w"
    using assms by (auto simp: Let_def write_at_append(1) split: if_splits option.splits)
  with read_after_write [OF fit assms(2), of w' base w] show ?thesis
    by (intro exI [of _ "[]"]) (auto simp: Write)
next
  case (WriteFromPipe c p readable)
  obtain bs w1 where bs: "ring_payload rw len w bs" "n = length bs" "24 + length bs \<le> len"
    and w': "w' = write_at base 0 (encode_read_write (c\<lparr>rw_hang_up := if bs = [] then 1 else rw_hang_up c,
       rw_opaque_data_size := of_nat (length bs)\<rparr>)) (write_at base 24 bs w1)"
  proof (cases readable)
    case True
    then obtain bs w1 where "pipe_read p (len - 24) w = (Ok bs, w1)"
      using assms(1) by (auto simp: WriteFromPipe Let_def and_then_st_eq_Ok split: if_splits)
    then show ?thesis using that [of bs w1] True assms(1) pipe_read_length [of p "len - 24" w bs w1]
      by (auto simp: WriteFromPipe Let_def u32_try_from_def and_then_st_eq_Ok split: if_splits)
  next
    case False
    then show ?thesis using that [of "[]" w] assms(1)
      by (auto simp: WriteFromPipe Let_def u32_try_from_def and_then_st_eq_Ok write_at_def write_mem_def
          split: if_splits)
  qed
  then have "w' = write_at base 0 (ring_message rw bs) w1" "length (ring_message rw bs) \<le> len"
    using assms(2) by (auto simp: WriteFromPipe write_payload)
  with bs read_after_write [OF _ assms(2)] show ?thesis by blast
next
  case (WriteFromEvent c evt readable)
  obtain bs w1 where bs: "ring_payload rw len w bs" "n = length bs" "24 + length bs \<le> len"
    and w': "w' = write_at base 0 (encode_read_write (c\<lparr>rw_opaque_data_size := of_nat (length bs)\<rparr>))
        (write_at base 24 bs w1)"
  proof (cases readable)
    case True
    then obtain v w1 where "event_wait evt w = (Ok v, w1)"
      using assms(1) by (auto simp: WriteFromEvent Let_def and_then_st_eq_Ok split: if_splits)
    then show ?thesis using that [of "le_bytes 8 v" w1] True assms(1)
      by (auto simp: WriteFromEvent Let_def u32_try_from_def and_then_st_eq_Ok split: if_splits)
  next
    case False
    then show ?thesis using that [of "[]" w] assms(1)
      by (auto simp: WriteFromEvent Let_def u32_try_from_def and_then_st_eq_Ok write_at_def write_mem_def
          split: if_splits)
  qed
  then have "w' = write_at base 0 (ring_message rw bs) w1" "length (ring_message rw bs) \<le> len"
    using assms(2) by (auto simp: WriteFromEvent write_payload)
  with bs read_after_write [OF _ assms(2)] show ?thesis by blast
qed

text \<open>
  C23. A write to a ring stays inside the first iovec of the ring's backing: whatever is written,
  with success or not, no other byte of the guest's memory changes. After a success the guest reads the
  whole message there: a command and its data, or the header with the bytes taken from the pipe or the
  value of the event and their number, which is the result (and a hang-up when a pipe gave nothing).
  The write panics exactly where the code indexes without a check: when the backing is an empty list,
  or when an event has been read and the ring has room for the command but not for its value.
\<close>

theorem ring_write_stays_inside:
  assumes "write_to_ring m rw ring_id w = (r, w')"
  shows "if \<exists>cr iov iovs. fmlookup m ring_id = Some cr \<and> cr_backing_iovecs cr = Some (iov # iovs)
    then \<exists>cr iov iovs. fmlookup m ring_id = Some cr \<and> cr_backing_iovecs cr = Some (iov # iovs) \<and>
        (\<forall>a. w_mem w' a \<noteq> w_mem w a \<longrightarrow> (\<exists>i < unat (iov_len iov). a = iov_base iov + of_nat i)) \<and>
        (\<forall>n. r = Ok n \<longrightarrow> (\<exists>bs. ring_payload rw (unat (iov_len iov)) w bs \<and> n = length bs \<and>
          length (ring_message rw bs) \<le> unat (iov_len iov) \<and>
          read_mem (w_mem w') (iov_base iov) (length (ring_message rw bs)) = ring_message rw bs)) \<and>
        (r = Panicked \<longleftrightarrow> event_overflow rw (unat (iov_len iov)) w)
    else w' = w \<and> (r = Panicked \<longleftrightarrow>
        (\<exists>cr. fmlookup m ring_id = Some cr \<and> cr_backing_iovecs cr = Some []))"
proof (cases "\<exists>cr iov iovs. fmlookup m ring_id = Some cr \<and> cr_backing_iovecs cr = Some (iov # iovs)")
  case False
  then show ?thesis using assms
    by (auto simp: write_to_ring_def ring_slice_def and_then_st_def ok_or_def
        split: option.splits list.splits)
next
  case True
  then obtain cr iov iovs where cr: "fmlookup m ring_id = Some cr"
    "cr_backing_iovecs cr = Some (iov # iovs)" by blast
  let ?base = "iov_base iov" and ?len = "unat (iov_len iov)"
  have run: "write_to_slice rw ?base ?len w = (r, w')"
    using assms cr by (simp add: write_to_ring_def ring_slice_def)
  have "changed_inside ?base ?len w w'"
    using write_to_slice_inside [of ?base ?len w rw] run by simp
  moreover have "\<exists>bs. ring_payload rw ?len w bs \<and> n = length bs \<and>
      length (ring_message rw bs) \<le> ?len \<and>
      read_mem (w_mem w') ?base (length (ring_message rw bs)) = ring_message rw bs" if "r = Ok n" for n
    using write_to_slice_message [of rw ?base ?len w n w'] run that unat_u64_less [of "iov_len iov"] by simp
  moreover have "r = Panicked \<longleftrightarrow> event_overflow rw ?len w"
    using write_to_slice_panic [of rw ?base ?len w] run by simp
  ultimately show ?thesis using True cr unfolding changed_inside_def by auto
qed

definition some_ring :: context_resources where
  "some_ring = fmupd 4 \<lparr>cr_handle = None,
     cr_backing_iovecs = Some [\<lparr>iov_base = 4096, iov_len = 26\<rparr>]\<rparr> fmempty"

definition some_read :: cd_read_write where
  "some_read = \<lparr>rw_hdr = \<lparr>hdr_cmd = 6, hdr_ring_idx = 0, hdr_cmd_size = 0, hdr_pad = 0\<rparr>,
     rw_identifier = 2, rw_hang_up = 0, rw_opaque_data_size = 0, rw_pad = 0\<rparr>"

lemma ring_write_stays_inside_witness:
  "\<exists>r w'. write_to_ring some_ring (WriteFromEvent some_read 3 True) 4 some_cd_world = (r, w') \<and>
     r = Panicked \<and> w_mem w' 5000 = w_mem some_cd_world 5000"
proof -
  obtain r w' where run: "write_to_ring some_ring (WriteFromEvent some_read 3 True) 4 some_cd_world = (r, w')"
    by (cases "write_to_ring some_ring (WriteFromEvent some_read 3 True) 4 some_cd_world")
  have "w_mem w' 5000 = w_mem some_cd_world 5000"
  proof (rule ccontr)
    assume "w_mem w' 5000 \<noteq> w_mem some_cd_world 5000"
    with ring_write_stays_inside [OF run] obtain i where "i < 26" "(5000 :: u64) = 4096 + of_nat i"
      by (auto simp: some_ring_def)
    then have "of_nat i = (904 :: u64)" by simp
    then have "unat (of_nat i :: u64) = 904" by simp
    with \<open>i < 26\<close> show False by (simp add: unat_of_nat)
  qed
  moreover have "r = Panicked" using run
    by (auto simp: some_ring_def write_to_ring_def ring_slice_def event_wait_def sys_rres_def
        ask_def some_sys_def)
  ultimately show ?thesis using run by blast
qed

end
