(* ===== verification/CD_Commands.thy ===== *)
theory CD_Commands
  imports CD_Items
begin

text \<open>
  What the commands of a cross-domain context do: the loop over the command buffer, the three forms
  of init, sends, sockets handed from one context to another, images and the blobs made from them.
\<close>

section \<open>The loop over a command buffer\<close>

text \<open>A buffer that the loop can walk over: every header it meets claims at least one byte.\<close>

inductive framed :: "u8 list \<Rightarrow> bool" where
  framed_short: "length commands < 8 \<Longrightarrow> framed commands"
| framed_cut: "length commands < unat (hdr_cmd_size (decode_header commands)) \<Longrightarrow> framed commands"
| framed_next: "0 < unat (hdr_cmd_size (decode_header commands)) \<Longrightarrow>
    framed (drop (unat (hdr_cmd_size (decode_header commands))) commands) \<Longrightarrow> framed commands"

lemma submit_loop_empty [simp]: "submit_loop env [] s = Some (Ok (), s)"
  by (simp add: submit_loop.simps)

lemma submit_loop_short:
  "commands \<noteq> [] \<Longrightarrow> length commands < 8 \<Longrightarrow>
   submit_loop env commands s = Some (Err InvalidCommandBuffer, s)"
  by (simp add: submit_loop.simps read_from_prefix_def)

lemma submit_loop_step:
  "8 \<le> length commands \<Longrightarrow>
   submit_loop env commands s =
     (let hdr = decode_header commands; n = unat (hdr_cmd_size hdr) in
      case run_command env hdr commands s of
        (Inl e, s) \<Rightarrow> Some (Inl e, s)
      | (Inr _, s) \<Rightarrow>
          if length commands < n then Some (Err (InvalidCommandSize n), s)
          else submit_loop env (drop n commands) s)"
  by (subst submit_loop.simps) (auto simp: read_from_prefix_def Let_def)

lemma framed_submit: "framed commands \<Longrightarrow> \<exists>r s'. submit_loop env commands s = Some (r, s')"
proof (induction arbitrary: s rule: framed.induct)
  case (framed_short commands)
  then show ?case by (cases "commands = []") (auto simp: submit_loop_short)
next
  case (framed_cut commands)
  then show ?case
    by (cases "length commands < 8"; cases "commands = []")
      (auto simp: submit_loop_short submit_loop_step Let_def split: prod.split sum.split)
next
  case (framed_next commands)
  then show ?case
    by (cases "length commands < 8"; cases "commands = []")
      (auto simp: submit_loop_short submit_loop_step Let_def split: prod.split sum.split)
qed

lemma poll_command: "hdr_cmd hdr = CROSS_DOMAIN_CMD_POLL \<Longrightarrow> run_command env hdr commands s = (Ok (), s)"
  by (simp add: run_command_def Let_def)

lemma submit_zero_poll:
  assumes "submit_loop env commands s = Some y" and "8 \<le> length commands"
    and "hdr_cmd (decode_header commands) = CROSS_DOMAIN_CMD_POLL"
    and "hdr_cmd_size (decode_header commands) = 0"
  shows False
proof -
  have "8 \<le> length commands \<longrightarrow> hdr_cmd (decode_header commands) = CROSS_DOMAIN_CMD_POLL \<longrightarrow>
      hdr_cmd_size (decode_header commands) = 0 \<longrightarrow> False"
    using _ assms(1)
  proof (rule submit_loop.raw_induct [of "\<lambda>env commands s y. 8 \<le> length commands \<longrightarrow>
      hdr_cmd (decode_header commands) = CROSS_DOMAIN_CMD_POLL \<longrightarrow>
      hdr_cmd_size (decode_header commands) = 0 \<longrightarrow> False"])
    fix loop env commands s y
    assume IH: "\<And>env commands s y. loop env commands s = Some y \<Longrightarrow> 8 \<le> length commands \<longrightarrow>
        hdr_cmd (decode_header commands) = CROSS_DOMAIN_CMD_POLL \<longrightarrow>
        hdr_cmd_size (decode_header commands) = 0 \<longrightarrow> False"
      and body: "(if commands = [] then Some (Ok (), s)
        else case read_from_prefix 8 decode_header commands of
            None \<Rightarrow> Some (Err InvalidCommandBuffer, s)
          | Some hdr \<Rightarrow>
              (case run_command env hdr commands s of
                 (Inl e, s) \<Rightarrow> Some (Inl e, s)
               | (Inr _, s) \<Rightarrow>
                   if length commands < unat (hdr_cmd_size hdr)
                   then Some (Err (InvalidCommandSize (unat (hdr_cmd_size hdr))), s)
                   else loop env (drop (unat (hdr_cmd_size hdr)) commands) s)) = Some y"
    show "8 \<le> length commands \<longrightarrow> hdr_cmd (decode_header commands) = CROSS_DOMAIN_CMD_POLL \<longrightarrow>
        hdr_cmd_size (decode_header commands) = 0 \<longrightarrow> False"
    proof (intro impI)
      assume hdr: "8 \<le> length commands" "hdr_cmd (decode_header commands) = CROSS_DOMAIN_CMD_POLL"
        "hdr_cmd_size (decode_header commands) = 0"
      have read: "read_from_prefix 8 decode_header commands = Some (decode_header commands)"
        using hdr(1) by simp
      have "commands \<noteq> []" using hdr(1) by auto
      then have "loop env commands s = Some y"
        using body by (simp add: read poll_command [OF hdr(2)] hdr(3))
      with IH hdr show False by blast
    qed
  qed
  with assms show False by blast
qed

text \<open>
  C21. The command loop ends on every buffer whose headers claim at least one byte each, in any
  state, with success or an error. It advances by the size that the header claims, so a poll that
  claims size 0 is read again and again: then the call does not return.
\<close>

theorem submit_loop_termination:
  "(framed commands \<longrightarrow> (\<exists>r s'. submit_loop env commands s = Some (r, s'))) \<and>
   (8 \<le> length commands \<and> hdr_cmd (decode_header commands) = CROSS_DOMAIN_CMD_POLL \<and>
      hdr_cmd_size (decode_header commands) = 0 \<longrightarrow> submit_loop env commands s = None)"
  using framed_submit [of commands env s] submit_zero_poll [of env commands s]
  by (cases "submit_loop env commands s") auto

definition poll_header :: "u16 \<Rightarrow> cd_header" where
  "poll_header n = \<lparr>hdr_cmd = 3, hdr_ring_idx = 0, hdr_cmd_size = n, hdr_pad = 0\<rparr>"

lemma submit_loop_termination_witness:
  "(\<exists>r s'. submit_loop some_env (encode_header (poll_header 8)) (cd_context_new None, some_cd_world) =
      Some (r, s')) \<and>
   submit_loop some_env (encode_header (poll_header 0)) (cd_context_new None, some_cd_world) = None"
proof -
  have "framed (encode_header (poll_header 8))"
    by (rule framed_next) (simp_all add: poll_header_def framed_short)
  then show ?thesis
    using submit_loop_termination [of "encode_header (poll_header 8)" some_env]
      submit_loop_termination [of "encode_header (poll_header 0)" some_env]
    by (simp add: poll_header_def)
qed

section \<open>The forms of init\<close>

text \<open>
  The three forms of the init command. Which one a buffer holds is told by its size alone: the
  command runs \<open>initialize\<close> on the fields written by the guest, with the query ring as the channel
  ring in the oldest form and no socket in the two older ones. An init of any other size is refused
  without an effect.
\<close>

lemma init_forms:
  assumes "wf_init c" and "hdr_cmd (init_hdr c) = CROSS_DOMAIN_CMD_INIT"
    and "hdr_cmd (inl_hdr c0) = CROSS_DOMAIN_CMD_INIT" and "hdr_cmd (iv1_hdr c1) = CROSS_DOMAIN_CMD_INIT"
    and "hdr_cmd_size (inl_hdr c0) = 16" and "hdr_cmd_size (iv1_hdr c1) = 20"
  shows "run_command env (inl_hdr c0) (encode_init_legacy c0 @ rest) s =
      initialize \<lparr>init_hdr = inl_hdr c0, init_query_ring_id = inl_query_ring_id c0,
        init_channel_ring_id = inl_query_ring_id c0, init_channel_type = inl_channel_type c0,
        init_internal_socket_uuid = replicate 16 0\<rparr> s \<and>
    run_command env (iv1_hdr c1) (encode_init_v1 c1 @ rest) s =
      initialize \<lparr>init_hdr = iv1_hdr c1, init_query_ring_id = iv1_query_ring_id c1,
        init_channel_ring_id = iv1_channel_ring_id c1, init_channel_type = iv1_channel_type c1,
        init_internal_socket_uuid = replicate 16 0\<rparr> s \<and>
    (hdr_cmd_size (init_hdr c) = 36 \<longrightarrow>
      run_command env (init_hdr c) (encode_init c @ rest) s = initialize c s) \<and>
    (hdr_cmd_size (init_hdr c) \<notin> {16, 20, 36} \<longrightarrow>
      run_command env (init_hdr c) commands s =
        (Err (MagmaGpuError (WithContext ''invalid cross domain command'')), s))"
  using assms
  by (auto simp: run_command_def Let_def read_cmd_def read_from_prefix_def ok_or_def
      upgrade_legacy_def upgrade_v1_def unsigned_word_eqI)

definition init_header :: "u16 \<Rightarrow> cd_header" where
  "init_header n = \<lparr>hdr_cmd = 1, hdr_ring_idx = 0, hdr_cmd_size = n, hdr_pad = 0\<rparr>"

section \<open>Sends\<close>

definition pipes_in :: "(u32 \<times> u32) list \<Rightarrow> nat" where
  "pipes_in its = length (filter (\<lambda>p. snd p = CROSS_DOMAIN_ID_TYPE_READ_PIPE) its)"

lemma pipes_in_simps [simp]:
  "pipes_in [] = 0"
  "pipes_in ((i, t) # its) =
     (if t = CROSS_DOMAIN_ID_TYPE_READ_PIPE then Suc (pipes_in its) else pipes_in its)"
  "pipes_in (its @ its') = pipes_in its + pipes_in its'"
  by (simp_all add: pipes_in_def)

lemma no_pipe_in: "pipes_in its = 0 \<Longrightarrow> (i, t) \<in> set its \<Longrightarrow> t \<noteq> CROSS_DOMAIN_ID_TYPE_READ_PIPE"
  by (auto simp: pipes_in_def filter_empty_conv)

text \<open>
  The descriptor that stands for an identifier in a message: a clone of the handle of a blob, a clone
  of the write end of a new pipe whose read end is in the item table under the id that the guest
  guessed, or a file that was in the item table and is not any more.
\<close>

definition sent_as :: "'a cd_st \<Rightarrow> cd_context \<Rightarrow> u32 \<times> u32 \<Rightarrow> descriptor \<Rightarrow> bool" where
  "sent_as s x' p d \<longleftrightarrow>
     (if snd p = CROSS_DOMAIN_ID_TYPE_VIRTGPU_BLOB
      then \<exists>cr h. fmlookup (cx_resources (fst s)) (fst p) = Some cr \<and>
        Option.bind (cr_handle cr) as_mesa_handle = Some h \<and>
        clone_io (w_os (snd s)) (os_handle h) = Ok d
      else if snd p = CROSS_DOMAIN_ID_TYPE_READ_PIPE
      then \<exists>tick read_pipe write_pipe. sys_pipe (cdw_sys (snd s)) tick = Inr (read_pipe, write_pipe) \<and>
        clone_io (w_os (snd s)) write_pipe = Ok d \<and>
        get_item x' (fst p) = Some (WaylandReadPipe read_pipe)
      else snd p = CROSS_DOMAIN_ID_TYPE_VIRTIO_FS_BLOB \<and>
        get_item (fst s) (fst p) = Some (RegularFile d) \<and>
        (\<forall>file. get_item x' (fst p) \<noteq> Some (RegularFile file)))"

lemma sent_as_items: "cx_items x' = cx_items x \<Longrightarrow> sent_as s x' = sent_as s x"
  by (simp add: sent_as_def fun_eq_iff)

lemma sent_as_kept:
  assumes "list_all2 (sent_as s x) its ds"
    and "\<And>i file. get_item x' i = Some (RegularFile file) \<Longrightarrow> get_item x i = Some (RegularFile file)"
    and "\<And>i p. (i, CROSS_DOMAIN_ID_TYPE_READ_PIPE) \<in> set its \<Longrightarrow>
      get_item x i = Some (WaylandReadPipe p) \<Longrightarrow> get_item x' i = Some (WaylandReadPipe p)"
  shows "list_all2 (sent_as s x') its ds"
proof (rule list.rel_mono_strong [OF assms(1)])
  fix p d assume p: "p \<in> set its" "sent_as s x p d"
  obtain i t where it: "p = (i, t)" by (cases p)
  have pipe: "get_item x i = Some (WaylandReadPipe q) \<Longrightarrow> t = CROSS_DOMAIN_ID_TYPE_READ_PIPE \<Longrightarrow>
      get_item x' i = Some (WaylandReadPipe q)" for q
    using p(1) assms(3) by (simp add: it)
  have "\<forall>f. get_item x i \<noteq> Some (RegularFile f) \<Longrightarrow> \<forall>f. get_item x' i \<noteq> Some (RegularFile f)"
    using assms(2) by blast
  with p(2) pipe show "sent_as s x' p d"
    unfolding it sent_as_def fst_conv snd_conv by (metis (no_types))
qed

text \<open>What the loop over the identifiers keeps: the state, the resources and the log, the descriptors
  of the identifiers it has seen, and the id of the pipe once one was made.\<close>

definition send_inv :: "'a cd_st \<Rightarrow> send_acc \<Rightarrow> (u32 \<times> u32) list \<Rightarrow> 'a cd_st \<Rightarrow> bool" where
  "send_inv s0 acc done s \<longleftrightarrow>
     cx_state (fst s) = cx_state (fst s0) \<and> cx_resample_evt (fst s) = cx_resample_evt (fst s0) \<and>
     cx_resources (fst s) = cx_resources (fst s0) \<and> w_os (snd s) = w_os (snd s0) \<and>
     cdw_sys (snd s) = cdw_sys (snd s0) \<and> cdw_log (snd s) = cdw_log (snd s0) \<and>
     (\<forall>i file. get_item (fst s) i = Some (RegularFile file) \<longrightarrow>
        get_item (fst s0) i = Some (RegularFile file)) \<and>
     list_all2 (sent_as s0 (fst s)) done (sa_descriptors acc) \<and>
     (sa_write_pipe acc = None \<longleftrightarrow> pipes_in done = 0) \<and>
     (case sa_read_pipe_id acc of
        None \<Rightarrow> pipes_in done = 0
      | Some i \<Rightarrow> pipes_in done = 1 \<and> (i, CROSS_DOMAIN_ID_TYPE_READ_PIPE) \<in> set done)"

lemma log_base [simp]:
  "cdw_log (snd (sys_rres c w)) = cdw_log w"
  "sys_rres c w = (r, w') \<Longrightarrow> cdw_log w' = cdw_log w"
proof -
  show log: "cdw_log (snd (sys_rres c w)) = cdw_log w" for c :: "cd_sys \<Rightarrow> nat \<Rightarrow> int + 'x" and w
    by (simp add: sys_rres_def ask_def)
  show "sys_rres c w = (r, w') \<Longrightarrow> cdw_log w' = cdw_log w" using log [of c w] by simp
qed

lemma add_item_lookup: "add_item its item = (i, its') \<Longrightarrow> fmlookup (items_table its') i = Some item"
  by (auto simp: add_item_def Let_def split: prod.splits)

lemma add_pipe:
  assumes "add_item its (WaylandReadPipe p) = (i, its')"
  shows "fmlookup (items_table its') i = Some (WaylandReadPipe p)"
    and "fmlookup (items_table its') j = Some (RegularFile file) \<Longrightarrow>
      fmlookup (items_table its) j = Some (RegularFile file)"
  using assms by (auto simp: add_item_def Let_def split: if_splits)

lemma send_pipe_inv:
  assumes "send_inv s0 acc done s" and "sa_write_pipe acc = None"
    and "sys_pipe (cdw_sys (snd s)) tick = Inr (read_pipe, write_pipe)"
    and "clone_io (w_os (snd s)) write_pipe = Ok d"
    and "add_item (cx_items (fst s)) (WaylandReadPipe read_pipe) = (i, its)"
  shows "send_inv s0 \<lparr>sa_descriptors = sa_descriptors acc @ [d], sa_write_pipe = Some write_pipe,
      sa_read_pipe_id = Some i\<rparr> (done @ [(i, CROSS_DOMAIN_ID_TYPE_READ_PIPE)])
    ((fst s)\<lparr>cx_items := its\<rparr>, (snd s)\<lparr>cdw_tick := n\<rparr>)"
proof -
  have none: "pipes_in done = 0" using assms(1,2) by (simp add: send_inv_def)
  have "list_all2 (sent_as s0 ((fst s)\<lparr>cx_items := its\<rparr>)) done (sa_descriptors acc)"
  proof (rule sent_as_kept)
    show "list_all2 (sent_as s0 (fst s)) done (sa_descriptors acc)"
      using assms(1) by (simp add: send_inv_def)
  qed (use add_pipe(2) [OF assms(5)] no_pipe_in [OF none] in auto)
  moreover have "sent_as s0 ((fst s)\<lparr>cx_items := its\<rparr>) (i, CROSS_DOMAIN_ID_TYPE_READ_PIPE) d"
    using assms(1,3,4) add_pipe(1) [OF assms(5)] by (auto simp: sent_as_def send_inv_def)
  ultimately show ?thesis using assms(1) none add_pipe(2) [OF assms(5)]
    by (auto simp: send_inv_def intro!: list_all2_appendI)
qed

lemma send_file_inv:
  assumes "send_inv s0 acc done s" and "get_item (fst s) i = Some (RegularFile file)"
    and "t = CROSS_DOMAIN_ID_TYPE_VIRTIO_FS_BLOB"
  shows "send_inv s0 (acc\<lparr>sa_descriptors := sa_descriptors acc @ [file]\<rparr>) (done @ [(i, t)])
    (del_item i (fst s), snd s)"
proof -
  have "list_all2 (sent_as s0 (del_item i (fst s))) done (sa_descriptors acc)"
  proof (rule sent_as_kept)
    show "list_all2 (sent_as s0 (fst s)) done (sa_descriptors acc)"
      using assms(1) by (simp add: send_inv_def)
  qed (use assms(2) in \<open>auto simp: del_item_def split: if_splits\<close>)
  moreover have "sent_as s0 (del_item i (fst s)) (i, t) file"
    using assms by (simp add: sent_as_def send_inv_def del_item_def)
  ultimately show ?thesis using assms(1,3)
    by (auto simp: send_inv_def del_item_def intro!: list_all2_appendI split: if_splits option.splits)
qed

lemma send_identifier_inv:
  assumes "send_identifier i t acc s = (Ok acc', s')" and "send_inv s0 acc done s"
  shows "send_inv s0 acc' (done @ [(i, t)]) s'"
proof -
  consider "t = CROSS_DOMAIN_ID_TYPE_VIRTGPU_BLOB" | "t = CROSS_DOMAIN_ID_TYPE_READ_PIPE"
    | "t = CROSS_DOMAIN_ID_TYPE_VIRTIO_FS_BLOB"
    using assms(1) by (auto simp: send_identifier_def split: if_splits)
  then show ?thesis
  proof cases
    case 1
    with assms show ?thesis
      by (auto simp: send_identifier_def and_then_st_eq_Ok ok_or_eq_Ok send_inv_def sent_as_def
          intro!: list_all2_appendI split: option.splits)
  next
    case 2
    from assms(1) obtain a b d where made: "sa_write_pipe acc = None"
      "sys_pipe (cdw_sys (snd s)) (cdw_tick (snd s)) = Inr (a, b)" "clone_io (w_os (snd s)) b = Ok d"
      and run: "fst (add_item (cx_items (fst s)) (WaylandReadPipe a)) = i"
      "acc' = \<lparr>sa_descriptors = sa_descriptors acc @ [d], sa_write_pipe = Some b, sa_read_pipe_id = Some i\<rparr>"
      "s' = ((fst s)\<lparr>cx_items := snd (add_item (cx_items (fst s)) (WaylandReadPipe a))\<rparr>,
        (snd s)\<lparr>cdw_tick := Suc (cdw_tick (snd s))\<rparr>)"
      by (auto simp: 2 send_identifier_def and_then_st_eq_Ok Let_def in_world_def create_pipe_def
          sys_rres_def ask_def upd_state_def case_prod_unfold split: if_splits)
    then have "add_item (cx_items (fst s)) (WaylandReadPipe a) =
        (i, snd (add_item (cx_items (fst s)) (WaylandReadPipe a)))"
      by (simp add: prod_eq_iff)
    from send_pipe_inv [OF assms(2) made this] show ?thesis by (simp add: run 2)
  next
    case 3
    with assms(1) obtain f where "get_item (fst s) i = Some (RegularFile f)"
      "acc' = acc\<lparr>sa_descriptors := sa_descriptors acc @ [f]\<rparr>" "s' = (del_item i (fst s), snd s)"
      by (auto simp: send_identifier_def Let_def upd_state_def del_item_def case_prod_unfold
          split: option.splits cd_item.splits)
    with send_file_inv [OF assms(2) _ 3] show ?thesis by simp
  qed
qed

lemma send_identifiers_inv:
  assumes "send_identifiers its acc s = (Ok acc', s')" and "send_inv s0 acc done s"
  shows "send_inv s0 acc' (done @ its) s'"
  using assms
proof (induction its arbitrary: acc s "done")
  case (Cons p its)
  obtain i t where p: "p = (i, t)" by (cases p)
  obtain acc1 s1 where run: "send_identifier i t acc s = (Ok acc1, s1)"
    and rest: "send_identifiers its acc1 s1 = (Ok acc', s')"
    using Cons.prems(1) by (auto simp: p and_then_st_eq_Ok)
  from Cons.IH [OF rest send_identifier_inv [OF run Cons.prems(2)]] show ?case by (simp add: p)
qed simp


definition send_context :: cd_context where
  "send_context = put_item 2 (RegularFile 33) ((cd_context_new None)
     \<lparr>cx_state := Some (cd_state_new 4 4 (Some 50)), cx_resample_evt := Some 60\<rparr>)"

definition send_command :: cd_send_receive where
  "send_command = \<lparr>sr_hdr = \<lparr>hdr_cmd = 4, hdr_ring_idx = 0, hdr_cmd_size = 354, hdr_pad = 0\<rparr>,
     sr_num_identifiers = 2, sr_opaque_data_size = 2,
     sr_identifiers = [2, 0x80000001] @ replicate 26 0,
     sr_identifier_types = [CROSS_DOMAIN_ID_TYPE_VIRTIO_FS_BLOB, CROSS_DOMAIN_ID_TYPE_READ_PIPE] @
       replicate 26 0,
     sr_identifier_sizes = replicate 28 0\<rparr>"


section \<open>Sockets between contexts\<close>

lemma in_world_iff: "in_world f s = (r, s') \<longleftrightarrow> f (snd s) = (r, snd s') \<and> fst s' = fst s"
  by (cases s') (auto simp: in_world_def split: prod.splits)

lemma sockets_kept [simp]:
  "cdw_sockets (snd (sys_rres c w)) = cdw_sockets w"
  "cdw_sockets (snd (event_new w)) = cdw_sockets w"
  "cdw_sockets (snd (wait_ctx_add e t d w)) = cdw_sockets w"
  "cdw_sockets (snd (thread_spawn w)) = cdw_sockets w"
  "cdw_sockets (snd (wait_ctx_new w)) = cdw_sockets w"
proof -
  show call: "cdw_sockets (snd (sys_rres c w)) = cdw_sockets w"
    for c :: "cd_sys \<Rightarrow> nat \<Rightarrow> int + 'x" and w
    by (simp add: sys_rres_def ask_def)
  show "cdw_sockets (snd (event_new w)) = cdw_sockets w" by (simp add: event_new_def call)
  show "cdw_sockets (snd (wait_ctx_add e t d w)) = cdw_sockets w"
    using call [of "\<lambda>s tick. sys_epoll_add s tick e t d" w]
    by (auto simp: wait_ctx_add_def and_then_st_def emit_def split: prod.splits sum.splits)
  show "cdw_sockets (snd (thread_spawn w)) = cdw_sockets w"
    by (auto simp: thread_spawn_def ask_def split: sum.splits)
  show "cdw_sockets (snd (wait_ctx_new w)) = cdw_sockets w" by (simp add: wait_ctx_new_def call)
qed

lemma sockets_after:
  "sys_rres c w = (r, w') \<Longrightarrow> cdw_sockets w' = cdw_sockets w"
  "event_new w = (r1, w') \<Longrightarrow> cdw_sockets w' = cdw_sockets w"
  "wait_ctx_add e t d w = (r2, w') \<Longrightarrow> cdw_sockets w' = cdw_sockets w"
  "thread_spawn w = (r3, w') \<Longrightarrow> cdw_sockets w' = cdw_sockets w"
  "wait_ctx_new w = (r4, w') \<Longrightarrow> cdw_sockets w' = cdw_sockets w"
  using sockets_kept by (metis snd_conv)+

lemma socket_assign_uuid_ok:
  assumes "socket_assign_uuid cmd (x, w) = (Ok (), (x', w'))"
  shows "\<exists>fd. get_item x (asu_id cmd) = Some (SocketItem fd) \<and> get_item x' (asu_id cmd) = None \<and>
    fmlookup (cdw_sockets w') (of_le_bytes (asu_socket_uuid cmd)) = Some fd"
proof (cases "get_item x (asu_id cmd)")
  case None
  with assms show ?thesis by (simp add: socket_assign_uuid_def)
next
  case (Some item)
  show ?thesis
  proof (cases item)
    case (SocketItem fd)
    with assms Some have "\<exists>tube w1. tube_try_from fd w = (Ok tube, w1) \<and> x' = del_item (asu_id cmd) x \<and>
        cdw_sockets w' = fmupd (of_le_bytes (asu_socket_uuid cmd)) tube (cdw_sockets w1)"
      by (auto simp: socket_assign_uuid_def and_then_st_eq_Ok in_world_iff upd_world_def)
    then show ?thesis using Some SocketItem
      by (auto simp: tube_try_from_def and_then_st_eq_Ok del_item_def split: if_splits)
  qed (use assms Some in \<open>simp_all add: socket_assign_uuid_def Let_def\<close>)
qed

text \<open>
  Handing a socket over. When one context assigns a uuid to a socket it received, and another
  context of the component is initialized with that uuid, the second is connected to exactly that
  socket; the item is gone from the first context and the uuid is used up, so no third context can
  connect with it.
\<close>

lemma socket_handover:
  assumes "socket_assign_uuid cmd (x1, w) = (Ok (), (x1', w1))"
    and "init_channel_type ci = CROSS_DOMAIN_CHANNEL_TYPE_INTERNAL_SOCKET"
    and "init_internal_socket_uuid ci = asu_socket_uuid cmd"
    and "initialize ci (x2, w1) = (Ok (), (x2', w2))"
  shows "\<exists>fd st. get_item x1 (asu_id cmd) = Some (SocketItem fd) \<and> get_item x1' (asu_id cmd) = None \<and>
    cx_state x2' = Some st \<and> st_connection st = Some fd \<and> cx_worker x2' \<and>
    fst (get_internal_socket_connection (of_le_bytes (asu_socket_uuid cmd)) w2) =
      Err InvalidCrossDomainInternalSocketUuid"
proof -
  let ?uuid = "of_le_bytes (asu_socket_uuid cmd) :: u128"
  obtain fd where item: "get_item x1 (asu_id cmd) = Some (SocketItem fd)"
    and gone: "get_item x1' (asu_id cmd) = None" and sock: "fmlookup (cdw_sockets w1) ?uuid = Some fd"
    using socket_assign_uuid_ok [OF assms(1)] by blast
  have "\<exists>st. cx_state x2' = Some st \<and> st_connection st = Some fd \<and> cx_worker x2' \<and>
      fmlookup (cdw_sockets w2) ?uuid = None"
    using assms(2,3,4) sock
    by (auto simp: initialize_def get_internal_socket_connection_def and_then_st_eq_Ok in_world_iff
        case_prod_unfold upd_state_def upd_world_def emit_def replace_state_def cd_state_new_def
        dest!: sockets_after split: if_splits sum.splits) (metis old.unit.exhaust sum.exhaust)
  with item gone show ?thesis
    by (auto simp: get_internal_socket_connection_def)
qed

definition socket_context :: cd_context where
  "socket_context = put_item 2 (SocketItem 33) (cd_context_new None)"

definition ring_context :: cd_context where
  "ring_context = (cd_context_new None)
     \<lparr>cx_resources := fmupd 4 \<lparr>cr_handle = None, cr_backing_iovecs = None\<rparr> fmempty\<rparr>"

definition assign_command :: cd_assign_socket_uuid where
  "assign_command = \<lparr>asu_hdr = \<lparr>hdr_cmd = 13, hdr_ring_idx = 0, hdr_cmd_size = 32, hdr_pad = 0\<rparr>,
     asu_socket_uuid = replicate 16 5, asu_id = 2, asu_pad = 0\<rparr>"

definition socket_init :: cd_init where
  "socket_init = \<lparr>init_hdr = init_header 36, init_query_ring_id = 4, init_channel_ring_id = 4,
     init_channel_type = 0xffffffff, init_internal_socket_uuid = replicate 16 5\<rparr>"

section \<open>Images\<close>

text \<open>The arrays of the requirements have four entries.\<close>

definition four_planes :: "'a cd_env \<Rightarrow> bool" where
  "four_planes env \<longleftrightarrow>
     (\<forall>info w reqs w'. gralloc_get_image_memory_requirements (ce_build env) (ce_gralloc env) info w =
        (Ok reqs, w') \<longrightarrow> length (irq_strides reqs) = 4 \<and> length (irq_offsets reqs) = 4)"

text \<open>A command written to a ring is read back from the first iovec.\<close>

lemma write_command_read:
  assumes "write_to_ring m (Write cmd None) ring_id w = (Ok n, w')"
  shows "\<exists>cr iov iovs. fmlookup m ring_id = Some cr \<and> cr_backing_iovecs cr = Some (iov # iovs) \<and>
    read_mem (w_mem w') (iov_base iov) (length cmd) = cmd"
proof -
  obtain cr iov iovs where cr: "fmlookup m ring_id = Some cr" "cr_backing_iovecs cr = Some (iov # iovs)"
  proof (cases "fmlookup m ring_id")
    case None
    with assms show ?thesis by (simp add: write_to_ring_def ring_slice_def)
  next
    case (Some cr)
    then show ?thesis using assms that
      by (cases "cr_backing_iovecs cr"; cases "the (cr_backing_iovecs cr)")
        (auto simp: write_to_ring_def ring_slice_def)
  qed
  then have len: "length cmd \<le> unat (iov_len iov)" and w': "w' = write_at (iov_base iov) 0 cmd w"
    using assms by (auto simp: write_to_ring_def ring_slice_def Let_def split: if_splits)
  have "length cmd \<le> 2 ^ 64" using len unat_u64_less [of "iov_len iov"] by linarith
  from read_write_at [OF this, of "iov_base iov" w] cr w' show ?thesis by auto
qed

text \<open>The answer to an image query, and what a successful query leaves.\<close>

definition image_answer :: "image_memory_requirements \<Rightarrow> u32 \<Rightarrow> cd_image_requirements" where
  "image_answer reqs blob_id = \<lparr>cir_strides = irq_strides reqs, cir_offsets = irq_offsets reqs,
      cir_modifier = irq_modifier reqs, cir_size = irq_size reqs, cir_blob_id = blob_id,
      cir_map_info = irq_map_info reqs,
      cir_memory_idx = (case irq_vulkan_info reqs of None \<Rightarrow> -1 | Some vk \<Rightarrow> vk_memory_idx vk),
      cir_physical_device_idx = -1\<rparr>"

lemma get_image_requirements_ok:
  assumes "get_image_requirements env cmd (x, w) = (Ok (), (x', w'))"
  obtains info reqs w1 st its blob_id n where
    "gralloc_get_image_memory_requirements (ce_build env) (ce_gralloc env) info w = (Ok reqs, w1)"
    "cx_state x = Some st" "add_item (cx_items x) (ImageRequirements reqs) = (blob_id, its)"
    "write_to_ring (cx_resources x) (Write (encode_image_requirements (image_answer reqs blob_id)) None)
       (st_query_ring_id st) w1 = (Ok n, w')"
    "x' = x\<lparr>cx_items := its\<rparr>"
proof -
  let ?info = "\<lparr>ia_width = gir_width cmd, ia_height = gir_height cmd,
      ia_drm_format = DrmFormat (gir_drm_format cmd), ia_flags = gralloc_flags_new (gir_flags cmd)\<rparr>"
  obtain reqs w1 where reqs: "gralloc_get_image_memory_requirements (ce_build env) (ce_gralloc env)
      ?info w = (Ok reqs, w1)"
    using assms by (auto simp: get_image_requirements_def Let_def and_then_st_eq_Ok in_world_iff)
  obtain blob_id its where add: "add_item (cx_items x) (ImageRequirements reqs) = (blob_id, its)"
    by (cases "add_item (cx_items x) (ImageRequirements reqs)")
  obtain st where st: "cx_state x = Some st"
    using assms reqs
    by (cases "cx_state x") (auto simp: get_image_requirements_def and_then_st_eq_Ok in_world_iff)
  have "\<exists>n. in_world (write_to_ring (cx_resources x)
      (Write (encode_image_requirements (image_answer reqs blob_id)) None) (st_query_ring_id st))
      (x\<lparr>cx_items := its\<rparr>, w1) = (Ok n, (x', w'))"
    using assms reqs st add
    by (cases "irq_vulkan_info reqs")
      (auto simp: get_image_requirements_def image_answer_def and_then_st_eq_Ok in_world_iff [of
          "gralloc_get_image_memory_requirements b m i" for b m i] upd_state_def)
  then show ?thesis using that reqs st add by (auto simp: in_world_iff)
qed

text \<open>The handle behind an image blob: the one the call passes, or a new one from the gralloc.\<close>

definition backing_handle ::
  "'a cd_env \<Rightarrow> image_memory_requirements \<Rightarrow> rutabaga_handle option \<Rightarrow> 'a cd_world_scheme \<Rightarrow>
   rutabaga_handle rres \<times> 'a cd_world_scheme" where
  "backing_handle env reqs handle_opt v =
     (case handle_opt of
        Some handle \<Rightarrow> (Ok handle, v)
      | None \<Rightarrow> apfst (map_sum id MagmaGpuHandle)
          (gralloc_allocate_memory (ce_build env) (ce_gralloc env) reqs v))"

lemma image_blob:
  assumes "get_item x (ucast (cb_blob_id rcb)) = Some (ImageRequirements reqs)"
  shows "cd_context_create_blob env i rcb handle_opt (x, v) =
    (if cb_size rcb \<noteq> irq_size reqs
     then (Err (MagmaGpuError (WithContext ''blob size mismatch'')), (x, v))
     else case backing_handle env reqs handle_opt v of
       (Inr handle, v') \<Rightarrow>
         (Ok (blob_resource i rcb handle (irq_map_info reqs OR RUTABAGA_MAP_ACCESS_RW)
           (Some (requirements_3d_info reqs)) (irq_vulkan_info reqs)), (x, v'))
     | (Inl e, v') \<Rightarrow> (Inl e, (x, v')))"
  using assms
  by (auto simp: cd_context_create_blob_def backing_handle_def in_world_def and_then_st_def
      split: option.split prod.split sum.split)

text \<open>
  C22. From the requirements of an image to a blob. When the query succeeds, the guest reads from its
  query ring an answer that carries the layout computed by the gralloc and a blob id. Creating a blob
  with that id and the size of the answer, in any later world and as often as the guest likes, gives
  a resource with exactly the layout that was answered: backed by the handle that the call passes, or,
  when it passes none, by one that the gralloc allocates for these requirements; a failed allocation
  is the error of the call. Any other size is refused and nothing is allocated. The item stays.
\<close>

theorem image_blob_roundtrip:
  assumes "get_image_requirements env cmd (x, w) = (Ok (), (x', w'))" and "four_planes env"
  shows "\<exists>st iov iovs cr (reqs :: image_memory_requirements) answer. cx_state x = Some st \<and>
    fmlookup (cx_resources x) (st_query_ring_id st) = Some cr \<and>
    cr_backing_iovecs cr = Some (iov # iovs) \<and>
    answer = decode_image_requirements (read_mem (w_mem w') (iov_base iov) 64) \<and>
    cir_size answer = irq_size reqs \<and> cir_strides answer = irq_strides reqs \<and>
    cir_offsets answer = irq_offsets reqs \<and> cir_modifier answer = irq_modifier reqs \<and>
    (\<forall>i rcb handle_opt v. ucast (cb_blob_id rcb) = cir_blob_id answer \<longrightarrow>
       cd_context_create_blob env i rcb handle_opt (x', v) =
         (if cb_size rcb \<noteq> cir_size answer
          then (Err (MagmaGpuError (WithContext ''blob size mismatch'')), (x', v))
          else case backing_handle env reqs handle_opt v of
            (Inr handle, v') \<Rightarrow>
              (Ok (blob_resource i rcb handle (irq_map_info reqs OR RUTABAGA_MAP_ACCESS_RW)
                (Some \<lparr>i3d_width = ia_width (irq_info reqs), i3d_height = ia_height (irq_info reqs),
                   i3d_drm_fourcc = drm_code (ia_drm_format (irq_info reqs)),
                   i3d_strides = cir_strides answer, i3d_offsets = cir_offsets answer,
                   i3d_modifier = cir_modifier answer\<rparr>) (irq_vulkan_info reqs)), (x', v'))
          | (Inl e, v') \<Rightarrow> (Inl e, (x', v'))))"
proof -
  obtain info reqs w1 st its blob_id n
    where reqs: "gralloc_get_image_memory_requirements (ce_build env) (ce_gralloc env) info w = (Ok reqs, w1)"
      and st: "cx_state x = Some st"
      and add: "add_item (cx_items x) (ImageRequirements reqs) = (blob_id, its)"
      and wr: "write_to_ring (cx_resources x)
        (Write (encode_image_requirements (image_answer reqs blob_id)) None) (st_query_ring_id st) w1 = (Ok n, w')"
      and x': "x' = x\<lparr>cx_items := its\<rparr>"
    using get_image_requirements_ok [OF assms(1)] .
  have wf: "wf_image_requirements (image_answer reqs blob_id)"
    using assms(2) reqs unfolding four_planes_def wf_image_requirements_def image_answer_def by auto
  obtain cr iov iovs where cr: "fmlookup (cx_resources x) (st_query_ring_id st) = Some cr"
    "cr_backing_iovecs cr = Some (iov # iovs)"
    and mem: "read_mem (w_mem w') (iov_base iov) 64 = encode_image_requirements (image_answer reqs blob_id)"
    using write_command_read [OF wr] wf by auto
  have answer: "decode_image_requirements (read_mem (w_mem w') (iov_base iov) 64) = image_answer reqs blob_id"
    using image_requirements_wire(2) [OF wf, of "[]"] by (simp add: mem)
  have item: "get_item x' blob_id = Some (ImageRequirements reqs)"
    using add_item_lookup [OF add] by (simp add: x')
  show ?thesis
    by (rule exI [of _ st], rule exI [of _ iov], rule exI [of _ iovs], rule exI [of _ cr],
        rule exI [of _ reqs], rule exI [of _ "image_answer reqs blob_id"])
      (auto simp: st cr answer item image_blob image_answer_def requirements_3d_info_def
        split: prod.split sum.split)
qed

lemma some_env_four_planes: "four_planes some_env"
proof -
  have "determine_optimal_backend (ce_build some_env) (ce_gralloc some_env) = System"
    by (simp add: determine_optimal_backend_def some_env_def)
  then show ?thesis
    by (auto simp: four_planes_def gralloc_get_image_memory_requirements_def some_env_def
        and_then_st_eq_Ok system_gralloc_def gralloc_defaults_def and_then_eq_Ok
        system_get_image_memory_requirements_def dest: canonical_lengths)
qed

definition image_context :: cd_context where
  "image_context = (cd_context_new None)
     \<lparr>cx_state := Some (cd_state_new 4 4 None),
      cx_resources := fmupd 4 \<lparr>cr_handle = None,
        cr_backing_iovecs = Some [\<lparr>iov_base = 4096, iov_len = 4096\<rparr>]\<rparr> fmempty\<rparr>"

definition image_query :: cd_get_image_requirements where
  "image_query = \<lparr>gir_hdr = \<lparr>hdr_cmd = 2, hdr_ring_idx = 0, hdr_cmd_size = 24, hdr_pad = 0\<rparr>,
     gir_width = 10, gir_height = 10, gir_drm_format = drm_code (drm_format_new 0x52 0x38 0x20 0x20),
     gir_flags = 0\<rparr>"

lemma image_blob_roundtrip_witness:
  "\<exists>x' w'. get_image_requirements some_env image_query (image_context, some_cd_world) = (Ok (), (x', w')) \<and>
     (\<exists>st iov iovs cr. cx_state image_context = Some st \<and>
        fmlookup (cx_resources image_context) (st_query_ring_id st) = Some cr \<and>
        cr_backing_iovecs cr = Some (iov # iovs))"
proof -
  obtain r x' w' where run:
    "get_image_requirements some_env image_query (image_context, some_cd_world) = (r, (x', w'))"
    by (cases "get_image_requirements some_env image_query (image_context, some_cd_world)") auto
  let ?info = "\<lparr>ia_width = 10, ia_height = 10, ia_drm_format = drm_format_new 0x52 0x38 0x20 0x20,
      ia_flags = gralloc_flags_new 0\<rparr>"
  have "planar_layout_of (ia_drm_format ?info) = Ok PACKED_1BPP"
    by (simp add: planar_layout_of_def drm_to_bytes_new drm_format_defs byte_string_def Let_def)
  then obtain low where "canonical_image_requirements ?info = Ok low" "irq_size low = 100"
    by (simp add: canonical_image_requirements_def PACKED_1BPP_def stride_from_layout_def checked_defs)
  moreover have "round_up_to_page_size (w_os some_world) 100 = Ok 4096"
    by (simp add: round_up_to_page_size_def some_world_def Let_def)
  ultimately obtain reqs where reqs: "gralloc_get_image_memory_requirements (ce_build some_env)
      (ce_gralloc some_env) ?info some_cd_world = (Ok reqs, some_cd_world)"
    by (simp add: gralloc_get_image_memory_requirements_def some_env_def determine_optimal_backend_def
        system_gralloc_def gralloc_defaults_def system_get_image_memory_requirements_def)
  then have four: "length (irq_strides reqs) = 4" "length (irq_offsets reqs) = 4"
    using some_env_four_planes unfolding four_planes_def by blast+
  have "r = Ok ()"
    using run reqs four
    by (cases "irq_vulkan_info reqs")
      (auto simp: get_image_requirements_def image_query_def image_context_def in_world_eq
        cd_state_new_def write_to_ring_def ring_slice_def wf_image_requirements_def
        case_prod_unfold Let_def)
  from image_blob_roundtrip [OF run [unfolded this] some_env_four_planes] run this show ?thesis
    by blast
qed

text \<open>
  Item ids and event tokens collide. The first item of a context that is not a read pipe has id
  2, which is the worker's token for its resample event: when the guest asks to poll an event of that
  id, the descriptor is registered under the resample token, and when it fires, the worker waits for
  the resample event and puts the fence back, without reading the event or telling the guest.
\<close>

lemma event_token_collision:
  fixes w :: "'a cd_world_scheme"
  assumes "run_job wk (AddReadEvent 2) ((st, x), w) = (Ok True, ((st', x'), w'))"
  shows "(\<exists>evt. get_item x 2 = Some (EventItem evt) \<and>
      cdw_log w' = cdw_log w @ [EpollAdded (wk_wait_ctx wk) CROSS_DOMAIN_RESAMPLE_ID evt]) \<and>
    (is_read_pipe item \<or> fst (add_item cd_items_default item) = 2) \<and>
    (\<forall>fence (s :: 'a wk_st) s1 event rest v s2.
       in_world (wait_ctx_wait (wk_wait_ctx wk)) s = (Ok (event # rest), s1) \<and>
       ev_connection_id event = CROSS_DOMAIN_RESAMPLE_ID \<and>
       in_world (event_wait (wk_resample_evt wk)) s1 = (Ok v, s2) \<longrightarrow>
       handle_fence wk fence s = (Ok (), wk_job (HandleFence fence) s2))"
proof -
  have "\<exists>evt. get_item x 2 = Some (EventItem evt) \<and>
      cdw_log w' = cdw_log w @ [EpollAdded (wk_wait_ctx wk) CROSS_DOMAIN_RESAMPLE_ID evt]"
  proof (cases "get_item x 2")
    case None
    with assms show ?thesis by (simp add: run_job_def)
  next
    case (Some it)
    with assms show ?thesis
      by (cases it) (auto simp: run_job_def and_then_st_eq_Ok in_world_iff wait_ctx_add_def emit_def)
  qed
  moreover have "is_read_pipe item \<or> fst (add_item cd_items_default item) = 2"
    by (cases item) (simp_all add: is_read_pipe_def add_item_def cd_items_default_def)
  ultimately show ?thesis by (auto simp: handle_fence_def)
qed

section \<open>Fences\<close>

text \<open>
  C20. What one attempt of the worker does with a fence. After a success the fence was signalled, once
  and last, or it is back at the end of the queue, or the poll reported no event at all; the other
  fences are not touched. After an error no fence was signalled or queued by the attempt: the one in
  hand is lost with the worker.
\<close>

theorem handle_fence_outcome:
  assumes "handle_fence wk fence ((st, x), w) = (r, ((st', x'), w'))"
  shows "if r = Ok ()
    then w_fences w' = w_fences w @ [fence] \<and> st' = st \<or>
      w_fences w' = w_fences w \<and> st' = add_job (HandleFence fence) st \<or>
      fst (wait_ctx_wait (wk_wait_ctx wk) w) = Ok [] \<and> w_fences w' = w_fences w \<and> st' = st
    else w_fences w' = w_fences w \<and> st' = st"
proof -
  have "untouched x (w_fences w) st ((st, x), w)" by (simp add: untouched_def owner_kept_def)
  from handle_fence_post [OF this, of wk fence] assms show ?thesis
    by (auto simp: post_def signalled_def requeued_def untouched_def split: sum.splits)
qed

definition some_worker :: cd_worker where
  "some_worker = \<lparr>wk_wait_ctx = 90, wk_kill_evt = 92, wk_resample_evt = 91\<rparr>"

definition some_fence :: rutabaga_fence where
  "some_fence = \<lparr>fence_flags = 0, fence_id = 7, fence_ctx_id = 1, fence_ring_idx = 0\<rparr>"

lemma handle_fence_outcome_witness:
  "\<exists>r st' x' w'. handle_fence some_worker some_fence
      ((cd_state_new 4 4 None, cd_context_new None), some_cd_world) = (r, ((st', x'), w')) \<and>
    r = Err InvalidCrossDomainChannel \<and> w_fences w' = []"
proof -
  let ?s = "((cd_state_new 4 4 None, cd_context_new None), some_cd_world)"
  obtain r st' x' w' where run: "handle_fence some_worker some_fence ?s = (r, ((st', x'), w'))"
    by (cases "handle_fence some_worker some_fence ?s") auto
  then have "r = Err InvalidCrossDomainChannel"
    by (auto simp: handle_fence_def wait_ctx_wait_def sys_rres_def ask_def some_sys_def in_world_def
        wait_event_of_def process_receive_def receive_msg_def cd_state_new_def)
  with handle_fence_outcome [OF run] run show ?thesis by auto
qed

text \<open>
  C19. No fence is ever signalled twice. However the guest's calls on a context are interleaved with the
  turns of its workers (also the ones that a second init leaves behind), the signalled fences and
  the queued ones together are at most the ones there were plus one for each fence submitted.
\<close>

theorem fences_at_most_once:
  assumes "env_quiet env" and "cd_run env s0 fs s"
  shows "mset (w_fences (snd s)) + queued_fences (fst s) \<subseteq>#
    mset (w_fences (snd s0)) + queued_fences (fst s0) + mset fs"
  using cd_run_bounded [OF assms] by (simp add: bounded_def fences_of_def)

lemma some_env_quiet: "env_quiet some_env"
proof -
  have "determine_optimal_backend (ce_build some_env) (ce_gralloc some_env) = System"
    by (simp add: determine_optimal_backend_def some_env_def)
  then show ?thesis
    by (auto simp: env_quiet_def gralloc_get_image_memory_requirements_def gralloc_allocate_memory_def
        some_env_def system_gralloc_def gralloc_defaults_def system_get_image_memory_requirements_def
        system_allocate_memory_def and_then_st_def split: prod.splits sum.splits option.splits)
qed

lemma fences_at_most_once_witness:
  "\<exists>s. cd_run some_env (cd_context_new None, some_cd_world) [some_fence] s \<and>
     w_fences (snd s) = [some_fence] \<and>
     mset (w_fences (snd s)) + queued_fences (fst s) \<subseteq># {#some_fence#}"
proof -
  let ?s0 = "(cd_context_new None, some_cd_world)"
  obtain r s where call: "cd_context_create_fence some_fence ?s0 = (r, s)"
    by (cases "cd_context_create_fence some_fence ?s0")
  then have run: "cd_run some_env ?s0 ([] @ [some_fence]) s" by (rule run_fence [OF run_start])
  have "w_fences (snd s) = [some_fence]"
    using call by (auto simp: cd_context_create_fence_def some_fence_def fence_handler_call_def)
  moreover have "mset (w_fences (snd s)) + queued_fences (fst s) \<subseteq># {#some_fence#}"
    using fences_at_most_once [OF some_env_quiet run] by (simp add: queued_fences_def cd_context_new_def)
  ultimately show ?thesis using run by (intro exI [of _ s]) simp
qed

end
