(* ===== verification/Kumquat_Protocol.thy ===== *)
theory Kumquat_Protocol
  imports CD_Common
begin

text \<open>
  The protocol between a Kumquat client and the server: the structs and messages of
  \<open>protocols/kumquat_gpu_protocol/mod.rs\<close>, the byte reader and writer of
  \<open>util/bytestream/mod.rs\<close>, and the stream of \<open>protocols/ipc/kumquat_stream.rs\<close> over a socket,
  all of the mesa crate under \<open>src/third_party\<close>. The structs are \<open>repr(C)\<close>; as for those of the
  cross-domain protocol, \<open>_bytes\<close> and \<open>_of\<close> are the memory image that this fixes, which the code
  writes and reads through derived traits.
\<close>

section \<open>Constants and structs\<close>

definition KUMQUAT_GPU_PROTOCOL_RESOURCE_UNREF :: u32 where
  [simp]: "KUMQUAT_GPU_PROTOCOL_RESOURCE_UNREF = 0x100"
definition KUMQUAT_GPU_PROTOCOL_GET_NUM_CAPSETS :: u32 where
  [simp]: "KUMQUAT_GPU_PROTOCOL_GET_NUM_CAPSETS = 0x101"
definition KUMQUAT_GPU_PROTOCOL_GET_CAPSET_INFO :: u32 where
  [simp]: "KUMQUAT_GPU_PROTOCOL_GET_CAPSET_INFO = 0x102"
definition KUMQUAT_GPU_PROTOCOL_GET_CAPSET :: u32 where
  [simp]: "KUMQUAT_GPU_PROTOCOL_GET_CAPSET = 0x103"
definition KUMQUAT_GPU_PROTOCOL_RESOURCE_CREATE_BLOB :: u32 where
  [simp]: "KUMQUAT_GPU_PROTOCOL_RESOURCE_CREATE_BLOB = 0x104"
definition KUMQUAT_GPU_PROTOCOL_CTX_CREATE :: u32 where
  [simp]: "KUMQUAT_GPU_PROTOCOL_CTX_CREATE = 0x200"
definition KUMQUAT_GPU_PROTOCOL_CTX_DESTROY :: u32 where
  [simp]: "KUMQUAT_GPU_PROTOCOL_CTX_DESTROY = 0x201"
definition KUMQUAT_GPU_PROTOCOL_CTX_ATTACH_RESOURCE :: u32 where
  [simp]: "KUMQUAT_GPU_PROTOCOL_CTX_ATTACH_RESOURCE = 0x202"
definition KUMQUAT_GPU_PROTOCOL_CTX_DETACH_RESOURCE :: u32 where
  [simp]: "KUMQUAT_GPU_PROTOCOL_CTX_DETACH_RESOURCE = 0x203"
definition KUMQUAT_GPU_PROTOCOL_RESOURCE_CREATE_3D :: u32 where
  [simp]: "KUMQUAT_GPU_PROTOCOL_RESOURCE_CREATE_3D = 0x204"
definition KUMQUAT_GPU_PROTOCOL_TRANSFER_TO_HOST_3D :: u32 where
  [simp]: "KUMQUAT_GPU_PROTOCOL_TRANSFER_TO_HOST_3D = 0x205"
definition KUMQUAT_GPU_PROTOCOL_TRANSFER_FROM_HOST_3D :: u32 where
  [simp]: "KUMQUAT_GPU_PROTOCOL_TRANSFER_FROM_HOST_3D = 0x206"
definition KUMQUAT_GPU_PROTOCOL_SUBMIT_3D :: u32 where
  [simp]: "KUMQUAT_GPU_PROTOCOL_SUBMIT_3D = 0x207"
definition KUMQUAT_GPU_PROTOCOL_RESOURCE_MAP_BLOB :: u32 where
  [simp]: "KUMQUAT_GPU_PROTOCOL_RESOURCE_MAP_BLOB = 0x208"
definition KUMQUAT_GPU_PROTOCOL_RESOURCE_UNMAP_BLOB :: u32 where
  [simp]: "KUMQUAT_GPU_PROTOCOL_RESOURCE_UNMAP_BLOB = 0x209"
definition KUMQUAT_GPU_PROTOCOL_SNAPSHOT_SAVE :: u32 where
  [simp]: "KUMQUAT_GPU_PROTOCOL_SNAPSHOT_SAVE = 0x208"
definition KUMQUAT_GPU_PROTOCOL_SNAPSHOT_RESTORE :: u32 where
  [simp]: "KUMQUAT_GPU_PROTOCOL_SNAPSHOT_RESTORE = 0x209"
definition KUMQUAT_GPU_PROTOCOL_RESP_NODATA :: u32 where
  [simp]: "KUMQUAT_GPU_PROTOCOL_RESP_NODATA = 0x3001"
definition KUMQUAT_GPU_PROTOCOL_RESP_NUM_CAPSETS :: u32 where
  [simp]: "KUMQUAT_GPU_PROTOCOL_RESP_NUM_CAPSETS = 0x3002"
definition KUMQUAT_GPU_PROTOCOL_RESP_CAPSET_INFO :: u32 where
  [simp]: "KUMQUAT_GPU_PROTOCOL_RESP_CAPSET_INFO = 0x3003"
definition KUMQUAT_GPU_PROTOCOL_RESP_CAPSET :: u32 where
  [simp]: "KUMQUAT_GPU_PROTOCOL_RESP_CAPSET = 0x3004"
definition KUMQUAT_GPU_PROTOCOL_RESP_CONTEXT_CREATE :: u32 where
  [simp]: "KUMQUAT_GPU_PROTOCOL_RESP_CONTEXT_CREATE = 0x3005"
definition KUMQUAT_GPU_PROTOCOL_RESP_RESOURCE_CREATE :: u32 where
  [simp]: "KUMQUAT_GPU_PROTOCOL_RESP_RESOURCE_CREATE = 0x3006"
definition KUMQUAT_GPU_PROTOCOL_RESP_CMD_SUBMIT_3D :: u32 where
  [simp]: "KUMQUAT_GPU_PROTOCOL_RESP_CMD_SUBMIT_3D = 0x3007"
definition KUMQUAT_GPU_PROTOCOL_RESP_OK_SNAPSHOT :: u32 where
  [simp]: "KUMQUAT_GPU_PROTOCOL_RESP_OK_SNAPSHOT = 0x3008"

record kq_hdr =
  kh_type :: u32
  kh_payload :: u32

definition kq_hdr_bytes :: "kq_hdr \<Rightarrow> u8 list" where
  "kq_hdr_bytes x =
     le_bytes 4 (kh_type x) @ le_bytes 4 (kh_payload x)"

definition kq_hdr_of :: "u8 list \<Rightarrow> kq_hdr" where
  "kq_hdr_of bs =
     \<lparr>kh_type = le_at 0 4 bs, kh_payload = le_at 4 4 bs\<rparr>"

lemma kq_hdr_wire [simp]:
  "length (kq_hdr_bytes x) = 8"
  "kq_hdr_of (kq_hdr_bytes x @ rest) = x"
  by (simp_all add: kq_hdr_bytes_def kq_hdr_of_def)

record kq_box =
  kb_x :: u32
  kb_y :: u32
  kb_z :: u32
  kb_w :: u32
  kb_h :: u32
  kb_d :: u32

definition kq_box_bytes :: "kq_box \<Rightarrow> u8 list" where
  "kq_box_bytes x =
     le_bytes 4 (kb_x x) @ le_bytes 4 (kb_y x) @ le_bytes 4 (kb_z x) @
     le_bytes 4 (kb_w x) @ le_bytes 4 (kb_h x) @ le_bytes 4 (kb_d x)"

definition kq_box_of :: "u8 list \<Rightarrow> kq_box" where
  "kq_box_of bs =
     \<lparr>kb_x = le_at 0 4 bs, kb_y = le_at 4 4 bs, kb_z = le_at 8 4 bs,
      kb_w = le_at 12 4 bs, kb_h = le_at 16 4 bs, kb_d = le_at 20 4 bs\<rparr>"

lemma kq_box_wire [simp]:
  "length (kq_box_bytes x) = 24"
  "kq_box_of (kq_box_bytes x @ rest) = x"
  by (simp_all add: kq_box_bytes_def kq_box_of_def)

record kq_transfer =
  kt_hdr :: kq_hdr
  kt_box :: kq_box
  kt_offset :: u64
  kt_level :: u32
  kt_stride :: u32
  kt_layer_stride :: u32
  kt_ctx_id :: u32
  kt_resource_id :: u32
  kt_padding :: u32

definition kq_transfer_bytes :: "kq_transfer \<Rightarrow> u8 list" where
  "kq_transfer_bytes x =
     kq_hdr_bytes (kt_hdr x) @ kq_box_bytes (kt_box x) @ le_bytes 8 (kt_offset x) @
     le_bytes 4 (kt_level x) @ le_bytes 4 (kt_stride x) @ le_bytes 4 (kt_layer_stride x) @
     le_bytes 4 (kt_ctx_id x) @ le_bytes 4 (kt_resource_id x) @ le_bytes 4 (kt_padding x)"

definition kq_transfer_of :: "u8 list \<Rightarrow> kq_transfer" where
  "kq_transfer_of bs =
     \<lparr>kt_hdr = kq_hdr_of bs, kt_box = kq_box_of (drop 8 bs),
      kt_offset = le_at 32 8 bs, kt_level = le_at 40 4 bs, kt_stride = le_at 44 4 bs,
      kt_layer_stride = le_at 48 4 bs, kt_ctx_id = le_at 52 4 bs,
      kt_resource_id = le_at 56 4 bs, kt_padding = le_at 60 4 bs\<rparr>"

lemma kq_transfer_wire [simp]:
  "length (kq_transfer_bytes x) = 64"
  "kq_transfer_of (kq_transfer_bytes x @ rest) = x"
  by (simp_all add: kq_transfer_bytes_def kq_transfer_of_def)

record kq_create_3d =
  kc_hdr :: kq_hdr
  kc_target :: u32
  kc_format :: u32
  kc_bind :: u32
  kc_width :: u32
  kc_height :: u32
  kc_depth :: u32
  kc_array_size :: u32
  kc_last_level :: u32
  kc_nr_samples :: u32
  kc_flags :: u32
  kc_size :: u32
  kc_stride :: u32
  kc_ctx_id :: u32

definition kq_create_3d_bytes :: "kq_create_3d \<Rightarrow> u8 list" where
  "kq_create_3d_bytes x =
     kq_hdr_bytes (kc_hdr x) @ le_bytes 4 (kc_target x) @ le_bytes 4 (kc_format x) @
     le_bytes 4 (kc_bind x) @ le_bytes 4 (kc_width x) @ le_bytes 4 (kc_height x) @
     le_bytes 4 (kc_depth x) @ le_bytes 4 (kc_array_size x) @
     le_bytes 4 (kc_last_level x) @ le_bytes 4 (kc_nr_samples x) @
     le_bytes 4 (kc_flags x) @ le_bytes 4 (kc_size x) @ le_bytes 4 (kc_stride x) @
     le_bytes 4 (kc_ctx_id x)"

definition kq_create_3d_of :: "u8 list \<Rightarrow> kq_create_3d" where
  "kq_create_3d_of bs =
     \<lparr>kc_hdr = kq_hdr_of bs, kc_target = le_at 8 4 bs, kc_format = le_at 12 4 bs,
      kc_bind = le_at 16 4 bs, kc_width = le_at 20 4 bs, kc_height = le_at 24 4 bs,
      kc_depth = le_at 28 4 bs, kc_array_size = le_at 32 4 bs,
      kc_last_level = le_at 36 4 bs, kc_nr_samples = le_at 40 4 bs,
      kc_flags = le_at 44 4 bs, kc_size = le_at 48 4 bs, kc_stride = le_at 52 4 bs,
      kc_ctx_id = le_at 56 4 bs\<rparr>"

lemma kq_create_3d_wire [simp]:
  "length (kq_create_3d_bytes x) = 60"
  "kq_create_3d_of (kq_create_3d_bytes x @ rest) = x"
  by (simp_all add: kq_create_3d_bytes_def kq_create_3d_of_def)

record kq_ctx_create =
  kx_hdr :: kq_hdr
  kx_nlen :: u32
  kx_context_init :: u32
  kx_debug_name :: "u8 list"

definition kq_ctx_create_bytes :: "kq_ctx_create \<Rightarrow> u8 list" where
  "kq_ctx_create_bytes x =
     kq_hdr_bytes (kx_hdr x) @ le_bytes 4 (kx_nlen x) @ le_bytes 4 (kx_context_init x) @
     kx_debug_name x"

definition kq_ctx_create_of :: "u8 list \<Rightarrow> kq_ctx_create" where
  "kq_ctx_create_of bs =
     \<lparr>kx_hdr = kq_hdr_of bs, kx_nlen = le_at 8 4 bs,
      kx_context_init = le_at 12 4 bs, kx_debug_name = bytes_at 16 64 bs\<rparr>"

definition kq_ctx_create_wf :: "kq_ctx_create \<Rightarrow> bool" where
  "kq_ctx_create_wf x \<longleftrightarrow> length (kx_debug_name x) = 64"

lemma kq_ctx_create_wire [simp]:
  "kq_ctx_create_wf x \<Longrightarrow> length (kq_ctx_create_bytes x) = 80"
  "kq_ctx_create_wf x \<Longrightarrow> kq_ctx_create_of (kq_ctx_create_bytes x @ rest) = x"
  by (simp_all add: kq_ctx_create_bytes_def kq_ctx_create_of_def kq_ctx_create_wf_def)

record kq_ctx_resource =
  kr_hdr :: kq_hdr
  kr_ctx_id :: u32
  kr_resource_id :: u32

definition kq_ctx_resource_bytes :: "kq_ctx_resource \<Rightarrow> u8 list" where
  "kq_ctx_resource_bytes x =
     kq_hdr_bytes (kr_hdr x) @ le_bytes 4 (kr_ctx_id x) @ le_bytes 4 (kr_resource_id x)"

definition kq_ctx_resource_of :: "u8 list \<Rightarrow> kq_ctx_resource" where
  "kq_ctx_resource_of bs =
     \<lparr>kr_hdr = kq_hdr_of bs, kr_ctx_id = le_at 8 4 bs,
      kr_resource_id = le_at 12 4 bs\<rparr>"

lemma kq_ctx_resource_wire [simp]:
  "length (kq_ctx_resource_bytes x) = 16"
  "kq_ctx_resource_of (kq_ctx_resource_bytes x @ rest) = x"
  by (simp_all add: kq_ctx_resource_bytes_def kq_ctx_resource_of_def)

record kq_submit =
  ks_hdr :: kq_hdr
  ks_ctx_id :: u32
  ks_pad :: u32
  ks_size :: u32
  ks_num_in_fences :: u32
  ks_flags :: u32
  ks_ring_idx :: u8
  ks_padding :: "u8 list"

definition kq_submit_bytes :: "kq_submit \<Rightarrow> u8 list" where
  "kq_submit_bytes x =
     kq_hdr_bytes (ks_hdr x) @ le_bytes 4 (ks_ctx_id x) @ le_bytes 4 (ks_pad x) @
     le_bytes 4 (ks_size x) @ le_bytes 4 (ks_num_in_fences x) @ le_bytes 4 (ks_flags x) @
     le_bytes 1 (ks_ring_idx x) @ ks_padding x"

definition kq_submit_of :: "u8 list \<Rightarrow> kq_submit" where
  "kq_submit_of bs =
     \<lparr>ks_hdr = kq_hdr_of bs, ks_ctx_id = le_at 8 4 bs, ks_pad = le_at 12 4 bs,
      ks_size = le_at 16 4 bs, ks_num_in_fences = le_at 20 4 bs, ks_flags = le_at 24 4 bs,
      ks_ring_idx = le_at 28 1 bs, ks_padding = bytes_at 29 3 bs\<rparr>"

definition kq_submit_wf :: "kq_submit \<Rightarrow> bool" where
  "kq_submit_wf x \<longleftrightarrow> length (ks_padding x) = 3"

lemma kq_submit_wire [simp]:
  "kq_submit_wf x \<Longrightarrow> length (kq_submit_bytes x) = 32"
  "kq_submit_wf x \<Longrightarrow> kq_submit_of (kq_submit_bytes x @ rest) = x"
  by (simp_all add: kq_submit_bytes_def kq_submit_of_def kq_submit_wf_def)

record kq_capset_info =
  ki_hdr :: kq_hdr
  ki_capset_id :: u32
  ki_version :: u32
  ki_size :: u32
  ki_padding :: u32

definition kq_capset_info_bytes :: "kq_capset_info \<Rightarrow> u8 list" where
  "kq_capset_info_bytes x =
     kq_hdr_bytes (ki_hdr x) @ le_bytes 4 (ki_capset_id x) @ le_bytes 4 (ki_version x) @
     le_bytes 4 (ki_size x) @ le_bytes 4 (ki_padding x)"

definition kq_capset_info_of :: "u8 list \<Rightarrow> kq_capset_info" where
  "kq_capset_info_of bs =
     \<lparr>ki_hdr = kq_hdr_of bs, ki_capset_id = le_at 8 4 bs,
      ki_version = le_at 12 4 bs, ki_size = le_at 16 4 bs,
      ki_padding = le_at 20 4 bs\<rparr>"

lemma kq_capset_info_wire [simp]:
  "length (kq_capset_info_bytes x) = 24"
  "kq_capset_info_of (kq_capset_info_bytes x @ rest) = x"
  by (simp_all add: kq_capset_info_bytes_def kq_capset_info_of_def)

record kq_get_capset =
  kg_hdr :: kq_hdr
  kg_capset_id :: u32
  kg_capset_version :: u32

definition kq_get_capset_bytes :: "kq_get_capset \<Rightarrow> u8 list" where
  "kq_get_capset_bytes x =
     kq_hdr_bytes (kg_hdr x) @ le_bytes 4 (kg_capset_id x) @
     le_bytes 4 (kg_capset_version x)"

definition kq_get_capset_of :: "u8 list \<Rightarrow> kq_get_capset" where
  "kq_get_capset_of bs =
     \<lparr>kg_hdr = kq_hdr_of bs, kg_capset_id = le_at 8 4 bs,
      kg_capset_version = le_at 12 4 bs\<rparr>"

lemma kq_get_capset_wire [simp]:
  "length (kq_get_capset_bytes x) = 16"
  "kq_get_capset_of (kq_get_capset_bytes x @ rest) = x"
  by (simp_all add: kq_get_capset_bytes_def kq_get_capset_of_def)

record kq_create_blob =
  kl_hdr :: kq_hdr
  kl_ctx_id :: u32
  kl_blob_mem :: u32
  kl_blob_flags :: u32
  kl_padding :: u32
  kl_blob_id :: u64
  kl_size :: u64

definition kq_create_blob_bytes :: "kq_create_blob \<Rightarrow> u8 list" where
  "kq_create_blob_bytes x =
     kq_hdr_bytes (kl_hdr x) @ le_bytes 4 (kl_ctx_id x) @ le_bytes 4 (kl_blob_mem x) @
     le_bytes 4 (kl_blob_flags x) @ le_bytes 4 (kl_padding x) @ le_bytes 8 (kl_blob_id x) @
     le_bytes 8 (kl_size x)"

definition kq_create_blob_of :: "u8 list \<Rightarrow> kq_create_blob" where
  "kq_create_blob_of bs =
     \<lparr>kl_hdr = kq_hdr_of bs, kl_ctx_id = le_at 8 4 bs, kl_blob_mem = le_at 12 4 bs,
      kl_blob_flags = le_at 16 4 bs, kl_padding = le_at 20 4 bs,
      kl_blob_id = le_at 24 8 bs, kl_size = le_at 32 8 bs\<rparr>"

lemma kq_create_blob_wire [simp]:
  "length (kq_create_blob_bytes x) = 40"
  "kq_create_blob_of (kq_create_blob_bytes x @ rest) = x"
  by (simp_all add: kq_create_blob_bytes_def kq_create_blob_of_def)

record kq_device_id =
  kd_device_uuid :: "u8 list"
  kd_driver_uuid :: "u8 list"

definition kq_device_id_bytes :: "kq_device_id \<Rightarrow> u8 list" where
  "kq_device_id_bytes x =
     kd_device_uuid x @ kd_driver_uuid x"

definition kq_device_id_of :: "u8 list \<Rightarrow> kq_device_id" where
  "kq_device_id_of bs =
     \<lparr>kd_device_uuid = bytes_at 0 16 bs, kd_driver_uuid = bytes_at 16 16 bs\<rparr>"

definition kq_device_id_wf :: "kq_device_id \<Rightarrow> bool" where
  "kq_device_id_wf x \<longleftrightarrow> length (kd_device_uuid x) = 16 \<and> length (kd_driver_uuid x) = 16"

lemma kq_device_id_wire [simp]:
  "kq_device_id_wf x \<Longrightarrow> length (kq_device_id_bytes x) = 32"
  "kq_device_id_wf x \<Longrightarrow> kq_device_id_of (kq_device_id_bytes x @ rest) = x"
  by (simp_all add: kq_device_id_bytes_def kq_device_id_of_def kq_device_id_wf_def)

record kq_vulkan_info =
  kv_memory_idx :: u32
  kv_device_id :: kq_device_id

definition kq_vulkan_info_bytes :: "kq_vulkan_info \<Rightarrow> u8 list" where
  "kq_vulkan_info_bytes x =
     le_bytes 4 (kv_memory_idx x) @ kq_device_id_bytes (kv_device_id x)"

definition kq_vulkan_info_of :: "u8 list \<Rightarrow> kq_vulkan_info" where
  "kq_vulkan_info_of bs =
     \<lparr>kv_memory_idx = le_at 0 4 bs,
      kv_device_id = kq_device_id_of (drop 4 bs)\<rparr>"

definition kq_vulkan_info_wf :: "kq_vulkan_info \<Rightarrow> bool" where
  "kq_vulkan_info_wf x \<longleftrightarrow> kq_device_id_wf (kv_device_id x)"

lemma kq_vulkan_info_wire [simp]:
  "kq_vulkan_info_wf x \<Longrightarrow> length (kq_vulkan_info_bytes x) = 36"
  "kq_vulkan_info_wf x \<Longrightarrow> kq_vulkan_info_of (kq_vulkan_info_bytes x @ rest) = x"
  by (simp_all add: kq_vulkan_info_bytes_def kq_vulkan_info_of_def kq_vulkan_info_wf_def)

record kq_resource =
  kq_hdr :: kq_hdr
  kq_resource_id :: u32
  kq_handle_type :: u32
  kq_vulkan_info :: kq_vulkan_info

definition kq_resource_bytes :: "kq_resource \<Rightarrow> u8 list" where
  "kq_resource_bytes x =
     kq_hdr_bytes (kq_hdr x) @ le_bytes 4 (kq_resource_id x) @
     le_bytes 4 (kq_handle_type x) @ kq_vulkan_info_bytes (kq_vulkan_info x)"

definition kq_resource_of :: "u8 list \<Rightarrow> kq_resource" where
  "kq_resource_of bs =
     \<lparr>kq_hdr = kq_hdr_of bs, kq_resource_id = le_at 8 4 bs,
      kq_handle_type = le_at 12 4 bs,
      kq_vulkan_info = kq_vulkan_info_of (drop 16 bs)\<rparr>"

definition kq_resource_wf :: "kq_resource \<Rightarrow> bool" where
  "kq_resource_wf x \<longleftrightarrow> kq_vulkan_info_wf (kq_vulkan_info x)"

lemma kq_resource_wire [simp]:
  "kq_resource_wf x \<Longrightarrow> length (kq_resource_bytes x) = 52"
  "kq_resource_wf x \<Longrightarrow> kq_resource_of (kq_resource_bytes x @ rest) = x"
  by (simp_all add: kq_resource_bytes_def kq_resource_of_def kq_resource_wf_def)

record kq_submitted =
  kf_hdr :: kq_hdr
  kf_fence_id :: u64
  kf_handle_type :: u32
  kf_padding :: u32

definition kq_submitted_bytes :: "kq_submitted \<Rightarrow> u8 list" where
  "kq_submitted_bytes x =
     kq_hdr_bytes (kf_hdr x) @ le_bytes 8 (kf_fence_id x) @ le_bytes 4 (kf_handle_type x) @
     le_bytes 4 (kf_padding x)"

definition kq_submitted_of :: "u8 list \<Rightarrow> kq_submitted" where
  "kq_submitted_of bs =
     \<lparr>kf_hdr = kq_hdr_of bs, kf_fence_id = le_at 8 8 bs,
      kf_handle_type = le_at 16 4 bs, kf_padding = le_at 20 4 bs\<rparr>"

lemma kq_submitted_wire [simp]:
  "length (kq_submitted_bytes x) = 24"
  "kq_submitted_of (kq_submitted_bytes x @ rest) = x"
  by (simp_all add: kq_submitted_bytes_def kq_submitted_of_def)

section \<open>Messages\<close>

datatype kumquat_gpu_protocol =
    OkNoData
  | GetNumCapsets
  | GetCapsetInfo u32
  | GetCapset kq_get_capset
  | CtxCreate kq_ctx_create
  | CtxDestroy u32
  | CtxAttachResource kq_ctx_resource
  | CtxDetachResource kq_ctx_resource
  | ResourceCreate3d kq_create_3d
  | TransferToHost3d kq_transfer magma_handle
  | TransferFromHost3d kq_transfer magma_handle
  | CmdSubmit3d kq_submit "u8 list" "u64 list"
  | ResourceCreateBlob kq_create_blob
  | SnapshotSave
  | SnapshotRestore
  | RespNumCapsets u32
  | RespCapsetInfo kq_capset_info
  | RespCapset "u8 list"
  | RespContextCreate u32
  | RespResourceCreate kq_resource magma_handle
  | RespCmdSubmit3d u64 magma_handle
  | RespOkSnapshot

text \<open>What is written: a command of any type as the list of its bytes\<close>

datatype kq_write =
    Cmd "u8 list"
  | CmdWithHandle "u8 list" magma_handle
  | CmdWithData "u8 list" "u8 list"

section \<open>Reading\<close>

text \<open>\<open>Reader::read_obj\<close> and \<open>read_exact\<close> on the bytes that are left\<close>

definition eof :: "'a mres" where
  "eof = Err (IoError UnexpectedEof)"

definition read_obj :: "nat \<Rightarrow> (u8 list \<Rightarrow> 'a) \<Rightarrow> u8 list \<Rightarrow> ('a \<times> u8 list) mres" where
  "read_obj n decode bs =
     (case read_from_prefix n decode bs of None \<Rightarrow> eof | Some x \<Rightarrow> Ok (x, drop n bs))"

definition read_exact :: "nat \<Rightarrow> u8 list \<Rightarrow> (u8 list \<times> u8 list) mres" where
  "read_exact n bs = (if length bs < n then eof else Ok (take n bs, drop n bs))"

fun read_fence_ids :: "nat \<Rightarrow> u8 list \<Rightarrow> (u64 list \<times> u8 list) mres" where
  "read_fence_ids 0 bs = Ok ([], bs)"
| "read_fence_ids (Suc n) bs =
     (case read_obj 8 (le_at 0 8) bs of
        Inl _ \<Rightarrow> Err Unsupported
      | Inr (fid, bs) \<Rightarrow>
          and_then (read_fence_ids n bs) (\<lambda>(fids, bs). Ok (fid # fids, bs)))"

definition read_submit :: "u8 list \<Rightarrow> (kumquat_gpu_protocol \<times> u8 list) mres" where
  "read_submit bs =
     and_then (read_obj 32 kq_submit_of bs) (\<lambda>(cmd, bs).
     if length bs < unat (ks_size cmd) then Err Unsupported
     else if length bs \<noteq> 0 then
       and_then (read_fence_ids (unat (ks_num_in_fences cmd)) bs) (\<lambda>(fence_ids, bs).
       and_then (read_exact (unat (ks_size cmd)) bs) (\<lambda>(cmd_buf, bs).
       Ok (CmdSubmit3d cmd cmd_buf fence_ids, bs)))
     else Ok (CmdSubmit3d cmd [] [], bs))"

definition pop_front :: "descriptor list \<Rightarrow> (descriptor \<times> descriptor list) mres" where
  "pop_front ds = (case ds of [] \<Rightarrow> Err Unsupported | d # ds \<Rightarrow> Ok (d, ds))"

definition signal_handle :: "descriptor \<Rightarrow> magma_handle" where
  "signal_handle d = \<lparr>os_handle = d, handle_type = MAGMA_GPU_HANDLE_TYPE_SIGNAL_EVENT_FD\<rparr>"

text \<open>The messages without a descriptor: one struct, or only the header.\<close>

definition msg ::
  "nat \<Rightarrow> (u8 list \<Rightarrow> 'c) \<Rightarrow> ('c \<Rightarrow> kumquat_gpu_protocol) \<Rightarrow> u8 list \<Rightarrow> descriptor list \<Rightarrow>
   (kumquat_gpu_protocol \<times> u8 list \<times> descriptor list) mres" where
  "msg n decode con bs ds =
     and_then (read_obj n decode bs) (\<lambda>(x, bs). Ok (con x, bs, ds))"

definition header_msg ::
  "kumquat_gpu_protocol \<Rightarrow> u8 list \<Rightarrow> descriptor list \<Rightarrow>
   (kumquat_gpu_protocol \<times> u8 list \<times> descriptor list) mres" where
  "header_msg p bs ds = Ok (p, drop 8 bs, ds)"

text \<open>The messages with a descriptor take the oldest one that is left.\<close>

definition fd_msg ::
  "nat \<Rightarrow> (u8 list \<Rightarrow> 'c) \<Rightarrow> ('c \<Rightarrow> descriptor \<Rightarrow> kumquat_gpu_protocol) \<Rightarrow> u8 list \<Rightarrow> descriptor list \<Rightarrow>
   (kumquat_gpu_protocol \<times> u8 list \<times> descriptor list) mres" where
  "fd_msg n decode con bs ds =
     and_then (pop_front ds) (\<lambda>(d, ds).
     and_then (read_obj n decode bs) (\<lambda>(x, bs). Ok (con x d, bs, ds)))"

definition read_message ::
  "u8 list \<Rightarrow> descriptor list \<Rightarrow> (kumquat_gpu_protocol \<times> u8 list \<times> descriptor list) mres" where
  "read_message bs ds =
     (case read_from_prefix 8 kq_hdr_of bs of
        None \<Rightarrow> eof
      | Some hdr \<Rightarrow>
          let t = kh_type hdr in
          if t = KUMQUAT_GPU_PROTOCOL_GET_NUM_CAPSETS then header_msg GetNumCapsets bs ds
          else if t = KUMQUAT_GPU_PROTOCOL_GET_CAPSET_INFO then
            header_msg (GetCapsetInfo (kh_payload hdr)) bs ds
          else if t = KUMQUAT_GPU_PROTOCOL_GET_CAPSET then msg 16 kq_get_capset_of GetCapset bs ds
          else if t = KUMQUAT_GPU_PROTOCOL_CTX_CREATE then msg 80 kq_ctx_create_of CtxCreate bs ds
          else if t = KUMQUAT_GPU_PROTOCOL_CTX_DESTROY then
            header_msg (CtxDestroy (kh_payload hdr)) bs ds
          else if t = KUMQUAT_GPU_PROTOCOL_CTX_ATTACH_RESOURCE then
            msg 16 kq_ctx_resource_of CtxAttachResource bs ds
          else if t = KUMQUAT_GPU_PROTOCOL_CTX_DETACH_RESOURCE then
            msg 16 kq_ctx_resource_of CtxDetachResource bs ds
          else if t = KUMQUAT_GPU_PROTOCOL_RESOURCE_CREATE_3D then
            msg 60 kq_create_3d_of ResourceCreate3d bs ds
          else if t = KUMQUAT_GPU_PROTOCOL_TRANSFER_TO_HOST_3D then
            fd_msg 64 kq_transfer_of (\<lambda>x d. TransferToHost3d x (signal_handle d)) bs ds
          else if t = KUMQUAT_GPU_PROTOCOL_TRANSFER_FROM_HOST_3D then
            fd_msg 64 kq_transfer_of (\<lambda>x d. TransferFromHost3d x (signal_handle d)) bs ds
          else if t = KUMQUAT_GPU_PROTOCOL_SUBMIT_3D then
            and_then (read_submit bs) (\<lambda>(p, bs). Ok (p, bs, ds))
          else if t = KUMQUAT_GPU_PROTOCOL_RESOURCE_CREATE_BLOB then
            msg 40 kq_create_blob_of ResourceCreateBlob bs ds
          else if t = KUMQUAT_GPU_PROTOCOL_SNAPSHOT_SAVE then header_msg SnapshotSave bs ds
          else if t = KUMQUAT_GPU_PROTOCOL_SNAPSHOT_RESTORE then header_msg SnapshotRestore bs ds
          else if t = KUMQUAT_GPU_PROTOCOL_RESP_NUM_CAPSETS then
            header_msg (RespNumCapsets (kh_payload hdr)) bs ds
          else if t = KUMQUAT_GPU_PROTOCOL_RESP_CAPSET_INFO then
            msg 24 kq_capset_info_of RespCapsetInfo bs ds
          else if t = KUMQUAT_GPU_PROTOCOL_RESP_CAPSET then
            and_then (read_exact (unat (kh_payload hdr)) (drop 8 bs)) (\<lambda>(capset, bs).
              Ok (RespCapset capset, bs, ds))
          else if t = KUMQUAT_GPU_PROTOCOL_RESP_CONTEXT_CREATE then
            header_msg (RespContextCreate (kh_payload hdr)) bs ds
          else if t = KUMQUAT_GPU_PROTOCOL_RESP_RESOURCE_CREATE then
            fd_msg 52 kq_resource_of
              (\<lambda>x d. RespResourceCreate x \<lparr>os_handle = d, handle_type = kq_handle_type x\<rparr>) bs ds
          else if t = KUMQUAT_GPU_PROTOCOL_RESP_CMD_SUBMIT_3D then
            fd_msg 24 kq_submitted_of
              (\<lambda>x d. RespCmdSubmit3d (kf_fence_id x)
                 \<lparr>os_handle = d, handle_type = kf_handle_type x\<rparr>) bs ds
          else if t = KUMQUAT_GPU_PROTOCOL_RESP_OK_SNAPSHOT then header_msg RespOkSnapshot bs ds
          else Err Unsupported)"

lemma read_obj_eq_Ok [rust_simps]:
  "read_obj n decode bs = Inr p \<longleftrightarrow> n \<le> length bs \<and> p = (decode bs, drop n bs)"
  by (auto simp: read_obj_def read_from_prefix_def eof_def)

lemma read_exact_eq_Ok [rust_simps]:
  "read_exact n bs = Inr p \<longleftrightarrow> n \<le> length bs \<and> p = (take n bs, drop n bs)"
  by (auto simp: read_exact_def eof_def)

lemma read_fence_ids_shorter: "read_fence_ids n bs = Inr (fids, bs') \<Longrightarrow> length bs' \<le> length bs"
  by (induction n arbitrary: bs fids)
    (auto simp: rust_simps split: sum.splits, fastforce)

text \<open>Every message takes at least its header, so the loop over the messages ends.\<close>

lemma read_message_shorter:
  "read_message bs ds = Inr (p, bs', ds') \<Longrightarrow> length bs' < length bs"
  by (auto simp: read_message_def Let_def rust_simps msg_def header_msg_def fd_msg_def read_submit_def
      pop_front_def read_from_prefix_def eof_def
      dest: read_fence_ids_shorter split: if_splits option.splits list.splits prod.splits)

function read_messages :: "u8 list \<Rightarrow> descriptor list \<Rightarrow> kumquat_gpu_protocol list mres" where
  "read_messages bs ds =
     (if bs = [] then Ok []
      else
        case read_message bs ds of
          Inl e \<Rightarrow> Inl e
        | Inr (p, bs', ds') \<Rightarrow> and_then (read_messages bs' ds') (\<lambda>ps. Ok (p # ps)))"
  by pat_completeness auto
termination
  by (relation "measure (length \<circ> fst)") (auto dest: read_message_shorter)

declare read_messages.simps [simp del]

section \<open>\<open>KumquatStream\<close>\<close>

definition MAX_COMMAND_SIZE :: nat where [simp]: "MAX_COMMAND_SIZE = 4096"

text \<open>The bytes and descriptors of a write; what does not fit in the buffer is refused.\<close>

fun encode_write :: "kq_write \<Rightarrow> (u8 list \<times> descriptor list) mres" where
  "encode_write (Cmd cmd) = (if MAX_COMMAND_SIZE < length cmd then eof else Ok (cmd, []))"
| "encode_write (CmdWithHandle cmd handle) =
     (if MAX_COMMAND_SIZE < length cmd then eof else Ok (cmd, [os_handle handle]))"
| "encode_write (CmdWithData cmd data) =
     (if MAX_COMMAND_SIZE < length cmd + length data then eof else Ok (cmd @ data, []))"

definition stream_write ::
  "descriptor \<Rightarrow> kq_write \<Rightarrow> 'a cd_world_scheme \<Rightarrow> unit rres \<times> 'a cd_world_scheme" where
  "stream_write stream encode w =
     and_then_st (from_magma (encode_write encode), w) (\<lambda>(bs, ds) w.
     and_then_st (tube_send stream bs ds w) (\<lambda>_ w. (Ok (), w)))"

definition stream_read ::
  "descriptor \<Rightarrow> 'a cd_world_scheme \<Rightarrow> kumquat_gpu_protocol list rres \<times> 'a cd_world_scheme" where
  "stream_read stream w =
     and_then_st (tube_receive stream MAX_COMMAND_SIZE w) (\<lambda>(bs, ds) w.
       (if bs = [] then Ok [OkNoData] else from_magma (read_messages bs ds), w))"

section \<open>Round trip\<close>

text \<open>How a peer writes a message: its header carries the type, its descriptor goes along.\<close>

definition header_bytes :: "u32 \<Rightarrow> u32 \<Rightarrow> u8 list" where
  "header_bytes t payload = kq_hdr_bytes \<lparr>kh_type = t, kh_payload = payload\<rparr>"

fun message_bytes :: "kumquat_gpu_protocol \<Rightarrow> u8 list" where
  "message_bytes OkNoData = []"
| "message_bytes GetNumCapsets = header_bytes KUMQUAT_GPU_PROTOCOL_GET_NUM_CAPSETS 0"
| "message_bytes (GetCapsetInfo i) = header_bytes KUMQUAT_GPU_PROTOCOL_GET_CAPSET_INFO i"
| "message_bytes (GetCapset c) = kq_get_capset_bytes c"
| "message_bytes (CtxCreate c) = kq_ctx_create_bytes c"
| "message_bytes (CtxDestroy i) = header_bytes KUMQUAT_GPU_PROTOCOL_CTX_DESTROY i"
| "message_bytes (CtxAttachResource c) = kq_ctx_resource_bytes c"
| "message_bytes (CtxDetachResource c) = kq_ctx_resource_bytes c"
| "message_bytes (ResourceCreate3d c) = kq_create_3d_bytes c"
| "message_bytes (TransferToHost3d c h) = kq_transfer_bytes c"
| "message_bytes (TransferFromHost3d c h) = kq_transfer_bytes c"
| "message_bytes (CmdSubmit3d c buf fids) = kq_submit_bytes c @ concat (map (le_bytes 8) fids) @ buf"
| "message_bytes (ResourceCreateBlob c) = kq_create_blob_bytes c"
| "message_bytes SnapshotSave = header_bytes KUMQUAT_GPU_PROTOCOL_SNAPSHOT_SAVE 0"
| "message_bytes SnapshotRestore = header_bytes KUMQUAT_GPU_PROTOCOL_SNAPSHOT_RESTORE 0"
| "message_bytes (RespNumCapsets n) = header_bytes KUMQUAT_GPU_PROTOCOL_RESP_NUM_CAPSETS n"
| "message_bytes (RespCapsetInfo c) = kq_capset_info_bytes c"
| "message_bytes (RespCapset capset) =
     header_bytes KUMQUAT_GPU_PROTOCOL_RESP_CAPSET (of_nat (length capset)) @ capset"
| "message_bytes (RespContextCreate i) = header_bytes KUMQUAT_GPU_PROTOCOL_RESP_CONTEXT_CREATE i"
| "message_bytes (RespResourceCreate c h) = kq_resource_bytes c"
| "message_bytes (RespCmdSubmit3d fid h) =
     kq_submitted_bytes \<lparr>kf_hdr = \<lparr>kh_type = KUMQUAT_GPU_PROTOCOL_RESP_CMD_SUBMIT_3D, kh_payload = 0\<rparr>,
       kf_fence_id = fid, kf_handle_type = handle_type h, kf_padding = 0\<rparr>"
| "message_bytes RespOkSnapshot = header_bytes KUMQUAT_GPU_PROTOCOL_RESP_OK_SNAPSHOT 0"

fun message_fds :: "kumquat_gpu_protocol \<Rightarrow> descriptor list" where
  "message_fds (TransferToHost3d c h) = [os_handle h]"
| "message_fds (TransferFromHost3d c h) = [os_handle h]"
| "message_fds (RespResourceCreate c h) = [os_handle h]"
| "message_fds (RespCmdSubmit3d fid h) = [os_handle h]"
| "message_fds _ = []"

fun message_wf :: "kumquat_gpu_protocol \<Rightarrow> bool" where
  "message_wf OkNoData \<longleftrightarrow> False"
| "message_wf (GetCapset c) \<longleftrightarrow> kh_type (kg_hdr c) = KUMQUAT_GPU_PROTOCOL_GET_CAPSET"
| "message_wf (CtxCreate c) \<longleftrightarrow>
     kq_ctx_create_wf c \<and> kh_type (kx_hdr c) = KUMQUAT_GPU_PROTOCOL_CTX_CREATE"
| "message_wf (CtxAttachResource c) \<longleftrightarrow>
     kh_type (kr_hdr c) = KUMQUAT_GPU_PROTOCOL_CTX_ATTACH_RESOURCE"
| "message_wf (CtxDetachResource c) \<longleftrightarrow>
     kh_type (kr_hdr c) = KUMQUAT_GPU_PROTOCOL_CTX_DETACH_RESOURCE"
| "message_wf (ResourceCreate3d c) \<longleftrightarrow>
     kh_type (kc_hdr c) = KUMQUAT_GPU_PROTOCOL_RESOURCE_CREATE_3D"
| "message_wf (TransferToHost3d c h) \<longleftrightarrow> handle_type h = MAGMA_GPU_HANDLE_TYPE_SIGNAL_EVENT_FD \<and>
     kh_type (kt_hdr c) = KUMQUAT_GPU_PROTOCOL_TRANSFER_TO_HOST_3D"
| "message_wf (TransferFromHost3d c h) \<longleftrightarrow> handle_type h = MAGMA_GPU_HANDLE_TYPE_SIGNAL_EVENT_FD \<and>
     kh_type (kt_hdr c) = KUMQUAT_GPU_PROTOCOL_TRANSFER_FROM_HOST_3D"
| "message_wf (CmdSubmit3d c buf fids) \<longleftrightarrow> kq_submit_wf c \<and>
     kh_type (ks_hdr c) = KUMQUAT_GPU_PROTOCOL_SUBMIT_3D \<and>
     unat (ks_size c) = length buf \<and> unat (ks_num_in_fences c) = length fids"
| "message_wf (ResourceCreateBlob c) \<longleftrightarrow>
     kh_type (kl_hdr c) = KUMQUAT_GPU_PROTOCOL_RESOURCE_CREATE_BLOB"
| "message_wf (RespCapsetInfo c) \<longleftrightarrow> kh_type (ki_hdr c) = KUMQUAT_GPU_PROTOCOL_RESP_CAPSET_INFO"
| "message_wf (RespCapset capset) \<longleftrightarrow> length capset < 2 ^ 32"
| "message_wf (RespResourceCreate c h) \<longleftrightarrow> kq_resource_wf c \<and> handle_type h = kq_handle_type c \<and>
     kh_type (kq_hdr c) = KUMQUAT_GPU_PROTOCOL_RESP_RESOURCE_CREATE"
| "message_wf _ \<longleftrightarrow> True"

lemma read_fence_ids_bytes:
  "read_fence_ids (length fids) (concat (map (le_bytes 8) fids) @ rest) = Ok (fids, rest)"
  by (induction fids) (simp_all add: read_obj_def read_from_prefix_def)

text \<open>The header of a struct is its first eight bytes.\<close>

lemma header_first:
  "kq_hdr_of (kq_get_capset_bytes c1 @ rest) = kg_hdr c1"
  "kq_hdr_of (kq_ctx_create_bytes c2 @ rest) = kx_hdr c2"
  "kq_hdr_of (kq_ctx_resource_bytes c3 @ rest) = kr_hdr c3"
  "kq_hdr_of (kq_create_3d_bytes c4 @ rest) = kc_hdr c4"
  "kq_hdr_of (kq_transfer_bytes c5 @ rest) = kt_hdr c5"
  "kq_hdr_of (kq_submit_bytes c6 @ rest) = ks_hdr c6"
  "kq_hdr_of (kq_create_blob_bytes c7 @ rest) = kl_hdr c7"
  "kq_hdr_of (kq_capset_info_bytes c8 @ rest) = ki_hdr c8"
  "kq_hdr_of (kq_resource_bytes c9 @ rest) = kq_hdr c9"
  "kq_hdr_of (kq_submitted_bytes c10 @ rest) = kf_hdr c10"
  by (simp_all add: kq_get_capset_bytes_def kq_ctx_create_bytes_def kq_ctx_resource_bytes_def
      kq_create_3d_bytes_def kq_transfer_bytes_def kq_submit_bytes_def kq_create_blob_bytes_def
      kq_capset_info_bytes_def kq_resource_bytes_def kq_submitted_bytes_def)

lemma read_submit_bytes:
  assumes "message_wf (CmdSubmit3d c buf fids)"
  shows "read_submit (message_bytes (CmdSubmit3d c buf fids) @ rest) = Ok (CmdSubmit3d c buf fids, rest)"
proof (cases "concat (map (le_bytes 8) fids) @ buf @ rest = []")
  case True
  moreover from this have "fids = []" by (cases fids) (auto simp: le_bytes_def)
  ultimately show ?thesis using assms kq_submit_wire(2) [of c "[]"]
    by (simp add: read_submit_def read_obj_def read_from_prefix_def)
next
  case False
  then show ?thesis using assms
    by (simp add: read_submit_def read_obj_def read_from_prefix_def read_exact_def
        read_fence_ids_bytes [of fids "buf @ rest", simplified])
qed

lemma read_message_bytes:
  assumes "message_wf p"
  shows "read_message (message_bytes p @ rest) (message_fds p @ ds) = Ok (p, rest, ds)"
proof (cases p)
  case (CmdSubmit3d c buf fids)
  then show ?thesis using assms read_submit_bytes [of c buf fids rest]
    by (simp add: read_message_def read_from_prefix_def header_first)
qed (use assms in \<open>auto simp: read_message_def read_from_prefix_def header_first header_bytes_def msg_def
  header_msg_def fd_msg_def read_obj_def read_exact_def pop_front_def signal_handle_def unat_of_nat\<close>)

text \<open>
  C24. The stream inverts the protocol. Whatever well-formed messages a peer writes one after the other
  into one packet, requests or responses, with the descriptors in their order, reading the packet
  gives back exactly those messages: no byte of one is taken for another, and each descriptor stays
  with its message.
\<close>

theorem kumquat_messages_roundtrip:
  assumes "list_all message_wf ps"
  shows "read_messages (concat (map message_bytes ps)) (concat (map message_fds ps)) = Ok ps"
  using assms
proof (induction ps)
  case Nil
  then show ?case by (simp add: read_messages.simps)
next
  case (Cons p ps)
  have "message_bytes p @ concat (map message_bytes ps) \<noteq> []"
    using read_message_shorter [OF read_message_bytes [of p "concat (map message_bytes ps)"]] Cons.prems
    by auto
  then show ?case
    using Cons read_message_bytes [of p "concat (map message_bytes ps)"]
    by (subst read_messages.simps) simp
qed

definition kq_examples :: "kumquat_gpu_protocol list" where
  "kq_examples =
    [CtxDestroy 3,
     CmdSubmit3d \<lparr>ks_hdr = \<lparr>kh_type = 0x207, kh_payload = 0\<rparr>, ks_ctx_id = 1, ks_pad = 0, ks_size = 2,
       ks_num_in_fences = 1, ks_flags = 0, ks_ring_idx = 0, ks_padding = [0, 0, 0]\<rparr> [5, 6] [99],
     RespCmdSubmit3d 7 \<lparr>os_handle = 12, handle_type = 0x50\<rparr>]"

lemma kumquat_messages_roundtrip_witness:
  "read_messages (concat (map message_bytes kq_examples)) [12] = Ok kq_examples"
  using kumquat_messages_roundtrip [of kq_examples] by (simp add: kq_examples_def kq_submit_wf_def)

end
