(* ===== verification/Kumquat_Server.thy ===== *)
theory Kumquat_Server
  imports Kumquat_Protocol Builder Gralloc
begin

text \<open>
  The Kumquat server, \<open>src/kumquat/server/src/kumquat_gpu/mod.rs\<close>, and \<open>kumquat.rs\<close> and \<open>main.rs\<close> above it:
  a virtio-gpu served over a socket. A connection reads messages and runs the library on them; the
  server accepts connections and waits for their events.

  The world is the one of the library handle (\<open>g_world\<close>). The fence handler the server gives to the
  library signals the event of a pending fence; it runs on every fence the library completes during
  a call. The JSON codec of snapshots is a parameter.
\<close>

section \<open>Errors\<close>

datatype kumquat_gpu_error = KumquatMagma magma_error | KumquatRutabaga rutabaga_error

type_synonym 'r kres = "kumquat_gpu_error fault + 'r"

definition kq_magma :: "'r mres \<Rightarrow> 'r kres" where
  "kq_magma r = map_err KumquatMagma r"

definition kq_rutabaga :: "'r rres \<Rightarrow> 'r kres" where
  "kq_rutabaga r = map_err KumquatRutabaga r"

text \<open>The wrappers of system calls report mesa errors as errors of the library; here they are plain.\<close>

definition kq_system :: "'r rres \<Rightarrow> 'r kres" where
  "kq_system r =
     map_err (\<lambda>e. case e of MagmaGpuError m \<Rightarrow> KumquatMagma m | _ \<Rightarrow> KumquatRutabaga e) r"

lemma kq_errors [simp]:
  "kq_magma (Inr x) = Inr x" "kq_rutabaga (Inr x) = Inr x" "kq_system (Inr x) = Inr x"
  "kq_magma Panicked = Panicked" "kq_rutabaga Panicked = Panicked" "kq_system Panicked = Panicked"
  "kq_magma Hung = Hung" "kq_rutabaga Hung = Hung" "kq_system Hung = Hung"
  "kq_rutabaga (Err e) = Err (KumquatRutabaga e)" "kq_magma (Err m) = Err (KumquatMagma m)"
  by (simp_all add: kq_magma_def kq_rutabaga_def kq_system_def map_err_def)

lemma kq_errors_Ok [simp, rust_simps]:
  "kq_magma r = Inr x \<longleftrightarrow> r = Inr x" "kq_rutabaga r' = Inr x \<longleftrightarrow> r' = Inr x"
  "kq_system r' = Inr x \<longleftrightarrow> r' = Inr x"
  by (auto simp: kq_magma_def kq_rutabaga_def kq_system_def map_err_def split: sum.splits fault.splits)

section \<open>\<open>KumquatGpu\<close>\<close>

record kumquat_gpu_resource =
  kgr_attached_contexts :: "u32 fset"
  kgr_mapping :: "memory_mapping option"

record 'a kumquat_gpu =
  kg_rutabaga :: "'a cd_world_ext rutabaga"
  kg_pending_fences :: "(u64, descriptor) fmap"
  kg_id_allocator :: u32
  kg_resources :: "(u32, kumquat_gpu_resource) fmap"

record 'a kumquat_env =
  ke_build :: "'a cd_world_ext build_env"
  ke_ser :: "rutabaga_snapshot \<Rightarrow> u8 list"
  ke_de :: "u8 list \<Rightarrow> rutabaga_snapshot option"

type_synonym ('r, 'a) kop = "'a kumquat_gpu \<Rightarrow> 'r kres \<times> 'a kumquat_gpu"

abbreviation kg_world :: "'a kumquat_gpu \<Rightarrow> 'a cd_world_scheme" where
  "kg_world k \<equiv> g_world (kg_rutabaga k)"

definition on_world ::
  "('a cd_world_scheme \<Rightarrow> 'r \<times> 'a cd_world_scheme) \<Rightarrow> 'a kumquat_gpu \<Rightarrow> 'r \<times> 'a kumquat_gpu" where
  "on_world f k =
     (case f (kg_world k) of
        (r, w) \<Rightarrow> (r, k\<lparr>kg_rutabaga := (kg_rutabaga k)\<lparr>g_world := w\<rparr>\<rparr>))"

definition sys :: "('a cd_world_scheme \<Rightarrow> 'r rres \<times> 'a cd_world_scheme) \<Rightarrow> ('r, 'a) kop" where
  "sys f k = (case on_world f k of (r, k) \<Rightarrow> (kq_system r, k))"

text \<open>The fence handler: a pending fence is removed and its event signalled; the \<open>unwrap\<close> of the
  signal panics.\<close>

definition fence_handler :: "rutabaga_fence \<Rightarrow> (unit, 'a) kop" where
  "fence_handler completed_fence k =
     (case fmlookup (kg_pending_fences k) (fence_id completed_fence) of
        None \<Rightarrow> (Ok (), k)
      | Some event \<Rightarrow>
          (case on_world (event_signal event)
                  (k\<lparr>kg_pending_fences := fmdrop (fence_id completed_fence) (kg_pending_fences k)\<rparr>) of
             (Inl _, k) \<Rightarrow> (Panicked, k)
           | (Inr _, k) \<Rightarrow> (Ok (), k)))"

fun complete_fences :: "rutabaga_fence list \<Rightarrow> (unit, 'a) kop" where
  "complete_fences [] k = (Ok (), k)"
| "complete_fences (f # fs) k = and_then_st (fence_handler f k) (\<lambda>_. complete_fences fs)"

text \<open>A call of the library, with the fences it completes\<close>

definition rut :: "('r, 'a cd_world_ext) op \<Rightarrow> ('r, 'a) kop" where
  "rut f k =
     (let n = length (w_fences (kg_world k)) in
      case f (kg_rutabaga k) of
        (r, g) \<Rightarrow>
          and_then_st (complete_fences (drop n (w_fences (g_world g))) (k\<lparr>kg_rutabaga := g\<rparr>)) (\<lambda>_ k.
            (kq_rutabaga r, k)))"

definition kumquat_gpu_new ::
  "'a kumquat_env \<Rightarrow> string \<Rightarrow> string \<Rightarrow> 'a cd_world_scheme \<Rightarrow>
   'a kumquat_gpu kres \<times> 'a cd_world_scheme" where
  "kumquat_gpu_new env capset_names renderer_features w =
     (let capset_mask = calculate_capset_mask (split_on (CHR '':'') capset_names) in
      if capset_mask = 0 then (Err (KumquatMagma Unsupported), w)
      else
        let renderer_features_opt = (if renderer_features = [] then None else Some renderer_features);
            b = set_renderer_features renderer_features_opt (set_wsi Surfaceless
                  (set_use_egl True (set_use_external_blob True (builder_new capset_mask))))
        in
          case rutabaga_build (ke_build env) b w of
            (r, w) \<Rightarrow>
              (and_then (kq_rutabaga r) (\<lambda>rutabaga.
                 Ok \<lparr>kg_rutabaga = rutabaga, kg_pending_fences = fmempty, kg_id_allocator = 0,
                     kg_resources = fmempty\<rparr>), w))"

definition allocate_id :: "'a kumquat_gpu \<Rightarrow> u32 \<times> 'a kumquat_gpu" where
  "allocate_id k =
     (let i = kg_id_allocator k + 1 in (i, k\<lparr>kg_id_allocator := i\<rparr>))"

section \<open>Answering a message\<close>

definition kq_reply :: "descriptor \<Rightarrow> kq_write \<Rightarrow> (unit, 'a) kop" where
  "kq_reply stream resp = sys (stream_write stream resp)"

definition kq_header :: "u32 \<Rightarrow> u32 \<Rightarrow> u8 list" where
  "kq_header t payload = kq_hdr_bytes \<lparr>kh_type = t, kh_payload = payload\<rparr>"

definition get_num_capsets :: "descriptor \<Rightarrow> (unit, 'a) kop" where
  "get_num_capsets stream k =
     kq_reply stream (Cmd (kq_header KUMQUAT_GPU_PROTOCOL_RESP_NUM_CAPSETS
       (rutabaga_get_num_capsets (kg_rutabaga k)))) k"

definition get_capset_info :: "descriptor \<Rightarrow> u32 \<Rightarrow> (unit, 'a) kop" where
  "get_capset_info stream capset_index k =
     and_then_st (kq_rutabaga (rutabaga_get_capset_info capset_index (kg_rutabaga k)), k)
       (\<lambda>(cid, version, sz) k.
     kq_reply stream (Cmd (kq_capset_info_bytes
       \<lparr>ki_hdr = \<lparr>kh_type = KUMQUAT_GPU_PROTOCOL_RESP_CAPSET_INFO, kh_payload = 0\<rparr>,
        ki_capset_id = cid, ki_version = version, ki_size = sz, ki_padding = 0\<rparr>)) k)"

definition get_capset :: "descriptor \<Rightarrow> kq_get_capset \<Rightarrow> (unit, 'a) kop" where
  "get_capset stream cmd k =
     and_then_st
       (kq_rutabaga (rutabaga_get_capset (kg_capset_id cmd) (kg_capset_version cmd) (kg_rutabaga k)), k)
       (\<lambda>capset k.
     and_then_st (kq_system (u32_try_from (length capset)), k) (\<lambda>payload k.
     kq_reply stream
       (CmdWithData (kq_header KUMQUAT_GPU_PROTOCOL_RESP_CAPSET payload) capset) k))"

definition ctx_create :: "'a kumquat_env \<Rightarrow> descriptor \<Rightarrow> kq_ctx_create \<Rightarrow> (unit, 'a) kop" where
  "ctx_create env stream cmd k =
     (case allocate_id k of (context_id, k) \<Rightarrow>
      and_then_st
        (rut (rutabaga_create_context context_id (kx_context_init cmd)
           (str_from_utf8 (kx_debug_name cmd))) k) (\<lambda>_ k.
      kq_reply stream (Cmd (kq_header KUMQUAT_GPU_PROTOCOL_RESP_CONTEXT_CREATE context_id)) k))"

definition ctx_detach_resource :: "kq_ctx_resource \<Rightarrow> (unit, 'a) kop" where
  "ctx_detach_resource cmd k =
     and_then_st (rut (rutabaga_context_detach_resource (kr_ctx_id cmd) (kr_resource_id cmd)) k)
       (\<lambda>_ k.
     case fmlookup (kg_resources k) (kr_resource_id cmd) of
       None \<Rightarrow> (Err (KumquatRutabaga InvalidResourceId), k)
     | Some res \<Rightarrow>
         let k = k\<lparr>kg_resources := fmdrop (kr_resource_id cmd) (kg_resources k)\<rparr>;
             res = res\<lparr>kgr_attached_contexts := kgr_attached_contexts res |-| {|kr_ctx_id cmd|}\<rparr>
         in
           if kgr_attached_contexts res = {||} then
             and_then_st
               (if kgr_mapping res \<noteq> None then rut (rutabaga_detach_backing (kr_resource_id cmd)) k
                else (Ok (), k)) (\<lambda>_ k.
             rut (rutabaga_unref_resource (kr_resource_id cmd)) k)
           else (Ok (), k\<lparr>kg_resources := fmupd (kr_resource_id cmd) res (kg_resources k)\<rparr>))"

definition resource_create_of :: "kq_create_3d \<Rightarrow> resource_create_3d" where
  "resource_create_of cmd =
     \<lparr>c3d_target = kc_target cmd, c3d_format = kc_format cmd, c3d_bind = kc_bind cmd,
      c3d_width = kc_width cmd, c3d_height = kc_height cmd, c3d_depth = kc_depth cmd,
      c3d_array_size = kc_array_size cmd, c3d_last_level = kc_last_level cmd,
      c3d_nr_samples = kc_nr_samples cmd, c3d_flags = kc_flags cmd\<rparr>"

definition zero_vulkan_info :: kq_vulkan_info where
  "zero_vulkan_info = \<lparr>kv_memory_idx = 0,
     kv_device_id = \<lparr>kd_device_uuid = replicate 16 0, kd_driver_uuid = replicate 16 0\<rparr>\<rparr>"

definition resp_resource_create :: "u32 \<Rightarrow> u32 \<Rightarrow> kq_vulkan_info \<Rightarrow> u8 list" where
  "resp_resource_create resource_id hty vk =
     kq_resource_bytes
       \<lparr>kq_hdr = \<lparr>kh_type = KUMQUAT_GPU_PROTOCOL_RESP_RESOURCE_CREATE, kh_payload = 0\<rparr>,
        kq_resource_id = resource_id, kq_handle_type = hty, kq_vulkan_info = vk\<rparr>"

definition server_resource_create_3d :: "descriptor \<Rightarrow> kq_create_3d \<Rightarrow> (unit, 'a) kop" where
  "server_resource_create_3d stream cmd k =
     (let sz = unat (kc_size cmd); os = w_os (kg_world k) in
      and_then_st (kq_magma (shared_memory_new os (of_nat sz)), k) (\<lambda>descriptor k.
      and_then_st (kq_magma (map_err IoError (descriptor_try_clone os descriptor)), k) (\<lambda>clone k.
      and_then_st
        (kq_magma (from_safe_descriptor os clone sz
           (RUTABAGA_MAP_CACHE_CACHED OR RUTABAGA_MAP_ACCESS_RW)), k) (\<lambda>mapping k.
      let vecs = [\<lparr>iov_base = mesa_ptr (as_mesa_mapping mapping), iov_len = of_nat sz\<rparr>] in
      case allocate_id k of (resource_id, k) \<Rightarrow>
      and_then_st (rut (rutabaga_resource_create_3d resource_id (resource_create_of cmd)) k) (\<lambda>_ k.
      and_then_st (rut (rutabaga_attach_backing resource_id vecs) k) (\<lambda>_ k.
      let k = k\<lparr>kg_resources := fmupd resource_id
            \<lparr>kgr_attached_contexts = {||}, kgr_mapping = Some mapping\<rparr> (kg_resources k)\<rparr>
      in
      and_then_st (rut (rutabaga_context_attach_resource (kc_ctx_id cmd) resource_id) k) (\<lambda>_ k.
      kq_reply stream
        (CmdWithHandle (resp_resource_create resource_id 0 zero_vulkan_info)
          \<lparr>os_handle = descriptor, handle_type = MAGMA_GPU_HANDLE_TYPE_MEM_SHM\<rparr>) k)))))))"

definition transfer_of :: "kq_transfer \<Rightarrow> transfer_3d" where
  "transfer_of cmd =
     (let box = kt_box cmd in
      \<lparr>t3d_x = kb_x box, t3d_y = kb_y box, t3d_z = kb_z box, t3d_w = kb_w box, t3d_h = kb_h box,
       t3d_d = kb_d box, t3d_level = kt_level cmd, t3d_stride = kt_stride cmd,
       t3d_layer_stride = kt_layer_stride cmd, t3d_offset = kt_offset cmd\<rparr>)"

definition event_try_from :: "magma_handle \<Rightarrow> descriptor mres" where
  "event_try_from h =
     (if handle_type h \<noteq> MAGMA_GPU_HANDLE_TYPE_SIGNAL_EVENT_FD then Err InvalidMagmaHandle
      else Ok (os_handle h))"

definition signal_emulated_fence :: "magma_handle \<Rightarrow> (unit, 'a) kop" where
  "signal_emulated_fence emulated_fence k =
     and_then_st (kq_magma (event_try_from emulated_fence), k) (\<lambda>event k. sys (event_signal event) k)"

definition transfer_to_host :: "kq_transfer \<Rightarrow> magma_handle \<Rightarrow> (unit, 'a) kop" where
  "transfer_to_host cmd emulated_fence k =
     and_then_st
       (rut (rutabaga_transfer_write (kt_ctx_id cmd) (kt_resource_id cmd) (transfer_of cmd) None) k)
       (\<lambda>_ k. signal_emulated_fence emulated_fence k)"

definition transfer_from_host :: "kq_transfer \<Rightarrow> magma_handle \<Rightarrow> (unit, 'a) kop" where
  "transfer_from_host cmd emulated_fence k =
     and_then_st
       (rut (\<lambda>g. case rutabaga_transfer_read (kt_ctx_id cmd) (kt_resource_id cmd) (transfer_of cmd)
               None g of ((r, buf), g) \<Rightarrow> (r, g)) k)
       (\<lambda>_ k. signal_emulated_fence emulated_fence k)"

text \<open>A fence after a submission: an event that the handler will signal, or an exported fence of
  the host.\<close>

definition emulated_fence :: "u64 \<Rightarrow> (magma_handle, 'a) kop" where
  "emulated_fence fid k =
     and_then_st (sys event_new k) (\<lambda>event k.
     and_then_st (kq_system (event_try_clone event (kg_world k)), k) (\<lambda>clone k.
     (Ok \<lparr>os_handle = clone, handle_type = MAGMA_GPU_HANDLE_TYPE_SIGNAL_EVENT_FD\<rparr>,
      k\<lparr>kg_pending_fences := fmupd fid event (kg_pending_fences k)\<rparr>)))"

definition submit_fence :: "descriptor \<Rightarrow> kq_submit \<Rightarrow> (unit, 'a) kop" where
  "submit_fence stream cmd k =
     (case allocate_id k of (i, k) \<Rightarrow>
      let fid = (ucast i :: u64);
          fence = \<lparr>fence_flags = ks_flags cmd, fence_id = fid, fence_ctx_id = ks_ctx_id cmd,
                   fence_ring_idx = ks_ring_idx cmd\<rparr>;
          actual_fence = has_flag (ks_flags cmd) RUTABAGA_FLAG_FENCE_HOST_SHAREABLE
      in
      and_then_st
        (if \<not> actual_fence
         then and_then_st (emulated_fence fid k) (\<lambda>h k. (Ok (Some h), k))
         else (Ok None, k)) (\<lambda>fence_descriptor_opt k.
      and_then_st (rut (rutabaga_create_fence fence) k) (\<lambda>_ k.
      and_then_st
        (if actual_fence then
           and_then_st (rut (rutabaga_export_fence fid) k) (\<lambda>h k.
           and_then_st (rut (rutabaga_destroy_fences [fid]) k) (\<lambda>_ k. (Ok (Some h), k)))
         else (Ok fence_descriptor_opt, k)) (\<lambda>fence_descriptor_opt k.
      and_then_st
        (ok_or (KumquatMagma (WithContext ''No fence descriptor'')) fence_descriptor_opt, k)
        (\<lambda>fence_descriptor k.
      kq_reply stream
        (CmdWithHandle
          (kq_submitted_bytes
            \<lparr>kf_hdr = \<lparr>kh_type = KUMQUAT_GPU_PROTOCOL_RESP_CMD_SUBMIT_3D, kh_payload = 0\<rparr>,
             kf_fence_id = fid, kf_handle_type = handle_type fence_descriptor, kf_padding = 0\<rparr>)
          fence_descriptor) k)))))"

definition cmd_submit_3d ::
  "descriptor \<Rightarrow> kq_submit \<Rightarrow> u8 list \<Rightarrow> u64 list \<Rightarrow> (unit, 'a) kop" where
  "cmd_submit_3d stream cmd cmd_buf fence_ids k =
     and_then_st
       (rut (\<lambda>g. case rutabaga_submit_command (ks_ctx_id cmd) cmd_buf fence_ids g of
               ((r, buf), g) \<Rightarrow> (r, g)) k) (\<lambda>_ k.
     if has_flag (ks_flags cmd) RUTABAGA_FLAG_FENCE then submit_fence stream cmd k
     else (Ok (), k))"

definition protocol_vulkan_info :: "vulkan_info \<Rightarrow> kq_vulkan_info" where
  "protocol_vulkan_info vk =
     \<lparr>kv_memory_idx = vk_memory_idx vk,
      kv_device_id = \<lparr>kd_device_uuid = device_uuid (vk_device_id vk),
                      kd_driver_uuid = driver_uuid (vk_device_id vk)\<rparr>\<rparr>"

definition server_create_blob :: "descriptor \<Rightarrow> kq_create_blob \<Rightarrow> (unit, 'a) kop" where
  "server_create_blob stream cmd k =
     (case allocate_id k of (resource_id, k) \<Rightarrow>
      let rcb = \<lparr>cb_blob_mem = kl_blob_mem cmd, cb_blob_flags = kl_blob_flags cmd,
                 cb_blob_id = kl_blob_id cmd, cb_size = kl_size cmd\<rparr>
      in
      and_then_st
        (rut (rutabaga_resource_create_blob (kl_ctx_id cmd) resource_id rcb None None) k) (\<lambda>_ k.
      and_then_st (rut (rutabaga_export_blob resource_id) k) (\<lambda>rhandle k.
      and_then_st (kq_magma (magma_handle_try_from rhandle), k) (\<lambda>handle k.
      let vk = (case rutabaga_vulkan_info resource_id (kg_rutabaga k) of
                  Inr vulkan_info \<Rightarrow> protocol_vulkan_info vulkan_info
                | Inl _ \<Rightarrow> zero_vulkan_info);
          k = k\<lparr>kg_resources := fmupd resource_id
                \<lparr>kgr_attached_contexts = {|kl_ctx_id cmd|}, kgr_mapping = None\<rparr> (kg_resources k)\<rparr>
      in
      and_then_st
        (kq_reply stream
          (CmdWithHandle (resp_resource_create resource_id (handle_type handle) vk) handle) k) (\<lambda>_ k.
      rut (rutabaga_context_attach_resource (kl_ctx_id cmd) resource_id) k)))))"

definition SNAPSHOT_DIR :: path where
  "SNAPSHOT_DIR = [''tmp'']"

definition reply_snapshot :: "descriptor \<Rightarrow> (unit, 'a) kop" where
  "reply_snapshot stream =
     kq_reply stream (Cmd (kq_header KUMQUAT_GPU_PROTOCOL_RESP_OK_SNAPSHOT 0))"

section \<open>\<open>process_command\<close>\<close>

text \<open>One message; the result is whether the peer has hung up.\<close>

fun process_message ::
  "'a kumquat_env \<Rightarrow> descriptor \<Rightarrow> kumquat_gpu_protocol \<Rightarrow> (unit, 'a) kop" where
  "process_message env stream GetNumCapsets k = get_num_capsets stream k"
| "process_message env stream (GetCapsetInfo capset_index) k = get_capset_info stream capset_index k"
| "process_message env stream (GetCapset cmd) k = get_capset stream cmd k"
| "process_message env stream (CtxCreate cmd) k = ctx_create env stream cmd k"
| "process_message env stream (CtxDestroy ctx_id) k = rut (rutabaga_destroy_context ctx_id) k"
| "process_message env stream (CtxAttachResource cmd) k =
     rut (rutabaga_context_attach_resource (kr_ctx_id cmd) (kr_resource_id cmd)) k"
| "process_message env stream (CtxDetachResource cmd) k = ctx_detach_resource cmd k"
| "process_message env stream (ResourceCreate3d cmd) k = server_resource_create_3d stream cmd k"
| "process_message env stream (TransferToHost3d cmd h) k = transfer_to_host cmd h k"
| "process_message env stream (TransferFromHost3d cmd h) k = transfer_from_host cmd h k"
| "process_message env stream (CmdSubmit3d cmd cmd_buf fence_ids) k =
     cmd_submit_3d stream cmd cmd_buf fence_ids k"
| "process_message env stream (ResourceCreateBlob cmd) k = server_create_blob stream cmd k"
| "process_message env stream SnapshotSave k =
     and_then_st (rut (rutabaga_snapshot (ke_ser env) SNAPSHOT_DIR) k) (\<lambda>_. reply_snapshot stream)"
| "process_message env stream SnapshotRestore k =
     and_then_st (rut (rutabaga_restore (ke_de env) SNAPSHOT_DIR) k) (\<lambda>_. reply_snapshot stream)"
| "process_message env stream OkNoData k = (Ok (), k)"
| "process_message env stream _ k = (Err (KumquatMagma Unsupported), k)"

fun process_messages ::
  "'a kumquat_env \<Rightarrow> descriptor \<Rightarrow> kumquat_gpu_protocol list \<Rightarrow> bool \<Rightarrow> (bool, 'a) kop" where
  "process_messages env stream [] hung_up k = (Ok hung_up, k)"
| "process_messages env stream (p # ps) hung_up k =
     and_then_st (process_message env stream p k) (\<lambda>_.
       process_messages env stream ps (hung_up \<or> p = OkNoData))"

definition process_command :: "'a kumquat_env \<Rightarrow> descriptor \<Rightarrow> (bool, 'a) kop" where
  "process_command env stream k =
     and_then_st (sys (stream_read stream) k) (\<lambda>ps. process_messages env stream ps False)"

section \<open>The server\<close>

datatype kumquat_connection = GpuListener | GpuConnection descriptor

text \<open>The world of the server is that of its GPU whenever a command is processed.\<close>

record 'a kumquat =
  ku_connection_id :: u64
  ku_wait_ctx :: descriptor
  ku_gpu_opt :: "'a kumquat_gpu option"
  ku_listener_opt :: "descriptor option"
  ku_connections :: "(u64, kumquat_connection) fmap"
  ku_world :: "'a cd_world_scheme"

definition ku_sys ::
  "('a cd_world_scheme \<Rightarrow> 'r rres \<times> 'a cd_world_scheme) \<Rightarrow> 'a kumquat \<Rightarrow> 'r kres \<times> 'a kumquat" where
  "ku_sys f u = (case f (ku_world u) of (r, w) \<Rightarrow> (kq_system r, u\<lparr>ku_world := w\<rparr>))"

definition with_gpu :: "'a kumquat_gpu \<Rightarrow> ('r, 'a) kop \<Rightarrow> 'a kumquat \<Rightarrow> 'r kres \<times> 'a kumquat" where
  "with_gpu k f u =
     (case f (k\<lparr>kg_rutabaga := (kg_rutabaga k)\<lparr>g_world := ku_world u\<rparr>\<rparr>) of
        (r, k) \<Rightarrow> (r, u\<lparr>ku_gpu_opt := Some k, ku_world := kg_world k\<rparr>))"

definition accept_connection :: "descriptor \<Rightarrow> 'a kumquat \<Rightarrow> unit kres \<times> 'a kumquat" where
  "accept_connection listener u =
     and_then_st (ku_sys (listener_accept listener) u) (\<lambda>stream u.
     let i = ku_connection_id u + 1; u = u\<lparr>ku_connection_id := i\<rparr> in
     and_then_st (ku_sys (wait_ctx_add (ku_wait_ctx u) i stream) u) (\<lambda>_ u.
     (Ok (), u\<lparr>ku_connections := fmupd i (GpuConnection stream) (ku_connections u)\<rparr>)))"

definition handle_connection ::
  "'a kumquat_env \<Rightarrow> wait_event \<Rightarrow> descriptor \<Rightarrow> 'a kumquat \<Rightarrow> unit kres \<times> 'a kumquat" where
  "handle_connection env event stream u =
     and_then_st
       (case ku_gpu_opt u of
          Some k \<Rightarrow>
            if ev_readable event then
              and_then_st (with_gpu k (process_command env stream) u) (\<lambda>r u.
                (Ok (\<not> r \<and> ev_hung_up event), u))
            else (Ok False, u)
        | None \<Rightarrow> (Ok False, u)) (\<lambda>hung_up u.
     if hung_up then
       and_then_st (ku_sys (wait_ctx_delete (ku_wait_ctx u) stream) u) (\<lambda>_ u.
         (Ok (), u\<lparr>ku_connections := fmdrop (ev_connection_id event) (ku_connections u)\<rparr>))
     else (Ok (), u))"

definition kumquat_event ::
  "'a kumquat_env \<Rightarrow> wait_event \<Rightarrow> 'a kumquat \<Rightarrow> unit kres \<times> 'a kumquat" where
  "kumquat_event env event u =
     (case fmlookup (ku_connections u) (ev_connection_id event) of
        None \<Rightarrow> (Err (KumquatMagma (WithContext ''no connection found'')), u)
      | Some GpuListener \<Rightarrow>
          (case ku_listener_opt u of
             Some listener \<Rightarrow> accept_connection listener u
           | None \<Rightarrow> (Ok (), u))
      | Some (GpuConnection stream) \<Rightarrow> handle_connection env event stream u)"

fun kumquat_events ::
  "'a kumquat_env \<Rightarrow> wait_event list \<Rightarrow> 'a kumquat \<Rightarrow> unit kres \<times> 'a kumquat" where
  "kumquat_events env [] u = (Ok (), u)"
| "kumquat_events env (event # events) u =
     and_then_st (kumquat_event env event u) (\<lambda>_. kumquat_events env events)"

definition kumquat_run :: "'a kumquat_env \<Rightarrow> 'a kumquat \<Rightarrow> unit kres \<times> 'a kumquat" where
  "kumquat_run env u =
     and_then_st (ku_sys (wait_ctx_wait (ku_wait_ctx u)) u) (\<lambda>events. kumquat_events env events)"

section \<open>\<open>KumquatBuilder\<close>\<close>

record kumquat_builder =
  kub_capset_names_opt :: "string option"
  kub_gpu_socket_opt :: "string option"
  kub_renderer_features_opt :: "string option"

definition kumquat_builder_new :: kumquat_builder where
  "kumquat_builder_new = \<lparr>kub_capset_names_opt = None, kub_gpu_socket_opt = None,
     kub_renderer_features_opt = None\<rparr>"

definition set_capset_names :: "string \<Rightarrow> kumquat_builder \<Rightarrow> kumquat_builder" where
  "set_capset_names capset_names b = b\<lparr>kub_capset_names_opt := Some capset_names\<rparr>"

definition set_gpu_socket :: "string option \<Rightarrow> kumquat_builder \<Rightarrow> kumquat_builder" where
  "set_gpu_socket gpu_socket_opt b = b\<lparr>kub_gpu_socket_opt := gpu_socket_opt\<rparr>"

definition set_server_features :: "string \<Rightarrow> kumquat_builder \<Rightarrow> kumquat_builder" where
  "set_server_features renderer_features b = b\<lparr>kub_renderer_features_opt := Some renderer_features\<rparr>"

text \<open>Removing an old socket file is left out: its result is ignored and the file tree of the world
  holds no sockets.\<close>

definition kumquat_build ::
  "'a kumquat_env \<Rightarrow> kumquat_builder \<Rightarrow> 'a cd_world_scheme \<Rightarrow> 'a kumquat kres \<times> 'a cd_world_scheme" where
  "kumquat_build env b w =
     (case wait_ctx_new w of (r, w) \<Rightarrow>
      and_then_st (kq_system r, w) (\<lambda>wait_ctx w.
      case kub_gpu_socket_opt b of
        None \<Rightarrow>
          (Ok \<lparr>ku_connection_id = 0, ku_wait_ctx = wait_ctx, ku_gpu_opt = None,
              ku_listener_opt = None, ku_connections = fmempty, ku_world = w\<rparr>, w)
      | Some gpu_socket \<Rightarrow>
          and_then_st (unwrap (kub_capset_names_opt b), w) (\<lambda>capset_names w.
          and_then_st (unwrap (kub_renderer_features_opt b), w) (\<lambda>renderer_features w.
          and_then_st (kumquat_gpu_new env capset_names renderer_features w) (\<lambda>k w.
          case listener_bind gpu_socket w of (r, w) \<Rightarrow>
          and_then_st (kq_system r, w) (\<lambda>gpu_listener w.
          case wait_ctx_add wait_ctx 0 gpu_listener w of (r, w) \<Rightarrow>
          and_then_st (kq_system r, w) (\<lambda>_ w.
          (Ok \<lparr>ku_connection_id = 0, ku_wait_ctx = wait_ctx, ku_gpu_opt = Some k,
              ku_listener_opt = Some gpu_listener,
              ku_connections = fmupd 0 GpuListener fmempty, ku_world = w\<rparr>, w))))))))"

section \<open>The server program\<close>

text \<open>
  \<open>src/kumquat/server/src/main.rs\<close>: the arguments, with the defaults of the command line, and \<open>main\<close>.
  The loop of \<open>main\<close> only ends with an error; \<open>None\<close> is a server that runs for ever.
\<close>

record kumquat_args =
  ka_capset_names :: string
  ka_gpu_socket_path :: string
  ka_renderer_features :: string
  ka_pipe_descriptor :: u64

definition kumquat_args_default :: kumquat_args where
  "kumquat_args_default =
     \<lparr>ka_capset_names = ''gfxstream-vulkan'', ka_gpu_socket_path = ''/tmp/kumquat-gpu-0'',
      ka_renderer_features = [], ka_pipe_descriptor = 0\<rparr>"

definition kumquat_args_builder :: "kumquat_args \<Rightarrow> kumquat_builder" where
  "kumquat_args_builder args =
     set_server_features (ka_renderer_features args)
       (set_gpu_socket
         (if ka_gpu_socket_path args \<noteq> [] then Some (ka_gpu_socket_path args) else None)
         (set_capset_names (ka_capset_names args) kumquat_builder_new))"

text \<open>A descriptor is the low half of the argument and must not be -1.\<close>

definition signal_parent :: "u64 \<Rightarrow> 'a kumquat \<Rightarrow> unit kres \<times> 'a kumquat" where
  "signal_parent pipe_descriptor u =
     (let fd = ucast pipe_descriptor :: u32 in
      if pipe_descriptor = 0 then (Ok (), u)
      else if fd = -1 then (Panicked, u)
      else and_then_st (ku_sys (pipe_write (unat fd) (le_bytes 8 (1 :: u64))) u) (\<lambda>_ u. (Ok (), u)))"

partial_function (option) kumquat_loop ::
  "'a kumquat_env \<Rightarrow> 'a kumquat \<Rightarrow> (kumquat_gpu_error fault \<times> 'a kumquat) option" where
  "kumquat_loop env u =
     (case kumquat_run env u of (Inl e, u) \<Rightarrow> Some (e, u) | (Inr _, u) \<Rightarrow> kumquat_loop env u)"

definition kumquat_main ::
  "'a kumquat_env \<Rightarrow> kumquat_args \<Rightarrow> 'a cd_world_scheme \<Rightarrow>
   (kumquat_gpu_error fault \<times> 'a cd_world_scheme) option" where
  "kumquat_main env args w =
     (case kumquat_build env (kumquat_args_builder args) w of
        (Inl e, w) \<Rightarrow> Some (e, w)
      | (Inr u, w) \<Rightarrow>
          (case signal_parent (ka_pipe_descriptor args) (u\<lparr>ku_world := w\<rparr>) of
             (Inl e, u) \<Rightarrow> Some (e, ku_world u)
           | (Inr _, u) \<Rightarrow> map_option (\<lambda>(e, u). (e, ku_world u)) (kumquat_loop env u)))"

text \<open>The loop ends exactly with the error of the first run that fails, whichever client caused it.\<close>

primrec kumquat_runs :: "'a kumquat_env \<Rightarrow> nat \<Rightarrow> 'a kumquat \<Rightarrow> 'a kumquat option" where
  "kumquat_runs env 0 u = Some u"
| "kumquat_runs env (Suc n) u =
     (case kumquat_run env u of (Inl _, _) \<Rightarrow> None | (Inr _, u) \<Rightarrow> kumquat_runs env n u)"

lemma runs_kumquat_loop:
  "kumquat_runs env n u = Some u1 \<Longrightarrow> kumquat_run env u1 = (Inl e, u') \<Longrightarrow>
   kumquat_loop env u = Some (e, u')"
  by (induction n arbitrary: u)
    (auto simp: kumquat_loop.simps split: prod.split_asm sum.split_asm)

lemma kumquat_loop_runs:
  assumes "kumquat_loop env u = Some (e, u')"
  shows "\<exists>n u1. kumquat_runs env n u = Some u1 \<and> kumquat_run env u1 = (Inl e, u')"
proof -
  have "\<exists>n u1. kumquat_runs env n u = Some u1 \<and> kumquat_run env u1 = (Inl (fst (e, u')), snd (e, u'))"
  proof (rule kumquat_loop.raw_induct [where P = "\<lambda>env u y. \<exists>n u1. kumquat_runs env n u = Some u1 \<and>
        kumquat_run env u1 = (Inl (fst y), snd y)", OF _ assms])
    fix loop and env :: "'a kumquat_env" and u y
    assume IH: "\<And>env u y. loop env u = Some y \<Longrightarrow>
        \<exists>n u1. kumquat_runs env n u = Some u1 \<and> kumquat_run env u1 = (Inl (fst y), snd y)"
      and body: "(case kumquat_run env u of (Inl e, u) \<Rightarrow> Some (e, u) | (Inr _, u) \<Rightarrow> loop env u) = Some y"
    obtain r v where run: "kumquat_run env u = (r, v)" by fastforce
    show "\<exists>n u1. kumquat_runs env n u = Some u1 \<and> kumquat_run env u1 = (Inl (fst y), snd y)"
    proof (cases r)
      case (Inl x)
      then show ?thesis using run body by (auto intro: exI [of _ 0])
    next
      case (Inr x)
      then obtain n u1 where "kumquat_runs env n v = Some u1" "kumquat_run env u1 = (Inl (fst y), snd y)"
        using IH [of env v y] run body by auto
      then show ?thesis using run Inr by (intro exI [of _ "Suc n"]) simp
    qed
  qed
  then show ?thesis by simp
qed

lemma kumquat_loop_iff:
  "kumquat_loop env u = Some (e, u') \<longleftrightarrow>
     (\<exists>n u1. kumquat_runs env n u = Some u1 \<and> kumquat_run env u1 = (Inl e, u'))"
  using runs_kumquat_loop kumquat_loop_runs by metis

end
