(* ===== verification/Renderer_Utils.thy ===== *)
theory Renderer_Utils
  imports Component
begin

text \<open>
  What the bindings of virglrenderer and gfxstream share: \<open>src/renderer_utils.rs\<close>, the argument
  structs both C interfaces use (\<open>src/generated/virgl_renderer_bindings.rs\<close>) and the conventions of a
  call into C.

  A C library is a record of functions on the world, one per entry point; what a call does inside the
  library, and the callbacks it makes, is its effect on the world. A C \<open>int\<close> is a word of 32 bits and
  0 is success; an out-parameter is part of the result.
\<close>

section \<open>Results of C functions\<close>

definition ret_to_res :: "u32 \<Rightarrow> unit rres" where
  "ret_to_res ret = (if ret = 0 then Ok () else Err (ComponentError ret))"

lemma ret_to_res_eq_Ok [simp, rust_simps]: "ret_to_res ret = Inr x \<longleftrightarrow> ret = 0"
  by (simp add: ret_to_res_def)

lemma ret_to_res_simps [simp]:
  "ret_to_res 0 = Ok ()" "ret \<noteq> 0 \<Longrightarrow> ret_to_res ret = Err (ComponentError ret)"
  by (simp_all add: ret_to_res_def)

text \<open>A call whose \<open>int\<close> is the result, and a call that also fills an out-parameter.\<close>

definition c_ret :: "u32 \<times> 'w \<Rightarrow> unit rres \<times> 'w" where
  "c_ret p = (case p of (ret, w) \<Rightarrow> (ret_to_res ret, w))"

definition c_out :: "(u32 \<times> 'x) \<times> 'w \<Rightarrow> 'x rres \<times> 'w" where
  "c_out p = (case p of ((ret, x), w) \<Rightarrow> (and_then (ret_to_res ret) (\<lambda>_. Ok x), w))"

text \<open>\<open>Result::ok\<close>: an error becomes \<open>None\<close>, a panic goes on.\<close>

definition ok_st :: "'r rres \<times> 'w \<Rightarrow> 'r option rres \<times> 'w" where
  "ok_st p = (case p of
     (Inl Panic, w) \<Rightarrow> (Panicked, w) | (Inl Hang, w) \<Rightarrow> (Hung, w) | (Inl (Fail e), w) \<Rightarrow> (Ok None, w) | (Inr x, w) \<Rightarrow> (Ok (Some x), w))"

lemma c_ret_simps [simp]: "c_ret (ret, w) = (ret_to_res ret, w)"
  by (simp add: c_ret_def)

lemma c_out_simps [simp]:
  "c_out ((0, x), w) = (Ok x, w)"
  "ret \<noteq> 0 \<Longrightarrow> c_out ((ret, x), w) = (Err (ComponentError ret), w)"
  by (simp_all add: c_out_def)

lemma c_out_eq_Ok [rust_simps]: "c_out p = (Inr x, w) \<longleftrightarrow> p = ((0, x), w)"
  by (auto simp: c_out_def rust_simps split: prod.splits)

lemma ok_st_simps [simp]:
  "ok_st (Ok x, w) = (Ok (Some x), w)" "ok_st (Err e, w) = (Ok None, w)"
  "ok_st (Panicked, w) = (Panicked, w)" "ok_st (Hung, w) = (Hung, w)"
  by (simp_all add: ok_st_def)

text \<open>\<open>OwnedFd::from_raw_fd\<close> panics on -1.\<close>

definition from_raw_descriptor :: "u32 \<Rightarrow> descriptor rres" where
  "from_raw_descriptor fd = (if fd = - 1 then Panicked else Ok (unat fd))"

section \<open>Argument structs\<close>

record virgl_box =
  vb_x :: u32
  vb_y :: u32
  vb_z :: u32
  vb_w :: u32
  vb_h :: u32
  vb_d :: u32

definition virgl_box_of :: "transfer_3d \<Rightarrow> virgl_box" where
  "virgl_box_of t =
     \<lparr>vb_x = t3d_x t, vb_y = t3d_y t, vb_z = t3d_z t, vb_w = t3d_w t, vb_h = t3d_h t,
      vb_d = t3d_d t\<rparr>"

record resource_create_args =
  rca_handle :: u32
  rca_target :: u32
  rca_format :: u32
  rca_bind :: u32
  rca_width :: u32
  rca_height :: u32
  rca_depth :: u32
  rca_array_size :: u32
  rca_last_level :: u32
  rca_nr_samples :: u32
  rca_flags :: u32

definition create_args_of :: "u32 \<Rightarrow> resource_create_3d \<Rightarrow> resource_create_args" where
  "create_args_of resource_id p =
     \<lparr>rca_handle = resource_id, rca_target = c3d_target p, rca_format = c3d_format p,
      rca_bind = c3d_bind p, rca_width = c3d_width p, rca_height = c3d_height p,
      rca_depth = c3d_depth p, rca_array_size = c3d_array_size p,
      rca_last_level = c3d_last_level p, rca_nr_samples = c3d_nr_samples p,
      rca_flags = c3d_flags p\<rparr>"

text \<open>The arguments of the two transfer calls, less the iovecs.\<close>

record transfer_args =
  ta_handle :: u32
  ta_ctx_id :: u32
  ta_level :: u32
  ta_stride :: u32
  ta_layer_stride :: u32
  ta_box :: virgl_box
  ta_offset :: u64

definition transfer_args_of :: "u32 \<Rightarrow> rutabaga_resource \<Rightarrow> transfer_3d \<Rightarrow> transfer_args" where
  "transfer_args_of ctx_id resource t =
     \<lparr>ta_handle = r_resource_id resource, ta_ctx_id = ctx_id, ta_level = t3d_level t,
      ta_stride = t3d_stride t, ta_layer_stride = t3d_layer_stride t, ta_box = virgl_box_of t,
      ta_offset = t3d_offset t\<rparr>"

text \<open>\<open>RutabagaCookie\<close>, the state behind the callbacks of a library. The fence handler, always
  present, is that of the world; a debug handler is named by a number.\<close>

record rutabaga_cookie =
  cookie_render_server_fd :: "descriptor option"
  cookie_debug_handler :: "nat option"
  cookie_rutabaga_paths :: "rutabaga_path list option"

text \<open>The name of a context: the one given, unless it is empty.\<close>

definition context_name_of :: "string option \<Rightarrow> string" where
  "context_name_of context_name =
     (case context_name of Some (c # cs) \<Rightarrow> c # cs | _ \<Rightarrow> ''gpu_renderer'')"

definition RUTABAGA_IMPORT_FLAG_VULKAN_INFO :: u32 where
  [simp]: "RUTABAGA_IMPORT_FLAG_VULKAN_INFO = 2"
definition RUTABAGA_IMPORT_FLAG_RESOURCE_EXISTS :: u32 where
  [simp]: "RUTABAGA_IMPORT_FLAG_RESOURCE_EXISTS = 0x40000000"
definition RUTABAGA_HANDLE_TYPE_PLATFORM_AHB :: u32 where
  [simp]: "RUTABAGA_HANDLE_TYPE_PLATFORM_AHB = 0x03000000"

end
