(* ===== verification/Virgl_Renderer.thy ===== *)
theory Virgl_Renderer
  imports Renderer_Utils
begin

text \<open>
  The virglrenderer component, \<open>src/virgl_renderer.rs\<close>: each trait method wraps entry points of the
  virglrenderer library, the record \<open>virgl_lib\<close>, which also holds the few calls of libc and of the
  file system that the code makes. The stable entry points are modelled: with
  \<open>virgl_renderer_unstable\<close> the source does not compile, because \<open>map_placed\<close> matches a \<open>u64\<close> against
  an option.
\<close>

section \<open>The library\<close>

definition VIRGL_RENDERER_BLOB_FD_TYPE_DMABUF :: u32 where
  [simp]: "VIRGL_RENDERER_BLOB_FD_TYPE_DMABUF = 1"
definition VIRGL_RENDERER_BLOB_FD_TYPE_OPAQUE :: u32 where
  [simp]: "VIRGL_RENDERER_BLOB_FD_TYPE_OPAQUE = 2"
definition VIRGL_RENDERER_BLOB_FD_TYPE_SHM :: u32 where
  [simp]: "VIRGL_RENDERER_BLOB_FD_TYPE_SHM = 3"
definition VIRGL_RENDERER_FENCE_FLAG_MERGEABLE :: u32 where
  [simp]: "VIRGL_RENDERER_FENCE_FLAG_MERGEABLE = 1"
definition VIRGL_RENDERER_STRUCTURE_TYPE_EXPORT_QUERY :: u32 where
  [simp]: "VIRGL_RENDERER_STRUCTURE_TYPE_EXPORT_QUERY = 1"

text \<open>\<open>virgl_renderer_export_query\<close>: the fields the library fills in. Its descriptors are not looked
  at.\<close>

record export_query =
  eq_stype :: u32
  eq_stype_version :: u32
  eq_in_resource_id :: u32
  eq_in_export_fds :: u32
  eq_out_num_fds :: u32
  eq_out_fourcc :: u32
  eq_out_strides :: "u32 list"
  eq_out_offsets :: "u32 list"
  eq_out_modifier :: u64

record virgl_resource_info =
  ri_width :: u32
  ri_height :: u32
  ri_tex_id :: u32
  ri_stride :: u32
  ri_drm_fourcc :: u32
  ri_modifiers :: u64

record import_blob_args =
  ib_res_handle :: u32
  ib_blob_mem :: u32
  ib_fd_type :: u32
  ib_fd :: descriptor
  ib_size :: u64

record create_blob_args =
  cba_res_handle :: u32
  cba_ctx_id :: u32
  cba_blob_mem :: u32
  cba_blob_flags :: u32
  cba_blob_id :: u64
  cba_size :: u64
  cba_iovecs :: "rutabaga_iovec list option"

text \<open>\<open>vl_init_once\<close> reads and \<open>vl_set_init_once\<close> sets the static \<open>INIT_ONCE\<close> of the process.\<close>

record 'w virgl_lib =
  vl_init_once :: "'w \<Rightarrow> bool"
  vl_set_init_once :: "'w \<Rightarrow> 'w"
  vl_init :: "rutabaga_cookie \<Rightarrow> u32 \<Rightarrow> 'w \<Rightarrow> u32 \<times> 'w"
  vl_cleanup :: "'w \<Rightarrow> 'w"
  vl_poll :: "'w \<Rightarrow> 'w"
  vl_get_poll_fd :: "'w \<Rightarrow> u32 \<times> 'w"
  vl_force_ctx_0 :: "'w \<Rightarrow> 'w"
  vl_get_cap_set :: "u32 \<Rightarrow> 'w \<Rightarrow> u32 \<times> u32"
  vl_fill_caps :: "u32 \<Rightarrow> u32 \<Rightarrow> u8 list \<Rightarrow> 'w \<Rightarrow> u8 list"
  vl_create_fence :: "u32 \<Rightarrow> u32 \<Rightarrow> 'w \<Rightarrow> u32 \<times> 'w"
  vl_context_create :: "u32 \<Rightarrow> string \<Rightarrow> 'w \<Rightarrow> u32 \<times> 'w"
  vl_context_create_with_flags :: "u32 \<Rightarrow> u32 \<Rightarrow> string \<Rightarrow> 'w \<Rightarrow> u32 \<times> 'w"
  vl_context_destroy :: "u32 \<Rightarrow> 'w \<Rightarrow> 'w"
  vl_context_create_fence :: "u32 \<Rightarrow> u32 \<Rightarrow> u32 \<Rightarrow> u64 \<Rightarrow> 'w \<Rightarrow> u32 \<times> 'w"
  vl_submit_cmd :: "u8 list \<Rightarrow> u32 \<Rightarrow> u32 \<Rightarrow> 'w \<Rightarrow> (u32 \<times> u8 list) \<times> 'w"
  vl_ctx_attach_resource :: "u32 \<Rightarrow> u32 \<Rightarrow> 'w \<Rightarrow> 'w"
  vl_ctx_detach_resource :: "u32 \<Rightarrow> u32 \<Rightarrow> 'w \<Rightarrow> 'w"
  vl_resource_create :: "resource_create_args \<Rightarrow> 'w \<Rightarrow> u32 \<times> 'w"
  vl_resource_create_blob :: "create_blob_args \<Rightarrow> 'w \<Rightarrow> u32 \<times> 'w"
  vl_resource_import_blob :: "import_blob_args \<Rightarrow> 'w \<Rightarrow> u32 \<times> 'w"
  vl_resource_unref :: "u32 \<Rightarrow> 'w \<Rightarrow> 'w"
  vl_resource_attach_iov :: "u32 \<Rightarrow> rutabaga_iovec list \<Rightarrow> u32 \<Rightarrow> 'w \<Rightarrow> u32 \<times> 'w"
  vl_resource_detach_iov :: "u32 \<Rightarrow> 'w \<Rightarrow> 'w"
  vl_transfer_read_iov :: "transfer_args \<Rightarrow> u8 list option \<Rightarrow> 'w \<Rightarrow> (u32 \<times> u8 list option) \<times> 'w"
  vl_transfer_write_iov :: "transfer_args \<Rightarrow> 'w \<Rightarrow> u32 \<times> 'w"
  vl_execute :: "export_query \<Rightarrow> 'w \<Rightarrow> (u32 \<times> export_query) \<times> 'w"
  vl_resource_export_blob :: "u32 \<Rightarrow> 'w \<Rightarrow> (u32 \<times> u32 \<times> u32) \<times> 'w"
  vl_resource_get_map_info :: "u32 \<Rightarrow> 'w \<Rightarrow> (u32 \<times> u32) \<times> 'w"
  vl_resource_get_info_ext :: "u32 \<Rightarrow> 'w \<Rightarrow> (u32 \<times> virgl_resource_info) \<times> 'w"
  vl_get_fd_for_texture :: "u32 \<Rightarrow> 'w \<Rightarrow> (u32 \<times> u32) \<times> 'w"
  vl_resource_map :: "u32 \<Rightarrow> 'w \<Rightarrow> (u32 \<times> u64 \<times> u64) \<times> 'w"
  vl_resource_unmap :: "u32 \<Rightarrow> 'w \<Rightarrow> u32 \<times> 'w"
  libc_seek_end :: "descriptor \<Rightarrow> 'w \<Rightarrow> u64 \<times> 'w"
  libc_close :: "descriptor \<Rightarrow> 'w \<Rightarrow> 'w"
  std_canonicalize :: "string \<Rightarrow> 'w \<Rightarrow> string option"
  std_path_exists :: "string \<Rightarrow> 'w \<Rightarrow> bool"
  std_open_rw :: "string \<Rightarrow> 'w \<Rightarrow> descriptor option \<times> 'w"

section \<open>Callbacks\<close>

definition DEFAULT_DRM_FD :: u32 where [simp]: "DEFAULT_DRM_FD = - 1"

definition is_valid_gpu_path :: "'w virgl_lib \<Rightarrow> rutabaga_path \<Rightarrow> 'w \<Rightarrow> bool" where
  "is_valid_gpu_path l rpath w \<longleftrightarrow>
     path_type rpath = RUTABAGA_PATH_TYPE_GPU \<and>
     (case std_canonicalize l (path_path rpath) w of
        None \<Rightarrow> False
      | Some p \<Rightarrow> take 16 p = ''/dev/dri/renderD'' \<and> std_path_exists l p w)"

definition get_drm_fd :: "'w virgl_lib \<Rightarrow> rutabaga_cookie \<Rightarrow> 'w \<Rightarrow> u32 \<times> 'w" where
  "get_drm_fd l cookie w =
     (case Option.bind (cookie_rutabaga_paths cookie) (find (\<lambda>rpath. is_valid_gpu_path l rpath w)) of
        Some rpath \<Rightarrow>
          (case std_open_rw l (path_path rpath) w of
             (Some d, w) \<Rightarrow> (of_nat d, w) | (None, w) \<Rightarrow> (DEFAULT_DRM_FD, w))
      | None \<Rightarrow> (DEFAULT_DRM_FD, w))"

definition virgl_write_context_fence ::
  "u32 \<Rightarrow> u32 \<Rightarrow> u64 \<Rightarrow> 'a world_scheme \<Rightarrow> 'a world_scheme" where
  "virgl_write_context_fence ctx_id ring_idx fid w =
     fence_handler_call
       \<lparr>fence_flags = RUTABAGA_FLAG_FENCE OR RUTABAGA_FLAG_INFO_RING_IDX, fence_id = fid,
        fence_ctx_id = ctx_id, fence_ring_idx = ucast ring_idx\<rparr> w"

definition virgl_write_fence :: "u32 \<Rightarrow> 'a world_scheme \<Rightarrow> 'a world_scheme" where
  "virgl_write_fence fence w =
     fence_handler_call
       \<lparr>fence_flags = RUTABAGA_FLAG_FENCE, fence_id = ucast fence, fence_ctx_id = 0,
        fence_ring_idx = 0\<rparr> w"

definition get_server_fd :: "u32 \<Rightarrow> rutabaga_cookie \<Rightarrow> u32 \<times> rutabaga_cookie" where
  "get_server_fd version cookie =
     (if version \<noteq> 0 then (- 1, cookie)
      else
        (case cookie_render_server_fd cookie of None \<Rightarrow> - 1 | Some d \<Rightarrow> of_nat d,
         cookie\<lparr>cookie_render_server_fd := None\<rparr>))"

section \<open>Contexts\<close>

definition import_resource ::
  "'a world_scheme virgl_lib \<Rightarrow> rutabaga_resource \<Rightarrow> 'a world_scheme \<Rightarrow>
   (unit rres \<times> rutabaga_resource) \<times> 'a world_scheme" where
  "import_resource l resource w =
     (if r_component_mask resource AND component_bit VirglRenderer \<noteq> 0 then ((Ok (), resource), w)
      else
        case Option.bind (r_handle resource) as_mesa_handle of
          None \<Rightarrow> ((Ok (), resource), w)
        | Some mesa_handle \<Rightarrow>
            if handle_type mesa_handle \<noteq> MAGMA_GPU_HANDLE_TYPE_MEM_DMABUF
            then ((Ok (), resource), w)
            else
              case from_magma (map_err IoError (descriptor_try_clone (w_os w) (os_handle mesa_handle))) of
                Inl e \<Rightarrow> ((Inl e, resource), w)
              | Inr dmabuf_fd \<Rightarrow>
                  case libc_seek_end l dmabuf_fd w of (dmabuf_size, w) \<Rightarrow>
                  case vl_resource_import_blob l
                      \<lparr>ib_res_handle = r_resource_id resource, ib_blob_mem = r_blob_mem resource,
                       ib_fd_type = VIRGL_RENDERER_BLOB_FD_TYPE_DMABUF, ib_fd = dmabuf_fd,
                       ib_size = dmabuf_size\<rparr> w of (ret, w) \<Rightarrow>
                  if ret \<noteq> 0 then ((Ok (), resource), libc_close l dmabuf_fd w)
                  else
                    ((Ok (), resource\<lparr>r_component_mask :=
                        r_component_mask resource OR component_bit VirglRenderer\<rparr>), w))"

definition virgl_submit_cmd ::
  "'w virgl_lib \<Rightarrow> u32 \<Rightarrow> u8 list \<Rightarrow> u64 list \<Rightarrow> magma_handle list \<Rightarrow> 'w \<Rightarrow>
   (unit rres \<times> u8 list) \<times> 'w" where
  "virgl_submit_cmd l ctx_id commands fence_ids shareable_fences w =
     (if fence_ids \<noteq> [] then ((Err (MagmaGpuError Unsupported), commands), w)
      else if length commands mod 4 \<noteq> 0
      then ((Err (InvalidCommandSize (length commands)), commands), w)
      else
        case vl_submit_cmd l commands ctx_id (of_nat (length commands div 4)) w of
          ((ret, commands), w) \<Rightarrow> ((ret_to_res ret, commands), w))"

text \<open>An import that fails is only logged.\<close>

definition virgl_attach ::
  "'a world_scheme virgl_lib \<Rightarrow> u32 \<Rightarrow> rutabaga_resource \<Rightarrow> 'a world_scheme \<Rightarrow>
   rutabaga_resource \<times> 'a world_scheme" where
  "virgl_attach l ctx_id resource w =
     (case import_resource l resource w of
        ((r, resource), w) \<Rightarrow>
          (resource, vl_ctx_attach_resource l ctx_id (r_resource_id resource) w))"

definition virgl_detach :: "'w virgl_lib \<Rightarrow> u32 \<Rightarrow> rutabaga_resource \<Rightarrow> 'w \<Rightarrow> 'w" where
  "virgl_detach l ctx_id resource w = vl_ctx_detach_resource l ctx_id (r_resource_id resource) w"

definition virgl_context_create_fence ::
  "'w virgl_lib \<Rightarrow> rutabaga_fence \<Rightarrow> 'w \<Rightarrow> magma_handle option rres \<times> 'w" where
  "virgl_context_create_fence l fence w =
     and_then_st
       (c_ret (vl_context_create_fence l (fence_ctx_id fence) VIRGL_RENDERER_FENCE_FLAG_MERGEABLE
         (ucast (fence_ring_idx fence)) (fence_id fence) w)) (\<lambda>_ w. (Ok None, w))"

definition virgl_context_drop :: "'w virgl_lib \<Rightarrow> u32 \<Rightarrow> 'w \<Rightarrow> 'w" where
  "virgl_context_drop l ctx_id w = vl_context_destroy l ctx_id w"

definition virgl_context :: "'a world_scheme virgl_lib \<Rightarrow> u32 \<Rightarrow> 'a world_scheme rutabaga_context" where
  "virgl_context l ctx_id =
     (context_defaults (virgl_submit_cmd l ctx_id) (virgl_attach l ctx_id) (virgl_detach l ctx_id)
        VirglRenderer)
     \<lparr>x_context_create_fence := virgl_context_create_fence l,
      x_drop := virgl_context_drop l ctx_id\<rparr>"

section \<open>The component\<close>

text \<open>\<open>size_of::<Query>()\<close> is the size of a C struct of the library; the model leaves it out of the
  query.\<close>

definition virgl_export_query :: "'w virgl_lib \<Rightarrow> u32 \<Rightarrow> 'w \<Rightarrow> export_query rres \<times> 'w" where
  "virgl_export_query l resource_id w =
     c_out (vl_execute l
       \<lparr>eq_stype = VIRGL_RENDERER_STRUCTURE_TYPE_EXPORT_QUERY, eq_stype_version = 0,
        eq_in_resource_id = resource_id, eq_in_export_fds = 0, eq_out_num_fds = 0,
        eq_out_fourcc = 0, eq_out_strides = replicate 4 0, eq_out_offsets = replicate 4 0,
        eq_out_modifier = 0\<rparr> w)"

definition virgl_map_info :: "'w virgl_lib \<Rightarrow> u32 \<Rightarrow> 'w \<Rightarrow> u32 rres \<times> 'w" where
  "virgl_map_info l resource_id w =
     and_then_st (c_out (vl_resource_get_map_info l resource_id w)) (\<lambda>map_info w.
       (Ok (map_info OR RUTABAGA_MAP_ACCESS_RW), w))"

definition virgl_query :: "'w virgl_lib \<Rightarrow> u32 \<Rightarrow> 'w \<Rightarrow> resource_3d_info rres \<times> 'w" where
  "virgl_query l resource_id w =
     and_then_st (virgl_export_query l resource_id w) (\<lambda>query w.
       (if eq_out_num_fds query = 0 then unsupported
        else Ok \<lparr>i3d_width = 0, i3d_height = 0, i3d_drm_fourcc = eq_out_fourcc query,
                 i3d_strides = eq_out_strides query, i3d_offsets = eq_out_offsets query,
                 i3d_modifier = eq_out_modifier query\<rparr>, w))"

definition virgl_handle_type :: "u32 \<Rightarrow> u32 rres" where
  "virgl_handle_type fd_type =
     (if fd_type = VIRGL_RENDERER_BLOB_FD_TYPE_DMABUF then Ok MAGMA_GPU_HANDLE_TYPE_MEM_DMABUF
      else if fd_type = VIRGL_RENDERER_BLOB_FD_TYPE_SHM then Ok MAGMA_GPU_HANDLE_TYPE_MEM_SHM
      else if fd_type = VIRGL_RENDERER_BLOB_FD_TYPE_OPAQUE then Ok MAGMA_GPU_HANDLE_TYPE_MEM_OPAQUE_FD
      else unsupported)"

definition virgl_export_blob :: "'w virgl_lib \<Rightarrow> u32 \<Rightarrow> 'w \<Rightarrow> rutabaga_handle rres \<times> 'w" where
  "virgl_export_blob l resource_id w =
     and_then_st (c_out (vl_resource_export_blob l resource_id w)) (\<lambda>(fd_type, fd) w.
       (and_then (from_raw_descriptor fd) (\<lambda>handle.
        and_then (virgl_handle_type fd_type) (\<lambda>t.
        Ok (MagmaGpuHandle \<lparr>os_handle = handle, handle_type = t\<rparr>))), w))"

definition virgl_get_capset_info :: "'w virgl_lib \<Rightarrow> u32 \<Rightarrow> 'w \<Rightarrow> u32 \<times> u32" where
  "virgl_get_capset_info l cid w = vl_get_cap_set l cid w"

definition virgl_get_capset :: "'w virgl_lib \<Rightarrow> u32 \<Rightarrow> u32 \<Rightarrow> 'w \<Rightarrow> u8 list" where
  "virgl_get_capset l cid version w =
     (case virgl_get_capset_info l cid w of
        (_, max_size) \<Rightarrow> vl_fill_caps l cid version (replicate (unat max_size) 0) w)"

definition virgl_force_ctx_0 :: "'w virgl_lib \<Rightarrow> 'w \<Rightarrow> 'w" where
  "virgl_force_ctx_0 l w = vl_force_ctx_0 l w"

definition virgl_create_fence :: "'w virgl_lib \<Rightarrow> rutabaga_fence \<Rightarrow> 'w \<Rightarrow> unit rres \<times> 'w" where
  "virgl_create_fence l fence w =
     c_ret (vl_create_fence l (ucast (fence_id fence)) (fence_ctx_id fence) w)"

definition virgl_event_poll :: "'w virgl_lib \<Rightarrow> 'w \<Rightarrow> 'w" where
  "virgl_event_poll l w = vl_poll l w"

definition virgl_poll_descriptor ::
  "'a world_scheme virgl_lib \<Rightarrow> 'a world_scheme \<Rightarrow> descriptor option \<times> 'a world_scheme" where
  "virgl_poll_descriptor l w =
     (case vl_get_poll_fd l w of
        (fd, w) \<Rightarrow>
          (if 0 \<le> sint fd then
             (case descriptor_try_clone (w_os w) (unat fd) of Inr dup_fd \<Rightarrow> Some dup_fd | Inl _ \<Rightarrow> None)
           else None, w))"

definition virgl_resource ::
  "u32 \<Rightarrow> rutabaga_handle option \<Rightarrow> resource_3d_info option \<Rightarrow> rutabaga_resource" where
  "virgl_resource resource_id handle info =
     (blank_resource resource_id)
     \<lparr>r_handle := handle, r_info_3d := info, r_component_mask := component_bit VirglRenderer\<rparr>"

text \<open>The descriptor of the texture, asked for when neither the export nor the query gave anything;
  a descriptor that is negative is not used.\<close>

definition virgl_texture_fallback ::
  "'w virgl_lib \<Rightarrow> u32 \<Rightarrow> 'w \<Rightarrow> (rutabaga_handle option \<times> resource_3d_info option) \<times> 'w" where
  "virgl_texture_fallback l resource_id w =
     (case vl_resource_get_info_ext l resource_id w of ((ret_info, info), w) \<Rightarrow>
      if ret_info \<noteq> 0 then ((None, None), w)
      else
        case vl_get_fd_for_texture l (ri_tex_id info) w of ((ret_fd, fd), w) \<Rightarrow>
        if ret_fd = 0 \<and> 0 \<le> sint fd then
          ((Some (MagmaGpuHandle
              \<lparr>os_handle = unat fd, handle_type = MAGMA_GPU_HANDLE_TYPE_MEM_DMABUF\<rparr>),
            Some \<lparr>i3d_width = ri_width info, i3d_height = ri_height info,
                  i3d_drm_fourcc = ri_drm_fourcc info, i3d_strides = [ri_stride info, 0, 0, 0],
                  i3d_offsets = [0, 0, 0, 0], i3d_modifier = ri_modifiers info\<rparr>), w)
        else ((None, None), w))"

definition virgl_create_3d ::
  "'w virgl_lib \<Rightarrow> u32 \<Rightarrow> resource_create_3d \<Rightarrow> 'w \<Rightarrow> rutabaga_resource rres \<times> 'w" where
  "virgl_create_3d l resource_id rc3d w =
     and_then_st (c_ret (vl_resource_create l (create_args_of resource_id rc3d) w)) (\<lambda>_ w.
     and_then_st (ok_st (virgl_export_blob l resource_id w)) (\<lambda>resource_handle w.
     and_then_st (ok_st (virgl_query l resource_id w)) (\<lambda>resource_info_3d w.
     if resource_handle = None \<and> resource_info_3d = None then
       case virgl_texture_fallback l resource_id w of
         ((handle, info), w) \<Rightarrow> (Ok (virgl_resource resource_id handle info), w)
     else (Ok (virgl_resource resource_id resource_handle resource_info_3d), w))))"

definition virgl_attach_backing ::
  "'w virgl_lib \<Rightarrow> u32 \<Rightarrow> rutabaga_iovec list \<Rightarrow> 'w \<Rightarrow> (unit rres \<times> rutabaga_iovec list) \<times> 'w" where
  "virgl_attach_backing l resource_id vecs w =
     (case c_ret (vl_resource_attach_iov l resource_id vecs (of_nat (length vecs)) w) of
        (r, w) \<Rightarrow> ((r, vecs), w))"

definition virgl_detach_backing :: "'w virgl_lib \<Rightarrow> u32 \<Rightarrow> 'w \<Rightarrow> 'w" where
  "virgl_detach_backing l resource_id w = vl_resource_detach_iov l resource_id w"

definition virgl_unref_resource :: "'w virgl_lib \<Rightarrow> u32 \<Rightarrow> 'w \<Rightarrow> 'w" where
  "virgl_unref_resource l resource_id w = vl_resource_unref l resource_id w"

definition virgl_transfer_write ::
  "'w virgl_lib \<Rightarrow> u32 \<Rightarrow> rutabaga_resource \<Rightarrow> transfer_3d \<Rightarrow> u8 list option \<Rightarrow> 'w \<Rightarrow>
   (unit rres \<times> rutabaga_resource) \<times> 'w" where
  "virgl_transfer_write l ctx_id resource transfer buf w =
     (if transfer_is_empty transfer then ((Ok (), resource), w)
      else if buf \<noteq> None then ((unsupported, resource), w)
      else
        case c_ret (vl_transfer_write_iov l (transfer_args_of ctx_id resource transfer) w) of
          (r, w) \<Rightarrow> ((r, resource), w))"

definition virgl_transfer_read ::
  "'w virgl_lib \<Rightarrow> u32 \<Rightarrow> rutabaga_resource \<Rightarrow> transfer_3d \<Rightarrow> u8 list option \<Rightarrow> 'w \<Rightarrow>
   (unit rres \<times> rutabaga_resource \<times> u8 list option) \<times> 'w" where
  "virgl_transfer_read l ctx_id resource transfer buf w =
     (if transfer_is_empty transfer then ((Ok (), resource, buf), w)
      else
        case vl_transfer_read_iov l (transfer_args_of ctx_id resource transfer) buf w of
          ((ret, buf), w) \<Rightarrow> ((ret_to_res ret, resource, buf), w))"

definition virgl_create_blob ::
  "'w virgl_lib \<Rightarrow> u32 \<Rightarrow> u32 \<Rightarrow> resource_create_blob \<Rightarrow> rutabaga_iovec list option \<Rightarrow>
   rutabaga_handle option \<Rightarrow> 'w \<Rightarrow> rutabaga_resource rres \<times> 'w" where
  "virgl_create_blob l ctx_id resource_id rcb iovec_opt handle_opt w =
     and_then_st
       (c_ret (vl_resource_create_blob l
         \<lparr>cba_res_handle = resource_id, cba_ctx_id = ctx_id, cba_blob_mem = cb_blob_mem rcb,
          cba_blob_flags = cb_blob_flags rcb, cba_blob_id = cb_blob_id rcb, cba_size = cb_size rcb,
          cba_iovecs = iovec_opt\<rparr> w)) (\<lambda>_ w.
     and_then_st (ok_st (virgl_export_blob l resource_id w)) (\<lambda>handle w.
     and_then_st (ok_st (virgl_map_info l resource_id w)) (\<lambda>map_info w.
     and_then_st (ok_st (virgl_query l resource_id w)) (\<lambda>info w.
     (Ok ((virgl_resource resource_id handle info)
        \<lparr>r_blob := True, r_blob_mem := cb_blob_mem rcb, r_blob_flags := cb_blob_flags rcb,
         r_map_info := map_info, r_backing_iovecs := iovec_opt, r_size := cb_size rcb\<rparr>), w)))))"

definition virgl_map_placed :: "u32 \<Rightarrow> u64 \<Rightarrow> 'w \<Rightarrow> unit rres \<times> 'w" where
  "virgl_map_placed resource_id addr w = (unsupported, w)"

definition virgl_map :: "'w virgl_lib \<Rightarrow> u32 \<Rightarrow> 'w \<Rightarrow> mesa_mapping rres \<times> 'w" where
  "virgl_map l resource_id w =
     (case vl_resource_map l resource_id w of
        ((ret, mapped, sz), w) \<Rightarrow>
          (if ret \<noteq> 0 then Err (MappingFailed ret)
           else Ok \<lparr>mesa_ptr = mapped, mesa_size = sz\<rparr>, w))"

definition virgl_unmap :: "'w virgl_lib \<Rightarrow> u32 \<Rightarrow> 'w \<Rightarrow> unit rres \<times> 'w" where
  "virgl_unmap l resource_id w = c_ret (vl_resource_unmap l resource_id w)"

definition virgl_export_fence :: "u64 \<Rightarrow> 'w \<Rightarrow> magma_handle rres \<times> 'w" where
  "virgl_export_fence fid w = (unsupported, w)"

definition virgl_create_context ::
  "'a world_scheme virgl_lib \<Rightarrow> u32 \<Rightarrow> u32 \<Rightarrow> string option \<Rightarrow> 'a world_scheme \<Rightarrow>
   'a world_scheme rutabaga_context rres \<times> 'a world_scheme" where
  "virgl_create_context l ctx_id context_init context_name w =
     (let name = context_name_of context_name in
      and_then_st
        (c_ret (if context_init = 0 then vl_context_create l ctx_id name w
                else vl_context_create_with_flags l ctx_id context_init name w)) (\<lambda>_ w.
      (Ok (virgl_context l ctx_id), w)))"

definition virgl_drop :: "'w virgl_lib \<Rightarrow> 'w \<Rightarrow> 'w" where
  "virgl_drop l w = vl_cleanup l w"

definition virgl_component :: "'a world_scheme virgl_lib \<Rightarrow> 'a world_scheme rutabaga_component" where
  "virgl_component l = component_defaults
     \<lparr>c_get_capset_info := virgl_get_capset_info l, c_get_capset := virgl_get_capset l,
      c_force_ctx_0 := virgl_force_ctx_0 l, c_create_fence := virgl_create_fence l,
      c_event_poll := virgl_event_poll l, c_poll_descriptor := virgl_poll_descriptor l,
      c_create_3d := virgl_create_3d l, c_attach_backing := virgl_attach_backing l,
      c_detach_backing := virgl_detach_backing l, c_unref_resource := virgl_unref_resource l,
      c_transfer_write := virgl_transfer_write l, c_transfer_read := virgl_transfer_read l,
      c_create_blob := virgl_create_blob l, c_map_placed := virgl_map_placed, c_map := virgl_map l,
      c_unmap := virgl_unmap l, c_export_fence := virgl_export_fence,
      c_create_context := virgl_create_context l, c_drop := virgl_drop l\<rparr>"

text \<open>The library is initialized once in a process; the flag is set before the attempt.\<close>

definition virgl_init ::
  "'a world_scheme virgl_lib \<Rightarrow> virgl_renderer_flags \<Rightarrow> descriptor option \<Rightarrow>
   rutabaga_path list option \<Rightarrow> 'a world_scheme \<Rightarrow>
   'a world_scheme rutabaga_component rres \<times> 'a world_scheme" where
  "virgl_init l flags render_server_fd rutabaga_paths w =
     (if vl_init_once l w then (Err AlreadyInUse, w)
      else
        let cookie = \<lparr>cookie_render_server_fd = render_server_fd, cookie_debug_handler = None,
                      cookie_rutabaga_paths = rutabaga_paths\<rparr>
        in
        and_then_st (c_ret (vl_init l cookie (virgl_bits flags) (vl_set_init_once l w))) (\<lambda>_ w.
          (Ok (virgl_component l), w)))"

section \<open>Contracts\<close>

lemma import_resource_id: "r_resource_id (snd (fst (import_resource l r w))) = r_resource_id r"
  by (auto simp: import_resource_def split: option.split sum.split prod.split)

interpretation virgl_ctx: context_contract "virgl_context l ctx_id" for l ctx_id
proof (rule context_contract.intro)
  show "r_resource_id (fst (x_attach (virgl_context l ctx_id) r w)) = r_resource_id r"
    for l :: "'a world_scheme virgl_lib" and ctx_id r w
    using import_resource_id [of l r w]
    by (simp add: virgl_context_def context_defaults_def virgl_attach_def case_prod_unfold)
qed (simp add: virgl_context_def context_defaults_def)

lemma virgl_resource_id [simp]: "r_resource_id (virgl_resource i h info) = i"
  by (simp add: virgl_resource_def blank_resource_def)

interpretation virgl: component_contract "virgl_component l" for l
proof (rule component_contract.intro)
qed (auto simp: virgl_component_def component_defaults_def virgl_create_3d_def virgl_create_blob_def
      virgl_transfer_write_def virgl_transfer_read_def virgl_create_context_def Let_def
      and_then_st_eq_Ok case_prod_unfold virgl_ctx.context_contract_axioms split: if_splits)

end
