(* ===== verification/Gfxstream.thy ===== *)
theory Gfxstream
  imports Renderer_Utils
begin

text \<open>
  The gfxstream component, \<open>src/gfxstream.rs\<close>: each trait method wraps entry points of the gfxstream
  library, the record \<open>gfx_lib\<close>. \<open>gfx_unstable\<close> says whether the crate was compiled with the
  unstable entry points (\<open>cfg(gfxstream_unstable)\<close>); the target is Linux. The JSON codec of a context
  snapshot is an argument.
\<close>

section \<open>The library\<close>

text \<open>A value of an init parameter that is a pointer is what it points to.\<close>

datatype stream_param =
    UserData rutabaga_cookie
  | RendererFlags u64
  | FenceCallback
  | Win0Width u64
  | Win0Height u64
  | DebugCallback
  | RendererFeatures string

record stream_handle =
  sh_os_handle :: u64
  sh_handle_type :: u32

record stream_vulkan_info =
  sv_memory_index :: u32
  sv_device_uuid :: "u8 list"
  sv_driver_uuid :: "u8 list"

record stream_command =
  sc_ctx_id :: u32
  sc_cmd_size :: u32
  sc_cmd :: "u8 list"
  sc_num_in_fences :: u32

record stream_import_data =
  sim_flags :: u32
  sim_info_3d :: resource_3d_info

record 'w gfx_lib =
  gfx_unstable :: bool
  gl_init :: "stream_param list \<Rightarrow> 'w \<Rightarrow> u32 \<times> 'w"
  gl_teardown :: "'w \<Rightarrow> 'w"
  gl_resource_create :: "resource_create_args \<Rightarrow> 'w \<Rightarrow> u32 \<times> 'w"
  gl_resource_unref :: "u32 \<Rightarrow> 'w \<Rightarrow> 'w"
  gl_context_create :: "u32 \<Rightarrow> string \<Rightarrow> u32 \<Rightarrow> 'w \<Rightarrow> u32 \<times> 'w"
  gl_context_destroy :: "u32 \<Rightarrow> 'w \<Rightarrow> 'w"
  gl_transfer_read_iov :: "transfer_args \<Rightarrow> u8 list option \<Rightarrow> 'w \<Rightarrow> (u32 \<times> u8 list option) \<times> 'w"
  gl_transfer_write_iov :: "transfer_args \<Rightarrow> u8 list option \<Rightarrow> 'w \<Rightarrow> u32 \<times> 'w"
  gl_submit_cmd :: "stream_command \<Rightarrow> 'w \<Rightarrow> (u32 \<times> u8 list) \<times> 'w"
  gl_resource_attach_iov :: "u32 \<Rightarrow> rutabaga_iovec list \<Rightarrow> u32 \<Rightarrow> 'w \<Rightarrow> u32 \<times> 'w"
  gl_resource_detach_iov :: "u32 \<Rightarrow> 'w \<Rightarrow> 'w"
  gl_create_fence :: "rutabaga_fence \<Rightarrow> 'w \<Rightarrow> u32 \<times> 'w"
  gl_export_fence :: "u64 \<Rightarrow> 'w \<Rightarrow> (u32 \<times> stream_handle) \<times> 'w"
  gl_ctx_attach_resource :: "u32 \<Rightarrow> u32 \<Rightarrow> 'w \<Rightarrow> 'w"
  gl_ctx_detach_resource :: "u32 \<Rightarrow> u32 \<Rightarrow> 'w \<Rightarrow> 'w"
  gl_get_cap_set :: "u32 \<Rightarrow> 'w \<Rightarrow> u32 \<times> u32"
  gl_fill_caps :: "u32 \<Rightarrow> u32 \<Rightarrow> u8 list \<Rightarrow> 'w \<Rightarrow> u8 list"
  gl_flush :: "u32 \<Rightarrow> 'w \<Rightarrow> 'w"
  gl_create_blob ::
    "u32 \<Rightarrow> u32 \<Rightarrow> resource_create_blob \<Rightarrow> rutabaga_iovec list option \<Rightarrow> stream_handle option \<Rightarrow>
     'w \<Rightarrow> u32 \<times> 'w"
  gl_export_blob :: "u32 \<Rightarrow> 'w \<Rightarrow> (u32 \<times> stream_handle) \<times> 'w"
  gl_resource_map :: "u32 \<Rightarrow> 'w \<Rightarrow> (u32 \<times> u64 \<times> u64) \<times> 'w"
  gl_resource_unmap :: "u32 \<Rightarrow> 'w \<Rightarrow> u32 \<times> 'w"
  gl_resource_map_info :: "u32 \<Rightarrow> 'w \<Rightarrow> (u32 \<times> u32) \<times> 'w"
  gl_vulkan_info :: "u32 \<Rightarrow> 'w \<Rightarrow> (u32 \<times> stream_vulkan_info) \<times> 'w"
  gl_suspend :: "'w \<Rightarrow> u32 \<times> 'w"
  gl_snapshot :: "string \<Rightarrow> 'w \<Rightarrow> u32 \<times> 'w"
  gl_restore :: "string \<Rightarrow> 'w \<Rightarrow> u32 \<times> 'w"
  gl_resume :: "'w \<Rightarrow> u32 \<times> 'w"
  gl_import_resource :: "u32 \<Rightarrow> stream_handle \<Rightarrow> stream_import_data \<Rightarrow> 'w \<Rightarrow> u32 \<times> 'w"

record context_codec =
  cc_ser :: "u32 \<Rightarrow> u8 list"
  cc_de :: "u8 list \<Rightarrow> io_error + u32"

text \<open>A raw descriptor is the low half of the 64-bit handle.\<close>

definition stream_descriptor :: "stream_handle \<Rightarrow> descriptor rres" where
  "stream_descriptor h = from_raw_descriptor (ucast (sh_os_handle h))"

section \<open>Callbacks\<close>

definition gfx_write_context_fence :: "rutabaga_fence \<Rightarrow> 'a world_scheme \<Rightarrow> 'a world_scheme" where
  "gfx_write_context_fence fence w = fence_handler_call fence w"

section \<open>Contexts\<close>

definition gfx_export_fence ::
  "'w gfx_lib \<Rightarrow> u64 \<Rightarrow> 'w \<Rightarrow> magma_handle rres \<times> 'w" where
  "gfx_export_fence l fid w =
     (if gfx_unstable l then
        and_then_st (c_out (gl_export_fence l fid w)) (\<lambda>stream_handle w.
        (and_then (stream_descriptor stream_handle) (\<lambda>handle.
           Ok \<lparr>os_handle = handle, handle_type = sh_handle_type stream_handle\<rparr>), w))
      else (unsupported, w))"

definition gfx_submit_cmd ::
  "'w gfx_lib \<Rightarrow> u32 \<Rightarrow> u8 list \<Rightarrow> u64 list \<Rightarrow> magma_handle list \<Rightarrow> 'w \<Rightarrow>
   (unit rres \<times> u8 list) \<times> 'w" where
  "gfx_submit_cmd l ctx_id commands fence_ids shareable_fences w =
     (if length commands mod 4 \<noteq> 0 then ((Err (InvalidCommandSize (length commands)), commands), w)
      else if 2 ^ 32 \<le> length commands then ((Err (MagmaGpuError TryFromIntError), commands), w)
      else
        case gl_submit_cmd l
            \<lparr>sc_ctx_id = ctx_id, sc_cmd_size = of_nat (length commands), sc_cmd = commands,
             sc_num_in_fences = 0\<rparr> w of
          ((ret, commands), w) \<Rightarrow> ((ret_to_res ret, commands), w))"

definition gfx_attach ::
  "'w gfx_lib \<Rightarrow> u32 \<Rightarrow> rutabaga_resource \<Rightarrow> 'w \<Rightarrow> rutabaga_resource \<times> 'w" where
  "gfx_attach l ctx_id resource w =
     (resource, gl_ctx_attach_resource l ctx_id (r_resource_id resource) w)"

definition gfx_detach :: "'w gfx_lib \<Rightarrow> u32 \<Rightarrow> rutabaga_resource \<Rightarrow> 'w \<Rightarrow> 'w" where
  "gfx_detach l ctx_id resource w = gl_ctx_detach_resource l ctx_id (r_resource_id resource) w"

definition gfx_context_create_fence ::
  "'a world_scheme gfx_lib \<Rightarrow> rutabaga_fence \<Rightarrow> 'a world_scheme \<Rightarrow>
   magma_handle option rres \<times> 'a world_scheme" where
  "gfx_context_create_fence l fence w =
     (if (ucast (fence_ring_idx fence) :: u32) = 1 then (Ok None, fence_handler_call fence w)
      else
        and_then_st (c_ret (gl_create_fence l fence w)) (\<lambda>_ w.
        if has_flag (fence_flags fence) RUTABAGA_FLAG_FENCE_HOST_SHAREABLE then
          and_then_st (gfx_export_fence l (fence_id fence) w) (\<lambda>hnd w. (Ok (Some hnd), w))
        else (Ok None, w)))"

definition gfx_context_snapshot :: "context_codec \<Rightarrow> u32 \<Rightarrow> 'w \<Rightarrow> u8 list rres" where
  "gfx_context_snapshot codec ctx_id w = Ok (cc_ser codec ctx_id)"

definition gfx_context_drop :: "'w gfx_lib \<Rightarrow> u32 \<Rightarrow> 'w \<Rightarrow> 'w" where
  "gfx_context_drop l ctx_id w = gl_context_destroy l ctx_id w"

definition gfx_context ::
  "'a world_scheme gfx_lib \<Rightarrow> context_codec \<Rightarrow> u32 \<Rightarrow> 'a world_scheme rutabaga_context" where
  "gfx_context l codec ctx_id =
     (context_defaults (gfx_submit_cmd l ctx_id) (gfx_attach l ctx_id) (gfx_detach l ctx_id) Gfxstream)
     \<lparr>x_context_create_fence := gfx_context_create_fence l,
      x_snapshot := gfx_context_snapshot codec ctx_id,
      x_drop := gfx_context_drop l ctx_id\<rparr>"

section \<open>The component\<close>

definition gfx_map_info :: "'w gfx_lib \<Rightarrow> u32 \<Rightarrow> 'w \<Rightarrow> u32 rres \<times> 'w" where
  "gfx_map_info l resource_id w =
     and_then_st (c_out (gl_resource_map_info l resource_id w)) (\<lambda>map_info w.
       (Ok (map_info OR RUTABAGA_MAP_ACCESS_RW), w))"

definition gfx_vulkan_info :: "'w gfx_lib \<Rightarrow> u32 \<Rightarrow> 'w \<Rightarrow> vulkan_info rres \<times> 'w" where
  "gfx_vulkan_info l resource_id w =
     and_then_st (c_out (gl_vulkan_info l resource_id w)) (\<lambda>vk w.
       (Ok \<lparr>vk_memory_idx = sv_memory_index vk,
            vk_device_id = \<lparr>device_uuid = sv_device_uuid vk, driver_uuid = sv_driver_uuid vk\<rparr>\<rparr>, w))"

definition gfx_export_blob :: "'w gfx_lib \<Rightarrow> u32 \<Rightarrow> 'w \<Rightarrow> rutabaga_handle rres \<times> 'w" where
  "gfx_export_blob l resource_id w =
     and_then_st (c_out (gl_export_blob l resource_id w)) (\<lambda>stream_handle w.
       if sh_handle_type stream_handle = RUTABAGA_HANDLE_TYPE_PLATFORM_AHB
       then (Err InvalidResourceId, w)
       else
         (and_then (stream_descriptor stream_handle) (\<lambda>handle.
            Ok (MagmaGpuHandle
              \<lparr>os_handle = handle, handle_type = sh_handle_type stream_handle\<rparr>)), w))"

definition gfx_get_capset_info :: "'w gfx_lib \<Rightarrow> u32 \<Rightarrow> 'w \<Rightarrow> u32 \<times> u32" where
  "gfx_get_capset_info l cid w = gl_get_cap_set l cid w"

definition gfx_get_capset :: "'w gfx_lib \<Rightarrow> u32 \<Rightarrow> u32 \<Rightarrow> 'w \<Rightarrow> u8 list" where
  "gfx_get_capset l cid version w =
     (case gfx_get_capset_info l cid w of
        (_, max_size) \<Rightarrow> gl_fill_caps l cid version (replicate (unat max_size) 0) w)"

definition gfx_create_fence :: "'w gfx_lib \<Rightarrow> rutabaga_fence \<Rightarrow> 'w \<Rightarrow> unit rres \<times> 'w" where
  "gfx_create_fence l fence w = c_ret (gl_create_fence l fence w)"

text \<open>The resource of a library that made it, with nothing but its handle.\<close>

definition gfx_resource :: "u32 \<Rightarrow> rutabaga_handle option \<Rightarrow> rutabaga_resource" where
  "gfx_resource resource_id handle =
     (blank_resource resource_id)
     \<lparr>r_handle := handle, r_component_mask := component_bit Gfxstream\<rparr>"

definition gfx_create_3d ::
  "'w gfx_lib \<Rightarrow> u32 \<Rightarrow> resource_create_3d \<Rightarrow> 'w \<Rightarrow> rutabaga_resource rres \<times> 'w" where
  "gfx_create_3d l resource_id rc3d w =
     and_then_st (c_ret (gl_resource_create l (create_args_of resource_id rc3d) w)) (\<lambda>_ w.
     and_then_st (ok_st (gfx_export_blob l resource_id w)) (\<lambda>exported_handle w.
     (Ok (gfx_resource resource_id exported_handle), w)))"

definition gfx_import ::
  "'w gfx_lib \<Rightarrow> u32 \<Rightarrow> rutabaga_handle \<Rightarrow> rutabaga_import_data \<Rightarrow> 'w \<Rightarrow>
   rutabaga_resource option rres \<times> 'w" where
  "gfx_import l resource_id import_handle import_data w =
     (if \<not> gfx_unstable l then (unsupported, w)
      else
        and_then_st (from_magma (magma_handle_try_from import_handle), w) (\<lambda>import_handle w.
        if has_flag (imp_flags import_data) RUTABAGA_IMPORT_FLAG_VULKAN_INFO then (Panicked, w)
        else
          and_then_st
            (c_ret (gl_import_resource l resource_id
              \<lparr>sh_os_handle = of_nat (os_handle import_handle),
               sh_handle_type = handle_type import_handle\<rparr>
              \<lparr>sim_flags = imp_flags import_data, sim_info_3d = imp_info_3d import_data\<rparr> w)) (\<lambda>_ w.
          if has_flag (imp_flags import_data) RUTABAGA_IMPORT_FLAG_RESOURCE_EXISTS then (Ok None, w)
          else (Ok (Some (gfx_resource resource_id None)), w))))"

definition gfx_attach_backing ::
  "'w gfx_lib \<Rightarrow> u32 \<Rightarrow> rutabaga_iovec list \<Rightarrow> 'w \<Rightarrow> (unit rres \<times> rutabaga_iovec list) \<times> 'w" where
  "gfx_attach_backing l resource_id vecs w =
     (case c_ret (gl_resource_attach_iov l resource_id vecs (of_nat (length vecs)) w) of
        (r, w) \<Rightarrow> ((r, vecs), w))"

definition gfx_detach_backing :: "'w gfx_lib \<Rightarrow> u32 \<Rightarrow> 'w \<Rightarrow> 'w" where
  "gfx_detach_backing l resource_id w = gl_resource_detach_iov l resource_id w"

definition gfx_unref_resource :: "'w gfx_lib \<Rightarrow> u32 \<Rightarrow> 'w \<Rightarrow> 'w" where
  "gfx_unref_resource l resource_id w = gl_resource_unref l resource_id w"

definition gfx_transfer_write ::
  "'w gfx_lib \<Rightarrow> u32 \<Rightarrow> rutabaga_resource \<Rightarrow> transfer_3d \<Rightarrow> u8 list option \<Rightarrow> 'w \<Rightarrow>
   (unit rres \<times> rutabaga_resource) \<times> 'w" where
  "gfx_transfer_write l ctx_id resource transfer buf w =
     (if transfer_is_empty transfer then ((Ok (), resource), w)
      else
        case c_ret (gl_transfer_write_iov l (transfer_args_of ctx_id resource transfer) buf w) of
          (r, w) \<Rightarrow> ((r, resource), w))"

definition gfx_transfer_read ::
  "'w gfx_lib \<Rightarrow> u32 \<Rightarrow> rutabaga_resource \<Rightarrow> transfer_3d \<Rightarrow> u8 list option \<Rightarrow> 'w \<Rightarrow>
   (unit rres \<times> rutabaga_resource \<times> u8 list option) \<times> 'w" where
  "gfx_transfer_read l ctx_id resource transfer buf w =
     (if transfer_is_empty transfer then ((Ok (), resource, buf), w)
      else
        case gl_transfer_read_iov l (transfer_args_of ctx_id resource transfer) buf w of
          ((ret, buf), w) \<Rightarrow> ((ret_to_res ret, resource, buf), w))"

definition gfx_resource_flush ::
  "'w gfx_lib \<Rightarrow> rutabaga_resource \<Rightarrow> 'w \<Rightarrow> (unit rres \<times> rutabaga_resource) \<times> 'w" where
  "gfx_resource_flush l resource w = ((Ok (), resource), gl_flush l (r_resource_id resource) w)"

definition gfx_create_blob ::
  "'w gfx_lib \<Rightarrow> u32 \<Rightarrow> u32 \<Rightarrow> resource_create_blob \<Rightarrow> rutabaga_iovec list option \<Rightarrow>
   rutabaga_handle option \<Rightarrow> 'w \<Rightarrow> rutabaga_resource rres \<times> 'w" where
  "gfx_create_blob l ctx_id resource_id rcb iovec_opt handle_opt w =
     and_then_st
       (case handle_opt of
          None \<Rightarrow> Ok None
        | Some handle \<Rightarrow>
            and_then (from_magma (magma_handle_try_from handle)) (\<lambda>handle.
              Ok (Some \<lparr>sh_os_handle = of_nat (os_handle handle),
                        sh_handle_type = handle_type handle\<rparr>)), w) (\<lambda>stream_handle w.
     and_then_st (c_ret (gl_create_blob l ctx_id resource_id rcb iovec_opt stream_handle w)) (\<lambda>_ w.
     and_then_st (ok_st (gfx_export_blob l resource_id w)) (\<lambda>handle w.
     and_then_st (ok_st (gfx_map_info l resource_id w)) (\<lambda>map_info w.
     and_then_st (ok_st (gfx_vulkan_info l resource_id w)) (\<lambda>vulkan_info w.
     (Ok ((gfx_resource resource_id handle)
        \<lparr>r_blob := True, r_blob_mem := cb_blob_mem rcb, r_blob_flags := cb_blob_flags rcb,
         r_map_info := map_info, r_vulkan_info := vulkan_info, r_backing_iovecs := iovec_opt,
         r_size := cb_size rcb\<rparr>), w))))))"

definition gfx_map :: "'w gfx_lib \<Rightarrow> u32 \<Rightarrow> 'w \<Rightarrow> mesa_mapping rres \<times> 'w" where
  "gfx_map l resource_id w =
     (case gl_resource_map l resource_id w of
        ((ret, mapped, sz), w) \<Rightarrow>
          (if ret \<noteq> 0 then Err (MappingFailed ret)
           else Ok \<lparr>mesa_ptr = mapped, mesa_size = sz\<rparr>, w))"

definition gfx_unmap :: "'w gfx_lib \<Rightarrow> u32 \<Rightarrow> 'w \<Rightarrow> unit rres \<times> 'w" where
  "gfx_unmap l resource_id w = c_ret (gl_resource_unmap l resource_id w)"

definition gfx_create_context ::
  "'a world_scheme gfx_lib \<Rightarrow> context_codec \<Rightarrow> u32 \<Rightarrow> u32 \<Rightarrow> string option \<Rightarrow> 'a world_scheme \<Rightarrow>
   'a world_scheme rutabaga_context rres \<times> 'a world_scheme" where
  "gfx_create_context l codec ctx_id context_init context_name w =
     and_then_st (c_ret (gl_context_create l ctx_id (context_name_of context_name) context_init w))
       (\<lambda>_ w. (Ok (gfx_context l codec ctx_id), w))"

text \<open>The directory of a snapshot as a C string\<close>

definition path_cstring :: "path \<Rightarrow> string rres" where
  "path_cstring p =
     (let s = concat (map (\<lambda>name. CHR ''/'' # name) p)
      in if CHR 0x00 \<in> set s then Err (MagmaGpuError NulError) else Ok s)"

definition gfx_suspend :: "'w gfx_lib \<Rightarrow> 'w \<Rightarrow> unit rres \<times> 'w" where
  "gfx_suspend l w = c_ret (gl_suspend l w)"

definition gfx_snapshot :: "'w gfx_lib \<Rightarrow> snapshot_writer \<Rightarrow> 'w \<Rightarrow> unit rres \<times> 'w" where
  "gfx_snapshot l wr w =
     and_then_st (path_cstring (writer_dir wr), w) (\<lambda>directory w. c_ret (gl_snapshot l directory w))"

definition gfx_restore :: "'w gfx_lib \<Rightarrow> snapshot_reader \<Rightarrow> 'w \<Rightarrow> unit rres \<times> 'w" where
  "gfx_restore l rd w =
     and_then_st (path_cstring (reader_dir rd), w) (\<lambda>directory w. c_ret (gl_restore l directory w))"

definition gfx_restore_context ::
  "'a world_scheme gfx_lib \<Rightarrow> context_codec \<Rightarrow> u8 list \<Rightarrow> 'a world_scheme \<Rightarrow>
   'a world_scheme rutabaga_context rres \<times> 'a world_scheme" where
  "gfx_restore_context l codec snapshot w =
     (case cc_de codec snapshot of
        Inl e \<Rightarrow> (Err (MagmaGpuError (IoError e)), w)
      | Inr ctx_id \<Rightarrow> (Ok (gfx_context l codec ctx_id), w))"

definition gfx_resume :: "'w gfx_lib \<Rightarrow> 'w \<Rightarrow> unit rres \<times> 'w" where
  "gfx_resume l w = c_ret (gl_resume l w)"

definition gfx_drop :: "'w gfx_lib \<Rightarrow> 'w \<Rightarrow> 'w" where
  "gfx_drop l w = gl_teardown l w"

text \<open>Without the unstable entry points the snapshot methods keep their default bodies.\<close>

definition gfx_component ::
  "'a world_scheme gfx_lib \<Rightarrow> context_codec \<Rightarrow> 'a world_scheme rutabaga_component" where
  "gfx_component l codec =
     (let stable = component_defaults
        \<lparr>c_get_capset_info := gfx_get_capset_info l, c_get_capset := gfx_get_capset l,
         c_create_fence := gfx_create_fence l, c_create_3d := gfx_create_3d l,
         c_import := gfx_import l, c_attach_backing := gfx_attach_backing l,
         c_detach_backing := gfx_detach_backing l, c_unref_resource := gfx_unref_resource l,
         c_transfer_write := gfx_transfer_write l, c_transfer_read := gfx_transfer_read l,
         c_resource_flush := gfx_resource_flush l, c_create_blob := gfx_create_blob l,
         c_map := gfx_map l, c_unmap := gfx_unmap l,
         c_create_context := gfx_create_context l codec, c_drop := gfx_drop l\<rparr>
      in
        if gfx_unstable l then
          stable\<lparr>c_suspend := gfx_suspend l, c_snapshot := gfx_snapshot l,
                 c_restore := gfx_restore l, c_restore_context := gfx_restore_context l codec,
                 c_resume := gfx_resume l\<rparr>
        else stable)"

definition gfx_init ::
  "'a world_scheme gfx_lib \<Rightarrow> context_codec \<Rightarrow> u32 \<Rightarrow> u32 \<Rightarrow> gfxstream_flags \<Rightarrow> string option \<Rightarrow>
   nat option \<Rightarrow> 'a world_scheme \<Rightarrow> 'a world_scheme rutabaga_component rres \<times> 'a world_scheme" where
  "gfx_init l codec display_width display_height flags gfxstream_features debug_handler w =
     (let cookie = \<lparr>cookie_render_server_fd = None, cookie_debug_handler = debug_handler,
                    cookie_rutabaga_paths = None\<rparr>;
          params = [UserData cookie, RendererFlags (ucast (gfxstream_bits flags)), FenceCallback,
                    Win0Width (ucast display_width), Win0Height (ucast display_height)] @
                   (if debug_handler \<noteq> None then [DebugCallback] else [])
      in
      and_then_st
        (case gfxstream_features of
           None \<Rightarrow> Ok []
         | Some f \<Rightarrow> if CHR 0x00 \<in> set f then Panicked else Ok [RendererFeatures f], w)
        (\<lambda>features w.
      and_then_st (c_ret (gl_init l (params @ features) w)) (\<lambda>_ w.
      (Ok (gfx_component l codec), w))))"

section \<open>Contracts\<close>

interpretation gfx_ctx: context_contract "gfx_context l codec ctx_id" for l codec ctx_id
  by unfold_locales (simp_all add: gfx_context_def context_defaults_def gfx_attach_def)

lemma gfx_resource_id [simp]: "r_resource_id (gfx_resource i h) = i"
  by (simp add: gfx_resource_def blank_resource_def)

lemma gfx_methods [simp]:
  "c_create_3d (gfx_component l codec) = gfx_create_3d l"
  "c_import (gfx_component l codec) = gfx_import l"
  "c_create_blob (gfx_component l codec) = gfx_create_blob l"
  "c_transfer_write (gfx_component l codec) = gfx_transfer_write l"
  "c_transfer_read (gfx_component l codec) = gfx_transfer_read l"
  "c_resource_flush (gfx_component l codec) = gfx_resource_flush l"
  "c_create_context (gfx_component l codec) = gfx_create_context l codec"
  "c_create_fence (gfx_component l codec) = gfx_create_fence l"
  by (simp_all add: gfx_component_def Let_def)

lemma gfx_restored_contexts:
  "c_restore_context (gfx_component l codec) =
     (if gfx_unstable l then gfx_restore_context l codec else (\<lambda>_ w. (unsupported, w)))"
  by (simp add: gfx_component_def Let_def component_defaults_def)

interpretation gfx: component_contract "gfx_component l codec" for l codec
proof (rule component_contract.intro)
qed (auto simp: gfx_create_3d_def gfx_import_def gfx_create_blob_def gfx_transfer_write_def
      gfx_transfer_read_def gfx_resource_flush_def gfx_create_context_def gfx_restored_contexts
      gfx_restore_context_def and_then_st_eq_Ok case_prod_unfold gfx_ctx.context_contract_axioms
      split: if_splits sum.splits)

end
