(* ===== verification/Renderer_Properties.thy ===== *)
theory Renderer_Properties
  imports Virgl_Renderer Gfxstream Core_Properties
begin

text \<open>
  The renderer components under the library handle: what they create is dispatched back to them, and
  what a resource made by virglrenderer carries.
\<close>

section \<open>Dispatch of created resources\<close>

lemma same_world: "g\<lparr>g_world := g_world g\<rparr> = g"
  by (cases g) simp

lemma own_component [simp]:
  "calculate_component (component_bit VirglRenderer) = Ok VirglRenderer"
  "calculate_component (component_bit Gfxstream) = Ok Gfxstream"
  by (simp_all add: calculate_component_spec)

lemma created_mask:
  "virgl_create_3d lv i p w = (Ok r, w') \<Longrightarrow> r_component_mask r = component_bit VirglRenderer"
  "virgl_create_blob lv x i rcb v h w = (Ok r, w') \<Longrightarrow> r_component_mask r = component_bit VirglRenderer"
  "gfx_create_3d lg i p w = (Ok r, w') \<Longrightarrow> r_component_mask r = component_bit Gfxstream"
  "gfx_create_blob lg x i rcb v h w = (Ok r, w') \<Longrightarrow> r_component_mask r = component_bit Gfxstream"
  by (auto simp: virgl_create_3d_def virgl_create_blob_def gfx_create_3d_def gfx_create_blob_def
      virgl_resource_def gfx_resource_def and_then_st_eq_Ok split: if_splits prod.splits)

text \<open>The two renderers, and how a handle reaches its default component.\<close>

definition renderer ::
  "'a world_scheme virgl_lib \<Rightarrow> 'a world_scheme gfx_lib \<Rightarrow> context_codec \<Rightarrow> rutabaga_component_type \<Rightarrow>
   'a world_scheme rutabaga_component option" where
  "renderer lv lg codec t =
     (case t of VirglRenderer \<Rightarrow> Some (virgl_component lv) | Gfxstream \<Rightarrow> Some (gfx_component lg codec)
      | _ \<Rightarrow> None)"

lemma renderer_creates:
  assumes "renderer lv lg codec t = Some c"
  shows "c_create_3d c i p w = (Ok r, w') \<Longrightarrow> calculate_component (r_component_mask r) = Ok t"
    and "c_create_blob c x i rcb v h w = (Ok r, w') \<Longrightarrow>
      calculate_component (r_component_mask r) = Ok t"
    and "t \<noteq> CrossDomain"
  using assms
  by (auto simp: renderer_def virgl_component_def dest!: created_mask
      split: rutabaga_component_type.splits)

text \<open>
  C32. A renderer owns what it makes. When virglrenderer or gfxstream is the default component, a
  resource that it has just created, as a 3D resource or as a blob (outside every context or in one
  that is not a cross-domain context, so that the component creates the blob), is mapped, placed and
  unmapped by that same component, under the id it was created with.
\<close>

theorem renderer_resources_dispatch:
  assumes "renderer lv lg codec (g_default_component g) = Some c"
    and "fmlookup (g_components g) (g_default_component g) = Some c"
    and "rutabaga_resource_create_3d i p g = (Ok (), g') \<or>
      (x = 0 \<or> (\<forall>ctx. fmlookup (g_contexts g) x = Some ctx \<longrightarrow> x_component_type ctx \<noteq> CrossDomain)) \<and>
      rutabaga_resource_create_blob x i rcb v h g = (Ok (), g')"
  shows "rutabaga_map i g' = call (c_map c i) g' \<and> rutabaga_unmap i g' = call (c_unmap c i) g' \<and>
    rutabaga_map_placed i addr g' = call (c_map_placed c i addr) g'"
proof -
  have default: "default_of g = Ok c"
    using assms(2) by (simp add: default_of_def get_component_def)
  have "\<exists>r. fmlookup (g_resources g') i = Some r \<and>
      calculate_component (r_component_mask r) = Ok (g_default_component g) \<and>
      g_components g' = g_components g"
    using assms(3)
  proof
    assume "rutabaga_resource_create_3d i p g = (Ok (), g')"
    then show ?thesis using default renderer_creates(1) [OF assms(1)]
      by (auto simp: rutabaga_resource_create_3d_def and_then_st_eq_Ok
          split: if_splits dest!: call_eqD)
  next
    assume "(x = 0 \<or> (\<forall>ctx. fmlookup (g_contexts g) x = Some ctx \<longrightarrow> x_component_type ctx \<noteq> CrossDomain)) \<and>
      rutabaga_resource_create_blob x i rcb v h g = (Ok (), g')"
    then show ?thesis using default renderer_creates(2) [OF assms(1)]
      by (auto simp: rutabaga_resource_create_blob_def and_then_st_eq_Ok and_then_eq_Ok
          word_neq_0_conv get_context_def ok_or_eq_Ok split: if_splits dest!: call_eqD)
  qed
  then show ?thesis using assms(2) renderer_creates(3) [OF assms(1)]
    by (auto simp: rutabaga_map_def rutabaga_unmap_def rutabaga_map_placed_def get_resource_def
        get_component_def)
qed

section \<open>Handles of virglrenderer resources\<close>

lemma virgl_export_handle:
  assumes "virgl_export_blob l i w = (Ok h, w')"
  shows "\<exists>d t. h = MagmaGpuHandle \<lparr>os_handle = d, handle_type = t\<rparr> \<and>
    t \<in> {MAGMA_GPU_HANDLE_TYPE_MEM_DMABUF, MAGMA_GPU_HANDLE_TYPE_MEM_SHM,
          MAGMA_GPU_HANDLE_TYPE_MEM_OPAQUE_FD}"
  using assms
  by (auto simp: virgl_export_blob_def and_then_st_eq_Ok and_then_eq_Ok virgl_handle_type_def
      split: if_splits)

text \<open>The documented behaviour of the library: an export that succeeds gives a descriptor.\<close>

definition exports_descriptors :: "'w virgl_lib \<Rightarrow> bool" where
  "exports_descriptors l \<longleftrightarrow>
     (\<forall>i w t fd w'. vl_resource_export_blob l i w = ((0, t, fd), w') \<longrightarrow> fd \<noteq> - 1)"

lemma ok_st_export:
  assumes "exports_descriptors l"
  shows "\<exists>h w'. ok_st (virgl_export_blob l i w) = (Ok h, w')"
proof -
  obtain ret t fd w' where e: "vl_resource_export_blob l i w = ((ret, t, fd), w')"
    by (metis surj_pair)
  then have "ret = 0 \<Longrightarrow> fd \<noteq> - 1" using assms unfolding exports_descriptors_def by blast
  then show ?thesis using e
    by (cases "ret = 0")
      (auto simp: virgl_export_blob_def from_raw_descriptor_def virgl_handle_type_def unsupported_def)
qed

lemma ok_st_query: "\<exists>info w'. ok_st (virgl_query l i w) = (Ok info, w')"
proof -
  obtain q where q: "virgl_export_query l i w = q" by blast
  then show ?thesis
    by (auto simp: virgl_query_def virgl_export_query_def c_out_def ret_to_res_def unsupported_def
        and_then_st_def split: prod.splits)
qed

text \<open>
  Creating a 3D resource with virglrenderer fails exactly when the library refuses to create it,
  with its code and without another call; what cannot be exported or queried afterwards is left out.
  A handle is always one of the mesa crate, of a memory type. Only the texture that is asked for when
  the export and the query both gave nothing has a size in its 3D info, and it comes with a dmabuf.
\<close>

lemma virgl_create_3d_outcome:
  assumes "exports_descriptors l"
    and "vl_resource_create l (create_args_of i p) w = (ret, w1)"
  shows "(ret \<noteq> 0 \<longrightarrow> virgl_create_3d l i p w = (Err (ComponentError ret), w1)) \<and>
    (ret = 0 \<longrightarrow> (\<exists>r w'. virgl_create_3d l i p w = (Ok r, w') \<and>
      (\<forall>h. r_handle r = Some h \<longrightarrow> (\<exists>d t. h = MagmaGpuHandle \<lparr>os_handle = d, handle_type = t\<rparr> \<and>
         t \<in> {MAGMA_GPU_HANDLE_TYPE_MEM_DMABUF, MAGMA_GPU_HANDLE_TYPE_MEM_SHM,
               MAGMA_GPU_HANDLE_TYPE_MEM_OPAQUE_FD})) \<and>
      (\<forall>info. r_info_3d r = Some info \<longrightarrow> i3d_width info \<noteq> 0 \<longrightarrow>
         (\<exists>d. r_handle r = Some (MagmaGpuHandle
            \<lparr>os_handle = d, handle_type = MAGMA_GPU_HANDLE_TYPE_MEM_DMABUF\<rparr>)))))"
proof (intro conjI impI)
  assume "ret \<noteq> 0"
  then show "virgl_create_3d l i p w = (Err (ComponentError ret), w1)"
    using assms(2) by (simp add: virgl_create_3d_def)
next
  assume "ret = 0"
  obtain h w2 where h: "ok_st (virgl_export_blob l i w1) = (Ok h, w2)"
    using ok_st_export [OF assms(1)] by blast
  obtain info w3 where info: "ok_st (virgl_query l i w2) = (Ok info, w3)"
    using ok_st_query [of l i w2] by (elim exE) (rule that)
  have handle: "h = Some x \<Longrightarrow> \<exists>d t. x = MagmaGpuHandle \<lparr>os_handle = d, handle_type = t\<rparr> \<and>
      t \<in> {MAGMA_GPU_HANDLE_TYPE_MEM_DMABUF, MAGMA_GPU_HANDLE_TYPE_MEM_SHM,
            MAGMA_GPU_HANDLE_TYPE_MEM_OPAQUE_FD}" for x
    using h virgl_export_handle [of l i w1 x]
    by (auto simp: ok_st_def simp del: MAGMA_GPU_HANDLE_TYPE_MEM_DMABUF_def
        split: prod.splits sum.splits fault.splits)
  have size: "info = Some y \<Longrightarrow> i3d_width y = 0" for y
    using info by (auto simp: ok_st_def virgl_query_def and_then_st_def
        split: prod.splits sum.splits fault.splits if_splits)
  show "\<exists>r w'. virgl_create_3d l i p w = (Ok r, w') \<and>
      (\<forall>h. r_handle r = Some h \<longrightarrow> (\<exists>d t. h = MagmaGpuHandle \<lparr>os_handle = d, handle_type = t\<rparr> \<and>
         t \<in> {MAGMA_GPU_HANDLE_TYPE_MEM_DMABUF, MAGMA_GPU_HANDLE_TYPE_MEM_SHM,
               MAGMA_GPU_HANDLE_TYPE_MEM_OPAQUE_FD})) \<and>
      (\<forall>info. r_info_3d r = Some info \<longrightarrow> i3d_width info \<noteq> 0 \<longrightarrow>
         (\<exists>d. r_handle r = Some (MagmaGpuHandle
            \<lparr>os_handle = d, handle_type = MAGMA_GPU_HANDLE_TYPE_MEM_DMABUF\<rparr>)))"
  proof (cases "h = None \<and> info = None")
    case True
    then show ?thesis using \<open>ret = 0\<close> assms(2) h info
      by (auto simp: virgl_create_3d_def virgl_texture_fallback_def virgl_resource_def
          blank_resource_def split: prod.splits)
  next
    case False
    then have "virgl_create_3d l i p w = (Ok (virgl_resource i h info), w3)"
      using \<open>ret = 0\<close> assms(2) h info by (auto simp: virgl_create_3d_def)
    then show ?thesis using handle size
      by (auto simp: virgl_resource_def)
  qed
qed

text \<open>For the witnesses: libraries that accept every call; this virglrenderer exports nothing and
  finds a texture with descriptor 7.\<close>

definition some_virgl_lib :: "'w virgl_lib" where
  "some_virgl_lib =
     \<lparr>vl_init_once = \<lambda>_. False, vl_set_init_once = \<lambda>w. w, vl_init = \<lambda>_ _ w. (0, w),
      vl_cleanup = \<lambda>w. w, vl_poll = \<lambda>w. w, vl_get_poll_fd = \<lambda>w. (5, w), vl_force_ctx_0 = \<lambda>w. w,
      vl_get_cap_set = \<lambda>_ _. (1, 4), vl_fill_caps = \<lambda>_ _ buf _. buf,
      vl_create_fence = \<lambda>_ _ w. (0, w), vl_context_create = \<lambda>_ _ w. (0, w),
      vl_context_create_with_flags = \<lambda>_ _ _ w. (0, w), vl_context_destroy = \<lambda>_ w. w,
      vl_context_create_fence = \<lambda>_ _ _ _ w. (0, w), vl_submit_cmd = \<lambda>c _ _ w. ((0, c), w),
      vl_ctx_attach_resource = \<lambda>_ _ w. w, vl_ctx_detach_resource = \<lambda>_ _ w. w,
      vl_resource_create = \<lambda>_ w. (0, w), vl_resource_create_blob = \<lambda>_ w. (0, w),
      vl_resource_import_blob = \<lambda>_ w. (0, w), vl_resource_unref = \<lambda>_ w. w,
      vl_resource_attach_iov = \<lambda>_ _ _ w. (0, w), vl_resource_detach_iov = \<lambda>_ w. w,
      vl_transfer_read_iov = \<lambda>_ buf w. ((0, buf), w), vl_transfer_write_iov = \<lambda>_ w. (0, w),
      vl_execute = \<lambda>q w. ((0, q), w), vl_resource_export_blob = \<lambda>_ w. ((22, 0, - 1), w),
      vl_resource_get_map_info = \<lambda>_ w. ((0, 1), w),
      vl_resource_get_info_ext = \<lambda>_ w. ((0, \<lparr>ri_width = 8, ri_height = 8, ri_tex_id = 3, ri_stride = 32,
        ri_drm_fourcc = 0, ri_modifiers = 0\<rparr>), w),
      vl_get_fd_for_texture = \<lambda>_ w. ((0, 7), w), vl_resource_map = \<lambda>_ w. ((0, 4096, 64), w),
      vl_resource_unmap = \<lambda>_ w. (0, w), libc_seek_end = \<lambda>_ w. (64, w), libc_close = \<lambda>_ w. w,
      std_canonicalize = \<lambda>p _. Some p, std_path_exists = \<lambda>_ _. True, std_open_rw = \<lambda>_ w. (Some 6, w)\<rparr>"

definition some_gfx_lib :: "'w gfx_lib" where
  "some_gfx_lib =
     \<lparr>gfx_unstable = False, gl_init = \<lambda>_ w. (0, w), gl_teardown = \<lambda>w. w,
      gl_resource_create = \<lambda>_ w. (0, w), gl_resource_unref = \<lambda>_ w. w,
      gl_context_create = \<lambda>_ _ _ w. (0, w), gl_context_destroy = \<lambda>_ w. w,
      gl_transfer_read_iov = \<lambda>_ buf w. ((0, buf), w), gl_transfer_write_iov = \<lambda>_ _ w. (0, w),
      gl_submit_cmd = \<lambda>c w. ((0, sc_cmd c), w), gl_resource_attach_iov = \<lambda>_ _ _ w. (0, w),
      gl_resource_detach_iov = \<lambda>_ w. w, gl_create_fence = \<lambda>_ w. (0, w),
      gl_export_fence = \<lambda>_ w. ((22, \<lparr>sh_os_handle = 0, sh_handle_type = 0\<rparr>), w),
      gl_ctx_attach_resource = \<lambda>_ _ w. w, gl_ctx_detach_resource = \<lambda>_ _ w. w,
      gl_get_cap_set = \<lambda>_ _. (1, 4), gl_fill_caps = \<lambda>_ _ buf _. buf, gl_flush = \<lambda>_ w. w,
      gl_create_blob = \<lambda>_ _ _ _ _ w. (0, w),
      gl_export_blob = \<lambda>_ w. ((0, \<lparr>sh_os_handle = 9, sh_handle_type = 2\<rparr>), w),
      gl_resource_map = \<lambda>_ w. ((0, 4096, 64), w), gl_resource_unmap = \<lambda>_ w. (0, w),
      gl_resource_map_info = \<lambda>_ w. ((0, 1), w),
      gl_vulkan_info = \<lambda>_ w. ((22, \<lparr>sv_memory_index = 0, sv_device_uuid = [], sv_driver_uuid = []\<rparr>), w),
      gl_suspend = \<lambda>w. (0, w), gl_snapshot = \<lambda>_ w. (0, w), gl_restore = \<lambda>_ w. (0, w),
      gl_resume = \<lambda>w. (0, w), gl_import_resource = \<lambda>_ _ _ w. (0, w)\<rparr>"

definition some_codec :: context_codec where
  "some_codec = \<lparr>cc_ser = \<lambda>_. [], cc_de = \<lambda>_. Inr 1\<rparr>"

definition some_virgl_core :: "unit rutabaga" where
  "some_virgl_core =
     (new_2d (\<lambda>_. []) (\<lambda>_. Some ()) some_world)
     \<lparr>g_components := fmupd VirglRenderer (virgl_component some_virgl_lib) fmempty,
      g_default_component := VirglRenderer\<rparr>"

lemma renderer_resources_dispatch_witness:
  "fst (rutabaga_map 1 (snd (rutabaga_resource_create_3d 1 small_3d some_virgl_core))) =
     Ok \<lparr>mesa_ptr = 4096, mesa_size = 64\<rparr>"
proof -
  let ?c = "virgl_component some_virgl_lib :: world rutabaga_component"
  let ?g = some_virgl_core
  obtain r where r: "virgl_create_3d some_virgl_lib 1 small_3d some_world = (Ok r, some_world)"
    by (auto simp: virgl_create_3d_def some_virgl_lib_def virgl_export_blob_def virgl_query_def
        virgl_export_query_def unsupported_def virgl_texture_fallback_def)
  have default: "g_default_component ?g = VirglRenderer" "fmlookup (g_components ?g) VirglRenderer = Some ?c"
    "g_world ?g = some_world" "g_resources ?g = fmempty"
    by (simp_all add: some_virgl_core_def new_2d_def)
  have made: "rutabaga_resource_create_3d 1 small_3d ?g =
      (Ok (), put_resource 1 r ?g)"
    using r default
    by (simp add: rutabaga_resource_create_3d_def rutabaga_get_defs call_eq virgl_component_def same_world)
  from renderer_resources_dispatch [of some_virgl_lib some_gfx_lib some_codec ?g ?c 1 small_3d "put_resource 1 r ?g" 0]
  show ?thesis using made default
    by (simp add: renderer_def virgl_component_def virgl_map_def call_eq some_virgl_lib_def)
qed

end
