(* ===== verification/Kumquat_Properties.thy ===== *)
theory Kumquat_Properties
  imports Kumquat_Server Renderer_Properties CD_Component
begin

text \<open>
  What holds of the Kumquat server: which parts of its state a call of the library leaves alone, when
  a resource is given back, and what happens to the connection of a peer that has gone.
\<close>

section \<open>Calls of the library\<close>

text \<open>The fences that a call completes change the pending fences and the world only.\<close>

definition handler_frame :: "'a kumquat_gpu \<Rightarrow> 'a kumquat_gpu \<Rightarrow> bool" where
  "handler_frame k k' \<longleftrightarrow>
     kg_resources k' = kg_resources k \<and> kg_id_allocator k' = kg_id_allocator k \<and>
     (\<exists>w. kg_rutabaga k' = (kg_rutabaga k)\<lparr>g_world := w\<rparr>)"

lemma handler_frame_refl [simp]: "handler_frame k k"
  using same_world [of "kg_rutabaga k"] by (auto simp: handler_frame_def intro!: exI [of _ "kg_world k"])

lemma handler_frame_trans: "handler_frame k k' \<Longrightarrow> handler_frame k' k'' \<Longrightarrow> handler_frame k k''"
  by (auto simp: handler_frame_def)

interpretation frame: state_relation handler_frame
  by unfold_locales (use handler_frame_trans in auto)

lemma on_world_frame: "handler_frame k (snd (on_world f k))"
  by (auto simp: on_world_def handler_frame_def split: prod.split)

lemma pending_frame: "handler_frame (k\<lparr>kg_pending_fences := m\<rparr>) k' \<longleftrightarrow> handler_frame k k'"
  by (simp add: handler_frame_def)

lemma fence_handler_frame: "handler_frame k (snd (fence_handler f k))"
proof (cases "fmlookup (kg_pending_fences k) (fence_id f)")
  case (Some event)
  let ?k = "k\<lparr>kg_pending_fences := fmdrop (fence_id f) (kg_pending_fences k)\<rparr>"
  have "snd (fence_handler f k) = snd (on_world (event_signal event) ?k)"
    using Some by (simp add: fence_handler_def split: prod.split sum.split)
  then show ?thesis using on_world_frame [of ?k] by (simp add: pending_frame)
qed (simp add: fence_handler_def)

lemma complete_fences_frame: "handler_frame k (snd (complete_fences fs k))"
  by (induction fs arbitrary: k) (auto intro!: frame.bind fence_handler_frame)

lemma rut_eq_Ok:
  assumes "rut f k = (Ok x, k')"
  obtains g where "f (kg_rutabaga k) = (Ok x, g)" "handler_frame (k\<lparr>kg_rutabaga := g\<rparr>) k'"
proof -
  obtain r g where f: "f (kg_rutabaga k) = (r, g)" by (cases "f (kg_rutabaga k)")
  let ?fs = "drop (length (w_fences (kg_world k))) (w_fences (g_world g))"
  obtain u where fs: "complete_fences ?fs (k\<lparr>kg_rutabaga := g\<rparr>) = (Ok u, k')" and r: "r = Ok x"
    using assms f by (auto simp: rut_def rust_simps)
  then show ?thesis
    using that [of g] f complete_fences_frame [of "k\<lparr>kg_rutabaga := g\<rparr>" ?fs] by simp
qed

section \<open>Giving a resource back\<close>

lemma attach_message_keeps:
  assumes "process_message env s (CtxAttachResource c) k = (Ok (), k')"
  shows "kg_resources k' = kg_resources k"
  using assms by (auto simp: handler_frame_def elim!: rut_eq_Ok)

lemma unref_removes:
  assumes "rutabaga_unref_resource i g = (Ok (), g')"
  shows "fmlookup (g_resources g') i = None"
  using assms by (auto simp: rutabaga_unref_resource_def rust_simps)

lemma context_detach_frame:
  assumes "rutabaga_context_detach_resource c i g = (Ok (), g')"
  shows "g_resources g' = g_resources g \<and> fmlookup (g_resources g') i \<noteq> None"
  using assms by (auto simp: rutabaga_context_detach_resource_def rust_simps)

lemma fmupd_fmdrop: "fmupd i x (fmdrop i m) = fmupd i x m"
  by (rule fmap_ext) simp

lemma detach_backing_keeps: "rut (rutabaga_detach_backing i) k = (Ok (), k') \<Longrightarrow>
    kg_resources k' = kg_resources k"
  by (auto simp: handler_frame_def elim!: rut_eq_Ok)

lemma detach_message_outcome:
  assumes "process_message env s (CtxDetachResource d) k = (Ok (), k')"
    and res: "fmlookup (kg_resources k) (kr_resource_id d) = Some res"
  shows "if kgr_attached_contexts res |-| {|kr_ctx_id d|} = {||}
    then fmlookup (g_resources (kg_rutabaga k')) (kr_resource_id d) = None \<and>
         kg_resources k' = fmdrop (kr_resource_id d) (kg_resources k)
    else fmlookup (g_resources (kg_rutabaga k')) (kr_resource_id d) \<noteq> None \<and>
         kg_resources k' = fmupd (kr_resource_id d)
           (res\<lparr>kgr_attached_contexts := kgr_attached_contexts res |-| {|kr_ctx_id d|}\<rparr>) (kg_resources k)"
proof -
  let ?i = "kr_resource_id d"
  let ?left = "kgr_attached_contexts res |-| {|kr_ctx_id d|}"
  obtain k1 where detach: "rut (rutabaga_context_detach_resource (kr_ctx_id d) ?i) k = (Ok (), k1)"
    and rest: "(case fmlookup (kg_resources k1) ?i of
       None \<Rightarrow> (Err (KumquatRutabaga InvalidResourceId), k1)
     | Some res \<Rightarrow>
         let k = k1\<lparr>kg_resources := fmdrop ?i (kg_resources k1)\<rparr>;
             res = res\<lparr>kgr_attached_contexts := kgr_attached_contexts res |-| {|kr_ctx_id d|}\<rparr>
         in
           if kgr_attached_contexts res = {||} then
             and_then_st
               (if kgr_mapping res \<noteq> None then rut (rutabaga_detach_backing ?i) k
                else (Ok (), k)) (\<lambda>_ k.
             rut (rutabaga_unref_resource ?i) k)
           else (Ok (), k\<lparr>kg_resources := fmupd ?i res (kg_resources k)\<rparr>)) = (Ok (), k')"
    using assms by (auto simp: ctx_detach_resource_def rust_simps)
  have k1: "kg_resources k1 = kg_resources k" "fmlookup (g_resources (kg_rutabaga k1)) ?i \<noteq> None"
    using detach by (auto simp: handler_frame_def elim!: rut_eq_Ok dest!: context_detach_frame)
  show ?thesis
  proof (cases "?left = {||}")
    case True
    let ?k = "k1\<lparr>kg_resources := fmdrop ?i (kg_resources k)\<rparr>"
    have "\<exists>k2. kg_resources k2 = fmdrop ?i (kg_resources k) \<and>
        rut (rutabaga_unref_resource ?i) k2 = (Ok (), k')"
    proof (cases "kgr_mapping res")
      case None
      then show ?thesis using rest res True k1(1)
        by (intro exI [of _ ?k]) (simp add: Let_def)
    next
      case (Some mapping)
      then show ?thesis using rest res True k1(1)
        by (auto simp: Let_def rust_simps dest!: detach_backing_keeps)
    qed
    then show ?thesis using True unref_removes
      by (auto simp: handler_frame_def elim!: rut_eq_Ok)
  next
    case False
    then show ?thesis using rest res k1 by (auto simp: fmupd_fmdrop)
  qed
qed

lemma attach_messages_keep:
  assumes "process_messages env s (map CtxAttachResource cs @ ps) h k = (Ok h', k')"
  obtains k1 where "process_messages env s ps h k1 = (Ok h', k')" "kg_resources k1 = kg_resources k"
  using assms
proof (induction cs arbitrary: k thesis)
  case (Cons c cs)
  then obtain k1 where "process_message env s (CtxAttachResource c) k = (Ok (), k1)"
    and "process_messages env s (map CtxAttachResource cs @ ps) h k1 = (Ok h', k')"
    by (auto simp: rust_simps simp del: process_message.simps)
  then show ?case using Cons.IH [of k1] Cons.prems(1) attach_message_keeps by metis
qed simp

text \<open>
  C25. Contexts attached by a message do not count as users of a resource. However many contexts attach
  themselves to a resource first, a detach message gives the resource back to the library, and
  forgets it, exactly when the server had recorded no context other than the detaching one when it
  created the resource. For a blob that is the context that created it; for a 3D resource no context is
  recorded, so the detach of any context gives it back. Otherwise the resource stays and the
  detaching context is removed from the recorded ones.
\<close>

theorem context_detach_outcome:
  assumes "process_messages env s (map CtxAttachResource cs @ [CtxDetachResource d]) h k = (Ok h', k')"
    and "fmlookup (kg_resources k) (kr_resource_id d) = Some res"
  shows "if kgr_attached_contexts res |-| {|kr_ctx_id d|} = {||}
    then fmlookup (g_resources (kg_rutabaga k')) (kr_resource_id d) = None \<and>
         kg_resources k' = fmdrop (kr_resource_id d) (kg_resources k)
    else fmlookup (g_resources (kg_rutabaga k')) (kr_resource_id d) \<noteq> None \<and>
         kg_resources k' = fmupd (kr_resource_id d)
           (res\<lparr>kgr_attached_contexts := kgr_attached_contexts res |-| {|kr_ctx_id d|}\<rparr>) (kg_resources k)"
proof -
  obtain k1 where "process_messages env s [CtxDetachResource d] h k1 = (Ok h', k')"
    and same: "kg_resources k1 = kg_resources k"
    using attach_messages_keep [OF assms(1)] .
  then have "process_message env s (CtxDetachResource d) k1 = (Ok (), k')"
    by (auto simp: rust_simps simp del: process_message.simps)
  from detach_message_outcome [OF this, of res] show ?thesis using assms(2) unfolding same by blast
qed

text \<open>For the witnesses: a server with two contexts that share resource 5, which context 1 created.\<close>

definition some_kumquat_env :: "unit kumquat_env" where
  "some_kumquat_env =
     \<lparr>ke_build =
        \<lparr>be_virgl_init = None, be_gfxstream_init = None,
         be_magma_init = \<lambda>w. (Ok component_defaults, w),
         be_cross_domain_init = \<lambda>_ _ w. (Ok component_defaults, w),
         be_rutabaga_2d_init = \<lambda>w. (Ok (rutabaga_2d_component (\<lambda>_. []) (\<lambda>_. Some ())), w)\<rparr>,
      ke_ser = \<lambda>_. [], ke_de = \<lambda>_. None\<rparr>"

definition some_ctx :: "cd_world rutabaga_context" where
  "some_ctx =
     context_defaults (\<lambda>c _ _ w. ((Ok (), c), w)) (\<lambda>r w. (r, w)) (\<lambda>_ w. w) CrossDomain"

definition some_kumquat_gpu :: "unit kumquat_gpu" where
  "some_kumquat_gpu =
     \<lparr>kg_rutabaga = put_resource 5 (blank_resource 5) (put_context 1 some_ctx (put_context 2 some_ctx
         (new_2d (\<lambda>_. []) (\<lambda>_. Some ()) some_cd_world))),
      kg_pending_fences = fmempty, kg_id_allocator = 5,
      kg_resources = fmupd 5 \<lparr>kgr_attached_contexts = {|1|}, kgr_mapping = None\<rparr> fmempty\<rparr>"

definition ctx_resource :: "u32 \<Rightarrow> u32 \<Rightarrow> kq_ctx_resource" where
  "ctx_resource t ctx_id =
     \<lparr>kr_hdr = \<lparr>kh_type = t, kh_payload = 0\<rparr>, kr_ctx_id = ctx_id, kr_resource_id = 5\<rparr>"

lemma context_detach_outcome_witness:
  "\<exists>k'. process_messages some_kumquat_env 9
       (map CtxAttachResource [ctx_resource KUMQUAT_GPU_PROTOCOL_CTX_ATTACH_RESOURCE 2] @
        [CtxDetachResource (ctx_resource KUMQUAT_GPU_PROTOCOL_CTX_DETACH_RESOURCE 1)])
       False some_kumquat_gpu = (Ok False, k') \<and>
     fmlookup (g_resources (kg_rutabaga k')) 5 = None"
proof -
  let ?ps = "map CtxAttachResource [ctx_resource KUMQUAT_GPU_PROTOCOL_CTX_ATTACH_RESOURCE 2] @
        [CtxDetachResource (ctx_resource KUMQUAT_GPU_PROTOCOL_CTX_DETACH_RESOURCE 1)]"
  have "\<exists>k'. process_messages some_kumquat_env 9 ?ps False some_kumquat_gpu = (Ok False, k')"
    by (simp add: some_kumquat_gpu_def ctx_resource_def rut_def rutabaga_context_attach_resource_def
        call_eq new_2d_def ctx_detach_resource_def rutabaga_context_detach_resource_def
        some_ctx_def context_defaults_def rutabaga_unref_resource_def c_2d_simps
        rutabaga_get_defs put_resource_def put_context_def run_def)
  then obtain k' where k': "process_messages some_kumquat_env 9 ?ps False some_kumquat_gpu = (Ok False, k')"
    by blast
  have "fmlookup (kg_resources some_kumquat_gpu) (kr_resource_id (ctx_resource
      KUMQUAT_GPU_PROTOCOL_CTX_DETACH_RESOURCE 1)) = Some \<lparr>kgr_attached_contexts = {|1|}, kgr_mapping = None\<rparr>"
    by (simp add: some_kumquat_gpu_def ctx_resource_def)
  from context_detach_outcome [OF k' this] show ?thesis
    using k' by (auto simp: ctx_resource_def)
qed

section \<open>Connections that end\<close>

lemma read_message_data: "read_message bs ds = Inr (p, bs', ds') \<Longrightarrow> p \<noteq> OkNoData"
  by (auto simp: read_message_def Let_def rust_simps msg_def header_msg_def fd_msg_def read_submit_def
      pop_front_def read_from_prefix_def eof_def split: if_splits option.splits list.splits prod.splits)

lemma read_messages_data: "read_messages bs ds = Inr ps \<Longrightarrow> OkNoData \<notin> set ps"
proof (induction bs ds arbitrary: ps rule: read_messages.induct)
  case (1 bs ds)
  show ?case
  proof (cases "bs = []")
    case False
    then obtain p bs' ds' ps' where first: "read_message bs ds = Inr (p, bs', ds')"
      and rest: "read_messages bs' ds' = Inr ps'" "ps = p # ps'"
      using "1.prems" by (subst (asm) read_messages.simps) (auto simp: rust_simps split: sum.splits)
    then show ?thesis using "1.IH" [OF False first _ _ rest(1)] read_message_data [OF first] by auto
  qed (use "1.prems" in \<open>simp add: read_messages.simps\<close>)
qed

lemma process_messages_hung_up:
  "process_messages env s ps h k = (Ok r, k') \<Longrightarrow> r \<longleftrightarrow> h \<or> OkNoData \<in> set ps"
  by (induction ps arbitrary: h k) (auto simp: rust_simps simp del: process_message.simps)

lemma stream_read_data:
  assumes "stream_read s w = (Ok ps, w')"
    and "sys_recvmsg (cdw_sys w) (cdw_tick w) s MAX_COMMAND_SIZE = Inr (bs, cmsgs)"
  shows "OkNoData \<in> set ps \<longleftrightarrow> bs = []"
  using assms
  by (auto simp: stream_read_def tube_receive_def sys_rres_def ask_def rust_simps
      split: if_splits dest: read_messages_data)

text \<open>
  C26. When a connection is dropped. Handling an event of a client removes its connection exactly when
  the event is readable and marks a hang-up and the packet read is not empty. So a client that has
  closed its end, whose packets are empty from then on, is never removed, and a client whose last
  packet arrives together with the hang-up is removed after that packet.
\<close>

theorem connection_removal:
  assumes "kumquat_event env event u = (Ok (), u')"
    and "fmlookup (ku_connections u) (ev_connection_id event) = Some (GpuConnection stream)"
    and "ku_gpu_opt u = Some k"
    and "sys_recvmsg (cdw_sys (ku_world u)) (cdw_tick (ku_world u)) stream MAX_COMMAND_SIZE = Inr (bs, cmsgs)"
  shows "ku_connections u' =
    (if ev_readable event \<and> ev_hung_up event \<and> bs \<noteq> []
     then fmdrop (ev_connection_id event) (ku_connections u) else ku_connections u)"
proof (cases "ev_readable event")
  case True
  let ?k = "k\<lparr>kg_rutabaga := (kg_rutabaga k)\<lparr>g_world := ku_world u\<rparr>\<rparr>"
  obtain r k' where command: "process_command env stream ?k = (Ok r, k')"
    and rest: "and_then_st (Ok (\<not> r \<and> ev_hung_up event),
        u\<lparr>ku_gpu_opt := Some k', ku_world := kg_world k'\<rparr>) (\<lambda>hung_up u.
      if hung_up then
       and_then_st (ku_sys (wait_ctx_delete (ku_wait_ctx u) stream) u) (\<lambda>_ u.
         (Ok (), u\<lparr>ku_connections := fmdrop (ev_connection_id event) (ku_connections u)\<rparr>))
      else (Ok (), u)) = (Ok (), u')"
    using assms(1-3) True
    by (auto simp: kumquat_event_def handle_connection_def with_gpu_def rust_simps split: prod.splits)
  then obtain ps k1 where "sys (stream_read stream) ?k = (Ok ps, k1)"
    and "process_messages env stream ps False k1 = (Ok r, k')"
    by (auto simp: process_command_def rust_simps)
  then have "r \<longleftrightarrow> bs = []"
    using process_messages_hung_up stream_read_data [of stream "ku_world u" ps _ bs cmsgs] assms(4)
    by (fastforce simp: sys_def on_world_def split: prod.splits)
  then show ?thesis using True rest
    by (auto simp: ku_sys_def rust_simps split: if_splits prod.splits)
next
  case False
  then show ?thesis using assms(1-3) by (auto simp: kumquat_event_def handle_connection_def)
qed

definition closed_sys :: cd_sys where
  "closed_sys = some_sys\<lparr>sys_recvmsg := \<lambda>_ _ _. Inr ([], [])\<rparr>"

definition some_kumquat :: "unit kumquat" where
  "some_kumquat =
     \<lparr>ku_connection_id = 1, ku_wait_ctx = 4, ku_gpu_opt = Some some_kumquat_gpu,
      ku_listener_opt = Some 5, ku_connections = fmupd 1 (GpuConnection 9) fmempty,
      ku_world = some_cd_world\<lparr>cdw_sys := closed_sys\<rparr>\<rparr>"

lemma connection_removal_witness:
  "\<exists>u'. kumquat_event some_kumquat_env \<lparr>ev_connection_id = 1, ev_hung_up = True, ev_readable = True\<rparr>
       some_kumquat = (Ok (), u') \<and>
     ku_connections u' = fmupd 1 (GpuConnection 9) fmempty"
proof -
  let ?event = "\<lparr>ev_connection_id = 1, ev_hung_up = True, ev_readable = True\<rparr>"
  obtain u' where u': "kumquat_event some_kumquat_env ?event some_kumquat = (Ok (), u')"
    by (force simp: kumquat_event_def handle_connection_def some_kumquat_def with_gpu_def
        process_command_def sys_def on_world_def stream_read_def tube_receive_def sys_rres_def ask_def
        closed_sys_def split: prod.splits)
  from connection_removal [OF this, of 9 some_kumquat_gpu "[]" "[]"] show ?thesis
    using u' by (simp add: some_kumquat_def closed_sys_def)
qed

section \<open>Shareable fences\<close>

lemma complete_fences_result: "fst (complete_fences fs k) \<in> {Ok (), Panicked}"
proof (induction fs arbitrary: k)
  case (Cons f fs)
  obtain r k' where f: "fence_handler f k = (r, k')" by (cases "fence_handler f k")
  then have "r \<in> {Ok (), Panicked}"
    by (auto simp: fence_handler_def split: option.splits prod.splits sum.splits)
  then show ?case using f Cons.IH [of k'] by auto
qed simp

lemma rut_panics:
  assumes "fst (f (kg_rutabaga k)) = Panicked"
  shows "fst (rut f k) = Panicked"
proof -
  obtain g where f: "f (kg_rutabaga k) = (Panicked, g)"
    using assms by (cases "f (kg_rutabaga k)") auto
  let ?fs = "drop (length (w_fences (kg_world k))) (w_fences (g_world g))"
  obtain r k' where "complete_fences ?fs (k\<lparr>kg_rutabaga := g\<rparr>) = (r, k')"
    by (cases "complete_fences ?fs (k\<lparr>kg_rutabaga := g\<rparr>)")
  then show ?thesis using f complete_fences_result [of ?fs "k\<lparr>kg_rutabaga := g\<rparr>"]
    by (auto simp: rut_def)
qed

text \<open>Contexts that accept a fence without a handle for it\<close>

definition answers_none :: "'w rutabaga_context \<Rightarrow> rutabaga_fence \<Rightarrow> bool" where
  "answers_none x f \<longleftrightarrow> (\<forall>w. \<exists>w'. x_context_create_fence x f w = (Ok None, w'))"

lemma magma_answers_none: "answers_none (magma_context l) f"
  by (simp add: answers_none_def magma_context_def context_defaults_def
      magma_context_create_fence_def)

lemma gfx_answers_none: "fence_ring_idx f = 1 \<Longrightarrow> answers_none (gfx_context l codec i) f"
  by (simp add: answers_none_def gfx_context_def context_defaults_def gfx_context_create_fence_def)

lemma create_fence_panics:
  assumes "has_flag (fence_flags f) RUTABAGA_FLAG_INFO_RING_IDX"
    and "has_flag (fence_flags f) RUTABAGA_FLAG_FENCE_HOST_SHAREABLE"
    and "fmlookup (g_contexts g) (fence_ctx_id f) = Some x" and "answers_none x f"
  shows "fst (rutabaga_create_fence f g) = Panicked"
proof -
  obtain w' where "x_context_create_fence x f (g_world g) = (Ok None, w')"
    using assms(4) unfolding answers_none_def by blast
  then show ?thesis using assms(1-3)
    by (simp add: rutabaga_create_fence_def get_context_def call_eq)
qed

lemma submit_keeps_contexts:
  assumes "rutabaga_submit_command c buf fids g = ((r, buf'), g')"
  shows "g_contexts g' = g_contexts g"
  using assms
  by (auto simp: rutabaga_submit_command_def call_eq split: sum.splits option.splits if_splits)

lemma cd_answers_none:
  "fence_ring_idx f \<in> {0, 1} \<Longrightarrow> answers_none (cd_context_object env i) f"
  by (auto simp: answers_none_def cd_context_object_def context_defaults_def on_context_def
      cd_context_create_fence_def split: prod.split)

text \<open>The contexts a guest of the server can create without virglrenderer, and the rings on which
  they answer a fence themselves.\<close>

definition local_fences :: "'a cd_world_scheme rutabaga_context \<Rightarrow> u8 set" where
  "local_fences x =
     {ring. (\<exists>l. x = magma_context l) \<or> (\<exists>env i. x = cd_context_object env i) \<and> ring \<in> {0, 1} \<or>
            (\<exists>l codec i. x = gfx_context l codec i) \<and> ring = 1}"

lemma local_fences_answer_none: "fence_ring_idx f \<in> local_fences x \<Longrightarrow> answers_none x f"
  by (auto simp: local_fences_def intro: magma_answers_none gfx_answers_none cd_answers_none)

text \<open>
  C33. A client can panic the server. When the command of a submission is accepted by its context and
  its flags ask for a shareable fence on a ring of that context, on a ring where the context answers
  fences itself (any ring of a Magma context, both rings of a cross-domain context, ring 1 of a
  gfxstream context), there is no handle for the fence, and unwrapping it panics.
\<close>

theorem shareable_fence_panics:
  assumes "has_flag (ks_flags c) RUTABAGA_FLAG_FENCE"
    and "has_flag (ks_flags c) RUTABAGA_FLAG_INFO_RING_IDX"
    and "has_flag (ks_flags c) RUTABAGA_FLAG_FENCE_HOST_SHAREABLE"
    and "fmlookup (g_contexts (kg_rutabaga k)) (ks_ctx_id c) = Some x"
    and "ks_ring_idx c \<in> local_fences x"
    and "fst (fst (rutabaga_submit_command (ks_ctx_id c) buf fids (kg_rutabaga k))) = Ok ()"
  shows "fst (process_message env stream (CmdSubmit3d c buf fids) k) = Panicked"
proof -
  let ?submit = "\<lambda>g. case rutabaga_submit_command (ks_ctx_id c) buf fids g of ((r, buf), g) \<Rightarrow> (r, g)"
  obtain r k1 where submit: "rut ?submit k = (r, k1)" by (cases "rut ?submit k")
  have r: "r \<in> {Ok (), Panicked}"
  proof -
    obtain b g where "rutabaga_submit_command (ks_ctx_id c) buf fids (kg_rutabaga k) = ((Ok (), b), g)"
      using assms(6) by (cases "rutabaga_submit_command (ks_ctx_id c) buf fids (kg_rutabaga k)") auto
    then show ?thesis
      using submit complete_fences_result
        [of "drop (length (w_fences (kg_world k))) (w_fences (g_world g))" "k\<lparr>kg_rutabaga := g\<rparr>"]
      by (auto simp: rut_def and_then_st_def split: prod.splits sum.splits)
  qed
  show ?thesis
  proof (cases "r = Ok ()")
    case True
    then have "rut ?submit k = (Ok (), k1)" using submit by simp
    from rut_eq_Ok [OF this] obtain g
      where "?submit (kg_rutabaga k) = (Ok (), g)" "handler_frame (k\<lparr>kg_rutabaga := g\<rparr>) k1" .
    then have ctx: "fmlookup (g_contexts (kg_rutabaga k1)) (ks_ctx_id c) = Some x"
      using assms(4) by (auto simp: handler_frame_def dest!: submit_keeps_contexts split: prod.splits)
    let ?f = "\<lparr>fence_flags = ks_flags c, fence_id = ucast (fst (allocate_id k1)),
      fence_ctx_id = ks_ctx_id c, fence_ring_idx = ks_ring_idx c\<rparr>"
    have "fst (rut (rutabaga_create_fence ?f) (snd (allocate_id k1))) = Panicked"
      using assms(2,3,5) ctx
      by (intro rut_panics create_fence_panics [of ?f _ x] local_fences_answer_none)
        (simp_all add: allocate_id_def Let_def)
    then have "fst (submit_fence stream c k1) = Panicked"
      using assms(3)
      by (auto simp: submit_fence_def Let_def case_prod_unfold and_then_st_def split: sum.splits)
    then show ?thesis using submit True assms(1) by (simp add: cmd_submit_3d_def)
  next
    case False
    then show ?thesis using submit r by (simp add: cmd_submit_3d_def)
  qed
qed

definition fence_submission :: kq_submit where
  "fence_submission =
     \<lparr>ks_hdr = \<lparr>kh_type = KUMQUAT_GPU_PROTOCOL_SUBMIT_3D, kh_payload = 0\<rparr>, ks_ctx_id = 3, ks_pad = 0,
      ks_size = 0, ks_num_in_fences = 0, ks_flags = 7, ks_ring_idx = 0, ks_padding = [0, 0, 0]\<rparr>"

definition no_table :: "cd_world resource_lens" where
  "no_table = \<lparr>res_get = \<lambda>_. fmempty, res_put = \<lambda>_ w. w\<rparr>"

lemma shareable_fence_panics_witness:
  "fst (process_message some_kumquat_env 9 (CmdSubmit3d fence_submission [] [])
     (some_kumquat_gpu\<lparr>kg_rutabaga :=
        put_context 3 (magma_context no_table) (kg_rutabaga some_kumquat_gpu)\<rparr>)) = Panicked"
proof (rule shareable_fence_panics [where x = "magma_context no_table"])
  show "ks_ring_idx fence_submission \<in> local_fences (magma_context no_table)"
    by (auto simp: local_fences_def)
qed (simp_all add: fence_submission_def has_flag_def rutabaga_submit_command_def get_context_def
    magma_context_def context_defaults_def magma_submit_cmd_def call_eq)

end
