(* ===== verification/Kumquat_Client.thy ===== *)
theory Kumquat_Client
  imports Kumquat_Server
begin

text \<open>
  The guest side of Kumquat, \<open>virtgpu_kumquat/virtgpu_kumquat_impl.rs\<close> and \<open>virtgpu_kumquat/defines.rs\<close>
  of the mesa crate: a client that turns the calls of a virtio-gpu driver into messages of the
  protocol and keeps, per buffer handle, what the server answered.

  The state of an operation is the client with its world; the stream is the descriptor of its
  socket. The errors are those of the mesa crate, wrapped like the ones of the system calls. Dropping
  a mapping or a descriptor has no effect that the model records.
\<close>

section \<open>Constants and structs\<close>

definition VIRTGPU_KUMQUAT_PARAM_3D_FEATURES :: u64 where
  [simp]: "VIRTGPU_KUMQUAT_PARAM_3D_FEATURES = 1"
definition VIRTGPU_KUMQUAT_PARAM_CAPSET_QUERY_FIX :: u64 where
  [simp]: "VIRTGPU_KUMQUAT_PARAM_CAPSET_QUERY_FIX = 2"
definition VIRTGPU_KUMQUAT_PARAM_CONTEXT_INIT :: u64 where
  [simp]: "VIRTGPU_KUMQUAT_PARAM_CONTEXT_INIT = 6"
definition VIRTGPU_KUMQUAT_PARAM_SUPPORTED_CAPSET_IDS :: u64 where
  [simp]: "VIRTGPU_KUMQUAT_PARAM_SUPPORTED_CAPSET_IDS = 7"
definition VIRTGPU_KUMQUAT_PARAM_EXPLICIT_DEBUG_NAME :: u64 where
  [simp]: "VIRTGPU_KUMQUAT_PARAM_EXPLICIT_DEBUG_NAME = 8"
definition VIRTGPU_KUMQUAT_PARAM_FENCE_PASSING :: u64 where
  [simp]: "VIRTGPU_KUMQUAT_PARAM_FENCE_PASSING = 9"
definition VIRTGPU_KUMQUAT_EXECBUF_FENCE_FD_OUT :: u32 where
  [simp]: "VIRTGPU_KUMQUAT_EXECBUF_FENCE_FD_OUT = 2"
definition VIRTGPU_KUMQUAT_EXECBUF_RING_IDX :: u32 where
  [simp]: "VIRTGPU_KUMQUAT_EXECBUF_RING_IDX = 4"
definition VIRTGPU_KUMQUAT_EXECBUF_SHAREABLE_OUT :: u32 where
  [simp]: "VIRTGPU_KUMQUAT_EXECBUF_SHAREABLE_OUT = 0x10"
definition VIRTGPU_KUMQUAT_EMULATED_EXPORT :: u32 where
  [simp]: "VIRTGPU_KUMQUAT_EMULATED_EXPORT = 1"
definition VIRTGPU_KUMQUAT_PAGE_SIZE :: nat where
  [simp]: "VIRTGPU_KUMQUAT_PAGE_SIZE = 4096"
definition MAGMA_MAP_CACHE_CACHED :: u32 where [simp]: "MAGMA_MAP_CACHE_CACHED = 1"

record virtgpu_param =
  vp_param :: u64
  vp_value :: u64

record virtgpu_create_3d =
  v3_target :: u32
  v3_format :: u32
  v3_bind :: u32
  v3_width :: u32
  v3_height :: u32
  v3_depth :: u32
  v3_array_size :: u32
  v3_last_level :: u32
  v3_nr_samples :: u32
  v3_flags :: u32
  v3_bo_handle :: u32
  v3_res_handle :: u32
  v3_size :: u32
  v3_stride :: u32

record virtgpu_transfer =
  vt_bo_handle :: u32
  vt_box :: kq_box
  vt_level :: u32
  vt_offset :: u64
  vt_stride :: u32
  vt_layer_stride :: u32

text \<open>The size of the command and its address are those of the byte list passed beside the struct.\<close>

record virtgpu_create_blob =
  vb_blob_mem :: u32
  vb_blob_flags :: u32
  vb_bo_handle :: u32
  vb_res_handle :: u32
  vb_size :: u64
  vb_pad :: u32
  vb_cmd_size :: u32
  vb_cmd :: u64
  vb_blob_id :: u64

record virtgpu_resource =
  vr_resource_id :: u32
  vr_size :: nat
  vr_handle :: magma_handle
  vr_attached_fences :: "magma_handle list"
  vr_vulkan_info :: kq_vulkan_info
  vr_system_mapping :: "memory_mapping option"

definition virtgpu_resource_new ::
  "u32 \<Rightarrow> nat \<Rightarrow> magma_handle \<Rightarrow> kq_vulkan_info \<Rightarrow> virtgpu_resource" where
  "virtgpu_resource_new resource_id sz handle vk =
     \<lparr>vr_resource_id = resource_id, vr_size = sz, vr_handle = handle, vr_attached_fences = [],
      vr_vulkan_info = vk, vr_system_mapping = None\<rparr>"

record virtgpu_kumquat =
  vq_context_id :: u32
  vq_id_allocator :: u32
  vq_capset_mask :: u64
  vq_stream :: descriptor
  vq_capsets :: "(u32, u8 list) fmap"
  vq_resources :: "(u32, virtgpu_resource) fmap"

type_synonym 'a vgpu = "virtgpu_kumquat \<times> 'a cd_world_scheme"
type_synonym ('r, 'a) vgpu_op = "'a vgpu \<Rightarrow> 'r rres \<times> 'a vgpu"

section \<open>Requests\<close>

definition unsupported :: "'r rres" where
  "unsupported = Err (MagmaGpuError Unsupported)"

text \<open>A request and the first message of its answer; taking the first of no messages panics.\<close>

definition remove_first :: "'p list \<Rightarrow> 'p rres" where
  "remove_first protocols = (case protocols of [] \<Rightarrow> Panicked | p # _ \<Rightarrow> Ok p)"

definition stream_request ::
  "descriptor \<Rightarrow> kq_write \<Rightarrow> 'a cd_world_scheme \<Rightarrow> kumquat_gpu_protocol rres \<times> 'a cd_world_scheme"
where
  "stream_request stream encode w =
     and_then_st (stream_write stream encode w) (\<lambda>_ w.
     and_then_st (stream_read stream w) (\<lambda>protocols w. (remove_first protocols, w)))"

definition vgpu_write :: "kq_write \<Rightarrow> (unit, 'a) vgpu_op" where
  "vgpu_write encode s = in_world (stream_write (vq_stream (fst s)) encode) s"

definition vgpu_request :: "kq_write \<Rightarrow> (kumquat_gpu_protocol, 'a) vgpu_op" where
  "vgpu_request encode s = in_world (stream_request (vq_stream (fst s)) encode) s"

definition get_bo :: "u32 \<Rightarrow> (virtgpu_resource, 'a) vgpu_op" where
  "get_bo bo_handle s =
     (ok_or (MagmaGpuError Unsupported) (fmlookup (vq_resources (fst s)) bo_handle), s)"

definition put_bo :: "u32 \<Rightarrow> virtgpu_resource \<Rightarrow> 'a vgpu \<Rightarrow> 'a vgpu" where
  "put_bo bo_handle r =
     upd_state (\<lambda>st. st\<lparr>vq_resources := fmupd bo_handle r (vq_resources st)\<rparr>)"

definition zero_hdr :: "u32 \<Rightarrow> kq_hdr" where
  "zero_hdr t = \<lparr>kh_type = t, kh_payload = 0\<rparr>"

section \<open>Opening a connection\<close>

fun resp_num_capsets :: "kumquat_gpu_protocol \<Rightarrow> u32 rres" where
  "resp_num_capsets (RespNumCapsets num) = Ok num"
| "resp_num_capsets _ = unsupported"

fun resp_capset_info :: "kumquat_gpu_protocol \<Rightarrow> kq_capset_info rres" where
  "resp_capset_info (RespCapsetInfo info) = Ok info"
| "resp_capset_info _ = unsupported"

fun resp_capset :: "kumquat_gpu_protocol \<Rightarrow> u8 list rres" where
  "resp_capset (RespCapset capset) = Ok capset"
| "resp_capset _ = unsupported"

text \<open>The loop over the capsets; a shift by more than 63 bits is taken modulo 64.\<close>

fun read_capsets ::
  "descriptor \<Rightarrow> u32 list \<Rightarrow> u64 \<times> (u32, u8 list) fmap \<Rightarrow> 'a cd_world_scheme \<Rightarrow>
   (u64 \<times> (u32, u8 list) fmap) rres \<times> 'a cd_world_scheme" where
  "read_capsets stream [] acc w = (Ok acc, w)"
| "read_capsets stream (capset_index # is) (capset_mask, capsets) w =
     and_then_st
       (stream_request stream
         (Cmd (header_bytes KUMQUAT_GPU_PROTOCOL_GET_CAPSET_INFO capset_index)) w) (\<lambda>p w.
     and_then_st (resp_capset_info p, w) (\<lambda>info w.
     and_then_st
       (stream_request stream
         (Cmd (kq_get_capset_bytes
           \<lparr>kg_hdr = zero_hdr KUMQUAT_GPU_PROTOCOL_GET_CAPSET, kg_capset_id = ki_capset_id info,
            kg_capset_version = ki_version info\<rparr>)) w) (\<lambda>p w.
     and_then_st (resp_capset p, w) (\<lambda>capset w.
     read_capsets stream is
       (capset_mask OR push_bit (unat (ki_capset_id info) mod 64) 1,
        fmupd (ki_capset_id info) capset capsets) w))))"

definition vgpu_new ::
  "string \<Rightarrow> 'a cd_world_scheme \<Rightarrow> virtgpu_kumquat rres \<times> 'a cd_world_scheme" where
  "vgpu_new gpu_socket w =
     and_then_st (tube_new gpu_socket Packet w) (\<lambda>stream w.
     and_then_st
       (stream_request stream (Cmd (header_bytes KUMQUAT_GPU_PROTOCOL_GET_NUM_CAPSETS 0)) w) (\<lambda>p w.
     and_then_st (resp_num_capsets p, w) (\<lambda>num_capsets w.
     and_then_st (read_capsets stream (map of_nat [0..<unat num_capsets]) (0, fmempty) w)
       (\<lambda>(capset_mask, capsets) w.
     (Ok \<lparr>vq_context_id = 0, vq_id_allocator = 0, vq_capset_mask = capset_mask, vq_stream = stream,
         vq_capsets = capsets, vq_resources = fmempty\<rparr>, w)))))"

section \<open>Queries\<close>

definition vgpu_allocate_id :: "'a vgpu \<Rightarrow> u32 \<times> 'a vgpu" where
  "vgpu_allocate_id s =
     (let i = vq_id_allocator (fst s) + 1 in (i, upd_state (\<lambda>st. st\<lparr>vq_id_allocator := i\<rparr>) s))"

definition vgpu_get_param :: "virtgpu_kumquat \<Rightarrow> virtgpu_param \<Rightarrow> unit rres \<times> virtgpu_param" where
  "vgpu_get_param st getparam =
     (let p = vp_param getparam in
      and_then_st
        (if p = VIRTGPU_KUMQUAT_PARAM_3D_FEATURES then
           Ok (if vq_capset_mask st \<noteq> 0 then 1 else 0)
         else if VIRTGPU_KUMQUAT_PARAM_CAPSET_QUERY_FIX \<le> p \<and>
             p \<le> VIRTGPU_KUMQUAT_PARAM_CONTEXT_INIT then Ok 1
         else if p = VIRTGPU_KUMQUAT_PARAM_SUPPORTED_CAPSET_IDS then Ok (vq_capset_mask st)
         else if p = VIRTGPU_KUMQUAT_PARAM_EXPLICIT_DEBUG_NAME then Ok 0
         else if p = VIRTGPU_KUMQUAT_PARAM_FENCE_PASSING then Ok 1
         else unsupported, getparam) (\<lambda>v getparam.
      (Ok (), getparam\<lparr>vp_value := v\<rparr>)))"

definition vgpu_get_caps :: "virtgpu_kumquat \<Rightarrow> u32 \<Rightarrow> u8 list \<Rightarrow> unit rres \<times> u8 list" where
  "vgpu_get_caps st cid buf =
     and_then_st (ok_or (MagmaGpuError Unsupported) (fmlookup (vq_capsets st) cid), buf)
       (\<lambda>caps buf. (Ok (), blit buf 0 (take (min (length buf) (length caps)) caps)))"

definition vgpu_resource_info :: "virtgpu_kumquat \<Rightarrow> u32 \<Rightarrow> kq_vulkan_info rres" where
  "vgpu_resource_info st bo_handle =
     and_then (ok_or (MagmaGpuError Unsupported) (fmlookup (vq_resources st) bo_handle))
       (\<lambda>resource. Ok (vr_vulkan_info resource))"

section \<open>Contexts and resources\<close>

definition u32_of_u64 :: "u64 \<Rightarrow> u32 rres" where
  "u32_of_u64 x = u32_try_from (unat x)"

text \<open>The name is cut at 64 bytes or padded with zeros.\<close>

definition debug_name_bytes :: "string \<Rightarrow> u8 list" where
  "debug_name_bytes name = blit (replicate 64 0) 0 (take 64 (map (\<lambda>c. of_nat (of_char c)) name))"

fun resp_context_create :: "kumquat_gpu_protocol \<Rightarrow> u32 rres" where
  "resp_context_create (RespContextCreate ctx_id) = Ok ctx_id"
| "resp_context_create _ = unsupported"

definition vgpu_context_create :: "u64 \<Rightarrow> string \<Rightarrow> (u32, 'a) vgpu_op" where
  "vgpu_context_create cid name s =
     and_then_st (u32_of_u64 cid, s) (\<lambda>context_init s.
     and_then_st
       (vgpu_request (Cmd (kq_ctx_create_bytes
          \<lparr>kx_hdr = zero_hdr KUMQUAT_GPU_PROTOCOL_CTX_CREATE, kx_nlen = 0,
           kx_context_init = context_init, kx_debug_name = debug_name_bytes name\<rparr>)) s) (\<lambda>p s.
     and_then_st (resp_context_create p, s) (\<lambda>ctx_id s.
     (Ok ctx_id, upd_state (\<lambda>st. st\<lparr>vq_context_id := ctx_id\<rparr>) s))))"

fun resp_resource :: "nat \<Rightarrow> kumquat_gpu_protocol \<Rightarrow> virtgpu_resource rres" where
  "resp_resource sz (RespResourceCreate resp handle) =
     Ok (virtgpu_resource_new (kq_resource_id resp) sz handle (kq_vulkan_info resp))"
| "resp_resource sz _ = unsupported"

text \<open>A new buffer handle for an answered resource\<close>

definition add_bo :: "virtgpu_resource \<Rightarrow> 'a vgpu \<Rightarrow> u32 \<times> 'a vgpu" where
  "add_bo resource s =
     (case vgpu_allocate_id s of (bo_handle, s) \<Rightarrow> (bo_handle, put_bo bo_handle resource s))"

definition create_3d_request :: "u32 \<Rightarrow> virtgpu_create_3d \<Rightarrow> kq_create_3d" where
  "create_3d_request ctx_id c =
     \<lparr>kc_hdr = zero_hdr KUMQUAT_GPU_PROTOCOL_RESOURCE_CREATE_3D, kc_target = v3_target c,
      kc_format = v3_format c, kc_bind = v3_bind c, kc_width = v3_width c, kc_height = v3_height c,
      kc_depth = v3_depth c, kc_array_size = v3_array_size c, kc_last_level = v3_last_level c,
      kc_nr_samples = v3_nr_samples c, kc_flags = v3_flags c, kc_size = v3_size c,
      kc_stride = v3_stride c, kc_ctx_id = ctx_id\<rparr>"

text \<open>The struct of the caller is written only when everything has succeeded: it is the result.\<close>

definition vgpu_resource_create_3d ::
  "virtgpu_create_3d \<Rightarrow> (virtgpu_create_3d, 'a) vgpu_op" where
  "vgpu_resource_create_3d create_3d s =
     and_then_st
       (vgpu_request (Cmd (kq_create_3d_bytes (create_3d_request (vq_context_id (fst s)) create_3d))) s)
       (\<lambda>p s.
     and_then_st (resp_resource (unat (v3_size create_3d)) p, s) (\<lambda>resource s.
     case add_bo resource s of
       (bo_handle, s) \<Rightarrow>
         (Ok (create_3d\<lparr>v3_res_handle := vr_resource_id resource, v3_bo_handle := bo_handle\<rparr>), s)))"

definition blob_request :: "u32 \<Rightarrow> virtgpu_create_blob \<Rightarrow> kq_create_blob" where
  "blob_request ctx_id c =
     \<lparr>kl_hdr = zero_hdr KUMQUAT_GPU_PROTOCOL_RESOURCE_CREATE_BLOB, kl_ctx_id = ctx_id,
      kl_blob_mem = vb_blob_mem c, kl_blob_flags = vb_blob_flags c, kl_padding = 0,
      kl_blob_id = vb_blob_id c, kl_size = vb_size c\<rparr>"

definition submit_request :: "u32 \<Rightarrow> u32 \<Rightarrow> u32 \<Rightarrow> u32 \<Rightarrow> u8 \<Rightarrow> kq_submit" where
  "submit_request ctx_id sz num_in_fences flags ring_idx =
     \<lparr>ks_hdr = zero_hdr KUMQUAT_GPU_PROTOCOL_SUBMIT_3D, ks_ctx_id = ctx_id, ks_pad = 0, ks_size = sz,
      ks_num_in_fences = num_in_fences, ks_flags = flags, ks_ring_idx = ring_idx,
      ks_padding = [0, 0, 0]\<rparr>"

definition submit_blob_cmd :: "u8 list \<Rightarrow> (unit, 'a) vgpu_op" where
  "submit_blob_cmd blob_cmd s =
     (if blob_cmd = [] then (Ok (), s)
      else
        and_then_st (u32_try_from (length blob_cmd), s) (\<lambda>sz s.
        vgpu_write (CmdWithData
          (kq_submit_bytes (submit_request (vq_context_id (fst s)) sz 0 0 0)) blob_cmd) s))"

definition vgpu_resource_create_blob ::
  "virtgpu_create_blob \<Rightarrow> u8 list \<Rightarrow> (virtgpu_create_blob, 'a) vgpu_op" where
  "vgpu_resource_create_blob create_blob blob_cmd s =
     and_then_st (submit_blob_cmd blob_cmd s) (\<lambda>_ s.
     and_then_st
       (vgpu_request (Cmd (kq_create_blob_bytes (blob_request (vq_context_id (fst s)) create_blob))) s)
       (\<lambda>p s.
     and_then_st (resp_resource (unat (vb_size create_blob)) p, s) (\<lambda>resource s.
     case add_bo resource s of
       (bo_handle, s) \<Rightarrow>
         (Ok (create_blob\<lparr>vb_res_handle := vr_resource_id resource, vb_bo_handle := bo_handle\<rparr>), s))))"

definition ctx_resource_request :: "u32 \<Rightarrow> u32 \<Rightarrow> u32 \<Rightarrow> kq_ctx_resource" where
  "ctx_resource_request t ctx_id resource_id =
     \<lparr>kr_hdr = zero_hdr t, kr_ctx_id = ctx_id, kr_resource_id = resource_id\<rparr>"

definition detach_request :: "u32 \<Rightarrow> virtgpu_resource \<Rightarrow> kq_write" where
  "detach_request ctx_id resource =
     Cmd (kq_ctx_resource_bytes (ctx_resource_request KUMQUAT_GPU_PROTOCOL_CTX_DETACH_RESOURCE
       ctx_id (vr_resource_id resource)))"

definition vgpu_resource_unref :: "u32 \<Rightarrow> (unit, 'a) vgpu_op" where
  "vgpu_resource_unref bo_handle s =
     and_then_st (get_bo bo_handle s) (\<lambda>resource s.
     let s = upd_state (\<lambda>st. st\<lparr>vq_resources := fmdrop bo_handle (vq_resources st)\<rparr>) s in
     vgpu_write (detach_request (vq_context_id (fst s)) resource) s)"

section \<open>Mappings\<close>

definition vgpu_map :: "u32 \<Rightarrow> (mesa_mapping, 'a) vgpu_op" where
  "vgpu_map bo_handle s =
     and_then_st (get_bo bo_handle s) (\<lambda>resource s.
     case vr_system_mapping resource of
       Some system_mapping \<Rightarrow> (Ok (as_mesa_mapping system_mapping), s)
     | None \<Rightarrow>
         let os = w_os (snd s) in
         and_then_st (from_magma (magma_handle_try_clone os (vr_handle resource)), s) (\<lambda>clone s.
         and_then_st
           (from_magma (from_safe_descriptor os (os_handle clone) (vr_size resource)
             (MAGMA_MAP_CACHE_CACHED OR MAGMA_MAP_ACCESS_RW)), s) (\<lambda>mapping s.
         (Ok (as_mesa_mapping mapping),
          put_bo bo_handle (resource\<lparr>vr_system_mapping := Some mapping\<rparr>) s))))"

definition vgpu_unmap :: "u32 \<Rightarrow> (unit, 'a) vgpu_op" where
  "vgpu_unmap bo_handle s =
     and_then_st (get_bo bo_handle s) (\<lambda>resource s.
     (Ok (), put_bo bo_handle (resource\<lparr>vr_system_mapping := None\<rparr>) s))"

section \<open>Transfers, submissions and fences\<close>

definition attach_fence :: "u32 \<Rightarrow> magma_handle \<Rightarrow> (unit, 'a) vgpu_op" where
  "attach_fence bo_handle fence s =
     and_then_st (get_bo bo_handle s) (\<lambda>resource s.
     and_then_st (from_magma (magma_handle_try_clone (w_os (snd s)) fence), s) (\<lambda>clone s.
     (Ok (), put_bo bo_handle
        (resource\<lparr>vr_attached_fences := vr_attached_fences resource @ [clone]\<rparr>) s)))"

definition transfer_request :: "u32 \<Rightarrow> u32 \<Rightarrow> virtgpu_transfer \<Rightarrow> u32 \<Rightarrow> kq_transfer" where
  "transfer_request t ctx_id transfer resource_id =
     \<lparr>kt_hdr = zero_hdr t, kt_box = vt_box transfer, kt_offset = vt_offset transfer,
      kt_level = vt_level transfer, kt_stride = vt_stride transfer,
      kt_layer_stride = vt_layer_stride transfer, kt_ctx_id = ctx_id, kt_resource_id = resource_id,
      kt_padding = 0\<rparr>"

text \<open>Both transfers: an event emulates the fence, one copy of it waits with the resource, the other
  goes to the server.\<close>

definition vgpu_transfer :: "u32 \<Rightarrow> virtgpu_transfer \<Rightarrow> (unit, 'a) vgpu_op" where
  "vgpu_transfer t transfer s =
     and_then_st (get_bo (vt_bo_handle transfer) s) (\<lambda>resource s.
     and_then_st (in_world event_new s) (\<lambda>event s.
     let emulated_fence = signal_handle event in
     and_then_st (attach_fence (vt_bo_handle transfer) emulated_fence s) (\<lambda>_ s.
     vgpu_write (CmdWithHandle
       (kq_transfer_bytes (transfer_request t (vq_context_id (fst s)) transfer (vr_resource_id resource)))
       emulated_fence) s)))"

definition vgpu_transfer_to_host :: "virtgpu_transfer \<Rightarrow> (unit, 'a) vgpu_op" where
  "vgpu_transfer_to_host = vgpu_transfer KUMQUAT_GPU_PROTOCOL_TRANSFER_TO_HOST_3D"

definition vgpu_transfer_from_host :: "virtgpu_transfer \<Rightarrow> (unit, 'a) vgpu_op" where
  "vgpu_transfer_from_host = vgpu_transfer KUMQUAT_GPU_PROTOCOL_TRANSFER_FROM_HOST_3D"

definition need_fence :: "u32 \<Rightarrow> u32 list \<Rightarrow> bool" where
  "need_fence flags bo_handles \<longleftrightarrow>
     bo_handles \<noteq> [] \<or> has_flag flags VIRTGPU_KUMQUAT_EXECBUF_FENCE_FD_OUT"

definition actual_fence :: "u32 \<Rightarrow> bool" where
  "actual_fence flags \<longleftrightarrow>
     has_flag flags VIRTGPU_KUMQUAT_EXECBUF_SHAREABLE_OUT \<and>
     has_flag flags VIRTGPU_KUMQUAT_EXECBUF_FENCE_FD_OUT"

definition host_flags :: "u32 \<Rightarrow> u32 list \<Rightarrow> u32" where
  "host_flags flags bo_handles =
     (let f = (if has_flag flags VIRTGPU_KUMQUAT_EXECBUF_RING_IDX then RUTABAGA_FLAG_INFO_RING_IDX
               else 0)
      in
        if actual_fence flags then f OR RUTABAGA_FLAG_FENCE_HOST_SHAREABLE OR RUTABAGA_FLAG_FENCE
        else if need_fence flags bo_handles then f OR RUTABAGA_FLAG_FENCE
        else f)"

fun resp_cmd_submit :: "kumquat_gpu_protocol \<Rightarrow> magma_handle rres" where
  "resp_cmd_submit (RespCmdSubmit3d fid handle) = Ok handle"
| "resp_cmd_submit _ = unsupported"

fun attach_fences :: "bool \<Rightarrow> magma_handle \<Rightarrow> u32 list \<Rightarrow> (unit, 'a) vgpu_op" where
  "attach_fences actual fence [] s = (Ok (), s)"
| "attach_fences actual fence (h # hs) s =
     (if actual then (unsupported, s)
      else and_then_st (attach_fence h fence s) (\<lambda>_. attach_fences actual fence hs))"

definition u8_try_from :: "u32 \<Rightarrow> u8 rres" where
  "u8_try_from x = (if x < 256 then Ok (ucast x) else Err (MagmaGpuError TryFromIntError))"

definition no_fence_found :: rutabaga_error where
  "no_fence_found = MagmaGpuError (WithContext ''no fence found'')"

text \<open>The result is the descriptor stored in \<open>raw_descriptor\<close>, if one is. The in-fences are only
  counted.\<close>

definition vgpu_submit_command ::
  "u32 \<Rightarrow> u32 list \<Rightarrow> u8 list \<Rightarrow> u32 \<Rightarrow> u64 list \<Rightarrow> (descriptor option, 'a) vgpu_op" where
  "vgpu_submit_command flags bo_handles cmd ring_idx in_fences s =
     and_then_st (u32_try_from (length cmd), s) (\<lambda>sz s.
     and_then_st (u32_try_from (length in_fences), s) (\<lambda>num_in_fences s.
     and_then_st (u8_try_from ring_idx, s) (\<lambda>ring s.
     let encode = CmdWithData (kq_submit_bytes (submit_request (vq_context_id (fst s)) sz num_in_fences
           (host_flags flags bo_handles) ring)) cmd
     in
     and_then_st
       (if need_fence flags bo_handles then
          and_then_st (vgpu_request encode s) (\<lambda>p s.
          and_then_st (resp_cmd_submit p, s) (\<lambda>fence s.
          and_then_st (attach_fences (actual_fence flags) fence bo_handles s) (\<lambda>_ s.
          (Ok (Some fence), s))))
        else and_then_st (vgpu_write encode s) (\<lambda>_ s. (Ok None, s))) (\<lambda>fence_opt s.
     if has_flag flags VIRTGPU_KUMQUAT_EXECBUF_FENCE_FD_OUT then
       and_then_st (ok_or no_fence_found fence_opt, s) (\<lambda>fence s. (Ok (Some (os_handle fence)), s))
     else (Ok None, s)))))"

fun wait_fences :: "magma_handle list \<Rightarrow> (unit, 'a) vgpu_op" where
  "wait_fences [] s = (Ok (), s)"
| "wait_fences (fence # fences) s =
     and_then_st (from_magma (event_try_from fence), s) (\<lambda>event s.
     and_then_st (in_world (event_wait event) s) (\<lambda>_. wait_fences fences))"

definition vgpu_wait :: "u32 \<Rightarrow> (unit, 'a) vgpu_op" where
  "vgpu_wait bo_handle s =
     and_then_st (get_bo bo_handle s) (\<lambda>resource s.
     wait_fences (vr_attached_fences resource)
       (put_bo bo_handle (resource\<lparr>vr_attached_fences := []\<rparr>) s))"

section \<open>Sharing\<close>

text \<open>An emulated export is a page of shared memory that holds the resource id.\<close>

definition vgpu_resource_export :: "u32 \<Rightarrow> u32 \<Rightarrow> (magma_handle, 'a) vgpu_op" where
  "vgpu_resource_export bo_handle flags s =
     and_then_st (get_bo bo_handle s) (\<lambda>resource s.
     let os = w_os (snd s) in
     if has_flag flags VIRTGPU_KUMQUAT_EMULATED_EXPORT then
       and_then_st (from_magma (shared_memory_new os (of_nat VIRTGPU_KUMQUAT_PAGE_SIZE)), s)
         (\<lambda>descriptor s.
       and_then_st (from_magma (map_err IoError (descriptor_try_clone os descriptor)), s) (\<lambda>clone s.
       and_then_st
         (from_magma (from_safe_descriptor os clone VIRTGPU_KUMQUAT_PAGE_SIZE
           (MAGMA_MAP_CACHE_CACHED OR MAGMA_MAP_ACCESS_RW)), s) (\<lambda>mapping s.
       (Ok \<lparr>os_handle = descriptor, handle_type = MAGMA_GPU_HANDLE_TYPE_MEM_OPAQUE_FD\<rparr>,
        upd_world (write_at (mesa_ptr (as_mesa_mapping mapping)) 0
          (le_bytes 4 (vr_resource_id resource))) s))))
     else (from_magma (magma_handle_try_clone os (vr_handle resource)), s))"

text \<open>The last three arguments are the variables that receive the buffer handle, the resource handle
  and the size; the resource handle is stored before the write that can fail.\<close>

definition vgpu_resource_import ::
  "magma_handle \<Rightarrow> u32 \<times> u32 \<times> u64 \<Rightarrow> 'a vgpu \<Rightarrow> (unit rres \<times> u32 \<times> u32 \<times> u64) \<times> 'a vgpu" where
  "vgpu_resource_import handle outs s =
     (let os = w_os (snd s);
          mapped = and_then (from_magma (magma_handle_try_clone os handle)) (\<lambda>clone.
            from_magma (from_safe_descriptor os (os_handle clone) VIRTGPU_KUMQUAT_PAGE_SIZE
              (MAGMA_MAP_CACHE_CACHED OR MAGMA_MAP_ACCESS_RW)))
      in case (mapped, outs) of
        (Inl e, _) \<Rightarrow> ((Inl e, outs), s)
      | (Inr mapping, bo_handle, _, sz) \<Rightarrow>
          let resource_handle =
            le_at 0 4 (read_mem (w_mem (snd s)) (mesa_ptr (as_mesa_mapping mapping))
              VIRTGPU_KUMQUAT_PAGE_SIZE)
          in
          case vgpu_write (Cmd (kq_ctx_resource_bytes
                 (ctx_resource_request KUMQUAT_GPU_PROTOCOL_CTX_ATTACH_RESOURCE
                   (vq_context_id (fst s)) resource_handle))) s of
            (Inl e, s) \<Rightarrow> ((Inl e, bo_handle, resource_handle, sz), s)
          | (Inr _, s) \<Rightarrow>
              case add_bo (virtgpu_resource_new resource_handle VIRTGPU_KUMQUAT_PAGE_SIZE handle
                     zero_vulkan_info) s of
                (bo_handle, s) \<Rightarrow>
                  ((Ok (), bo_handle, resource_handle, of_nat VIRTGPU_KUMQUAT_PAGE_SIZE), s))"

section \<open>Snapshots and the end\<close>

definition vgpu_snapshot_request :: "u32 \<Rightarrow> (unit, 'a) vgpu_op" where
  "vgpu_snapshot_request t s =
     and_then_st (vgpu_request (Cmd (header_bytes t 0)) s) (\<lambda>p s.
       (case p of RespOkSnapshot \<Rightarrow> Ok () | _ \<Rightarrow> unsupported, s))"

definition vgpu_snapshot :: "(unit, 'a) vgpu_op" where
  "vgpu_snapshot = vgpu_snapshot_request KUMQUAT_GPU_PROTOCOL_SNAPSHOT_SAVE"

definition vgpu_restore :: "(unit, 'a) vgpu_op" where
  "vgpu_restore = vgpu_snapshot_request KUMQUAT_GPU_PROTOCOL_SNAPSHOT_RESTORE"

text \<open>The results of the writes in \<open>drop\<close> are ignored.\<close>

definition detach_all :: "(u32 \<times> virtgpu_resource) list \<Rightarrow> 'a vgpu \<Rightarrow> 'a vgpu" where
  "detach_all rs s =
     foldl (\<lambda>s (_, resource). snd (vgpu_write (detach_request (vq_context_id (fst s)) resource) s)) s rs"

definition vgpu_drop :: "'a vgpu \<Rightarrow> 'a vgpu" where
  "vgpu_drop s =
     (if vq_context_id (fst s) \<noteq> 0 then
        let s = detach_all (entries_of (vq_resources (fst s))) s;
            s = upd_state (\<lambda>st. st\<lparr>vq_resources := fmempty\<rparr>) s
        in snd (vgpu_write
             (Cmd (header_bytes KUMQUAT_GPU_PROTOCOL_CTX_DESTROY (vq_context_id (fst s)))) s)
      else s)"

end
