(* ===== verification/Kumquat_Client_Calls.thy ===== *)
theory Kumquat_Client_Calls
  imports Kumquat_Client "HOL-Library.Sublist"
begin

text \<open>
  The calls of a Kumquat client as one datatype, and what each of them does to the log of the world
  and to the table of the client: which requests it sends, in which order (\<open>call_requests\<close>,
  \<open>call_sends\<close>), and that the table only changes at the buffer handle of the call (\<open>handles_kept\<close>,
  \<open>call_grows\<close>).
\<close>

section \<open>Calls of a client\<close>

datatype client_call =
    ContextCreate u64 string
  | ResourceCreate3D virtgpu_create_3d
  | ResourceCreateBlobCall virtgpu_create_blob "u8 list"
  | ResourceUnref u32
  | Map u32
  | Unmap u32
  | TransferToHost virtgpu_transfer
  | TransferFromHost virtgpu_transfer
  | SubmitCommand u32 "u32 list" "u8 list" u32 "u64 list"
  | Wait u32
  | ResourceExport u32 u32
  | ResourceImport magma_handle "u32 \<times> u32 \<times> u64"
  | Snapshot
  | Restore

fun vgpu_call :: "client_call \<Rightarrow> 'a vgpu \<Rightarrow> 'a vgpu" where
  "vgpu_call (ContextCreate cid name) s = snd (vgpu_context_create cid name s)"
| "vgpu_call (ResourceCreate3D c) s = snd (vgpu_resource_create_3d c s)"
| "vgpu_call (ResourceCreateBlobCall c blob_cmd) s = snd (vgpu_resource_create_blob c blob_cmd s)"
| "vgpu_call (ResourceUnref h) s = snd (vgpu_resource_unref h s)"
| "vgpu_call (Map h) s = snd (vgpu_map h s)"
| "vgpu_call (Unmap h) s = snd (vgpu_unmap h s)"
| "vgpu_call (TransferToHost t) s = snd (vgpu_transfer_to_host t s)"
| "vgpu_call (TransferFromHost t) s = snd (vgpu_transfer_from_host t s)"
| "vgpu_call (SubmitCommand flags hs cmd ring in_fences) s =
     snd (vgpu_submit_command flags hs cmd ring in_fences s)"
| "vgpu_call (Wait h) s = snd (vgpu_wait h s)"
| "vgpu_call (ResourceExport h flags) s = snd (vgpu_resource_export h flags s)"
| "vgpu_call (ResourceImport handle outs) s = snd (vgpu_resource_import handle outs s)"
| "vgpu_call Snapshot s = snd (vgpu_snapshot s)"
| "vgpu_call Restore s = snd (vgpu_restore s)"

definition vgpu_calls :: "client_call list \<Rightarrow> 'a vgpu \<Rightarrow> 'a vgpu" where
  "vgpu_calls cs s = foldl (\<lambda>s c. vgpu_call c s) s cs"

fun call_in_fences :: "client_call \<Rightarrow> u64 list" where
  "call_in_fences (SubmitCommand _ _ _ _ in_fences) = in_fences"
| "call_in_fences _ = []"

section \<open>What the server reads\<close>

text \<open>The requests of a call, in order: what the driver asked for, of the context of the client and of
  the resource that the buffer handle stands for. A transfer passes the event that emulates its fence,
  an import names the resource id in the page it maps.\<close>

definition bo_requests ::
  "'a vgpu \<Rightarrow> u32 \<Rightarrow> (virtgpu_resource \<Rightarrow> kumquat_gpu_protocol list) \<Rightarrow> kumquat_gpu_protocol list" where
  "bo_requests s h f = (case fmlookup (vq_resources (fst s)) h of None \<Rightarrow> [] | Some r \<Rightarrow> f r)"

definition event_requests ::
  "'a vgpu \<Rightarrow> (magma_handle \<Rightarrow> kumquat_gpu_protocol list) \<Rightarrow> kumquat_gpu_protocol list" where
  "event_requests s f =
     (case fst (event_new (snd s)) of Inl _ \<Rightarrow> [] | Inr d \<Rightarrow> f (signal_handle d))"

definition mapped_page :: "os \<Rightarrow> magma_handle \<Rightarrow> memory_mapping rres" where
  "mapped_page os handle =
     and_then (from_magma (magma_handle_try_clone os handle)) (\<lambda>clone.
       from_magma (from_safe_descriptor os (os_handle clone) VIRTGPU_KUMQUAT_PAGE_SIZE
         (MAGMA_MAP_CACHE_CACHED OR MAGMA_MAP_ACCESS_RW)))"

definition context_request :: "u64 \<Rightarrow> string \<Rightarrow> kq_ctx_create" where
  "context_request cid name =
     \<lparr>kx_hdr = zero_hdr KUMQUAT_GPU_PROTOCOL_CTX_CREATE, kx_nlen = 0, kx_context_init = ucast cid,
      kx_debug_name = debug_name_bytes name\<rparr>"

fun call_requests :: "client_call \<Rightarrow> 'a vgpu \<Rightarrow> kumquat_gpu_protocol list" where
  "call_requests (ContextCreate cid name) s = [CtxCreate (context_request cid name)]"
| "call_requests (ResourceCreate3D c) s =
     [ResourceCreate3d (create_3d_request (vq_context_id (fst s)) c)]"
| "call_requests (ResourceCreateBlobCall c blob_cmd) s =
     (if blob_cmd = [] then []
      else [CmdSubmit3d (submit_request (vq_context_id (fst s)) (of_nat (length blob_cmd)) 0 0 0) blob_cmd []]) @
     [ResourceCreateBlob (blob_request (vq_context_id (fst s)) c)]"
| "call_requests (ResourceUnref h) s =
     bo_requests s h (\<lambda>r. [CtxDetachResource (ctx_resource_request
       KUMQUAT_GPU_PROTOCOL_CTX_DETACH_RESOURCE (vq_context_id (fst s)) (vr_resource_id r))])"
| "call_requests (TransferToHost t) s =
     bo_requests s (vt_bo_handle t) (\<lambda>r. event_requests s (\<lambda>event. [TransferToHost3d
       (transfer_request KUMQUAT_GPU_PROTOCOL_TRANSFER_TO_HOST_3D (vq_context_id (fst s)) t
         (vr_resource_id r)) event]))"
| "call_requests (TransferFromHost t) s =
     bo_requests s (vt_bo_handle t) (\<lambda>r. event_requests s (\<lambda>event. [TransferFromHost3d
       (transfer_request KUMQUAT_GPU_PROTOCOL_TRANSFER_FROM_HOST_3D (vq_context_id (fst s)) t
         (vr_resource_id r)) event]))"
| "call_requests (SubmitCommand flags hs cmd ring in_fences) s =
     [CmdSubmit3d (submit_request (vq_context_id (fst s)) (of_nat (length cmd)) 0
       (host_flags flags hs) (ucast ring)) cmd []]"
| "call_requests (ResourceImport handle outs) s =
     (case mapped_page (w_os (snd s)) handle of
        Inl _ \<Rightarrow> []
      | Inr m \<Rightarrow> [CtxAttachResource (ctx_resource_request KUMQUAT_GPU_PROTOCOL_CTX_ATTACH_RESOURCE
          (vq_context_id (fst s))
          (le_at 0 4 (read_mem (w_mem (snd s)) (mm_addr m) VIRTGPU_KUMQUAT_PAGE_SIZE)))])"
| "call_requests Snapshot s = [SnapshotSave]"
| "call_requests Restore s = [SnapshotRestore]"
| "call_requests _ s = []"

text \<open>The requests of \<open>drop\<close>\<close>

definition drop_requests :: "virtgpu_kumquat \<Rightarrow> kumquat_gpu_protocol list" where
  "drop_requests st =
     (if vq_context_id st = 0 then []
      else map (\<lambda>(h, r). CtxDetachResource (ctx_resource_request
          KUMQUAT_GPU_PROTOCOL_CTX_DETACH_RESOURCE (vq_context_id st) (vr_resource_id r)))
        (entries_of (vq_resources st)) @ [CtxDestroy (vq_context_id st)])"

definition reads_as :: "(kumquat_gpu_protocol \<Rightarrow> bool) \<Rightarrow> u8 list \<Rightarrow> descriptor list \<Rightarrow> bool" where
  "reads_as P bs ds \<longleftrightarrow> (case read_messages bs ds of Inr [p] \<Rightarrow> P p | _ \<Rightarrow> False)"

fun request_packet :: "descriptor \<Rightarrow> (kumquat_gpu_protocol \<Rightarrow> bool) \<Rightarrow> cd_effect \<Rightarrow> bool" where
  "request_packet stream P (MessageSent d bs ds) \<longleftrightarrow> d = stream \<and> reads_as P bs ds"
| "request_packet stream P _ \<longleftrightarrow> False"

text \<open>Effects that are the packets of these requests, one packet for each and in their order\<close>

definition packets :: "descriptor \<Rightarrow> kumquat_gpu_protocol list \<Rightarrow> cd_effect list \<Rightarrow> bool" where
  "packets stream = list_all2 (\<lambda>p e. \<exists>bs ds. e = MessageSent stream bs ds \<and> read_messages bs ds = Ok [p])"

lemma read_one_message:
  assumes "message_wf p"
  shows "read_messages (message_bytes p) (message_fds p) = Ok [p]"
proof -
  have "read_message (message_bytes p) (message_fds p) = Ok (p, [], [])"
    using read_message_bytes [OF assms, of "[]" "[]"] by simp
  moreover from read_message_shorter [OF this] have "message_bytes p \<noteq> []" by auto
  ultimately show ?thesis by (simp add: read_messages.simps [of "message_bytes p"] read_messages.simps [of "[]"])
qed

definition write_ok :: "(kumquat_gpu_protocol \<Rightarrow> bool) \<Rightarrow> kq_write \<Rightarrow> bool" where
  "write_ok P encode \<longleftrightarrow>
     (case encode_write encode of Inl _ \<Rightarrow> True | Inr (bs, ds) \<Rightarrow> reads_as P bs ds)"

lemma write_ok_message:
  assumes "message_wf p" "P p"
  shows "message_fds p = [] \<Longrightarrow> write_ok P (Cmd (message_bytes p))"
    and "message_fds p = [os_handle h] \<Longrightarrow> write_ok P (CmdWithHandle (message_bytes p) h)"
    and "message_fds p = [] \<Longrightarrow> message_bytes p = cmd @ buf \<Longrightarrow> write_ok P (CmdWithData cmd buf)"
  using read_one_message [OF assms(1)] assms(2) by (auto simp: write_ok_def reads_as_def eof_def)

lemmas client_defs = zero_hdr_def ctx_resource_request_def create_3d_request_def blob_request_def
  submit_request_def transfer_request_def

lemma debug_name_length: "length (debug_name_bytes name) = 64"
  by (simp add: debug_name_bytes_def)

lemma context_request_ok:
  "P (CtxCreate (context_request cid name)) \<Longrightarrow>
   write_ok P (Cmd (kq_ctx_create_bytes (context_request cid name)))"
  using write_ok_message(1) [of "CtxCreate (context_request cid name)" P]
  by (simp add: context_request_def zero_hdr_def kq_ctx_create_wf_def debug_name_length)

lemma create_3d_request_ok:
  "P (ResourceCreate3d (create_3d_request ctx c)) \<Longrightarrow>
   write_ok P (Cmd (kq_create_3d_bytes (create_3d_request ctx c)))"
  using write_ok_message(1) [of "ResourceCreate3d (create_3d_request ctx c)" P]
  by (simp add: client_defs)

lemma blob_request_ok:
  "P (ResourceCreateBlob (blob_request ctx c)) \<Longrightarrow>
   write_ok P (Cmd (kq_create_blob_bytes (blob_request ctx c)))"
  using write_ok_message(1) [of "ResourceCreateBlob (blob_request ctx c)" P]
  by (simp add: client_defs)

lemma detach_request_ok:
  "P (CtxDetachResource (ctx_resource_request KUMQUAT_GPU_PROTOCOL_CTX_DETACH_RESOURCE ctx
     (vr_resource_id r))) \<Longrightarrow> write_ok P (detach_request ctx r)"
  using write_ok_message(1) [of "CtxDetachResource (ctx_resource_request
      KUMQUAT_GPU_PROTOCOL_CTX_DETACH_RESOURCE ctx (vr_resource_id r))" P]
  by (simp add: client_defs detach_request_def)

lemma attach_request_ok:
  "P (CtxAttachResource (ctx_resource_request KUMQUAT_GPU_PROTOCOL_CTX_ATTACH_RESOURCE ctx rid)) \<Longrightarrow>
   write_ok P (Cmd (kq_ctx_resource_bytes
     (ctx_resource_request KUMQUAT_GPU_PROTOCOL_CTX_ATTACH_RESOURCE ctx rid)))"
  using write_ok_message(1) [of "CtxAttachResource (ctx_resource_request
      KUMQUAT_GPU_PROTOCOL_CTX_ATTACH_RESOURCE ctx rid)" P]
  by (simp add: client_defs)

lemma header_request_ok:
  "P SnapshotSave \<Longrightarrow> write_ok P (Cmd (header_bytes KUMQUAT_GPU_PROTOCOL_SNAPSHOT_SAVE 0))"
  "P SnapshotRestore \<Longrightarrow> write_ok P (Cmd (header_bytes KUMQUAT_GPU_PROTOCOL_SNAPSHOT_RESTORE 0))"
  "P (CtxDestroy ctx) \<Longrightarrow> write_ok P (Cmd (header_bytes KUMQUAT_GPU_PROTOCOL_CTX_DESTROY ctx))"
  using write_ok_message(1) [of SnapshotSave P] write_ok_message(1) [of SnapshotRestore P]
    write_ok_message(1) [of "CtxDestroy ctx" P] by simp_all

lemma transfer_request_ok:
  "P (TransferToHost3d (transfer_request KUMQUAT_GPU_PROTOCOL_TRANSFER_TO_HOST_3D ctx t rid)
      (signal_handle d)) \<Longrightarrow>
   write_ok P (CmdWithHandle (kq_transfer_bytes
     (transfer_request KUMQUAT_GPU_PROTOCOL_TRANSFER_TO_HOST_3D ctx t rid)) (signal_handle d))"
  "P (TransferFromHost3d (transfer_request KUMQUAT_GPU_PROTOCOL_TRANSFER_FROM_HOST_3D ctx t rid)
      (signal_handle d)) \<Longrightarrow>
   write_ok P (CmdWithHandle (kq_transfer_bytes
     (transfer_request KUMQUAT_GPU_PROTOCOL_TRANSFER_FROM_HOST_3D ctx t rid)) (signal_handle d))"
  using write_ok_message(2) [of "TransferToHost3d (transfer_request
      KUMQUAT_GPU_PROTOCOL_TRANSFER_TO_HOST_3D ctx t rid) (signal_handle d)" P]
    write_ok_message(2) [of "TransferFromHost3d (transfer_request
      KUMQUAT_GPU_PROTOCOL_TRANSFER_FROM_HOST_3D ctx t rid) (signal_handle d)" P]
  by (simp_all add: client_defs signal_handle_def)

lemma submit_request_ok:
  "P (CmdSubmit3d (submit_request ctx sz 0 flags ring) buf []) \<Longrightarrow> unat sz = length buf \<Longrightarrow>
   write_ok P (CmdWithData (kq_submit_bytes (submit_request ctx sz 0 flags ring)) buf)"
  using write_ok_message(3) [of "CmdSubmit3d (submit_request ctx sz 0 flags ring) buf []" P]
  by (simp add: client_defs kq_submit_wf_def)

section \<open>One call\<close>

lemma succ_not_max:
  fixes x :: u32
  assumes "x \<noteq> -1"
  shows "x < x + 1" "unat (x + 1) = Suc (unat x)"
proof -
  have "unat x \<noteq> unat (-1 :: u32)" using assms by (simp only: word_unat_eq_iff not_False_eq_True)
  then have "unat x < 2 ^ 32 - 1" using unat_u32_less [of x] by (simp add: unsigned_minus_1_eq_mask mask_eq_exp_minus_1)
  then show "unat (x + 1) = Suc (unat x)" by (simp add: unat_word_ariths)
  then show "x < x + 1" by (simp add: word_less_nat_alt)
qed

text \<open>
  What may change: the log grows P by requests of the client, the stream and the context stay. When
  \<open>b\<close> holds, also: buffer handles are given out in increasing order, and an entry of the table is
  either new or the same buffer as before.
\<close>

definition same_buffer :: "virtgpu_resource \<Rightarrow> virtgpu_resource \<Rightarrow> bool" where
  "same_buffer r r' \<longleftrightarrow>
     vr_resource_id r' = vr_resource_id r \<and> vr_size r' = vr_size r \<and> vr_handle r' = vr_handle r \<and>
     vr_vulkan_info r' = vr_vulkan_info r"

lemma same_buffer_refl [simp]: "same_buffer r r"
  by (simp add: same_buffer_def)

lemma same_buffer_trans: "same_buffer r r' \<Longrightarrow> same_buffer r' r'' \<Longrightarrow> same_buffer r r''"
  by (simp add: same_buffer_def)

definition handles_kept :: "virtgpu_kumquat \<Rightarrow> virtgpu_kumquat \<Rightarrow> bool" where
  "handles_kept st st' \<longleftrightarrow>
     vq_id_allocator st \<le> vq_id_allocator st' \<and>
     (\<forall>h r'. h \<le> vq_id_allocator st \<longrightarrow> fmlookup (vq_resources st') h = Some r' \<longrightarrow>
        (\<exists>r. fmlookup (vq_resources st) h = Some r \<and> same_buffer r r')) \<and>
     (\<forall>h. contains_key (vq_resources st') h \<longrightarrow>
        contains_key (vq_resources st) h \<or> h \<le> vq_id_allocator st')"

lemma handles_kept_refl [simp]: "handles_kept st st"
  by (auto simp: handles_kept_def)

lemma handles_kept_trans:
  assumes "handles_kept st st'" "handles_kept st' st''"
  shows "handles_kept st st''"
  unfolding handles_kept_def
proof (intro conjI allI impI)
  show "vq_id_allocator st \<le> vq_id_allocator st''"
    using assms by (auto simp: handles_kept_def)
next
  fix h r''
  assume h: "h \<le> vq_id_allocator st" and r'': "fmlookup (vq_resources st'') h = Some r''"
  have "h \<le> vq_id_allocator st'" using h assms(1) by (auto simp: handles_kept_def)
  then obtain r' where r': "fmlookup (vq_resources st') h = Some r'" "same_buffer r' r''"
    using r'' assms(2) unfolding handles_kept_def by blast
  then obtain r where "fmlookup (vq_resources st) h = Some r" "same_buffer r r'"
    using h assms(1) unfolding handles_kept_def by blast
  then show "\<exists>r. fmlookup (vq_resources st) h = Some r \<and> same_buffer r r''"
    using r'(2) same_buffer_trans by blast
next
  fix h assume "contains_key (vq_resources st'') h"
  then show "contains_key (vq_resources st) h \<or> h \<le> vq_id_allocator st''"
    using assms unfolding handles_kept_def by (meson order_trans)
qed

definition grows :: "(kumquat_gpu_protocol \<Rightarrow> bool) \<Rightarrow> bool \<Rightarrow> 'a vgpu \<Rightarrow> 'a vgpu \<Rightarrow> bool" where
  "grows P b s s' \<longleftrightarrow>
     vq_stream (fst s') = vq_stream (fst s) \<and> vq_context_id (fst s') = vq_context_id (fst s) \<and>
     (\<exists>es. cdw_log (snd s') = cdw_log (snd s) @ es \<and>
        list_all (request_packet (vq_stream (fst s)) P) es) \<and>
     (b \<longrightarrow> handles_kept (fst s) (fst s'))"

lemma grows_refl [simp]: "grows P b s s"
  by (simp add: grows_def)

lemma grows_trans: "grows P b s s' \<Longrightarrow> grows P b s' s'' \<Longrightarrow> grows P b s s''"
  by (auto simp: grows_def intro: handles_kept_trans)

interpretation grows: state_relation "grows P b" for P b
  by unfold_locales (use grows_trans in auto)

lemma stream_write_log:
  assumes "stream_write d encode w = (r, w')"
  shows "cdw_log w' = cdw_log w \<or>
    (\<exists>bs ds. encode_write encode = Ok (bs, ds) \<and> cdw_log w' = cdw_log w @ [MessageSent d bs ds])"
proof (cases "encode_write encode")
  case (Inr p)
  moreover obtain bs ds where "p = (bs, ds)" by (cases p)
  moreover have "length ds \<le> 1" using calculation by (cases encode) (auto simp: eof_def split: if_splits)
  ultimately show ?thesis using assms
    by (auto simp: stream_write_def tube_send_def sys_rres_def ask_def emit_def and_then_st_def
        split: sum.splits prod.splits)
next
  case (Inl e)
  then show ?thesis using assms by (cases e) (auto simp: stream_write_def)
qed

lemma stream_read_log:
  assumes "stream_read d w = (r, w')" shows "cdw_log w' = cdw_log w"
  using assms by (auto simp: stream_read_def tube_receive_def sys_rres_def ask_def and_then_st_def
      split: sum.splits prod.splits)

lemma in_world_fst [simp]: "fst (snd (in_world f s)) = fst s"
  by simp

lemma grows_log:
  assumes "fst s' = fst s"
    and "cdw_log (snd s') = cdw_log (snd s) \<or> (\<exists>e. cdw_log (snd s') = cdw_log (snd s) @ [e] \<and>
      request_packet (vq_stream (fst s)) P e)"
  shows "grows P b s s'"
  using assms by (auto simp: grows_def)

lemma sent_log:
  assumes "s1 = snd (vgpu_request encode s) \<or> s1 = snd (vgpu_write encode s)"
  shows "cdw_log (snd s1) = cdw_log (snd s) \<or>
    (\<exists>bs ds. encode_write encode = Ok (bs, ds) \<and>
       cdw_log (snd s1) = cdw_log (snd s) @ [MessageSent (vq_stream (fst s)) bs ds])"
proof -
  let ?d = "vq_stream (fst s)"
  obtain r w where w: "stream_write ?d encode (snd s) = (r, w)" by fastforce
  have "cdw_log (snd (stream_request ?d encode (snd s))) = cdw_log w"
    using w stream_read_log [of ?d w]
    by (auto simp: stream_request_def and_then_st_def split: sum.splits prod.splits)
  then show ?thesis using assms stream_write_log [OF w] w by (auto simp: vgpu_request_def vgpu_write_def)
qed


lemma sent_grows:
  assumes "s1 = snd (vgpu_request encode s) \<or> s1 = snd (vgpu_write encode s)" "write_ok P encode"
  shows "grows P b s s1"
  using assms sent_log [OF assms(1)]
  by (intro grows_log) (auto simp: vgpu_request_def vgpu_write_def write_ok_def)

lemmas request_grows = sent_grows [OF disjI1 [OF refl]]
lemmas write_grows = sent_grows [OF disjI2 [OF refl]]

lemma write_client [simp]: "fst (snd (vgpu_write encode s)) = fst s"
  by (simp add: vgpu_write_def)

lemma request_client [simp]: "fst (snd (vgpu_request encode s)) = fst s"
  by (simp add: vgpu_request_def)

lemma get_bo_eq [simp]:
  "get_bo h s = (Inr r, s') \<longleftrightarrow> fmlookup (vq_resources (fst s)) h = Some r \<and> s' = s"
  "snd (get_bo h s) = s"
  by (auto simp: get_bo_def rust_simps)

lemma put_bo_grows:
  assumes "fmlookup (vq_resources (fst s)) h = Some r" "same_buffer r r'"
  shows "grows P b s (put_bo h r' s)"
  using assms by (auto simp: put_bo_def grows_def upd_state_def handles_kept_def contains_key_def split: if_splits)

lemma add_bo_grows:
  assumes "b \<Longrightarrow> vq_id_allocator (fst s) \<noteq> -1"
  shows "grows P b s (snd (add_bo r s))"
proof -
  let ?a = "vq_id_allocator (fst s)"
  have "?a < ?a + 1" if b
    using assms [OF that] succ_not_max by blast
  then have "handles_kept (fst s) (fst (snd (add_bo r s)))" if b
    using that by (auto simp: add_bo_def vgpu_allocate_id_def put_bo_def upd_state_def Let_def
        handles_kept_def)
  then show ?thesis
    by (auto simp: add_bo_def vgpu_allocate_id_def put_bo_def grows_def upd_state_def Let_def)
qed

text \<open>The calls one by one\<close>

lemma attach_fence_grows: "grows P b s (snd (attach_fence h fence s))"
  unfolding attach_fence_def
  by (intro grows.bind) (auto intro: put_bo_grows simp: same_buffer_def)

lemma attach_fences_grows: "grows P b s (snd (attach_fences actual fence hs s))"
  by (induction hs arbitrary: s) (auto intro!: grows.bind attach_fence_grows)

lemma in_world_event_grows:
  "grows P b s (snd (in_world event_new s))" "grows P b s (snd (in_world (event_wait d) s))"
  by (auto simp: event_new_def event_wait_def sys_rres_def ask_def intro!: grows_log)

lemma wait_fences_grows: "grows P b s (snd (wait_fences fences s))"
  by (induction fences arbitrary: s) (auto intro!: grows.bind in_world_event_grows)

lemma u32_try_from_Ok: "u32_try_from n = Ok x \<Longrightarrow> unat x = n"
  by (auto simp: u32_try_from_def unat_of_nat split: if_splits)


lemma u32_of_u64_Ok: "u32_of_u64 x = Ok y \<Longrightarrow> y = ucast x"
  by (auto simp: u32_of_u64_def u32_try_from_def of_nat_unat split: if_splits)

lemma u8_try_from_Ok: "u8_try_from x = Ok y \<Longrightarrow> y = ucast x"
  by (auto simp: u8_try_from_def split: if_splits)

lemma request_same: "vgpu_request encode s = (r, s') \<Longrightarrow> fst s' = fst s"
  by (metis request_client snd_conv)

lemma write_same: "vgpu_write encode s = (r, s') \<Longrightarrow> fst s' = fst s"
  by (metis write_client snd_conv)

text \<open>Both ways of creating a resource end alike.\<close>

lemma answered_grows:
  assumes "b \<Longrightarrow> vq_id_allocator (fst s) \<noteq> -1" and "write_ok P encode"
  shows "grows P b s (snd (and_then_st (vgpu_request encode s) (\<lambda>p s.
    and_then_st (resp_resource n p, s) (\<lambda>r s.
    case add_bo r s of (h, s) \<Rightarrow> (Ok (out r h), s)))))"
proof (intro grows.bind)
  fix p s1 r s2
  assume "vgpu_request encode s = (Inr p, s1)" "(resp_resource n p, s1) = (Inr r, s2)"
  then have "fst s2 = fst s" by (auto dest: request_same)
  then show "grows P b s2 (snd (case add_bo r s2 of (h, s) \<Rightarrow> (Ok (out r h), s)))"
    using add_bo_grows [of b s2 P r] assms(1) by (simp add: case_prod_unfold)
qed (auto intro!: request_grows assms)

lemma create_3d_grows:
  assumes "b \<Longrightarrow> vq_id_allocator (fst s) \<noteq> -1"
    and "P (ResourceCreate3d (create_3d_request (vq_context_id (fst s)) c))"
  shows "grows P b s (snd (vgpu_resource_create_3d c s))"
  unfolding vgpu_resource_create_3d_def
  using assms by (intro answered_grows create_3d_request_ok)

lemma submit_blob_cmd_grows:
  assumes "P (CmdSubmit3d (submit_request (vq_context_id (fst s)) (of_nat (length cmd)) 0 0 0) cmd [])"
  shows "grows P b s (snd (submit_blob_cmd cmd s))"
proof -
  have "grows P b s1 (snd (vgpu_write (CmdWithData
      (kq_submit_bytes (submit_request (vq_context_id (fst s1)) sz 0 0 0)) cmd) s1))"
    if "(u32_try_from (length cmd), s) = (Inr sz, s1)" for sz s1
    using that assms by (auto simp: u32_try_from_def unat_of_nat split: if_splits
        intro!: write_grows submit_request_ok)
  then show "grows P b s (snd (submit_blob_cmd cmd s))"
    by (auto simp: submit_blob_cmd_def intro!: grows.bind)
qed

lemma submit_blob_cmd_same: "fst (snd (submit_blob_cmd cmd s)) = fst s"
  by (auto simp: submit_blob_cmd_def and_then_st_def split: sum.split)

lemma create_blob_grows:
  assumes "b \<Longrightarrow> vq_id_allocator (fst s) \<noteq> -1"
    and "P (ResourceCreateBlob (blob_request (vq_context_id (fst s)) c))"
    and "P (CmdSubmit3d (submit_request (vq_context_id (fst s)) (of_nat (length cmd)) 0 0 0) cmd [])"
  shows "grows P b s (snd (vgpu_resource_create_blob c cmd s))"
  unfolding vgpu_resource_create_blob_def
proof (rule grows.bind)
  fix u s1
  assume "submit_blob_cmd cmd s = (Inr u, s1)"
  then have "fst s1 = fst s" using submit_blob_cmd_same [of cmd s] by simp
  then show "grows P b s1 (snd (and_then_st (vgpu_request
      (Cmd (kq_create_blob_bytes (blob_request (vq_context_id (fst s1)) c))) s1) (\<lambda>p s.
    and_then_st (resp_resource (unat (vb_size c)) p, s) (\<lambda>resource s.
    case add_bo resource s of (bo_handle, s) \<Rightarrow>
      (Ok (c\<lparr>vb_res_handle := vr_resource_id resource, vb_bo_handle := bo_handle\<rparr>), s)))))"
    using assms(1,2) by (intro answered_grows blob_request_ok) auto
qed (rule submit_blob_cmd_grows [of P, OF assms(3)])

lemma drop_bo_grows: "grows P b s (upd_state (\<lambda>st. st\<lparr>vq_resources := fmdrop h (vq_resources st)\<rparr>) s)"
  by (auto simp: grows_def upd_state_def handles_kept_def split: if_splits)

lemma unref_grows:
  assumes "\<And>r. fmlookup (vq_resources (fst s)) h = Some r \<Longrightarrow> P (CtxDetachResource (ctx_resource_request
      KUMQUAT_GPU_PROTOCOL_CTX_DETACH_RESOURCE (vq_context_id (fst s)) (vr_resource_id r)))"
  shows "grows P b s (snd (vgpu_resource_unref h s))"
  unfolding vgpu_resource_unref_def Let_def
  using assms by (intro grows.bind grows_trans [OF drop_bo_grows write_grows])
    (auto intro: detach_request_ok simp: upd_state_def)

lemma map_grows: "grows P b s (snd (vgpu_map h s))" "grows P b s (snd (vgpu_unmap h s))"
  unfolding vgpu_map_def vgpu_unmap_def Let_def
  by (intro grows.bind; auto split: option.split intro!: grows.bind put_bo_grows simp: same_buffer_def)+

lemma in_world_same: "in_world f s = (r, s') \<Longrightarrow> fst s' = fst s"
  by (metis in_world_fst snd_conv)

lemma attach_fence_same:
  "attach_fence h fence s = (r, s') \<Longrightarrow> vq_context_id (fst s') = vq_context_id (fst s)"
  using attach_fence_grows [of "\<lambda>_. False" False s h fence] by (simp add: grows_def)

lemma transfer_grows:
  assumes "\<And>r d. fmlookup (vq_resources (fst s)) (vt_bo_handle t) = Some r \<Longrightarrow>
      write_ok P (CmdWithHandle (kq_transfer_bytes
        (transfer_request ty (vq_context_id (fst s)) t (vr_resource_id r))) (signal_handle d))"
  shows "grows P b s (snd (vgpu_transfer ty t s))"
  unfolding vgpu_transfer_def Let_def
proof (intro grows.bind)
  fix r s1 d s2 u s3
  assume r: "get_bo (vt_bo_handle t) s = (Inr r, s1)" and "in_world event_new s1 = (Inr d, s2)"
    "attach_fence (vt_bo_handle t) (signal_handle d) s2 = (Inr u, s3)"
  then have "vq_context_id (fst s3) = vq_context_id (fst s)"
    using attach_fence_same in_world_same by (metis get_bo_eq(1))
  then show "grows P b s3 (snd (vgpu_write (CmdWithHandle (kq_transfer_bytes
      (transfer_request ty (vq_context_id (fst s3)) t (vr_resource_id r))) (signal_handle d)) s3))"
    using r assms by (intro write_grows) simp
qed (auto intro: attach_fence_grows in_world_event_grows)

text \<open>A submission sends its packet from the state it starts in; all it does afterwards is local.\<close>

lemma submit_phases:
  obtains s1 where "\<And>P b. grows P b s1 (snd (vgpu_submit_command flags hs cmd ring in_fences s))"
    and "s1 = s \<or> (\<exists>n sz. u32_try_from (length in_fences) = Ok n \<and> u32_try_from (length cmd) = Ok sz \<and>
      ring < 256 \<and>
      (\<exists>encode. encode = CmdWithData (kq_submit_bytes (submit_request (vq_context_id (fst s)) sz n
         (host_flags flags hs) (ucast ring))) cmd \<and>
       (s1 = snd (vgpu_request encode s) \<or> s1 = snd (vgpu_write encode s))))"
proof (cases "\<exists>n sz. u32_try_from (length in_fences) = Ok n \<and> u32_try_from (length cmd) = Ok sz \<and>
      ring < 256")
  case False
  then have "snd (vgpu_submit_command flags hs cmd ring in_fences s) = s"
    by (auto simp: vgpu_submit_command_def and_then_st_def u8_try_from_def split: sum.splits)
  then show ?thesis using that [of s] by simp
next
  case True
  then obtain n sz where ok: "u32_try_from (length in_fences) = Ok n" "u32_try_from (length cmd) = Ok sz"
    "ring < 256" by blast
  define encode where "encode = CmdWithData (kq_submit_bytes (submit_request (vq_context_id (fst s)) sz n
         (host_flags flags hs) (ucast ring))) cmd"
  define s1 where "s1 = snd ((if need_fence flags hs then vgpu_request encode s else
      and_then_st (vgpu_write encode s) (\<lambda>_ s. (Ok OkNoData, s))))"
  have s1: "s1 = snd (vgpu_request encode s) \<or> s1 = snd (vgpu_write encode s)"
    by (simp add: s1_def and_then_st_def split: prod.split sum.split)
  have tail: "grows P b s2 (snd (and_then_st (resp_cmd_submit p, s2) (\<lambda>fence s.
          and_then_st (attach_fences (actual_fence flags) fence hs s) (\<lambda>_ s. (Ok (Some fence), s)))))"
    for P b p and s2 :: "'a vgpu"
    by (intro grows.bind) (auto intro: attach_fences_grows)
  have main: "grows P b s1 (snd (if need_fence flags hs then
          and_then_st (vgpu_request encode s) (\<lambda>p s.
          and_then_st (resp_cmd_submit p, s) (\<lambda>fence s.
          and_then_st (attach_fences (actual_fence flags) fence hs s) (\<lambda>_ s.
          (Ok (Some fence), s))))
        else and_then_st (vgpu_write encode s) (\<lambda>_ s. (Ok None, s))))" for P b
    using tail by (auto simp: s1_def and_then_st_def split: prod.splits sum.splits)
  have whole: "vgpu_submit_command flags hs cmd ring in_fences s =
      and_then_st (if need_fence flags hs then
          and_then_st (vgpu_request encode s) (\<lambda>p s.
          and_then_st (resp_cmd_submit p, s) (\<lambda>fence s.
          and_then_st (attach_fences (actual_fence flags) fence hs s) (\<lambda>_ s.
          (Ok (Some fence), s))))
        else and_then_st (vgpu_write encode s) (\<lambda>_ s. (Ok None, s))) (\<lambda>fence_opt s.
      if has_flag flags VIRTGPU_KUMQUAT_EXECBUF_FENCE_FD_OUT then
        and_then_st (ok_or no_fence_found fence_opt, s) (\<lambda>fence s. (Ok (Some (os_handle fence)), s))
      else (Ok None, s))"
    using ok by (simp add: vgpu_submit_command_def u8_try_from_def encode_def Let_def)
  have "grows P b s1 (snd (vgpu_submit_command flags hs cmd ring in_fences s))" for P b
    unfolding whole by (rule grows.bind [OF main]) (simp add: and_then_st_def split: sum.split)
  then show ?thesis using that [of s1] s1 ok encode_def by blast
qed

lemma submit_grows:
  assumes "in_fences = []"
    and "P (CmdSubmit3d (submit_request (vq_context_id (fst s)) (of_nat (length cmd)) 0
      (host_flags flags hs) (ucast ring)) cmd [])"
  shows "grows P b s (snd (vgpu_submit_command flags hs cmd ring in_fences s))"
proof (rule submit_phases [of flags hs cmd ring in_fences s], goal_cases)
  case (1 s1)
  have "grows P b s s1" using 1(2)
  proof (elim disjE exE conjE)
    fix n sz encode
    assume "u32_try_from (length in_fences) = Ok n" and sz: "u32_try_from (length cmd) = Ok sz"
      and encode: "encode = CmdWithData (kq_submit_bytes (submit_request (vq_context_id (fst s)) sz n
         (host_flags flags hs) (ucast ring))) cmd"
    then have "n = 0" "sz = of_nat (length cmd)" using assms(1)
      by (auto simp: u32_try_from_def split: if_splits)
    then have "write_ok P encode"
      using assms(2) u32_try_from_Ok [OF sz] unfolding encode by (auto intro: submit_request_ok)
    then show "s1 = snd (vgpu_request encode s) \<Longrightarrow> grows P b s s1"
      and "s1 = snd (vgpu_write encode s) \<Longrightarrow> grows P b s s1"
      using request_grows write_grows by blast+
  qed simp
  then show ?case using 1(1) grows_trans by blast
qed

lemma wait_grows: "grows P b s (snd (vgpu_wait h s))"
  unfolding vgpu_wait_def
  by (intro grows.bind) (auto intro!: grows_trans [OF put_bo_grows wait_fences_grows]
      simp: same_buffer_def)

lemma export_grows: "grows P b s (snd (vgpu_resource_export h flags s))"
proof -
  have "grows P b s1 (upd_world (write_at base 0 bs) s1)" for base bs and s1 :: "'a vgpu"
    by (intro grows_log) (auto simp: upd_world_def write_at_def)
  then show ?thesis unfolding vgpu_resource_export_def Let_def
    by (intro grows.bind) (auto intro!: grows.bind)
qed

lemma import_grows:
  assumes "b \<Longrightarrow> vq_id_allocator (fst s) \<noteq> -1"
    and "\<And>rid. P (CtxAttachResource
      (ctx_resource_request KUMQUAT_GPU_PROTOCOL_CTX_ATTACH_RESOURCE (vq_context_id (fst s)) rid))"
  shows "grows P b s (snd (vgpu_resource_import handle outs s))"
proof -
  have "grows P b s (snd (add_bo r s1))" "grows P b s s1"
    if w: "vgpu_write (Cmd (kq_ctx_resource_bytes (ctx_resource_request
      KUMQUAT_GPU_PROTOCOL_CTX_ATTACH_RESOURCE (vq_context_id (fst s)) rid))) s = (x, s1)" for rid r x s1
  proof -
    show s1: "grows P b s s1"
      using write_grows [OF attach_request_ok [of P "vq_context_id (fst s)" rid, OF assms(2)], of b s] w by simp
    show "grows P b s (snd (add_bo r s1))"
      using assms(1) write_same [OF w] by (intro grows_trans [OF s1 add_bo_grows]) simp
  qed
  then show ?thesis
    by (auto simp: vgpu_resource_import_def Let_def case_prod_unfold split: sum.split)
       (metis prod.collapse)+
qed

lemma snapshot_grows:
  "P SnapshotSave \<Longrightarrow> grows P b s (snd (vgpu_snapshot s))"
  "P SnapshotRestore \<Longrightarrow> grows P b s (snd (vgpu_restore s))"
  unfolding vgpu_snapshot_def vgpu_restore_def vgpu_snapshot_request_def
  by (intro grows.bind request_grows header_request_ok; auto)+

definition set_context :: "u32 \<Rightarrow> 'a vgpu \<Rightarrow> 'a vgpu" where
  "set_context ctx = upd_state (\<lambda>st. st\<lparr>vq_context_id := ctx\<rparr>)"

lemma set_context_same: "\<exists>ctx. s = set_context ctx s"
  by (intro exI [of _ "vq_context_id (fst s)"]) (simp add: set_context_def upd_state_def)

lemma context_create_grows:
  assumes "P (CtxCreate (context_request cid name))"
  shows "\<exists>s1 ctx. grows P b s s1 \<and> snd (vgpu_context_create cid name s) = set_context ctx s1"
proof (cases "u32_of_u64 cid")
  case (Inl e)
  then show ?thesis using set_context_same [of s]
    by (intro exI [of _ s]) (simp add: vgpu_context_create_def)
next
  case (Inr i)
  let ?encode = "Cmd (kq_ctx_create_bytes (context_request cid name))"
  obtain q s1 where q: "vgpu_request ?encode s = (q, s1)" by (cases "vgpu_request ?encode s")
  have "grows P b s s1"
    using assms request_grows [OF context_request_ok, of P cid name b s] q by simp
  moreover have "\<exists>ctx. snd (vgpu_context_create cid name s) = set_context ctx s1"
    using Inr u32_of_u64_Ok [OF Inr] q set_context_same [of s1]
    by (cases q; cases "resp_context_create (projr q)")
      (auto simp: vgpu_context_create_def context_request_def set_context_def)
  ultimately show ?thesis by blast
qed

lemma call_grows_plain:
  assumes "call_in_fences c = []" and b: "b \<Longrightarrow> vq_id_allocator (fst s) \<noteq> -1"
    and "\<And>cid name. c \<noteq> ContextCreate cid name"
  shows "grows (\<lambda>_. True) b s (vgpu_call c s)"
proof (cases c)
  case (ContextCreate cid name)
  then show ?thesis using assms(3) by simp
next
  case (SubmitCommand flags hs cmd ring in_fences)
  then show ?thesis using assms(1) by (simp add: submit_grows)
next
  case (TransferToHost t)
  show ?thesis
    unfolding TransferToHost vgpu_call.simps vgpu_transfer_to_host_def
    by (rule transfer_grows, rule transfer_request_ok) simp
next
  case (TransferFromHost t)
  show ?thesis
    unfolding TransferFromHost vgpu_call.simps vgpu_transfer_from_host_def
    by (rule transfer_grows, rule transfer_request_ok) simp
next
  case (ResourceImport handle outs)
  show ?thesis
    unfolding ResourceImport vgpu_call.simps
    by (rule import_grows) (simp_all add: b)
qed (auto intro!: create_3d_grows create_blob_grows unref_grows map_grows wait_grows export_grows
  snapshot_grows simp: b)

lemma call_grows:
  assumes "call_in_fences c = []" and b: "b \<Longrightarrow> vq_id_allocator (fst s) \<noteq> -1"
  shows "\<exists>s1 ctx. grows (\<lambda>_. True) b s s1 \<and> vgpu_call c s = set_context ctx s1"
proof (cases "\<exists>cid name. c = ContextCreate cid name")
  case True
  then show ?thesis using context_create_grows [of "\<lambda>_. True" _ _ b s] by auto
next
  case False
  then show ?thesis using call_grows_plain [OF assms] set_context_same [of "vgpu_call c s"] by blast
qed

section \<open>The requests of a call are what it sends\<close>

fun call_ok :: "client_call \<Rightarrow> 'a vgpu \<Rightarrow> bool" where
  "call_ok (ContextCreate cid name) s = is_ok (fst (vgpu_context_create cid name s))"
| "call_ok (ResourceCreate3D c) s = is_ok (fst (vgpu_resource_create_3d c s))"
| "call_ok (ResourceCreateBlobCall c blob_cmd) s = is_ok (fst (vgpu_resource_create_blob c blob_cmd s))"
| "call_ok (ResourceUnref h) s = is_ok (fst (vgpu_resource_unref h s))"
| "call_ok (Map h) s = is_ok (fst (vgpu_map h s))"
| "call_ok (Unmap h) s = is_ok (fst (vgpu_unmap h s))"
| "call_ok (TransferToHost t) s = is_ok (fst (vgpu_transfer_to_host t s))"
| "call_ok (TransferFromHost t) s = is_ok (fst (vgpu_transfer_from_host t s))"
| "call_ok (SubmitCommand flags hs cmd ring in_fences) s =
     is_ok (fst (vgpu_submit_command flags hs cmd ring in_fences s))"
| "call_ok (Wait h) s = is_ok (fst (vgpu_wait h s))"
| "call_ok (ResourceExport h flags) s = is_ok (fst (vgpu_resource_export h flags s))"
| "call_ok (ResourceImport handle outs) s = is_ok (fst (fst (vgpu_resource_import handle outs s)))"
| "call_ok Snapshot s = is_ok (fst (vgpu_snapshot s))"
| "call_ok Restore s = is_ok (fst (vgpu_restore s))"

text \<open>
  What an operation adds to the log: packets of the first of the requests \<open>ps\<close>, and of all of
  them when it succeeds.
\<close>

definition sends :: "kumquat_gpu_protocol list \<Rightarrow> 'r rres \<times> 'a vgpu \<Rightarrow> 'a vgpu \<Rightarrow> bool" where
  "sends ps p s \<longleftrightarrow>
     vq_stream (fst (snd p)) = vq_stream (fst s) \<and>
     (\<exists>qs es. prefix qs ps \<and> (is_ok (fst p) \<longrightarrow> qs = ps) \<and> packets (vq_stream (fst s)) qs es \<and>
        cdw_log (snd (snd p)) = cdw_log (snd s) @ es)"

lemma packets_simps [simp]:
  "packets stream [] es \<longleftrightarrow> es = []"
  "packets stream (p # ps) (e # es) \<longleftrightarrow>
     (\<exists>bs ds. e = MessageSent stream bs ds \<and> read_messages bs ds = Ok [p]) \<and> packets stream ps es"
  "packets stream ps [] \<longleftrightarrow> ps = []"
  by (simp_all add: packets_def)

lemma packets_append:
  "packets stream ps es \<Longrightarrow> packets stream qs fs \<Longrightarrow> packets stream (ps @ qs) (es @ fs)"
  unfolding packets_def by (rule list_all2_appendI)

lemma sends_bind:
  assumes "sends ps p s" and "\<And>x s'. p = (Inr x, s') \<Longrightarrow> sends qs (f x s') s'"
  shows "sends (ps @ qs) (and_then_st p f) s"
proof -
  obtain r s' where p: "p = (r, s')" by (cases p)
  show ?thesis
  proof (cases r)
    case (Inl e)
    then show ?thesis using assms(1) by (auto simp: sends_def p intro: prefix_prefix)
  next
    case (Inr x)
    then obtain es where es: "packets (vq_stream (fst s)) ps es" "cdw_log (snd s') = cdw_log (snd s) @ es"
      "vq_stream (fst s') = vq_stream (fst s)"
      using assms(1) by (auto simp: sends_def p)
    have "sends qs (f x s') s'" using assms(2) Inr by (simp add: p)
    then obtain rs fs where rs: "prefix rs qs" "is_ok (fst (f x s')) \<longrightarrow> rs = qs"
      "packets (vq_stream (fst s')) rs fs" "cdw_log (snd (snd (f x s'))) = cdw_log (snd s') @ fs"
      "vq_stream (fst (snd (f x s'))) = vq_stream (fst s')"
      by (auto simp: sends_def)
    show ?thesis using es rs packets_append [OF es(1), of rs fs] Inr
      by (auto simp: sends_def p intro!: exI [of _ "ps @ rs"] exI [of _ "es @ fs"])
  qed
qed

lemmas sends_first = sends_bind [where qs = "[]", simplified]
lemmas sends_then = sends_bind [where ps = "[]", simplified]

lemma grows_quiet: "grows (\<lambda>_. False) False s s' \<Longrightarrow> cdw_log (snd s') = cdw_log (snd s)"
proof -
  assume "grows (\<lambda>_. False) False s s'"
  moreover have "\<not> request_packet d (\<lambda>_. False) e" for d e
    by (cases e) (auto simp: reads_as_def split: sum.splits list.splits)
  ultimately show ?thesis by (auto simp: grows_def list_all_iff)
qed

lemma sends_grows: "grows (\<lambda>_. False) False s (snd p) \<Longrightarrow> sends [] p s"
  by (frule grows_quiet) (simp add: sends_def grows_def)

lemma sends_pure [simp]:
  "sends [] (r, s) s" "vq_stream (f (fst s)) = vq_stream (fst s) \<Longrightarrow> sends [] (r, upd_state f s) s"
  by (simp_all add: sends_def upd_state_def)

lemma stream_write_sends:
  "stream_write d encode w = (Inr u, w') \<Longrightarrow> length (cdw_log w') = Suc (length (cdw_log w))"
  by (auto simp: stream_write_def tube_send_def sys_rres_def ask_def emit_def rust_simps Let_def)

lemma write_log:
  assumes "vgpu_write encode s = (Inr u, s')"
  shows "\<exists>bs ds. encode_write encode = Ok (bs, ds) \<and>
    cdw_log (snd s') = cdw_log (snd s) @ [MessageSent (vq_stream (fst s)) bs ds]"
proof -
  have "stream_write (vq_stream (fst s)) encode (snd s) = (Inr u, snd s')"
    using assms by (auto simp: vgpu_write_def in_world_def split: prod.splits)
  then have "cdw_log (snd s') \<noteq> cdw_log (snd s)" using stream_write_sends by fastforce
  then show ?thesis using sent_log [of s' encode s] assms by simp
qed

lemma request_log:
  assumes "vgpu_request encode s = (Inr u, s')"
  shows "\<exists>bs ds. encode_write encode = Ok (bs, ds) \<and>
    cdw_log (snd s') = cdw_log (snd s) @ [MessageSent (vq_stream (fst s)) bs ds]"
proof -
  have "length (cdw_log (snd s')) = Suc (length (cdw_log (snd s)))"
    using assms by (auto simp: vgpu_request_def in_world_def stream_request_def rust_simps
        dest!: stream_write_sends stream_read_log split: prod.splits)
  then have "cdw_log (snd s') \<noteq> cdw_log (snd s)" by auto
  then show ?thesis using sent_log [of s' encode s] assms by simp
qed

lemma reads_as_eq: "reads_as ((=) p) bs ds \<longleftrightarrow> read_messages bs ds = Ok [p]"
  by (auto simp: reads_as_def split: sum.splits list.splits)

lemma write_ok_reads:
  "write_ok ((=) p) encode \<Longrightarrow> encode_write encode = Ok (bs, ds) \<Longrightarrow> read_messages bs ds = Ok [p]"
  by (simp add: write_ok_def reads_as_eq)

lemma sent_sends:
  assumes "s1 = snd (vgpu_request encode s) \<or> s1 = snd (vgpu_write encode s)"
    and "write_ok ((=) p) encode"
    and "is_ok r \<Longrightarrow> cdw_log (snd s1) \<noteq> cdw_log (snd s)"
  shows "sends [p] (r, s1) s"
proof -
  have same: "vq_stream (fst s1) = vq_stream (fst s)" using assms(1) by auto
  show ?thesis using sent_log [OF assms(1)]
  proof
    assume "cdw_log (snd s1) = cdw_log (snd s)"
    then show ?thesis using assms(3) same
      by (auto simp: sends_def intro!: exI [of _ "[]"])
  next
    assume "\<exists>bs ds. encode_write encode = Ok (bs, ds) \<and>
       cdw_log (snd s1) = cdw_log (snd s) @ [MessageSent (vq_stream (fst s)) bs ds]"
    then obtain bs ds where "encode_write encode = Ok (bs, ds)"
      and log: "cdw_log (snd s1) = cdw_log (snd s) @ [MessageSent (vq_stream (fst s)) bs ds]" by blast
    then have "read_messages bs ds = Ok [p]" using write_ok_reads [OF assms(2)] by simp
    then show ?thesis using log same
      by (auto simp: sends_def intro!: exI [of _ "[p]"])
  qed
qed

lemma write_sends: "write_ok ((=) p) encode \<Longrightarrow> sends [p] (vgpu_write encode s) s"
  using sent_sends [of "snd (vgpu_write encode s)" encode s p "fst (vgpu_write encode s)"]
    write_log [of encode s]
  by (cases "vgpu_write encode s"; cases "fst (vgpu_write encode s)") auto

lemma request_sends: "write_ok ((=) p) encode \<Longrightarrow> sends [p] (vgpu_request encode s) s"
  using sent_sends [of "snd (vgpu_request encode s)" encode s p "fst (vgpu_request encode s)"]
    request_log [of encode s]
  by (cases "vgpu_request encode s"; cases "fst (vgpu_request encode s)") auto

text \<open>The calls one by one\<close>

lemma answered_sends:
  assumes "write_ok ((=) q) encode"
  shows "sends [q] (and_then_st (vgpu_request encode s) (\<lambda>p s.
    and_then_st (resp_resource n p, s) (\<lambda>r s.
    case add_bo r s of (h, s) \<Rightarrow> (Ok (out r h), s)))) s"
  by (rule sends_first [OF request_sends [OF assms] sends_then [OF sends_pure(1)]])
    (simp add: sends_def add_bo_def vgpu_allocate_id_def put_bo_def upd_state_def Let_def)

lemma create_3d_sends:
  "sends (call_requests (ResourceCreate3D c) s) (vgpu_resource_create_3d c s) s"
  unfolding vgpu_resource_create_3d_def call_requests.simps
  by (rule answered_sends, rule create_3d_request_ok) simp

lemma context_create_sends:
  "sends (call_requests (ContextCreate cid name) s) (vgpu_context_create cid name s) s"
proof (cases "u32_of_u64 cid")
  case (Inl e)
  then show ?thesis by (simp add: vgpu_context_create_def sends_def exI [of _ "[]"])
next
  case (Inr i)
  have "write_ok ((=) (CtxCreate (context_request cid name)))
      (Cmd (kq_ctx_create_bytes (context_request cid name)))"
    by (rule context_request_ok) simp
  then have "sends [CtxCreate (context_request cid name)]
      (and_then_st (vgpu_request (Cmd (kq_ctx_create_bytes (context_request cid name))) s) (\<lambda>p s.
        and_then_st (resp_context_create p, s) (\<lambda>ctx_id s.
        (Ok ctx_id, upd_state (\<lambda>st. st\<lparr>vq_context_id := ctx_id\<rparr>) s)))) s"
    by (intro sends_first [OF request_sends sends_then [OF sends_pure(1)]]) simp_all
  then show ?thesis using Inr u32_of_u64_Ok [OF Inr]
    by (simp add: vgpu_context_create_def context_request_def)
qed

lemma submit_blob_cmd_sends:
  "sends (if cmd = [] then []
      else [CmdSubmit3d (submit_request (vq_context_id (fst s)) (of_nat (length cmd)) 0 0 0) cmd []])
    (submit_blob_cmd cmd s) s"
proof (cases "cmd = []")
  case False
  have "sends [CmdSubmit3d (submit_request (vq_context_id (fst s)) (of_nat (length cmd)) 0 0 0) cmd []]
      (and_then_st (u32_try_from (length cmd), s) (\<lambda>sz s. vgpu_write (CmdWithData
          (kq_submit_bytes (submit_request (vq_context_id (fst s)) sz 0 0 0)) cmd) s)) s"
  proof (rule sends_then [OF sends_pure(1)])
    fix sz s' assume sz: "(u32_try_from (length cmd), s) = (Inr sz, s')"
    then have "sz = of_nat (length cmd)" "unat sz = length cmd"
      using u32_try_from_Ok by (auto simp: u32_try_from_def split: if_splits)
    then show "sends [CmdSubmit3d (submit_request (vq_context_id (fst s)) (of_nat (length cmd)) 0 0 0) cmd []]
        (vgpu_write (CmdWithData (kq_submit_bytes (submit_request (vq_context_id (fst s')) sz 0 0 0)) cmd) s') s'"
      using sz by (auto intro!: write_sends submit_request_ok)
  qed
  with False show ?thesis by (simp add: submit_blob_cmd_def)
qed (simp add: submit_blob_cmd_def)

lemma create_blob_sends:
  "sends (call_requests (ResourceCreateBlobCall c cmd) s) (vgpu_resource_create_blob c cmd s) s"
  unfolding vgpu_resource_create_blob_def call_requests.simps
proof (rule sends_bind [OF submit_blob_cmd_sends])
  fix u s1 assume "submit_blob_cmd cmd s = (Inr u, s1)"
  then have same: "fst s1 = fst s" using submit_blob_cmd_same [of cmd s] by simp
  show "sends [ResourceCreateBlob (blob_request (vq_context_id (fst s)) c)]
      (and_then_st (vgpu_request (Cmd (kq_create_blob_bytes (blob_request (vq_context_id (fst s1)) c))) s1)
        (\<lambda>p s. and_then_st (resp_resource (unat (vb_size c)) p, s) (\<lambda>resource s.
          case add_bo resource s of (bo_handle, s) \<Rightarrow>
            (Ok (c\<lparr>vb_res_handle := vr_resource_id resource, vb_bo_handle := bo_handle\<rparr>), s)))) s1"
    unfolding same by (rule answered_sends, rule blob_request_ok) simp
qed

lemma no_bo_sends: "fmlookup (vq_resources (fst s)) h = None \<Longrightarrow> sends [] (and_then_st (get_bo h s) f) s"
  by (simp add: get_bo_def)

lemma unref_sends: "sends (call_requests (ResourceUnref h) s) (vgpu_resource_unref h s) s"
proof (cases "fmlookup (vq_resources (fst s)) h")
  case None
  then show ?thesis by (simp add: vgpu_resource_unref_def bo_requests_def no_bo_sends)
next
  case (Some r)
  let ?s = "upd_state (\<lambda>st. st\<lparr>vq_resources := fmdrop h (vq_resources st)\<rparr>) s"
  have "sends (call_requests (ResourceUnref h) s)
      (vgpu_write (detach_request (vq_context_id (fst ?s)) r) ?s) ?s"
    using Some by (simp add: bo_requests_def upd_state_def) (rule write_sends, rule detach_request_ok, simp)
  then show ?thesis using Some
    by (simp add: vgpu_resource_unref_def get_bo_def sends_def upd_state_def)
qed

lemma transfer_sends:
  assumes "\<And>rid d. write_ok ((=) (T (transfer_request ty (vq_context_id (fst s)) t rid) (signal_handle d)))
      (CmdWithHandle (kq_transfer_bytes (transfer_request ty (vq_context_id (fst s)) t rid)) (signal_handle d))"
  shows "sends (bo_requests s (vt_bo_handle t) (\<lambda>r. event_requests s (\<lambda>event.
      [T (transfer_request ty (vq_context_id (fst s)) t (vr_resource_id r)) event])))
    (vgpu_transfer ty t s) s"
proof (cases "fmlookup (vq_resources (fst s)) (vt_bo_handle t)")
  case None
  then show ?thesis by (simp add: vgpu_transfer_def bo_requests_def no_bo_sends)
next
  case (Some r)
  obtain e s1 where e: "in_world event_new s = (e, s1)" by (cases "in_world event_new s")
  have fst1: "fst s1 = fst s" using in_world_same [OF e] .
  have event: "fst (event_new (snd s)) = e"
    using e by (auto simp: in_world_def split: prod.splits)
  have quiet: "sends [] (e, s1) s"
    using sends_grows [OF in_world_event_grows(1), of s] e by simp
  show ?thesis
  proof (cases e)
    case (Inl f)
    then show ?thesis using quiet Some e event
      by (simp add: vgpu_transfer_def get_bo_def bo_requests_def event_requests_def sends_def)
  next
    case (Inr d)
    let ?T = "T (transfer_request ty (vq_context_id (fst s)) t (vr_resource_id r)) (signal_handle d)"
    have "sends [?T] (vgpu_transfer ty t s) s"
      using Some e unfolding Inr
    proof (simp add: vgpu_transfer_def get_bo_def Let_def, intro sends_then
        [OF quiet [unfolded Inr], simplified] sends_then [OF sends_grows [OF attach_fence_grows]])
      fix u s3 assume "attach_fence (vt_bo_handle t) (signal_handle d) s1 = (Inr u, s3)"
      then have "vq_context_id (fst s3) = vq_context_id (fst s1)" by (rule attach_fence_same)
      with fst1 have ctx: "vq_context_id (fst s3) = vq_context_id (fst s)" by simp
      show "sends [?T] (vgpu_write (CmdWithHandle (kq_transfer_bytes
          (transfer_request ty (vq_context_id (fst s3)) t (vr_resource_id r))) (signal_handle d)) s3) s3"
        unfolding ctx by (rule write_sends [OF assms])
    qed
    then show ?thesis using Some event Inr by (simp add: bo_requests_def event_requests_def)
  qed
qed

lemma submit_sends:
  assumes "in_fences = []"
  shows "sends (call_requests (SubmitCommand flags hs cmd ring in_fences) s)
    (vgpu_submit_command flags hs cmd ring in_fences s) s"
  unfolding vgpu_submit_command_def Let_def call_requests.simps
proof (rule sends_then [OF sends_pure(1)], rule sends_then [OF sends_pure(1)],
    rule sends_then [OF sends_pure(1)], goal_cases)
  case (1 sz s1 n s2 r s3)
  let ?p = "CmdSubmit3d (submit_request (vq_context_id (fst s)) (of_nat (length cmd)) 0
       (host_flags flags hs) (ucast ring)) cmd []"
  let ?e = "CmdWithData (kq_submit_bytes (submit_request (vq_context_id (fst s3)) sz n
      (host_flags flags hs) r)) cmd"
  have args: "s3 = s" "sz = of_nat (length cmd)" "unat sz = length cmd" "n = 0" "r = ucast ring"
    using 1 assms u32_try_from_Ok [of "length cmd" sz] u8_try_from_Ok [of ring r]
    by (auto simp: u32_try_from_def split: if_splits)
  have ok: "write_ok ((=) ?p) ?e"
    unfolding args(1,4,5) using args(2,3) by (intro submit_request_ok) simp_all
  have "sends [?p] (if need_fence flags hs then
          and_then_st (vgpu_request ?e s3) (\<lambda>p s.
          and_then_st (resp_cmd_submit p, s) (\<lambda>fence s.
          and_then_st (attach_fences (actual_fence flags) fence hs s) (\<lambda>_ s.
          (Ok (Some fence), s))))
        else and_then_st (vgpu_write ?e s3) (\<lambda>_ s. (Ok None, s))) s3"
    using sends_first [OF request_sends [OF ok] sends_then [OF sends_pure(1)
        sends_then [OF sends_grows [OF attach_fences_grows] sends_pure(1)]]]
      sends_first [OF write_sends [OF ok] sends_pure(1)]
    by (cases "need_fence flags hs") simp_all
  then show ?case
    by (rule sends_first) (simp add: ok_or_def split: option.split)
qed

lemma import_sends:
  "sends (call_requests (ResourceImport handle outs) s)
    (fst (fst (vgpu_resource_import handle outs s)), snd (vgpu_resource_import handle outs s)) s"
proof -
  obtain out1 out2 out3 where outs: "outs = (out1, out2, out3)" by (cases outs)
  show ?thesis
  proof (cases "mapped_page (w_os (snd s)) handle")
    case (Inl e)
    then show ?thesis by (simp add: vgpu_resource_import_def mapped_page_def outs Let_def)
  next
    case (Inr m)
    let ?p = "ctx_resource_request KUMQUAT_GPU_PROTOCOL_CTX_ATTACH_RESOURCE (vq_context_id (fst s))
        (le_at 0 4 (read_mem (w_mem (snd s)) (mm_addr m) VIRTGPU_KUMQUAT_PAGE_SIZE))"
    have "write_ok ((=) (CtxAttachResource ?p)) (Cmd (kq_ctx_resource_bytes ?p))"
      by (rule attach_request_ok) simp
    from write_sends [OF this, of s]
    have "sends [CtxAttachResource ?p] (vgpu_write (Cmd (kq_ctx_resource_bytes ?p)) s) s" .
    moreover obtain x s1 where w: "vgpu_write (Cmd (kq_ctx_resource_bytes ?p)) s = (x, s1)"
      by (cases "vgpu_write (Cmd (kq_ctx_resource_bytes ?p)) s")
    moreover have "fst s1 = fst s" using write_same [OF w] .
    ultimately show ?thesis using Inr
      by (auto simp: vgpu_resource_import_def mapped_page_def outs Let_def as_mesa_mapping_def sends_def
          add_bo_def vgpu_allocate_id_def put_bo_def upd_state_def split: sum.splits)
  qed
qed

lemma snapshot_sends:
  "sends [SnapshotSave] (vgpu_snapshot s) s" "sends [SnapshotRestore] (vgpu_restore s) s"
  unfolding vgpu_snapshot_def vgpu_restore_def vgpu_snapshot_request_def
  by (rule sends_first [OF request_sends sends_pure(1)], rule header_request_ok, simp)+

text \<open>The value of a call is of no interest here.\<close>

lemma sends_result: "sends ps p s \<Longrightarrow> is_ok r = is_ok (fst p) \<Longrightarrow> snd p = s' \<Longrightarrow> sends ps (r, s') s"
  by (auto simp: sends_def)

lemma call_sends:
  assumes "call_in_fences c = []"
  shows "sends (call_requests c s) (if call_ok c s then Inr () else Inl Panic, vgpu_call c s) s"
proof -
  have quiet: "sends [] (vgpu_map h s) s" "sends [] (vgpu_unmap h s) s" "sends [] (vgpu_wait h s) s"
    "sends [] (vgpu_resource_export h flags s) s" for h flags
    by (auto intro: sends_grows map_grows wait_grows export_grows)
  show ?thesis
  proof (cases c)
    case (ResourceImport handle outs)
    show ?thesis unfolding ResourceImport by (rule sends_result [OF import_sends]) simp_all
  next
    case (TransferToHost t)
    show ?thesis unfolding TransferToHost call_requests.simps
      by (rule sends_result [OF transfer_sends [of TransferToHost3d], OF transfer_request_ok(1)])
        (simp_all add: vgpu_transfer_to_host_def)
  next
    case (TransferFromHost t)
    show ?thesis unfolding TransferFromHost call_requests.simps
      by (rule sends_result [OF transfer_sends [of TransferFromHost3d], OF transfer_request_ok(2)])
        (simp_all add: vgpu_transfer_from_host_def)
  next
    case (SubmitCommand flags hs cmd ring in_fences)
    show ?thesis using assms unfolding SubmitCommand
      by (intro sends_result [OF submit_sends]) simp_all
  next
    case (ContextCreate cid name)
    show ?thesis unfolding ContextCreate by (rule sends_result [OF context_create_sends]) simp_all
  next
    case (ResourceCreate3D c3)
    show ?thesis unfolding ResourceCreate3D by (rule sends_result [OF create_3d_sends]) simp_all
  next
    case (ResourceCreateBlobCall cb cmd)
    show ?thesis unfolding ResourceCreateBlobCall
      by (rule sends_result [OF create_blob_sends]) simp_all
  next
    case (ResourceUnref h)
    show ?thesis unfolding ResourceUnref by (rule sends_result [OF unref_sends]) simp_all
  qed (auto intro: sends_result [OF quiet(1)] sends_result [OF quiet(2)] sends_result [OF quiet(3)]
    sends_result [OF quiet(4)] sends_result [OF snapshot_sends(1)] sends_result [OF snapshot_sends(2)])
qed

text \<open>The writes of \<open>drop\<close> go on after a failed one.\<close>

lemma some_sent:
  assumes "write_ok ((=) p) encode"
  shows "\<exists>es qs. cdw_log (snd (snd (vgpu_write encode s))) = cdw_log (snd s) @ es \<and> subseq qs [p] \<and>
    packets (vq_stream (fst s)) qs es"
  using write_sends [OF assms, of s] unfolding sends_def by (meson prefix_imp_subseq)

lemma detach_all_sends:
  "fst (detach_all rs s) = fst s \<and>
   (\<exists>es qs. cdw_log (snd (detach_all rs s)) = cdw_log (snd s) @ es \<and>
      subseq qs (map (\<lambda>(h, r). CtxDetachResource (ctx_resource_request
        KUMQUAT_GPU_PROTOCOL_CTX_DETACH_RESOURCE (vq_context_id (fst s)) (vr_resource_id r))) rs) \<and>
      packets (vq_stream (fst s)) qs es)"
proof (induction rs arbitrary: s)
  case (Cons hr rs)
  obtain h r where hr: "hr = (h, r)" by (cases hr)
  let ?s = "snd (vgpu_write (detach_request (vq_context_id (fst s)) r) s)"
  let ?p = "CtxDetachResource (ctx_resource_request
      KUMQUAT_GPU_PROTOCOL_CTX_DETACH_RESOURCE (vq_context_id (fst s)) (vr_resource_id r))"
  have "write_ok ((=) ?p) (detach_request (vq_context_id (fst s)) r)"
    by (rule detach_request_ok) simp
  from some_sent [OF this, of s] obtain es1 qs1 where 1: "cdw_log (snd ?s) = cdw_log (snd s) @ es1"
    "subseq qs1 [?p]" "packets (vq_stream (fst s)) qs1 es1" by blast
  from Cons.IH [of ?s] obtain es2 qs2 where 2: "cdw_log (snd (detach_all rs ?s)) = cdw_log (snd ?s) @ es2"
    "subseq qs2 (map (\<lambda>(h, r). CtxDetachResource (ctx_resource_request
        KUMQUAT_GPU_PROTOCOL_CTX_DETACH_RESOURCE (vq_context_id (fst s)) (vr_resource_id r))) rs)"
    "packets (vq_stream (fst s)) qs2 es2" by auto
  have "subseq (qs1 @ qs2) (map (\<lambda>(h, r). CtxDetachResource (ctx_resource_request
        KUMQUAT_GPU_PROTOCOL_CTX_DETACH_RESOURCE (vq_context_id (fst s)) (vr_resource_id r))) (hr # rs))"
    using list_emb_append_mono [OF 1(2) 2(2)] by (simp add: hr)
  moreover have "detach_all (hr # rs) s = detach_all rs ?s" by (simp add: detach_all_def hr)
  moreover have "fst (detach_all rs ?s) = fst s" using Cons.IH [of ?s] by simp
  ultimately show ?case using 1(1) 2(1) packets_append [OF 1(3) 2(3)] by auto
qed (simp add: detach_all_def)

lemma drop_sends:
  "\<exists>es qs. cdw_log (snd (vgpu_drop s)) = cdw_log (snd s) @ es \<and> subseq qs (drop_requests (fst s)) \<and>
     packets (vq_stream (fst s)) qs es"
proof (cases "vq_context_id (fst s) = 0")
  case True
  then show ?thesis by (intro exI [of _ "[]"]) (simp add: vgpu_drop_def drop_requests_def)
next
  case False
  let ?s = "detach_all (entries_of (vq_resources (fst s))) s"
  let ?t = "upd_state (\<lambda>st. st\<lparr>vq_resources := fmempty\<rparr>) ?s"
  obtain es1 qs1 where same: "fst ?s = fst s" and 1: "cdw_log (snd ?s) = cdw_log (snd s) @ es1"
    "subseq qs1 (map (\<lambda>(h, r). CtxDetachResource (ctx_resource_request
        KUMQUAT_GPU_PROTOCOL_CTX_DETACH_RESOURCE (vq_context_id (fst s)) (vr_resource_id r)))
      (entries_of (vq_resources (fst s))))" "packets (vq_stream (fst s)) qs1 es1"
    using detach_all_sends [of "entries_of (vq_resources (fst s))" s] by blast
  have "write_ok ((=) (CtxDestroy (vq_context_id (fst s))))
      (Cmd (header_bytes KUMQUAT_GPU_PROTOCOL_CTX_DESTROY (vq_context_id (fst s))))"
    by (rule header_request_ok) simp
  from some_sent [OF this, of ?t] obtain es2 qs2 where 2: "cdw_log (snd (vgpu_drop s)) = cdw_log (snd ?s) @ es2"
    "subseq qs2 [CtxDestroy (vq_context_id (fst s))]" "packets (vq_stream (fst s)) qs2 es2"
    using False same by (auto simp: vgpu_drop_def Let_def upd_state_def)
  have "subseq (qs1 @ qs2) (drop_requests (fst s))"
    using list_emb_append_mono [OF 1(2) 2(2)] False by (simp add: drop_requests_def)
  then show ?thesis using 1(1) 2(1) packets_append [OF 1(3) 2(3)] by auto
qed

end
