(* ===== verification/Kumquat_Client_Properties.thy ===== *)
theory Kumquat_Client_Properties
  imports Kumquat_Client_Calls Kumquat_Properties
begin

text \<open>
  What holds of a Kumquat client, and of a client with its server: what the server reads out of the
  packets of a client, what a buffer handle stands for, what both sides know of a context or a
  resource after it has been created, and what happens to it when it is shared.
\<close>

section \<open>Requests are read as they were meant\<close>

text \<open>
  C28. A client and its server agree on the requests. Take any call of a client, other than a
  submission with in-fences, in any state and under any answers of the kernel and of the server. The
  only messages it sends go to its own server, and the server reads each packet as exactly one request.
  These requests are, in order, the first ones of a sequence fixed by the call and the state: with the
  arguments of the driver, the context of the client and the resource that the buffer handle was
  created for, for a transfer with the event that emulates the fence, for an import with the resource
  id in the mapped page, and for a blob with its command first. A call that succeeds has sent
  the whole sequence. Closing the client sends, in order, detaches of its resources and then the end of
  its context, without those whose write failed.
\<close>

theorem client_requests_decode:
  assumes "call_in_fences c = []"
  shows "(\<exists>ps es. cdw_log (snd (vgpu_call c s)) = cdw_log (snd s) @ es \<and>
        packets (vq_stream (fst s)) ps es \<and> prefix ps (call_requests c s) \<and>
        (call_ok c s \<longrightarrow> ps = call_requests c s)) \<and>
      (\<exists>ps es. cdw_log (snd (vgpu_drop s)) = cdw_log (snd s) @ es \<and>
        packets (vq_stream (fst s)) ps es \<and> subseq ps (drop_requests (fst s)))"
proof
  show "\<exists>ps es. cdw_log (snd (vgpu_call c s)) = cdw_log (snd s) @ es \<and>
      packets (vq_stream (fst s)) ps es \<and> prefix ps (call_requests c s) \<and>
      (call_ok c s \<longrightarrow> ps = call_requests c s)"
    using call_sends [OF assms, of s] by (fastforce simp: sends_def)
qed (use drop_sends in blast)

text \<open>For the witnesses: a client with one buffer, on a world whose calls succeed.\<close>

definition some_client :: virtgpu_kumquat where
  "some_client =
     \<lparr>vq_context_id = 3, vq_id_allocator = 1, vq_capset_mask = 0, vq_stream = 9, vq_capsets = fmempty,
      vq_resources = fmupd 1
        (virtgpu_resource_new 5 64 \<lparr>os_handle = 30, handle_type = MAGMA_GPU_HANDLE_TYPE_MEM_SHM\<rparr>
          zero_vulkan_info) fmempty\<rparr>"

lemma stream_write_some:
  assumes "length cmd \<le> MAX_COMMAND_SIZE" "sys_sendmsg (cdw_sys w) = (\<lambda>_ _ bs _. Inr (length bs))"
  shows "stream_write d (Cmd cmd) w =
    (Ok (), w\<lparr>cdw_tick := Suc (cdw_tick w), cdw_log := cdw_log w @ [MessageSent d cmd []]\<rparr>)"
  using assms by (simp add: stream_write_def tube_send_def sys_rres_def ask_def emit_def Let_def)

lemma client_requests_decode_witness:
  "\<exists>es. cdw_log (snd (vgpu_call (ResourceUnref 1) (some_client, some_cd_world))) = es \<and>
     packets 9 [CtxDetachResource (ctx_resource_request KUMQUAT_GPU_PROTOCOL_CTX_DETACH_RESOURCE 3 5)] es"
proof -
  have "call_ok (ResourceUnref 1) (some_client, some_cd_world)"
    by (simp add: vgpu_resource_unref_def get_bo_def some_client_def upd_state_def vgpu_write_def
        in_world_def detach_request_def stream_write_some some_sys_def)
  then show ?thesis
    using client_requests_decode [of "ResourceUnref 1" "(some_client, some_cd_world)"]
    by (auto simp: some_client_def bo_requests_def virtgpu_resource_new_def)
qed

section \<open>Buffer handles\<close>

text \<open>A run of a client during which fewer than \<open>2 ^ 32\<close> buffer handles are given out\<close>

inductive client_run :: "'a vgpu \<Rightarrow> 'a vgpu \<Rightarrow> bool" where
  client_run_refl: "client_run s s"
| client_run_step: "client_run s s' \<Longrightarrow> vq_id_allocator (fst s') \<noteq> -1 \<Longrightarrow>
    client_run s (vgpu_call c s')"

lemma set_context_kept: "handles_kept st (fst (set_context ctx s)) \<longleftrightarrow> handles_kept st (fst s)"
  by (simp add: set_context_def upd_state_def handles_kept_def)

lemma sent_same:
  "s1 = snd (vgpu_request encode s) \<or> s1 = snd (vgpu_write encode s) \<Longrightarrow> fst s1 = fst s"
  by auto

lemma call_handles_kept:
  assumes "vq_id_allocator (fst s) \<noteq> -1"
  shows "handles_kept (fst s) (fst (vgpu_call c s))"
proof (cases "call_in_fences c = []")
  case True
  then obtain s1 ctx where "grows (\<lambda>_. True) True s s1" "vgpu_call c s = set_context ctx s1"
    using call_grows assms by blast
  then show ?thesis by (simp add: set_context_kept grows_def)
next
  case False
  then obtain flags hs cmd ring in_fences where c: "c = SubmitCommand flags hs cmd ring in_fences"
    by (cases c) auto
  show ?thesis
  proof (rule submit_phases [of flags hs cmd ring in_fences s], goal_cases)
    case (1 s1)
    then have "fst s1 = fst s" using sent_same by blast
    then show ?case using 1(1) [of _ True] by (auto simp: c grows_def)
  qed
qed

lemma client_run_handles_kept: "client_run s s' \<Longrightarrow> handles_kept (fst s) (fst s')"
  by (induction rule: client_run.induct) (auto intro: handles_kept_trans call_handles_kept)

text \<open>
  C29. A buffer handle means one buffer for ever. After a client has been opened, each of its handles is
  a positive number not above the counter; and a handle that had been given out at some earlier point
  of the run either still denotes the buffer it denoted then (the same resource, size, descriptor and
  Vulkan data) or is gone and does not come back.
\<close>

theorem bo_handles_stable:
  assumes "vgpu_new gpu_socket w = (Ok st, w0)" and "client_run (st, w0) s1" and "client_run s1 s2"
    and "fmlookup (vq_resources (fst s2)) h = Some r2"
  shows "0 < h \<and> h \<le> vq_id_allocator (fst s2) \<and>
    (h \<le> vq_id_allocator (fst s1) \<longrightarrow>
      (\<exists>r1. fmlookup (vq_resources (fst s1)) h = Some r1 \<and> same_buffer r1 r2))"
proof -
  have st: "vq_id_allocator st = 0" "vq_resources st = fmempty"
    using assms(1) by (auto simp: vgpu_new_def rust_simps split: prod.splits)
  have kept: "handles_kept st (fst s1)" "handles_kept (fst s1) (fst s2)"
    using client_run_handles_kept [OF assms(2)] client_run_handles_kept [OF assms(3)] by auto
  then have "handles_kept st (fst s2)" using handles_kept_trans by blast
  then have "\<not> h \<le> 0" "h \<le> vq_id_allocator (fst s2)"
    using assms(4) by (auto simp: handles_kept_def st contains_key_def)
  then show ?thesis using kept(2) assms(4) by (auto simp: handles_kept_def word_gt_0)
qed

definition answering_world :: "u8 list \<Rightarrow> control_message list \<Rightarrow> cd_world" where
  "answering_world bs cmsgs =
     some_cd_world\<lparr>cdw_sys := some_sys\<lparr>sys_recvmsg := \<lambda>_ _ _. Inr (bs, cmsgs)\<rparr>\<rparr>"

lemma bo_handles_stable_witness:
  "\<exists>st w0 r1 r2.
     vgpu_new ''/tmp/kumquat-gpu-0'' (answering_world (message_bytes (RespNumCapsets 0)) []) = (Ok st, w0) \<and>
     (let s1 = vgpu_call (ResourceImport \<lparr>os_handle = 30, handle_type = 1\<rparr> (0, 0, 0)) (st, w0);
          s2 = vgpu_call (Map 1) s1
      in fmlookup (vq_resources (fst s1)) 1 = Some r1 \<and> fmlookup (vq_resources (fst s2)) 1 = Some r2 \<and>
        same_buffer r1 r2)"
proof -
  let ?w = "answering_world (message_bytes (RespNumCapsets 0)) []"
  let ?import = "ResourceImport \<lparr>os_handle = 30, handle_type = 1\<rparr> (0, 0, 0)"
  have read: "read_messages (header_bytes 12290 0) [] = Ok [RespNumCapsets 0]"
    using read_one_message [of "RespNumCapsets 0"] by simp
  have ne: "header_bytes t 0 \<noteq> []" "length (header_bytes t i) = 8" for t i
    by (simp_all add: header_bytes_def kq_hdr_bytes_def le_bytes_def)
  obtain st w0 where new: "vgpu_new ''/tmp/kumquat-gpu-0'' ?w = (Ok st, w0)"
    and w0: "w_os w0 = w_os some_cd_world" "cdw_sys w0 = cdw_sys ?w"
    by (simp add: vgpu_new_def answering_world_def tube_new_def sys_rres_def ask_def some_sys_def
        stream_request_def stream_write_some stream_read_def tube_receive_def read ne remove_first_def)
  have st: "vq_id_allocator st = 0" "vq_resources st = fmempty"
    using new by (auto simp: vgpu_new_def rust_simps split: prod.splits)
  obtain r2 where r2: "fmlookup (vq_resources (fst (vgpu_call (Map 1) (vgpu_call ?import (st, w0))))) 1 = Some r2"
    by (simp add: st w0 answering_world_def some_sys_def some_world_def vgpu_resource_import_def
        magma_handle_try_clone_def descriptor_try_clone_def from_safe_descriptor_def do_mmap_def
        vgpu_write_def in_world_def stream_write_some add_bo_def vgpu_allocate_id_def put_bo_def
        upd_state_def Let_def vgpu_map_def get_bo_def virtgpu_resource_new_def as_mesa_mapping_def)
  have run1: "client_run (st, w0) (vgpu_call ?import (st, w0))"
    using client_run_step [OF client_run_refl, of "(st, w0)" ?import] st by simp
  have alloc: "vq_id_allocator (fst (vgpu_call ?import (st, w0))) = 1"
    by (simp add: st w0 answering_world_def some_sys_def some_world_def vgpu_resource_import_def
        magma_handle_try_clone_def descriptor_try_clone_def from_safe_descriptor_def do_mmap_def
        vgpu_write_def in_world_def stream_write_some add_bo_def vgpu_allocate_id_def put_bo_def
        upd_state_def Let_def)
  have "client_run (vgpu_call ?import (st, w0)) (vgpu_call (Map 1) (vgpu_call ?import (st, w0)))"
    using client_run_step [OF client_run_refl, of "vgpu_call ?import (st, w0)" "Map 1"] alloc by simp
  from bo_handles_stable [OF new run1 this r2] alloc show ?thesis
    using new r2 by (auto simp: Let_def simp del: vgpu_call.simps)
qed

section \<open>In-fences\<close>

lemma read_fence_ids_length:
  "read_fence_ids n bs = Inr (fids, bs') \<Longrightarrow> length bs = length bs' + 8 * n"
proof (induction n arbitrary: bs fids)
  case (Suc n)
  then obtain fids' where "8 \<le> length bs" "read_fence_ids n (drop 8 bs) = Inr (fids', bs')"
    by (auto simp: rust_simps split: sum.splits)
  then show ?case using Suc.IH [of "drop 8 bs" fids'] by simp
qed simp

lemma read_fence_ids_error: "read_fence_ids n bs = Inl e \<Longrightarrow> e = Fail Unsupported"
  by (induction n arbitrary: bs) (auto simp: rust_simps split: sum.splits)

lemma read_submit_in_fences:
  assumes "kq_submit_wf x" "unat (ks_size x) = length buf" "ks_num_in_fences x \<noteq> 0" "buf \<noteq> []"
  shows "\<exists>e. read_submit (kq_submit_bytes x @ buf) = Err e"
proof (cases "read_fence_ids (unat (ks_num_in_fences x)) buf")
  case (Inl e)
  then show ?thesis using assms read_fence_ids_error [OF Inl]
    by (simp add: read_submit_def read_obj_def read_from_prefix_def)
next
  case (Inr p)
  then obtain fids rest where p: "read_fence_ids (unat (ks_num_in_fences x)) buf = Inr (fids, rest)"
    by (cases p) auto
  have "0 < unat (ks_num_in_fences x)" using assms(3) by (simp add: word_neq_0_conv unat_gt_0)
  then have "length rest < unat (ks_size x)" using read_fence_ids_length [OF p] assms(2) by simp
  then show ?thesis using assms p
    by (simp add: read_submit_def read_obj_def read_from_prefix_def read_exact_def eof_def)
qed

lemma submit_in_fences_packet:
  assumes "in_fences \<noteq> []" "cmd \<noteq> []"
    and "cdw_log (snd (vgpu_call (SubmitCommand flags hs cmd ring in_fences) s)) =
      cdw_log (snd s) @ [MessageSent d bs ds]"
  shows "length bs \<le> MAX_COMMAND_SIZE \<and> bs \<noteq> [] \<and> ds = [] \<and> (\<exists>e. read_messages bs [] = Err e)"
proof (rule submit_phases [of flags hs cmd ring in_fences s], goal_cases)
  case (1 s1)
  have "cdw_log (snd (vgpu_call (SubmitCommand flags hs cmd ring in_fences) s)) = cdw_log (snd s1)"
    using 1(1) by (intro grows_quiet) simp
  then have "length (cdw_log (snd s1)) = Suc (length (cdw_log (snd s)))"
    using assms(3) by simp
  then obtain n sz where n: "u32_try_from (length in_fences) = Ok n" "u32_try_from (length cmd) = Ok sz"
    and s1: "s1 = snd (vgpu_request (CmdWithData (kq_submit_bytes (submit_request (vq_context_id (fst s))
        sz n (host_flags flags hs) (ucast ring))) cmd) s) \<or>
      s1 = snd (vgpu_write (CmdWithData (kq_submit_bytes (submit_request (vq_context_id (fst s))
        sz n (host_flags flags hs) (ucast ring))) cmd) s)"
    using 1(2) by auto
  let ?x = "submit_request (vq_context_id (fst s)) sz n (host_flags flags hs) (ucast ring)"
  have "cdw_log (snd s1) \<noteq> cdw_log (snd s)"
    using \<open>length (cdw_log (snd s1)) = _\<close> by auto
  with sent_log [OF s1] obtain bs1 ds1
    where enc: "encode_write (CmdWithData (kq_submit_bytes ?x) cmd) = Ok (bs1, ds1)"
      and log: "cdw_log (snd s1) = cdw_log (snd s) @ [MessageSent (vq_stream (fst s)) bs1 ds1]" by blast
  have "\<exists>es. cdw_log (snd (vgpu_call (SubmitCommand flags hs cmd ring in_fences) s)) = cdw_log (snd s1) @ es"
    using 1(1) [of "\<lambda>_. True" False] by (auto simp: grows_def)
  then have bs: "bs = kq_submit_bytes ?x @ cmd" "ds = []" "length bs \<le> MAX_COMMAND_SIZE"
    using assms(3) log enc by (auto simp: eof_def split: if_splits)
  have wf: "kq_submit_wf ?x" by (simp add: kq_submit_wf_def submit_request_def)
  have "unat n = length in_fences" "unat sz = length cmd" using n u32_try_from_Ok by auto
  then have "\<exists>e. read_submit (kq_submit_bytes ?x @ cmd) = Err e"
    using assms(1,2) wf by (intro read_submit_in_fences) (auto simp: submit_request_def)
  then obtain e where e: "read_message bs [] = Err e"
    using wf by (auto simp: bs(1) read_message_def read_from_prefix_def header_first submit_request_def zero_hdr_def)
  moreover have "bs \<noteq> []" using assms(2) bs(1) by simp
  ultimately have "read_messages bs [] = Err e" by (subst read_messages.simps) simp
  then show ?case using \<open>bs \<noteq> []\<close> bs(2,3) by blast
qed

text \<open>
  C31. In-fences stop the server. A submission with in-fences and a command is sent with the number of
  its fences but without the fences, so the server takes the command for fence ids and finds no
  complete message. When that packet reaches a server in its loop, the loop ends with an error, for
  all its clients.
\<close>

theorem in_fences_stop_server:
  assumes "in_fences \<noteq> []" "cmd \<noteq> []"
    and "cdw_log (snd (vgpu_call (SubmitCommand flags hs cmd ring in_fences) s)) =
      cdw_log (snd s) @ [MessageSent d bs ds]"
    and "wait_ctx_wait (ku_wait_ctx u) (ku_world u) = (Ok (event # events), w)"
    and "fmlookup (ku_connections u) (ev_connection_id event) = Some (GpuConnection stream)"
    and "ev_readable event" and "ku_gpu_opt u = Some k"
    and "sys_recvmsg (cdw_sys w) (cdw_tick w) stream MAX_COMMAND_SIZE = Inr (bs, [])"
  shows "\<exists>e u'. kumquat_loop env u = Some (Fail (KumquatMagma e), u')"
proof -
  obtain e where bs: "length bs \<le> MAX_COMMAND_SIZE" "bs \<noteq> []" and e: "read_messages bs [] = Err e"
    using submit_in_fences_packet [OF assms(1-3)] by blast
  have "\<exists>w'. stream_read stream w = (Err (MagmaGpuError e), w')"
    using assms(8) bs e
    by (simp add: stream_read_def tube_receive_def sys_rres_def ask_def)
  then obtain w' where r: "stream_read stream w = (Err (MagmaGpuError e), w')" by blast
  let ?u = "u\<lparr>ku_world := w\<rparr>"
  have "\<exists>u'. kumquat_event env event ?u = (Err (KumquatMagma e), u')"
    using assms(5-7) r
    by (simp add: kumquat_event_def handle_connection_def with_gpu_def process_command_def sys_def
        on_world_def kq_system_def)
  then obtain u' where "kumquat_event env event ?u = (Err (KumquatMagma e), u')" by blast
  then have "kumquat_run env u = (Err (KumquatMagma e), u')"
    using assms(4) by (simp add: kumquat_run_def ku_sys_def)
  then have "kumquat_loop env u = Some (Fail (KumquatMagma e), u')"
    by (simp add: kumquat_loop.simps [of env u])
  then show ?thesis by blast
qed

text \<open>A client of context 3 submits the command 7 with the in-fence 42 to the server of the other
  witnesses.\<close>

definition in_fence_packet :: "u8 list" where
  "in_fence_packet = kq_submit_bytes (submit_request 3 1 1 0 0) @ [7]"

lemma in_fences_stop_server_witness:
  "\<exists>e u'. kumquat_loop some_kumquat_env
     (some_kumquat\<lparr>ku_world := answering_world in_fence_packet []\<rparr>) = Some (Fail (KumquatMagma e), u')"
proof (rule in_fences_stop_server [where stream = 9 and events = "[]" and k = some_kumquat_gpu and
    event = "\<lparr>ev_connection_id = 1, ev_hung_up = False, ev_readable = True\<rparr>" and
    w = "answering_world in_fence_packet []\<lparr>cdw_tick := 1\<rparr>"])
  show "cdw_log (snd (vgpu_call (SubmitCommand 0 [] [7] 0 [42]) (some_client, some_cd_world))) =
      cdw_log (snd (some_client, some_cd_world)) @ [MessageSent 9 in_fence_packet []]"
    by (simp add: vgpu_submit_command_def u32_try_from_def u8_try_from_def need_fence_def host_flags_def
        actual_fence_def has_flag_def Let_def vgpu_write_def in_world_def stream_write_def tube_send_def
        sys_rres_def ask_def emit_def some_sys_def some_client_def in_fence_packet_def kq_submit_bytes_def
        submit_request_def zero_hdr_def)
qed (simp_all add: wait_ctx_wait_def sys_rres_def ask_def answering_world_def some_kumquat_def
    some_sys_def wait_event_of_def)

section \<open>Both sides after an exchange\<close>

text \<open>The packet that the server sent last is the one the client receives next, with its descriptors
  renumbered.\<close>

definition answered ::
  "descriptor \<Rightarrow> 'b kumquat_gpu \<Rightarrow> 'a vgpu \<Rightarrow> descriptor list \<Rightarrow> bool" where
  "answered stream k s ds' \<longleftrightarrow>
     (case last (cdw_log (kg_world k)) of
        MessageSent d bs ds \<Rightarrow>
          d = stream \<and> length ds' = length ds \<and>
          sys_recvmsg (cdw_sys (snd s)) (Suc (cdw_tick (snd s))) (vq_stream (fst s)) MAX_COMMAND_SIZE =
            Inr (bs, [ScmRights ds'])
      | _ \<Rightarrow> False)"

definition can_send :: "'a vgpu \<Rightarrow> bool" where
  "can_send s \<longleftrightarrow> (\<forall>bs ds. \<exists>n.
     sys_sendmsg (cdw_sys (snd s)) (cdw_tick (snd s)) (vq_stream (fst s)) bs ds = Inr n)"

lemma kq_reply_Ok:
  assumes "kq_reply stream encode k = (Ok (), k')"
  shows "\<exists>bs ds. encode_write encode = Ok (bs, ds) \<and>
    last (cdw_log (kg_world k')) = MessageSent stream bs ds" and "handler_frame k k'"
proof -
  obtain w where w: "stream_write stream encode (kg_world k) = (Ok (), w)" "kg_world k' = w"
    using assms by (auto simp: kq_reply_def sys_def on_world_def split: prod.splits)
  have "length (cdw_log w) = Suc (length (cdw_log (kg_world k)))" using stream_write_sends [OF w(1)] .
  then show "\<exists>bs ds. encode_write encode = Ok (bs, ds) \<and>
      last (cdw_log (kg_world k')) = MessageSent stream bs ds"
    using stream_write_log [OF w(1)] w(2) by auto
  have "k' = snd (on_world (stream_write stream encode) k)"
    using assms by (auto simp: kq_reply_def sys_def split: prod.splits)
  then show "handler_frame k k'" using on_world_frame by metis
qed

lemma request_answered:
  assumes "can_send s" "encode_write encode = Ok (sent, [])"
    and "answered stream k s ds'" and "last (cdw_log (kg_world k)) = MessageSent stream bs ds"
    and "bs = message_bytes p" "message_wf p" "message_fds p = ds'" "length bs \<le> MAX_COMMAND_SIZE"
  shows "\<exists>w. vgpu_request encode s = (Ok p, (fst s, w))"
proof -
  have "read_messages bs ds' = Ok [p]" using read_one_message [OF assms(6)] assms(5,7) by simp
  moreover have "bs \<noteq> []" using calculation by (auto simp: read_messages.simps)
  moreover obtain n where "sys_sendmsg (cdw_sys (snd s)) (cdw_tick (snd s)) (vq_stream (fst s)) sent [] = Inr n"
    using assms(1) by (auto simp: can_send_def)
  ultimately show ?thesis using assms(2-4,8)
    by (simp add: vgpu_request_def in_world_def stream_request_def stream_write_def tube_send_def
        sys_rres_def ask_def emit_def stream_read_def tube_receive_def answered_def remove_first_def Let_def)
qed

text \<open>What the server knows after each kind of creation\<close>

lemma create_context_adds:
  assumes "rutabaga_create_context i ctx_init name g = (Ok (), g')"
  shows "contains_key (g_contexts g') i"
  using assms by (auto simp: rutabaga_create_context_def put_context_def rust_simps Let_def split: if_splits)

lemma context_attach_adds:
  assumes "rutabaga_context_attach_resource c i g = (Ok (), g')"
  shows "contains_key (g_resources g') i"
proof -
  obtain attach s where
    "(case call attach s of (r', g) \<Rightarrow> (Ok () :: unit rres, put_resource i r' g)) = (Ok (), g')"
    using assms by (auto simp: rutabaga_context_attach_resource_def rust_simps)
  then show ?thesis by (cases "call attach s") (auto simp: put_resource_def)
qed

lemma rut_frame:
  assumes "rut f k = (Ok x, k')"
  shows "kg_resources k' = kg_resources k" "kg_id_allocator k' = kg_id_allocator k"
  using assms by (auto simp: handler_frame_def elim!: rut_eq_Ok)

lemma ctx_create_Ok:
  assumes "process_message env stream (CtxCreate x) k = (Ok (), k')"
  shows "contains_key (g_contexts (kg_rutabaga k')) (kg_id_allocator k + 1)"
    and "last (cdw_log (kg_world k')) =
      MessageSent stream (message_bytes (RespContextCreate (kg_id_allocator k + 1))) []"
proof -
  let ?i = "kg_id_allocator k + 1"
  obtain k1 where create: "rut (rutabaga_create_context ?i (kx_context_init x)
        (str_from_utf8 (kx_debug_name x))) (k\<lparr>kg_id_allocator := ?i\<rparr>) = (Ok (), k1)"
    and reply: "kq_reply stream (Cmd (kq_header KUMQUAT_GPU_PROTOCOL_RESP_CONTEXT_CREATE ?i)) k1 = (Ok (), k')"
    using assms by (auto simp: ctx_create_def allocate_id_def rust_simps Let_def)
  have "contains_key (g_contexts (kg_rutabaga k1)) ?i"
    using create by (auto simp: handler_frame_def elim!: rut_eq_Ok dest!: create_context_adds)
  then show "contains_key (g_contexts (kg_rutabaga k')) ?i"
    using kq_reply_Ok(2) [OF reply] by (auto simp: handler_frame_def)
  show "last (cdw_log (kg_world k')) = MessageSent stream (message_bytes (RespContextCreate ?i)) []"
    using kq_reply_Ok(1) [OF reply]
    by (auto simp: kq_header_def header_bytes_def eof_def)
qed

definition shm_answer :: "u32 \<Rightarrow> kq_resource" where
  "shm_answer rid =
     \<lparr>kq_hdr = zero_hdr KUMQUAT_GPU_PROTOCOL_RESP_RESOURCE_CREATE, kq_resource_id = rid,
      kq_handle_type = 0, kq_vulkan_info = zero_vulkan_info\<rparr>"

lemma create_3d_Ok:
  assumes "process_message env stream (ResourceCreate3d x) k = (Ok (), k')"
  shows "\<exists>mapping d. kg_resources k' = fmupd (kg_id_allocator k + 1)
        \<lparr>kgr_attached_contexts = {||}, kgr_mapping = Some mapping\<rparr> (kg_resources k) \<and>
      mm_size mapping = unat (kc_size x) \<and>
      contains_key (g_resources (kg_rutabaga k')) (kg_id_allocator k + 1) \<and>
      last (cdw_log (kg_world k')) =
        MessageSent stream (kq_resource_bytes (shm_answer (kg_id_allocator k + 1))) [d]"
proof -
  let ?i = "kg_id_allocator k + 1" and ?k = "k\<lparr>kg_id_allocator := kg_id_allocator k + 1\<rparr>"
  obtain d clone mapping vecs k1 k2 k3 where
    mapping: "from_safe_descriptor (w_os (kg_world k)) clone (unat (kc_size x))
        (RUTABAGA_MAP_CACHE_CACHED OR RUTABAGA_MAP_ACCESS_RW) = Ok mapping"
    and k1: "rut (rutabaga_resource_create_3d ?i (resource_create_of x)) ?k = (Ok (), k1)"
    and k2: "rut (rutabaga_attach_backing ?i vecs) k1 = (Ok (), k2)"
    and k3: "rut (rutabaga_context_attach_resource (kc_ctx_id x) ?i)
        (k2\<lparr>kg_resources := fmupd ?i \<lparr>kgr_attached_contexts = {||}, kgr_mapping = Some mapping\<rparr>
          (kg_resources k2)\<rparr>) = (Ok (), k3)"
    and reply: "kq_reply stream (CmdWithHandle (resp_resource_create ?i 0 zero_vulkan_info)
          \<lparr>os_handle = d, handle_type = MAGMA_GPU_HANDLE_TYPE_MEM_SHM\<rparr>) k3 = (Ok (), k')"
    using assms by (auto simp: server_resource_create_3d_def allocate_id_def rust_simps Let_def)
  have "mm_size mapping = unat (kc_size x)"
    using mapping by (auto simp: from_safe_descriptor_def do_mmap_def Let_def rust_simps split: sum.splits)
  moreover have "contains_key (g_resources (kg_rutabaga k3)) ?i"
    using k3 by (auto simp: handler_frame_def elim!: rut_eq_Ok dest!: context_attach_adds)
  moreover have "kg_resources k3 = fmupd ?i \<lparr>kgr_attached_contexts = {||}, kgr_mapping = Some mapping\<rparr>
      (kg_resources k)"
    using rut_frame(1) [OF k1] rut_frame(1) [OF k2] rut_frame(1) [OF k3] by simp
  moreover have "resp_resource_create ?i 0 zero_vulkan_info = kq_resource_bytes (shm_answer ?i)"
    by (simp add: resp_resource_create_def shm_answer_def zero_hdr_def)
  ultimately show ?thesis
    using kq_reply_Ok(1) [OF reply] kq_reply_Ok(2) [OF reply]
    by (auto simp: handler_frame_def eof_def split: if_splits)
qed

lemma shm_answer_wf:
  "message_wf (RespResourceCreate (shm_answer i) \<lparr>os_handle = d, handle_type = 0\<rparr>)"
  "length (kq_resource_bytes (shm_answer i)) = 52"
proof -
  have "kq_resource_wf (shm_answer i)"
    by (simp add: shm_answer_def kq_resource_wf_def kq_vulkan_info_wf_def kq_device_id_wf_def zero_vulkan_info_def)
  then show "message_wf (RespResourceCreate (shm_answer i) \<lparr>os_handle = d, handle_type = 0\<rparr>)"
    "length (kq_resource_bytes (shm_answer i)) = 52"
    by (simp_all add: shm_answer_def zero_hdr_def)
qed

lemma context_create_agrees:
  assumes "can_send s" and "answered stream k' s ds'"
    and m: "process_message env stream (CtxCreate (context_request cid name)) k = (Ok (), k')"
    and cid: "unat cid < 2 ^ 32"
  shows "fst (vgpu_context_create cid name s) = Ok (kg_id_allocator k + 1) \<and>
    vq_context_id (fst (snd (vgpu_context_create cid name s))) = kg_id_allocator k + 1 \<and>
    contains_key (g_contexts (kg_rutabaga k')) (kg_id_allocator k + 1)"
proof -
  let ?p = "RespContextCreate (kg_id_allocator k + 1)"
  let ?encode = "Cmd (kq_ctx_create_bytes (context_request cid name))"
  have bytes: "length (kq_ctx_create_bytes (context_request cid name)) = 80"
    "length (message_bytes ?p) = 8"
    by (simp_all add: kq_ctx_create_bytes_def context_request_def debug_name_length header_bytes_def)
  have "ds' = []" using assms(2) ctx_create_Ok(2) [OF m] by (simp add: answered_def)
  then obtain w where w: "vgpu_request ?encode s = (Ok ?p, (fst s, w))"
    using request_answered [OF assms(1) _ assms(2) ctx_create_Ok(2) [OF m], of ?encode _ ?p] bytes
    by auto
  moreover have "u32_of_u64 cid = Ok (ucast cid)"
    using cid by (simp add: u32_of_u64_def u32_try_from_def of_nat_unat)
  ultimately show ?thesis using ctx_create_Ok(1) [OF m]
    by (simp add: vgpu_context_create_def context_request_def upd_state_def)
qed

lemma create_3d_agrees:
  assumes "can_send s" and "answered stream k' s ds'"
    and m: "process_message env stream (ResourceCreate3d (create_3d_request (vq_context_id (fst s)) c)) k =
      (Ok (), k')"
  shows "fst (vgpu_resource_create_3d c s) =
      Ok (c\<lparr>v3_res_handle := kg_id_allocator k + 1, v3_bo_handle := vq_id_allocator (fst s) + 1\<rparr>) \<and>
    (\<exists>mapping. fmlookup (kg_resources k') (kg_id_allocator k + 1) =
        Some \<lparr>kgr_attached_contexts = {||}, kgr_mapping = Some mapping\<rparr> \<and>
      contains_key (g_resources (kg_rutabaga k')) (kg_id_allocator k + 1) \<and>
      fmlookup (vq_resources (fst (snd (vgpu_resource_create_3d c s)))) (vq_id_allocator (fst s) + 1) =
        Some (virtgpu_resource_new (kg_id_allocator k + 1) (mm_size mapping)
          \<lparr>os_handle = hd ds', handle_type = 0\<rparr> zero_vulkan_info))"
proof -
  let ?i = "kg_id_allocator k + 1"
  obtain mapping d where mapping: "kg_resources k' = fmupd ?i
        \<lparr>kgr_attached_contexts = {||}, kgr_mapping = Some mapping\<rparr> (kg_resources k)"
      "mm_size mapping = unat (kc_size (create_3d_request (vq_context_id (fst s)) c))"
      "contains_key (g_resources (kg_rutabaga k')) ?i"
    and reply: "last (cdw_log (kg_world k')) = MessageSent stream (kq_resource_bytes (shm_answer ?i)) [d]"
    using create_3d_Ok [OF m] by blast
  obtain d' where ds': "ds' = [d']"
    using assms(2) reply by (auto simp: answered_def length_Suc_conv)
  let ?p = "RespResourceCreate (shm_answer ?i) \<lparr>os_handle = d', handle_type = 0\<rparr>"
  let ?encode = "Cmd (kq_create_3d_bytes (create_3d_request (vq_context_id (fst s)) c))"
  obtain w where "vgpu_request ?encode s = (Ok ?p, (fst s, w))"
    using request_answered [OF assms(1) _ assms(2) reply, of ?encode _ ?p] shm_answer_wf ds' by auto
  then show ?thesis using mapping
    by (simp add: vgpu_resource_create_3d_def add_bo_def vgpu_allocate_id_def put_bo_def upd_state_def
        Let_def ds' shm_answer_def virtgpu_resource_new_def create_3d_request_def)
qed

text \<open>
  C27. Client and server agree on what has been created. When the server has handled the request to
  create a context, or a 3D resource, and the client receives that answer, the call of the client
  succeeds; the id it returns and stores is the one the server has just allocated and under which the
  library of the server now holds the context or the resource. The resource of the client has the
  descriptor that came with the answer and the size of the mapping of the server, but the handle type
  0, since the answer of the server leaves the field out.
\<close>

theorem client_server_agree:
  assumes "can_send s" and "answered stream k' s ds'"
  shows "(process_message env stream (CtxCreate (context_request cid name)) k = (Ok (), k') \<and>
        unat cid < 2 ^ 32 \<longrightarrow>
        fst (vgpu_context_create cid name s) = Ok (kg_id_allocator k + 1) \<and>
        vq_context_id (fst (snd (vgpu_context_create cid name s))) = kg_id_allocator k + 1 \<and>
        contains_key (g_contexts (kg_rutabaga k')) (kg_id_allocator k + 1)) \<and>
      (process_message env stream (ResourceCreate3d (create_3d_request (vq_context_id (fst s)) c)) k =
          (Ok (), k') \<longrightarrow>
        (let rid = kg_id_allocator k + 1; h = vq_id_allocator (fst s) + 1 in
         fst (vgpu_resource_create_3d c s) = Ok (c\<lparr>v3_res_handle := rid, v3_bo_handle := h\<rparr>) \<and>
         (\<exists>mapping. fmlookup (kg_resources k') rid =
             Some \<lparr>kgr_attached_contexts = {||}, kgr_mapping = Some mapping\<rparr> \<and>
           contains_key (g_resources (kg_rutabaga k')) rid \<and>
           fmlookup (vq_resources (fst (snd (vgpu_resource_create_3d c s)))) h =
             Some (virtgpu_resource_new rid (mm_size mapping) \<lparr>os_handle = hd ds', handle_type = 0\<rparr>
               zero_vulkan_info))))"
  unfolding Let_def using context_create_agrees [OF assms] create_3d_agrees [OF assms] by blast

text \<open>A one-pixel resource, created through the 2D component for the first context of the server.\<close>

definition pixel_3d :: virtgpu_create_3d where
  "pixel_3d = \<lparr>v3_target = 2, v3_format = 1, v3_bind = 0, v3_width = 1, v3_height = 1, v3_depth = 1,
     v3_array_size = 1, v3_last_level = 0, v3_nr_samples = 0, v3_flags = 0, v3_bo_handle = 0,
     v3_res_handle = 0, v3_size = 4, v3_stride = 4\<rparr>"

lemma client_server_agree_witness:
  "let s = (some_client\<lparr>vq_context_id := 1\<rparr>,
      answering_world (kq_resource_bytes (shm_answer 6)) [ScmRights [77]])
   in \<exists>k'. process_message some_kumquat_env 9
        (ResourceCreate3d (create_3d_request 1 pixel_3d)) some_kumquat_gpu = (Ok (), k') \<and>
      fst (vgpu_resource_create_3d pixel_3d s) = Ok (pixel_3d\<lparr>v3_res_handle := 6, v3_bo_handle := 2\<rparr>) \<and>
      contains_key (g_resources (kg_rutabaga k')) 6"
proof -
  let ?s = "(some_client\<lparr>vq_context_id := 1\<rparr>,
      answering_world (kq_resource_bytes (shm_answer 6)) [ScmRights [77]])"
  let ?m = "ResourceCreate3d (create_3d_request 1 pixel_3d)"
  have "length (resp_resource_create 6 0 zero_vulkan_info) = 52"
    using shm_answer_wf(2) [of 6] by (simp add: resp_resource_create_def shm_answer_def zero_hdr_def)
  then have "\<exists>k'. process_message some_kumquat_env 9 ?m some_kumquat_gpu = (Ok (), k')"
    by (simp add: stream_write_def tube_send_def sys_rres_def ask_def emit_def some_sys_def
        server_resource_create_3d_def some_kumquat_gpu_def create_3d_request_def pixel_3d_def
        shared_memory_new_def descriptor_try_clone_def from_safe_descriptor_def do_mmap_def some_world_def
        allocate_id_def rut_def rutabaga_resource_create_3d_def resource_create_of_def call_eq new_2d_def
        rutabaga_attach_backing_def rutabaga_context_attach_resource_def some_ctx_def context_defaults_def
        rutabaga_2d_component_def component_defaults_def rutabaga_get_defs put_resource_def
        put_context_def r2d_create_3d_def Let_def
        kq_reply_def sys_def on_world_def)
  then obtain k' where k': "process_message some_kumquat_env 9 ?m some_kumquat_gpu = (Ok (), k')" by blast
  have id: "kg_id_allocator some_kumquat_gpu + 1 = 6" by (simp add: some_kumquat_gpu_def)
  have "can_send ?s" by (simp add: can_send_def answering_world_def some_sys_def)
  moreover have "answered 9 k' ?s [77]"
    using create_3d_Ok [OF k'] by (auto simp: id answered_def answering_world_def)
  ultimately show ?thesis
    using client_server_agree [of ?s 9 k' "[77]" some_kumquat_env 0 "[]" some_kumquat_gpu pixel_3d] k'
    by (auto simp: id Let_def some_client_def simp del: process_message.simps)
qed

section \<open>Sharing between clients\<close>

lemma take_read_mem: "m \<le> n \<Longrightarrow> take m (read_mem mem base n) = read_mem mem base m"
  by (simp add: read_mem_def take_map)

lemma export_writes_id:
  assumes "fmlookup (vq_resources (fst s)) h = Some r"
    and "vgpu_resource_export h VIRTGPU_KUMQUAT_EMULATED_EXPORT s = (Ok page, s')"
    and "mapped_page (w_os (snd s)) page = Ok m"
  shows "le_at 0 4 (read_mem (w_mem (snd s')) (mm_addr m) VIRTGPU_KUMQUAT_PAGE_SIZE) = vr_resource_id r"
    and "fst s' = fst s"
proof -
  obtain clone where clone: "descriptor_try_clone (w_os (snd s)) (os_handle page) = Ok clone"
    "from_safe_descriptor (w_os (snd s)) clone VIRTGPU_KUMQUAT_PAGE_SIZE
       (MAGMA_MAP_CACHE_CACHED OR MAGMA_MAP_ACCESS_RW) = Ok m"
    using assms(3) by (auto simp: mapped_page_def magma_handle_try_clone_def rust_simps)
  then have s': "s' = upd_world (write_at (mm_addr m) 0 (le_bytes 4 (vr_resource_id r))) s"
    using assms(1,2)
    by (auto simp: vgpu_resource_export_def get_bo_def has_flag_def Let_def rust_simps
        as_mesa_mapping_def)
  have "take 4 (read_mem (write_mem (w_mem (snd s)) (mm_addr m) (le_bytes 4 (vr_resource_id r))) (mm_addr m)
      VIRTGPU_KUMQUAT_PAGE_SIZE) = le_bytes 4 (vr_resource_id r)"
    using read_write_mem [of "le_bytes 4 (vr_resource_id r)" "w_mem (snd s)" "mm_addr m"]
    by (simp add: take_read_mem)
  then show "le_at 0 4 (read_mem (w_mem (snd s')) (mm_addr m) VIRTGPU_KUMQUAT_PAGE_SIZE) = vr_resource_id r"
    by (simp add: s' upd_world_def write_at_def le_at_def)
  show "fst s' = fst s" by (simp add: s' upd_world_def)
qed

lemma vgpu_write_Ok:
  assumes "vgpu_write (Cmd (message_bytes p)) s = (Ok (), s')" "message_wf p" "message_fds p = []"
  shows "\<exists>bs. cdw_log (snd s') = cdw_log (snd s) @ [MessageSent (vq_stream (fst s)) bs []] \<and>
    read_messages bs [] = Ok [p]"
proof -
  show ?thesis using write_log [OF assms(1)] read_one_message [OF assms(2)] assms(3)
    by (auto simp: eof_def split: if_splits)
qed

text \<open>What one client does by importing a page and giving the buffer back\<close>

lemma import_unref_requests:
  assumes "mapped_page (w_os (snd s)) handle = Ok m"
    and rid: "le_at 0 4 (read_mem (w_mem (snd s)) (mm_addr m) VIRTGPU_KUMQUAT_PAGE_SIZE) = rid"
    and import: "vgpu_resource_import handle outs s = ((Ok (), h, rid', z), s1)"
    and unref: "vgpu_resource_unref h s1 = (Ok (), s2)"
  shows "rid' = rid \<and> (\<exists>bs1 bs2. cdw_log (snd s2) = cdw_log (snd s) @
        [MessageSent (vq_stream (fst s)) bs1 [], MessageSent (vq_stream (fst s)) bs2 []] \<and>
      read_messages bs1 [] = Ok [CtxAttachResource (ctx_resource_request
        KUMQUAT_GPU_PROTOCOL_CTX_ATTACH_RESOURCE (vq_context_id (fst s)) rid)] \<and>
      read_messages bs2 [] = Ok [CtxDetachResource (ctx_resource_request
        KUMQUAT_GPU_PROTOCOL_CTX_DETACH_RESOURCE (vq_context_id (fst s)) rid)])"
proof -
  obtain o1 o2 o3 where outs: "outs = (o1, o2, o3)" by (cases outs)
  let ?p = "CtxAttachResource (ctx_resource_request
        KUMQUAT_GPU_PROTOCOL_CTX_ATTACH_RESOURCE (vq_context_id (fst s)) rid)"
  let ?q = "CtxDetachResource (ctx_resource_request
        KUMQUAT_GPU_PROTOCOL_CTX_DETACH_RESOURCE (vq_context_id (fst s)) rid)"
  obtain x w where x: "vgpu_write (Cmd (message_bytes ?p)) s = (x, w)"
    by (cases "vgpu_write (Cmd (message_bytes ?p)) s")
  have out: "x = Ok () \<and> rid' = rid \<and> add_bo (virtgpu_resource_new rid VIRTGPU_KUMQUAT_PAGE_SIZE handle
      zero_vulkan_info) w = (h, s1)"
    using import assms(1) rid x
    by (cases x) (auto simp: vgpu_resource_import_def mapped_page_def outs Let_def as_mesa_mapping_def
        split: prod.splits)
  then have bo: "fmlookup (vq_resources (fst s1)) h = Some (virtgpu_resource_new rid
      VIRTGPU_KUMQUAT_PAGE_SIZE handle zero_vulkan_info)" "snd s1 = snd w"
      "vq_context_id (fst s1) = vq_context_id (fst s)" "vq_stream (fst s1) = vq_stream (fst s)"
    using write_same [OF x] by (auto simp: add_bo_def vgpu_allocate_id_def put_bo_def upd_state_def Let_def)
  obtain bs1 where bs1: "cdw_log (snd w) = cdw_log (snd s) @ [MessageSent (vq_stream (fst s)) bs1 []]"
    "read_messages bs1 [] = Ok [?p]"
    using vgpu_write_Ok [of ?p s w] x out by (auto simp: client_defs)
  have "vgpu_write (Cmd (message_bytes ?q))
      (upd_state (\<lambda>st. st\<lparr>vq_resources := fmdrop h (vq_resources st)\<rparr>) s1) = (Ok (), s2)"
    using unref bo by (simp add: vgpu_resource_unref_def get_bo_def Let_def detach_request_def
        upd_state_def virtgpu_resource_new_def)
  from vgpu_write_Ok [OF this] obtain bs2 where "cdw_log (snd s2) = cdw_log (snd w) @
      [MessageSent (vq_stream (fst s)) bs2 []]" "read_messages bs2 [] = Ok [?q]"
    using bo by (auto simp: client_defs upd_state_def)
  then show ?thesis using bs1 out by auto
qed

lemma attach_detach_outcome:
  assumes "process_messages env stream [CtxAttachResource a, CtxDetachResource d] hu k = (Ok hu', k')"
    and "fmlookup (kg_resources k) (kr_resource_id d) = Some res"
  shows "fmlookup (g_resources (kg_rutabaga k')) (kr_resource_id d) = None \<longleftrightarrow>
    kgr_attached_contexts res |\<subseteq>| {|kr_ctx_id d|}"
proof -
  obtain k1 where a: "process_message env stream (CtxAttachResource a) k = (Ok (), k1)"
    and d: "process_message env stream (CtxDetachResource d) k1 = (Ok (), k')"
    using assms(1) by (auto simp: rust_simps simp del: process_message.simps)
  have "kgr_attached_contexts res |-| {|kr_ctx_id d|} = {||} \<longleftrightarrow>
      kgr_attached_contexts res |\<subseteq>| {|kr_ctx_id d|}" by auto
  then show ?thesis
    using detach_message_outcome [OF d, of res] attach_message_keeps [OF a] assms(2)
    by (auto split: if_splits)
qed

text \<open>
  C30. When a shared resource dies with its first user. A client exports one of its buffers by an
  emulated export, another client maps the same page, imports it and gives the import back. The
  resource id passes through the page unchanged, and the second client sends exactly an attach and a
  detach of that resource for its own context. A server that handles the two destroys the resource
  exactly when it had recorded no context but that one for it. This is so for every 3D resource, for which
  none is recorded, although the first client still holds its buffer; it is not so for a blob
  recorded with the context of the first client.
\<close>

theorem shared_resource_lost:
  assumes "fmlookup (vq_resources (fst sA)) hA = Some r"
    and "vgpu_resource_export hA VIRTGPU_KUMQUAT_EMULATED_EXPORT sA = (Ok page, sA')"
    and "mapped_page (w_os (snd sA)) page = Ok mA" and "mapped_page (w_os (snd sB)) pageB = Ok mB"
    and "read_mem (w_mem (snd sB)) (mm_addr mB) VIRTGPU_KUMQUAT_PAGE_SIZE =
      read_mem (w_mem (snd sA')) (mm_addr mA) VIRTGPU_KUMQUAT_PAGE_SIZE"
    and "vgpu_resource_import pageB outs sB = ((Ok (), hB, rid, z), sB1)"
    and "vgpu_resource_unref hB sB1 = (Ok (), sB2)"
    and "fmlookup (kg_resources k) rid = Some res"
  shows "rid = vr_resource_id r \<and>
    (let p = CtxAttachResource (ctx_resource_request KUMQUAT_GPU_PROTOCOL_CTX_ATTACH_RESOURCE
           (vq_context_id (fst sB)) rid);
         q = CtxDetachResource (ctx_resource_request KUMQUAT_GPU_PROTOCOL_CTX_DETACH_RESOURCE
           (vq_context_id (fst sB)) rid)
     in (\<exists>bs1 bs2. cdw_log (snd sB2) = cdw_log (snd sB) @
          [MessageSent (vq_stream (fst sB)) bs1 [], MessageSent (vq_stream (fst sB)) bs2 []] \<and>
          read_messages bs1 [] = Ok [p] \<and> read_messages bs2 [] = Ok [q]) \<and>
        (\<forall>hu k'. process_messages env stream [p, q] False k = (Ok hu, k') \<longrightarrow>
          (fmlookup (g_resources (kg_rutabaga k')) rid = None \<longleftrightarrow>
             kgr_attached_contexts res |\<subseteq>| {|vq_context_id (fst sB)|}))) \<and>
    fmlookup (vq_resources (fst sA')) hA = Some r"
proof -
  have id: "le_at 0 4 (read_mem (w_mem (snd sB)) (mm_addr mB) VIRTGPU_KUMQUAT_PAGE_SIZE) = vr_resource_id r"
    and A: "fst sA' = fst sA"
    using export_writes_id [OF assms(1-3)] assms(5) by auto
  obtain bs1 bs2 where rid: "rid = vr_resource_id r"
    and log: "cdw_log (snd sB2) = cdw_log (snd sB) @
      [MessageSent (vq_stream (fst sB)) bs1 [], MessageSent (vq_stream (fst sB)) bs2 []]"
    and bs: "read_messages bs1 [] = Ok [CtxAttachResource (ctx_resource_request
        KUMQUAT_GPU_PROTOCOL_CTX_ATTACH_RESOURCE (vq_context_id (fst sB)) rid)]"
      "read_messages bs2 [] = Ok [CtxDetachResource (ctx_resource_request
        KUMQUAT_GPU_PROTOCOL_CTX_DETACH_RESOURCE (vq_context_id (fst sB)) rid)]"
    using import_unref_requests [OF assms(4) id assms(6,7)] by auto
  have "fmlookup (g_resources (kg_rutabaga k')) rid = None \<longleftrightarrow>
      kgr_attached_contexts res |\<subseteq>| {|vq_context_id (fst sB)|}"
    if "process_messages env stream [CtxAttachResource (ctx_resource_request
        KUMQUAT_GPU_PROTOCOL_CTX_ATTACH_RESOURCE (vq_context_id (fst sB)) rid),
      CtxDetachResource (ctx_resource_request
        KUMQUAT_GPU_PROTOCOL_CTX_DETACH_RESOURCE (vq_context_id (fst sB)) rid)] False k = (Ok hu, k')"
    for hu k'
    using attach_detach_outcome [OF that, of res] assms(8) by (simp add: ctx_resource_request_def)
  then show ?thesis using rid log bs assms(1) A by (simp add: Let_def del: process_messages.simps)
qed

text \<open>Client 3 shares its buffer 1 with a client of context 2 in the same address space.\<close>

definition sharing_world :: cd_world where
  "sharing_world = write_at 4096 0 (le_bytes 4 (5 :: u32)) some_cd_world"

definition second_client :: virtgpu_kumquat where
  "second_client = some_client\<lparr>vq_context_id := 2, vq_resources := fmempty\<rparr>"

definition sharing_gpu :: "unit kumquat_gpu" where
  "sharing_gpu = some_kumquat_gpu\<lparr>kg_resources := fmupd 5
     \<lparr>kgr_attached_contexts = {||}, kgr_mapping = None\<rparr> fmempty\<rparr>"

lemma shared_resource_lost_witness:
  "\<exists>k'. process_messages some_kumquat_env 9
      [CtxAttachResource (ctx_resource_request KUMQUAT_GPU_PROTOCOL_CTX_ATTACH_RESOURCE 2 5),
       CtxDetachResource (ctx_resource_request KUMQUAT_GPU_PROTOCOL_CTX_DETACH_RESOURCE 2 5)] False
      sharing_gpu = (Ok False, k') \<and>
    fmlookup (g_resources (kg_rutabaga k')) 5 = None"
proof -
  let ?h = "\<lparr>os_handle = 60, handle_type = 1\<rparr>" and ?page = "\<lparr>os_handle = 50, handle_type = 1\<rparr>"
  let ?A = "(some_client, some_cd_world)" and ?B = "(second_client, sharing_world)"
  let ?m = "\<lparr>mm_addr = 4096, mm_size = 4096\<rparr>"
  let ?r = "virtgpu_resource_new 5 64
      \<lparr>os_handle = 30, handle_type = MAGMA_GPU_HANDLE_TYPE_MEM_SHM\<rparr> zero_vulkan_info"
  let ?ps = "[CtxAttachResource (ctx_resource_request KUMQUAT_GPU_PROTOCOL_CTX_ATTACH_RESOURCE 2 5),
       CtxDetachResource (ctx_resource_request KUMQUAT_GPU_PROTOCOL_CTX_DETACH_RESOURCE 2 5)]"
  have os: "os_dup (w_os some_world) d = Inr (d + 100)" "os_memfd (w_os some_world) n = Inr 50"
    "os_mmap (w_os some_world) d off n prot = Inr 4096" for d off n prot
    by (simp_all add: some_world_def)
  note mapping_defs = magma_handle_try_clone_def descriptor_try_clone_def from_safe_descriptor_def
    do_mmap_def os as_mesa_mapping_def
  have bo: "fmlookup (vq_resources (fst ?A)) 1 = Some ?r" by (simp add: some_client_def)
  have export: "vgpu_resource_export 1 VIRTGPU_KUMQUAT_EMULATED_EXPORT ?A =
      (Ok ?page, (some_client, sharing_world))"
    by (simp add: vgpu_resource_export_def get_bo_def some_client_def has_flag_def Let_def
        shared_memory_new_def mapping_defs upd_world_def sharing_world_def virtgpu_resource_new_def)
  have pages: "mapped_page (w_os (snd ?A)) ?page = Ok ?m" "mapped_page (w_os (snd ?B)) ?h = Ok ?m"
    by (simp_all add: mapped_page_def mapping_defs sharing_world_def write_at_def Let_def)
  have id: "le_at 0 4 (read_mem (write_mem (w_mem some_world) 4096 (le_bytes 4 (5 :: u32))) 4096 4096) = (5 :: u32)"
    using export_writes_id(1) [OF bo export pages(1)]
    by (simp add: sharing_world_def write_at_def virtgpu_resource_new_def)
  obtain z sB1 where import: "vgpu_resource_import ?h (0, 0, 0) ?B = ((Ok (), 2, 5, z), sB1)"
    and B1: "fmlookup (vq_resources (fst sB1)) 2 \<noteq> None" "cdw_sys (snd sB1) = some_sys"
    using id
    by (simp add: vgpu_resource_import_def Let_def mapping_defs
        vgpu_write_def in_world_def stream_write_some sharing_world_def write_at_def some_sys_def
        add_bo_def vgpu_allocate_id_def put_bo_def upd_state_def second_client_def some_client_def)
  obtain sB2 where unref: "vgpu_resource_unref 2 sB1 = (Ok (), sB2)"
    using B1 by (auto simp: vgpu_resource_unref_def get_bo_def Let_def detach_request_def vgpu_write_def
        in_world_def upd_state_def stream_write_some some_sys_def)
  have "\<exists>k'. process_messages some_kumquat_env 9 ?ps False sharing_gpu = (Ok False, k')"
    by (simp add: sharing_gpu_def some_kumquat_gpu_def ctx_resource_request_def rut_def
        rutabaga_context_attach_resource_def call_eq new_2d_def ctx_detach_resource_def
        rutabaga_context_detach_resource_def some_ctx_def context_defaults_def
        rutabaga_unref_resource_def c_2d_simps rutabaga_get_defs put_resource_def put_context_def run_def)
  then obtain k' where k': "process_messages some_kumquat_env 9 ?ps False sharing_gpu = (Ok False, k')" by blast
  have "fmlookup (g_resources (kg_rutabaga k')) 5 = None"
    using shared_resource_lost [OF bo export pages _ import unref, of sharing_gpu
        "\<lparr>kgr_attached_contexts = {||}, kgr_mapping = None\<rparr>" some_kumquat_env 9] k'
    by (simp add: Let_def sharing_gpu_def second_client_def del: process_messages.simps) blast
  then show ?thesis using k' by blast
qed

end
