(* ===== verification/C_API.thy ===== *)
theory C_API
  imports Builder Renderer_Utils
begin

text \<open>
  The C interface of the library, \<open>src/ffi/src/lib.rs\<close>: every exported function as an operation on the
  library handle and the statics of the process.

  An exported function runs its body under \<open>catch_unwind\<close>; it returns an \<open>int\<close>, and what the C caller
  reads is in out-parameters, whose old contents are arguments and whose new contents are results. A
  pointer is an option, \<open>None\<close> being null; a pointer to an array is the array it points to, which
  may be longer than the count passed with it. A C string is the list of its bytes before the NUL. A
  call that breaks a rule of Rust about raw pointers is \<open>Undefined\<close>, one whose operation of the library
  never returns is \<open>NoReturn\<close>.

  The text of an error is left out: the debug handler gets the error itself. The debug handler also gets
  the errors that library code logs; which ones an operation logs is a parameter of the process. These
  texts are taken to have no NUL byte, which \<open>CString::new\<close> refuses.
\<close>

section \<open>Outcomes\<close>

datatype 'x c_outcome = Returned 'x | Unwound | NoReturn | Undefined

definition NO_ERROR :: u32 where [simp]: "NO_ERROR = 0"
definition EINVAL :: u32 where [simp]: "EINVAL = 22"
definition ESRCH :: u32 where [simp]: "ESRCH = 3"
definition RUTABAGA_WSI_SURFACELESS :: u64 where [simp]: "RUTABAGA_WSI_SURFACELESS = 1"

definition catch_unwind :: "u32 c_outcome \<times> 's \<Rightarrow> u32 c_outcome \<times> 's" where
  "catch_unwind p =
     (case p of (Returned i, s) \<Rightarrow> (Returned i, s) | (Unwound, s) \<Rightarrow> (Returned (- ESRCH), s)
      | (NoReturn, s) \<Rightarrow> (NoReturn, s) | (Undefined, s) \<Rightarrow> (Undefined, s))"

lemma catch_unwind_simps [simp]:
  "catch_unwind (Returned i, s) = (Returned i, s)"
  "catch_unwind (Unwound, s) = (Returned (- ESRCH), s)"
  "catch_unwind (NoReturn, s) = (NoReturn, s)"
  "catch_unwind (Undefined, s) = (Undefined, s)"
  by (simp_all add: catch_unwind_def)

text \<open>\<open>slice::from_raw_parts\<close>: the pointer must not be null even for no elements.\<close>

definition from_raw_parts :: "'x list option \<Rightarrow> nat \<Rightarrow> 'x list option" where
  "from_raw_parts p n =
     (case p of None \<Rightarrow> None | Some xs \<Rightarrow> if n \<le> length xs then Some (take n xs) else None)"

section \<open>State\<close>

text \<open>A record of the log crate: its level, target and text.\<close>

datatype log_level = LevelError | LevelWarn | LevelInfo | LevelDebug | LevelTrace

fun level_number :: "log_level \<Rightarrow> nat" where
  "level_number LevelError = 1"
| "level_number LevelWarn = 2"
| "level_number LevelInfo = 3"
| "level_number LevelDebug = 4"
| "level_number LevelTrace = 5"

record log_record =
  lr_level :: log_level
  lr_target :: string
  lr_args :: string

text \<open>What the debug handler is called with: the text of an error, or of a log record.\<close>

datatype debug_message = ErrorText rutabaga_error | RecordText string string

text \<open>\<open>S_DEBUG_HANDLER\<close>, set once, whether \<open>LOGGER\<close> is registered at level \<open>Error\<close>, and the calls of the
  handler. A debug handler is named by a number. \<open>library_records n\<close> are the records that are logged
  while the library runs for the \<open>n\<close>-th time.\<close>

record c_process =
  S_DEBUG_HANDLER :: "nat option"
  logger_set :: bool
  debug_calls :: "(nat \<times> debug_message) list"
  library_records :: "nat \<Rightarrow> log_record list"
  library_runs :: nat

record 'a c_state =
  cs_rutabaga :: "'a rutabaga"
  cs_process :: c_process

definition set_debug_handler_once :: "nat \<Rightarrow> c_process \<Rightarrow> c_process" where
  "set_debug_handler_once h p =
     (if S_DEBUG_HANDLER p = None then p\<lparr>S_DEBUG_HANDLER := Some h\<rparr> else p)"

definition register_logger :: "c_process \<Rightarrow> c_process" where
  "register_logger p = p\<lparr>logger_set := True\<rparr>"

definition log_error :: "debug_message \<Rightarrow> c_process \<Rightarrow> c_process" where
  "log_error m p =
     (case S_DEBUG_HANDLER p of None \<Rightarrow> p | Some h \<Rightarrow> p\<lparr>debug_calls := debug_calls p @ [(h, m)]\<rparr>)"

definition log_in :: "rutabaga_error \<Rightarrow> 'a c_state \<Rightarrow> 'a c_state" where
  "log_in e s = s\<lparr>cs_process := log_error (ErrorText e) (cs_process s)\<rparr>"

text \<open>\<open>RutabagaLogger\<close>\<close>

definition logger_enabled :: "log_level \<Rightarrow> bool" where
  "logger_enabled level \<longleftrightarrow> level_number level \<le> level_number LevelError"

definition logger_log :: "log_record \<Rightarrow> c_process \<Rightarrow> c_process" where
  "logger_log r p =
     (if logger_enabled (lr_level r) then log_error (RecordText (lr_target r) (lr_args r)) p else p)"

text \<open>The records reach the logger once it is registered. A call of the library, with its records:\<close>

definition library_ran :: "c_process \<Rightarrow> c_process" where
  "library_ran p =
     (if logger_set p then foldl (\<lambda>p r. logger_log r p) p (library_records p (library_runs p)) else p)
       \<lparr>library_runs := Suc (library_runs p)\<rparr>"

definition run_library ::
  "('a rutabaga \<Rightarrow> 'r \<times> 'a rutabaga) \<Rightarrow> 'a c_state \<Rightarrow> 'r \<times> 'a c_state" where
  "run_library f s =
     (case f (cs_rutabaga s) of
        (r, g) \<Rightarrow> (r, s\<lparr>cs_rutabaga := g, cs_process := library_ran (cs_process s)\<rparr>))"

text \<open>A method with \<open>&self\<close>\<close>

definition ask_library :: "('a rutabaga \<Rightarrow> 'r) \<Rightarrow> 'a c_state \<Rightarrow> 'r \<times> 'a c_state" where
  "ask_library f = run_library (\<lambda>g. (f g, g))"

text \<open>\<open>return_result\<close>, and \<open>return_on_error!\<close>, which goes on with the value.\<close>

definition return_result ::
  "('a rutabaga \<Rightarrow> 't rres \<times> 'a rutabaga) \<Rightarrow> 'a c_state \<Rightarrow> u32 c_outcome \<times> 'a c_state" where
  "return_result f s =
     (case run_library f s of
        (Inr _, s) \<Rightarrow> (Returned NO_ERROR, s)
      | (Inl (Fail e), s) \<Rightarrow> (Returned (- EINVAL), log_in e s)
      | (Inl Panic, s) \<Rightarrow> (Unwound, s)
      | (Inl Hang, s) \<Rightarrow> (NoReturn, s))"

definition return_on_error ::
  "'t rres \<Rightarrow> ('t \<Rightarrow> 'a c_state \<Rightarrow> u32 c_outcome \<times> 'x \<times> 'a c_state) \<Rightarrow> 'x \<Rightarrow> 'a c_state \<Rightarrow>
   u32 c_outcome \<times> 'x \<times> 'a c_state" where
  "return_on_error r k out s =
     (case r of
        Inr t \<Rightarrow> k t s
      | Inl (Fail e) \<Rightarrow> (Returned (- EINVAL), out, log_in e s)
      | Inl Panic \<Rightarrow> (Unwound, out, s)
      | Inl Hang \<Rightarrow> (NoReturn, out, s))"

definition ffi_simple ::
  "('a rutabaga \<Rightarrow> 't rres \<times> 'a rutabaga) \<Rightarrow> 'a c_state \<Rightarrow> u32 c_outcome \<times> 'a c_state" where
  "ffi_simple f s = catch_unwind (return_result f s)"

definition utf8_rres :: "u8 list \<Rightarrow> string rres" where
  "utf8_rres bs = ok_or (MagmaGpuError Utf8Error) (str_from_utf8 bs)"

section \<open>Structs\<close>

record c_handle =
  ch_os_handle :: u64
  ch_handle_type :: u32

record c_mapping =
  cm_ptr :: u64
  cm_size :: u64

record c_iovecs =
  ci_iovecs :: "rutabaga_iovec list option"
  ci_num_iovecs :: u64

record c_command =
  cc_ctx_id :: u32
  cc_cmd_size :: u32
  cc_cmd :: "u8 list option"
  cc_num_in_fences :: u32
  cc_fence_ids :: "u64 list option"

record c_channel =
  cn_channel_name :: "u8 list"
  cn_channel_type :: u32

record c_channels =
  cn_channels :: "c_channel list option"
  cn_num_channels :: u64

record c_builder =
  cb_capset_mask_bits :: u64
  cb_wsi :: u64
  cb_debug_cb :: "nat option"
  cb_channels :: "c_channels option"
  cb_renderer_features :: "u8 list option"

text \<open>The buffer of a transfer: what \<open>iov_base\<close> points to, and \<open>iov_len\<close>.\<close>

type_synonym c_buffer = "u8 list option \<times> u64"

section \<open>Making and finishing a handle\<close>

definition ffi_calculate_capset_mask ::
  "u8 list option \<Rightarrow> u64 \<Rightarrow> c_process \<Rightarrow> u32 c_outcome \<times> u64 \<times> c_process" where
  "ffi_calculate_capset_mask capset_names capset_mask p =
     catch_unwind
       (case capset_names of
          None \<Rightarrow> (Returned (- EINVAL), capset_mask, p)
        | Some c_str \<Rightarrow>
            (case str_from_utf8 c_str of
               None \<Rightarrow> (Returned (- EINVAL), capset_mask, log_error (ErrorText (MagmaGpuError Utf8Error)) p)
             | Some s \<Rightarrow> (Returned NO_ERROR, calculate_capset_mask (split_on (CHR '':'') s), p)))"

fun channel_paths :: "c_channel list \<Rightarrow> rutabaga_path list rres" where
  "channel_paths [] = Ok []"
| "channel_paths (c # cs) =
     and_then (utf8_rres (cn_channel_name c)) (\<lambda>s.
     and_then (channel_paths cs) (\<lambda>ps.
     Ok (\<lparr>path_path = s, path_type = cn_channel_type c\<rparr> # ps)))"

text \<open>The builder of the Rust side, \<open>None\<close> when reading a channel array is undefined.\<close>

definition ffi_builder :: "c_builder \<Rightarrow> rutabaga_builder option rres" where
  "ffi_builder b =
     and_then
       (case cb_channels b of
          None \<Rightarrow> Ok (Some None)
        | Some paths \<Rightarrow>
            (case from_raw_parts (cn_channels paths) (unat (cn_num_channels paths)) of
               None \<Rightarrow> Ok None
             | Some cs \<Rightarrow> and_then (channel_paths cs) (\<lambda>ps. Ok (Some (Some ps))))) (\<lambda>paths.
     case paths of None \<Rightarrow> Ok None | Some rutabaga_paths \<Rightarrow>
     and_then
       (case cb_renderer_features b of
          None \<Rightarrow> Ok None | Some f \<Rightarrow> and_then (utf8_rres f) (\<lambda>s. Ok (Some s))) (\<lambda>features.
     Ok (Some
       (set_renderer_features features
        (set_rutabaga_paths rutabaga_paths
         (set_debug_handler (cb_debug_cb b)
          (set_wsi Surfaceless
           (set_use_egl True
            (set_use_external_blob False
             (set_default_component
                (if cb_capset_mask_bits b = 0 then Rutabaga2D else NoneSelected)
                (builder_new (cb_capset_mask_bits b))))))))))))"

definition ffi_init ::
  "'a build_env \<Rightarrow> c_builder \<Rightarrow> 'a rutabaga option \<Rightarrow> 'a world_scheme \<Rightarrow> c_process \<Rightarrow>
   u32 c_outcome \<times> 'a rutabaga option \<times> 'a world_scheme \<times> c_process" where
  "ffi_init env b ptr w p =
     (let p = (case cb_debug_cb b of
                 None \<Rightarrow> p | Some h \<Rightarrow> register_logger (set_debug_handler_once h p)) in
      catch_unwind
        (case ffi_builder b of
           Inl (Fail e) \<Rightarrow> (Returned (- EINVAL), ptr, w, log_error (ErrorText e) p)
         | Inl Panic \<Rightarrow> (Unwound, ptr, w, p)
         | Inl Hang \<Rightarrow> (NoReturn, ptr, w, p)
         | Inr None \<Rightarrow> (Undefined, ptr, w, p)
         | Inr (Some builder) \<Rightarrow>
             if cb_wsi b \<noteq> RUTABAGA_WSI_SURFACELESS then (Returned (- EINVAL), ptr, w, p)
             else
               case rutabaga_build env builder w of
                 (Inl (Fail e), w) \<Rightarrow>
                   (Returned (- EINVAL), ptr, w, log_error (ErrorText e) (library_ran p))
               | (Inl Panic, w) \<Rightarrow> (Unwound, ptr, w, library_ran p)
               | (Inl Hang, w) \<Rightarrow> (NoReturn, ptr, w, library_ran p)
               | (Inr rtbg, w) \<Rightarrow> (Returned NO_ERROR, Some rtbg, w, library_ran p)))"

text \<open>A null handle must not be finished.\<close>

definition ffi_finish ::
  "'a rutabaga option \<Rightarrow> 'a world_scheme \<Rightarrow> c_process \<Rightarrow>
   u32 c_outcome \<times> 'a rutabaga option \<times> 'a world_scheme \<times> c_process"
where
  "ffi_finish ptr w p =
     catch_unwind
       (case ptr of
          None \<Rightarrow> (Undefined, None, w, p)
        | Some g \<Rightarrow> (Returned NO_ERROR, None, rutabaga_drop g, library_ran p))"

section \<open>Capability sets\<close>

definition ffi_get_num_capsets :: "u32 \<Rightarrow> 'a c_state \<Rightarrow> u32 c_outcome \<times> u32 \<times> 'a c_state" where
  "ffi_get_num_capsets num_capsets s =
     catch_unwind
       (case ask_library rutabaga_get_num_capsets s of (n, s) \<Rightarrow> (Returned NO_ERROR, n, s))"

definition ffi_get_capset_info ::
  "u32 \<Rightarrow> u32 \<times> u32 \<times> u32 \<Rightarrow> 'a c_state \<Rightarrow> u32 c_outcome \<times> (u32 \<times> u32 \<times> u32) \<times> 'a c_state" where
  "ffi_get_capset_info capset_index out s =
     catch_unwind
       (case ask_library (rutabaga_get_capset_info capset_index) s of
          (r, s) \<Rightarrow> return_on_error r (\<lambda>info s. (Returned NO_ERROR, info, s)) out s)"

text \<open>\<open>copy_nonoverlapping\<close> of \<open>capset_size\<close> bytes from the capset, whatever its length.\<close>

definition ffi_get_capset ::
  "u32 \<Rightarrow> u32 \<Rightarrow> u8 list \<Rightarrow> u32 \<Rightarrow> 'a c_state \<Rightarrow> u32 c_outcome \<times> u8 list \<times> 'a c_state" where
  "ffi_get_capset cid version capset capset_size s =
     catch_unwind
       (case ask_library (rutabaga_get_capset cid version) s of
          (r, s) \<Rightarrow>
            return_on_error r
              (\<lambda>vec s.
                if unat capset_size \<le> length vec \<and> unat capset_size \<le> length capset
                then (Returned NO_ERROR,
                      take (unat capset_size) vec @ drop (unat capset_size) capset, s)
                else (Undefined, capset, s)) capset s)"

section \<open>Contexts\<close>

definition ffi_context_name :: "u8 list option \<Rightarrow> u32 \<Rightarrow> string option option" where
  "ffi_context_name context_name context_name_len =
     (if context_name \<noteq> None \<and> context_name_len > 0
      then map_option str_from_utf8 (from_raw_parts context_name (unat context_name_len))
      else Some None)"

definition ffi_context_create ::
  "u32 \<Rightarrow> u32 \<Rightarrow> u8 list option \<Rightarrow> u32 \<Rightarrow> 'a c_state \<Rightarrow> u32 c_outcome \<times> 'a c_state" where
  "ffi_context_create ctx_id context_init context_name context_name_len s =
     (case ffi_context_name context_name context_name_len of
        None \<Rightarrow> (Undefined, s)
      | Some name \<Rightarrow> ffi_simple (rutabaga_create_context ctx_id context_init name) s)"

definition ffi_context_destroy :: "u32 \<Rightarrow> 'a c_state \<Rightarrow> u32 c_outcome \<times> 'a c_state" where
  "ffi_context_destroy ctx_id = ffi_simple (rutabaga_destroy_context ctx_id)"

definition ffi_context_attach_resource :: "u32 \<Rightarrow> u32 \<Rightarrow> 'a c_state \<Rightarrow> u32 c_outcome \<times> 'a c_state" where
  "ffi_context_attach_resource ctx_id resource_id =
     ffi_simple (rutabaga_context_attach_resource ctx_id resource_id)"

definition ffi_context_detach_resource :: "u32 \<Rightarrow> u32 \<Rightarrow> 'a c_state \<Rightarrow> u32 c_outcome \<times> 'a c_state" where
  "ffi_context_detach_resource ctx_id resource_id =
     ffi_simple (rutabaga_context_detach_resource ctx_id resource_id)"

section \<open>Resources\<close>

definition ffi_resource_create_3d ::
  "u32 \<Rightarrow> resource_create_3d \<Rightarrow> 'a c_state \<Rightarrow> u32 c_outcome \<times> 'a c_state" where
  "ffi_resource_create_3d resource_id create_3d =
     ffi_simple (rutabaga_resource_create_3d resource_id create_3d)"

text \<open>A raw descriptor is the low half of the 64-bit handle.\<close>

definition ffi_internal_handle :: "c_handle \<Rightarrow> rutabaga_handle rres" where
  "ffi_internal_handle h =
     and_then (from_raw_descriptor (ucast (ch_os_handle h))) (\<lambda>d.
       Ok (MagmaGpuHandle \<lparr>os_handle = d, handle_type = ch_handle_type h\<rparr>))"

definition ffi_resource_import ::
  "u32 \<Rightarrow> c_handle \<Rightarrow> rutabaga_import_data \<Rightarrow> 'a c_state \<Rightarrow> u32 c_outcome \<times> 'a c_state" where
  "ffi_resource_import resource_id import_handle import_data =
     ffi_simple (\<lambda>g.
       and_then_st (ffi_internal_handle import_handle, g) (\<lambda>internal_handle g.
       rutabaga_resource_import resource_id internal_handle import_data g))"

definition ffi_resource_attach_backing ::
  "u32 \<Rightarrow> c_iovecs \<Rightarrow> 'a c_state \<Rightarrow> u32 c_outcome \<times> 'a c_state" where
  "ffi_resource_attach_backing resource_id iovecs s =
     (case from_raw_parts (ci_iovecs iovecs) (unat (ci_num_iovecs iovecs)) of
        None \<Rightarrow> (Undefined, s)
      | Some vecs \<Rightarrow> ffi_simple (rutabaga_attach_backing resource_id vecs) s)"

definition ffi_resource_detach_backing :: "u32 \<Rightarrow> 'a c_state \<Rightarrow> u32 c_outcome \<times> 'a c_state" where
  "ffi_resource_detach_backing resource_id = ffi_simple (rutabaga_detach_backing resource_id)"

text \<open>The buffer of a read: what it points to afterwards is the result; bytes after \<open>iov_len\<close> stay.\<close>

definition ffi_buffer :: "c_buffer option \<Rightarrow> u8 list option option" where
  "ffi_buffer buf =
     (case buf of
        None \<Rightarrow> Some None
      | Some (base, len) \<Rightarrow> map_option Some (from_raw_parts base (unat len)))"

definition ffi_resource_transfer_read ::
  "u32 \<Rightarrow> u32 \<Rightarrow> transfer_3d \<Rightarrow> c_buffer option \<Rightarrow> 'a c_state \<Rightarrow>
   u32 c_outcome \<times> u8 list option \<times> 'a c_state" where
  "ffi_resource_transfer_read ctx_id resource_id transfer buf s =
     (case ffi_buffer buf of
        None \<Rightarrow> (Undefined, None, s)
      | Some slice_opt \<Rightarrow>
          (case rutabaga_transfer_read ctx_id resource_id transfer slice_opt (cs_rutabaga s) of
             ((r, slice_opt), g) \<Rightarrow>
               (case ffi_simple (\<lambda>_. (r, g)) s of (ret, s) \<Rightarrow> (ret, slice_opt, s))))"

definition ffi_resource_transfer_write ::
  "u32 \<Rightarrow> u32 \<Rightarrow> transfer_3d \<Rightarrow> 'a c_state \<Rightarrow> u32 c_outcome \<times> 'a c_state" where
  "ffi_resource_transfer_write ctx_id resource_id transfer =
     ffi_simple (rutabaga_transfer_write ctx_id resource_id transfer None)"

definition ffi_resource_transfer_write_goldfish ::
  "u32 \<Rightarrow> u32 \<Rightarrow> transfer_3d \<Rightarrow> c_buffer option \<Rightarrow> 'a c_state \<Rightarrow> u32 c_outcome \<times> 'a c_state" where
  "ffi_resource_transfer_write_goldfish ctx_id resource_id transfer buf s =
     (case ffi_buffer buf of
        None \<Rightarrow> (Undefined, s)
      | Some slice_opt \<Rightarrow>
          ffi_simple (rutabaga_transfer_write ctx_id resource_id transfer slice_opt) s)"

text \<open>Unlike for \<open>attach_backing\<close>, a null array of no iovecs is allowed.\<close>

definition ffi_iovecs_opt :: "c_iovecs option \<Rightarrow> rutabaga_iovec list option option" where
  "ffi_iovecs_opt iovecs =
     (case iovecs of
        None \<Rightarrow> Some None
      | Some iovs \<Rightarrow>
          map_option Some
            (if ci_num_iovecs iovs \<noteq> 0
             then from_raw_parts (ci_iovecs iovs) (unat (ci_num_iovecs iovs)) else Some []))"

definition ffi_resource_create_blob ::
  "u32 \<Rightarrow> u32 \<Rightarrow> resource_create_blob \<Rightarrow> c_iovecs option \<Rightarrow> c_handle option \<Rightarrow> 'a c_state \<Rightarrow>
   u32 c_outcome \<times> 'a c_state" where
  "ffi_resource_create_blob ctx_id resource_id create_blob iovecs handle s =
     (case ffi_iovecs_opt iovecs of
        None \<Rightarrow> (Undefined, s)
      | Some iovecs_opt \<Rightarrow>
          ffi_simple (\<lambda>g.
            and_then_st
              (case handle of
                 None \<Rightarrow> Ok None
               | Some hnd \<Rightarrow> and_then (ffi_internal_handle hnd) (\<lambda>h. Ok (Some h)), g)
              (\<lambda>handle_opt g.
            rutabaga_resource_create_blob ctx_id resource_id create_blob iovecs_opt handle_opt g)) s)"

definition ffi_resource_unref :: "u32 \<Rightarrow> 'a c_state \<Rightarrow> u32 c_outcome \<times> 'a c_state" where
  "ffi_resource_unref resource_id = ffi_simple (rutabaga_unref_resource resource_id)"

definition ffi_resource_export_blob ::
  "u32 \<Rightarrow> c_handle \<Rightarrow> 'a c_state \<Rightarrow> u32 c_outcome \<times> c_handle \<times> 'a c_state" where
  "ffi_resource_export_blob resource_id handle s =
     catch_unwind
       (case run_library (rutabaga_export_blob resource_id) s of
          (r, s) \<Rightarrow>
            return_on_error r
              (\<lambda>hnd. return_on_error (from_magma (magma_handle_try_from hnd))
                (\<lambda>hnd s.
                  (Returned NO_ERROR,
                   \<lparr>ch_os_handle = scast (of_nat (os_handle hnd) :: u32),
                    ch_handle_type = handle_type hnd\<rparr>, s)) handle)
              handle s)"

definition ffi_resource_map ::
  "u32 \<Rightarrow> c_mapping \<Rightarrow> 'a c_state \<Rightarrow> u32 c_outcome \<times> c_mapping \<times> 'a c_state" where
  "ffi_resource_map resource_id mapping s =
     catch_unwind
       (case run_library (rutabaga_map resource_id) s of
          (r, s) \<Rightarrow>
            return_on_error r
              (\<lambda>internal_map s.
                (Returned NO_ERROR,
                 \<lparr>cm_ptr = mesa_ptr internal_map, cm_size = mesa_size internal_map\<rparr>, s))
              mapping s)"

definition ffi_resource_unmap :: "u32 \<Rightarrow> 'a c_state \<Rightarrow> u32 c_outcome \<times> 'a c_state" where
  "ffi_resource_unmap resource_id = ffi_simple (rutabaga_unmap resource_id)"

definition ffi_resource_map_info ::
  "u32 \<Rightarrow> u32 \<Rightarrow> 'a c_state \<Rightarrow> u32 c_outcome \<times> u32 \<times> 'a c_state" where
  "ffi_resource_map_info resource_id map_info s =
     catch_unwind
       (case ask_library (rutabaga_map_info resource_id) s of
          (r, s) \<Rightarrow> return_on_error r (\<lambda>map_info s. (Returned NO_ERROR, map_info, s)) map_info s)"

section \<open>Commands, fences, snapshots\<close>

text \<open>The command buffer is passed mutably: what it holds afterwards is a result.\<close>

definition ffi_submit_command ::
  "c_command \<Rightarrow> 'a c_state \<Rightarrow> u32 c_outcome \<times> u8 list \<times> 'a c_state" where
  "ffi_submit_command cmd s =
     (case (if cc_cmd_size cmd \<noteq> 0 then from_raw_parts (cc_cmd cmd) (unat (cc_cmd_size cmd))
            else Some [],
            if cc_num_in_fences cmd \<noteq> 0
            then from_raw_parts (cc_fence_ids cmd) (unat (cc_num_in_fences cmd)) else Some []) of
        (Some cmd_slice, Some fence_ids) \<Rightarrow>
          (case rutabaga_submit_command (cc_ctx_id cmd) cmd_slice fence_ids (cs_rutabaga s) of
             ((r, cmd_slice), g) \<Rightarrow>
               (case ffi_simple (\<lambda>_. (r, g)) s of (ret, s) \<Rightarrow> (ret, cmd_slice, s)))
      | _ \<Rightarrow> (Undefined, [], s))"

definition ffi_create_fence :: "rutabaga_fence \<Rightarrow> 'a c_state \<Rightarrow> u32 c_outcome \<times> 'a c_state" where
  "ffi_create_fence fence = ffi_simple (rutabaga_create_fence fence)"

text \<open>\<open>Path::new\<close>: the names of a path.\<close>

definition path_new :: "string \<Rightarrow> path" where
  "path_new s = filter (\<lambda>name. name \<noteq> '''' \<and> name \<noteq> ''.'') (split_on (CHR ''/'') s)"

definition ffi_snapshot ::
  "(rutabaga_snapshot \<Rightarrow> u8 list) \<Rightarrow> u8 list \<Rightarrow> 'a c_state \<Rightarrow> u32 c_outcome \<times> 'a c_state" where
  "ffi_snapshot ser dir =
     ffi_simple (\<lambda>g.
       and_then_st (utf8_rres dir, g) (\<lambda>directory g. rutabaga_snapshot ser (path_new directory) g))"

definition ffi_restore ::
  "(u8 list \<Rightarrow> rutabaga_snapshot option) \<Rightarrow> u8 list \<Rightarrow> 'a c_state \<Rightarrow> u32 c_outcome \<times> 'a c_state"
where
  "ffi_restore de dir =
     ffi_simple (\<lambda>g.
       and_then_st (utf8_rres dir, g) (\<lambda>directory g. rutabaga_restore de (path_new directory) g))"

end
