(* ===== verification/C_API_Properties.thy ===== *)
theory C_API_Properties
  imports C_API Core_Properties Virgl_Renderer Gfxstream Magma_Component CD_Component
begin

text \<open>
  Properties of the C interface: one call of it is at most one operation of the library; the returned
  \<open>int\<close> tells how the operation ended; and what a caller has to obey for a call to be defined.
\<close>

section \<open>Calls\<close>

text \<open>A call on a handle, with its arguments and the old contents of its out-parameters.\<close>

datatype c_call =
    CGetNumCapsets u32
  | CGetCapsetInfo u32 "u32 \<times> u32 \<times> u32"
  | CGetCapset u32 u32 "u8 list" u32
  | CContextCreate u32 u32 "u8 list option" u32
  | CContextDestroy u32
  | CContextAttachResource u32 u32
  | CContextDetachResource u32 u32
  | CResourceCreate3d u32 resource_create_3d
  | CResourceImport u32 c_handle rutabaga_import_data
  | CResourceAttachBacking u32 c_iovecs
  | CResourceDetachBacking u32
  | CResourceTransferRead u32 u32 transfer_3d "c_buffer option"
  | CResourceTransferWrite u32 u32 transfer_3d
  | CResourceTransferWriteGoldfish u32 u32 transfer_3d "c_buffer option"
  | CResourceCreateBlob u32 u32 resource_create_blob "c_iovecs option" "c_handle option"
  | CResourceUnref u32
  | CResourceExportBlob u32 c_handle
  | CResourceMap u32 c_mapping
  | CResourceUnmap u32
  | CResourceMapInfo u32 u32
  | CSubmitCommand c_command
  | CCreateFence rutabaga_fence
  | CSnapshot "u8 list"
  | CRestore "u8 list"

text \<open>The returned \<open>int\<close> and the state after a call, without its out-parameters.\<close>

definition drop_out :: "'o \<times> 'x \<times> 's \<Rightarrow> 'o \<times> 's" where
  "drop_out p = (case p of (out, x, s) \<Rightarrow> (out, s))"

fun ffi_call ::
  "(rutabaga_snapshot \<Rightarrow> u8 list) \<Rightarrow> (u8 list \<Rightarrow> rutabaga_snapshot option) \<Rightarrow> c_call \<Rightarrow>
   'a c_state \<Rightarrow> u32 c_outcome \<times> 'a c_state" where
  "ffi_call ser de (CGetNumCapsets n) s = drop_out (ffi_get_num_capsets n s)"
| "ffi_call ser de (CGetCapsetInfo i out) s = drop_out (ffi_get_capset_info i out s)"
| "ffi_call ser de (CGetCapset i v buf n) s = drop_out (ffi_get_capset i v buf n s)"
| "ffi_call ser de (CContextCreate x ini nm n) s = ffi_context_create x ini nm n s"
| "ffi_call ser de (CContextDestroy x) s = ffi_context_destroy x s"
| "ffi_call ser de (CContextAttachResource x i) s = ffi_context_attach_resource x i s"
| "ffi_call ser de (CContextDetachResource x i) s = ffi_context_detach_resource x i s"
| "ffi_call ser de (CResourceCreate3d i c) s = ffi_resource_create_3d i c s"
| "ffi_call ser de (CResourceImport i h d) s = ffi_resource_import i h d s"
| "ffi_call ser de (CResourceAttachBacking i v) s = ffi_resource_attach_backing i v s"
| "ffi_call ser de (CResourceDetachBacking i) s = ffi_resource_detach_backing i s"
| "ffi_call ser de (CResourceTransferRead x i t b) s = drop_out (ffi_resource_transfer_read x i t b s)"
| "ffi_call ser de (CResourceTransferWrite x i t) s = ffi_resource_transfer_write x i t s"
| "ffi_call ser de (CResourceTransferWriteGoldfish x i t b) s =
     ffi_resource_transfer_write_goldfish x i t b s"
| "ffi_call ser de (CResourceCreateBlob x i c v h) s = ffi_resource_create_blob x i c v h s"
| "ffi_call ser de (CResourceUnref i) s = ffi_resource_unref i s"
| "ffi_call ser de (CResourceExportBlob i h) s = drop_out (ffi_resource_export_blob i h s)"
| "ffi_call ser de (CResourceMap i m) s = drop_out (ffi_resource_map i m s)"
| "ffi_call ser de (CResourceUnmap i) s = ffi_resource_unmap i s"
| "ffi_call ser de (CResourceMapInfo i m) s = drop_out (ffi_resource_map_info i m s)"
| "ffi_call ser de (CSubmitCommand c) s = drop_out (ffi_submit_command c s)"
| "ffi_call ser de (CCreateFence f) s = ffi_create_fence f s"
| "ffi_call ser de (CSnapshot d) s = ffi_snapshot ser d s"
| "ffi_call ser de (CRestore d) s = ffi_restore de d s"

text \<open>The rules of the header of each function, and of Rust for arrays.\<close>

fun array_ok :: "'x list option \<Rightarrow> nat \<Rightarrow> bool" where
  "array_ok None n \<longleftrightarrow> False"
| "array_ok (Some xs) n \<longleftrightarrow> n \<le> length xs"

fun pointers_ok :: "c_call \<Rightarrow> bool" where
  "pointers_ok (CGetCapset i v buf n) \<longleftrightarrow> unat n \<le> length buf"
| "pointers_ok (CContextCreate x ini nm n) \<longleftrightarrow> nm = None \<or> array_ok nm (unat n)"
| "pointers_ok (CResourceAttachBacking i v) \<longleftrightarrow> array_ok (ci_iovecs v) (unat (ci_num_iovecs v))"
| "pointers_ok (CResourceTransferRead x i t (Some (base, len))) \<longleftrightarrow> array_ok base (unat len)"
| "pointers_ok (CResourceTransferWriteGoldfish x i t (Some (base, len))) \<longleftrightarrow> array_ok base (unat len)"
| "pointers_ok (CResourceCreateBlob x i c (Some v) h) \<longleftrightarrow>
     ci_num_iovecs v = 0 \<or> array_ok (ci_iovecs v) (unat (ci_num_iovecs v))"
| "pointers_ok (CSubmitCommand c) \<longleftrightarrow>
     (cc_cmd_size c = 0 \<or> array_ok (cc_cmd c) (unat (cc_cmd_size c))) \<and>
     (cc_num_in_fences c = 0 \<or> array_ok (cc_fence_ids c) (unat (cc_num_in_fences c)))"
| "pointers_ok _ \<longleftrightarrow> True"

lemma from_raw_parts_eq_None [simp]: "from_raw_parts p n = None \<longleftrightarrow> \<not> array_ok p n"
  by (cases p) (auto simp: from_raw_parts_def)

section \<open>How a call ends\<close>

text \<open>The debug calls for the log records of the next operation\<close>

definition forwarded :: "c_process \<Rightarrow> (nat \<times> debug_message) list" where
  "forwarded p =
     (case S_DEBUG_HANDLER p of
        None \<Rightarrow> []
      | Some h \<Rightarrow>
          if logger_set p
          then map (\<lambda>r. (h, RecordText (lr_target r) (lr_args r)))
            (filter (\<lambda>r. lr_level r = LevelError) (library_records p (library_runs p)))
          else [])"

lemma logger_enabled_iff: "logger_enabled level \<longleftrightarrow> level = LevelError"
  by (cases level) (simp_all add: logger_enabled_def)

lemma logger_fields [simp]:
  "S_DEBUG_HANDLER (log_error m p) = S_DEBUG_HANDLER p"
  "S_DEBUG_HANDLER (foldl (\<lambda>p r. logger_log r p) p rs) = S_DEBUG_HANDLER p"
  by (induction rs arbitrary: p) (auto simp: logger_log_def log_error_def split: option.split)

lemma logged_records:
  "debug_calls (foldl (\<lambda>p r. logger_log r p) p rs) = debug_calls p @
     (case S_DEBUG_HANDLER p of
        None \<Rightarrow> []
      | Some h \<Rightarrow> map (\<lambda>r. (h, RecordText (lr_target r) (lr_args r)))
          (filter (\<lambda>r. lr_level r = LevelError) rs))"
  by (induction rs arbitrary: p)
    (auto simp: logger_log_def logger_enabled_iff log_error_def split: option.split)

lemma library_ran_fields [simp]:
  "S_DEBUG_HANDLER (library_ran p) = S_DEBUG_HANDLER p"
  "debug_calls (library_ran p) = debug_calls p @ forwarded p"
  by (auto simp: library_ran_def forwarded_def logged_records split: option.split)

text \<open>A call that ended: the library made a step or none, and after the records it logged the debug
  handler was told of an error exactly when the call returns \<open>-EINVAL\<close>.\<close>

definition makes_call :: "'a rutabaga \<Rightarrow> 'a rutabaga \<Rightarrow> bool" where
  "makes_call g g' \<longleftrightarrow> (\<exists>fp. rutabaga_call g fp g')"

text \<open>What a call does to the library: a restore reads the files, any other call is an operation.\<close>

fun library_step ::
  "(u8 list \<Rightarrow> rutabaga_snapshot option) \<Rightarrow> c_call \<Rightarrow> 'a rutabaga \<Rightarrow> 'a rutabaga \<Rightarrow> bool" where
  "library_step de (CRestore dir) g g' \<longleftrightarrow>
     g' = g \<or> (\<exists>directory. utf8_rres dir = Ok directory \<and>
       g' = snd (rutabaga_restore de (path_new directory) g))"
| "library_step de _ g g' \<longleftrightarrow> makes_call g g'"

definition told :: "c_process \<Rightarrow> c_process \<Rightarrow> bool" where
  "told p p' \<longleftrightarrow> (\<exists>e. p' = log_error (ErrorText e) (library_ran p))"

definition ended_well ::
  "('a rutabaga \<Rightarrow> 'a rutabaga \<Rightarrow> bool) \<Rightarrow> 'a c_state \<Rightarrow> u32 c_outcome \<times> 'a c_state \<Rightarrow> bool" where
  "ended_well R s p \<longleftrightarrow>
     R (cs_rutabaga s) (cs_rutabaga (snd p)) \<and>
     (case fst p of
        Returned i \<Rightarrow>
          (i = NO_ERROR \<or> i = - ESRCH) \<and> cs_process (snd p) = library_ran (cs_process s) \<or>
          i = - EINVAL \<and> told (cs_process s) (cs_process (snd p))
      | NoReturn \<Rightarrow> cs_process (snd p) = library_ran (cs_process s)
      | Unwound \<Rightarrow> False
      | Undefined \<Rightarrow> cs_rutabaga (snd p) = cs_rutabaga s \<and>
          cs_process (snd p) \<in> {cs_process s, library_ran (cs_process s)})"

lemma told_calls:
  assumes "told p p'"
  shows "S_DEBUG_HANDLER p' = S_DEBUG_HANDLER p"
    and "\<exists>e. debug_calls p' = debug_calls p @ forwarded p @
      (case S_DEBUG_HANDLER p of None \<Rightarrow> [] | Some h \<Rightarrow> [(h, ErrorText e)])"
  using assms by (auto simp: told_def log_error_def split: option.split)

lemma no_call [simp]: "makes_call g g"
proof -
  have "rutabaga_call g ({}, {}) (g\<lparr>g_world := g_world g\<rparr>)" by (rule op_world)
  then show ?thesis unfolding makes_call_def by auto
qed

lemma makes_call: "rutabaga_call g fp g' \<Longrightarrow> makes_call g g'"
  unfolding makes_call_def by (rule exI)

lemma call_steps: "makes_call g g' \<Longrightarrow> \<exists>fp. rutabaga_step g fp g'"
  unfolding makes_call_def by (blast intro: step_call)

lemma library_step_steps: "library_step de cl g g' \<Longrightarrow> \<exists>fp. rutabaga_step g fp g'"
  using call_steps [OF no_call, of g]
  by (cases cl) (fastforce simp: simp del: split_paired_Ex intro: call_steps step_restore)+

lemmas library_calls =
  op_create_context [THEN makes_call] op_destroy_context [THEN makes_call]
  op_attach [THEN makes_call] op_detach [THEN makes_call] op_create_3d [THEN makes_call]
  op_import [THEN makes_call] op_attach_backing [THEN makes_call]
  op_detach_backing [THEN makes_call] op_transfer_read [THEN makes_call]
  op_transfer_write [THEN makes_call] op_create_blob [THEN makes_call]
  op_unref [THEN makes_call] op_export_blob [THEN makes_call] op_map [THEN makes_call]
  op_unmap [THEN makes_call] op_submit [THEN makes_call] op_create_fence [THEN makes_call]
  op_snapshot [THEN makes_call]

lemma run_library_eq:
  "run_library f s = (fst (f (cs_rutabaga s)),
     s\<lparr>cs_rutabaga := snd (f (cs_rutabaga s)), cs_process := library_ran (cs_process s)\<rparr>)"
  "ask_library f' s = (f' (cs_rutabaga s), s\<lparr>cs_process := library_ran (cs_process s)\<rparr>)"
  by (cases s; simp add: ask_library_def run_library_def case_prod_unfold)+

lemma ffi_simple_ended:
  assumes "R (cs_rutabaga s) (snd (f (cs_rutabaga s)))"
  shows "ended_well R s (ffi_simple f s)"
  using assms
  by (auto simp: ended_well_def ffi_simple_def return_result_def run_library_eq log_in_def told_def
      split: sum.splits fault.splits)

lemma ended_undefined [simp]:
  "ended_well makes_call s (Undefined, s)"
  "ended_well makes_call s (drop_out (Undefined, x, s))"
  "ended_well makes_call s (drop_out (Undefined, x, s\<lparr>cs_process := library_ran (cs_process s)\<rparr>))"
  by (simp_all add: ended_well_def drop_out_def)

lemma ended_drop_out [simp]: "ended_well R s (drop_out (fst p, y, snd p)) = ended_well R s p"
  by (simp add: drop_out_def)

lemma return_on_error_ended:
  assumes "R (cs_rutabaga s0) (cs_rutabaga s)"
    and "cs_process s = library_ran (cs_process s0)"
    and "\<And>t. r = Inr t \<Longrightarrow> ended_well R s0 (drop_out (catch_unwind (k t s)))"
  shows "ended_well R s0 (drop_out (catch_unwind (return_on_error r k out s)))"
  using assms
  by (auto simp: return_on_error_def ended_well_def drop_out_def log_in_def told_def
      split: sum.splits fault.splits)

lemma returned_ended:
  "R (cs_rutabaga s0) (cs_rutabaga s) \<Longrightarrow> cs_process s = library_ran (cs_process s0) \<Longrightarrow>
   ended_well R s0 (drop_out (Returned 0, x, s))"
  by (simp add: ended_well_def drop_out_def)

lemma call_or_none:
  assumes "\<And>x. r = Inr x \<Longrightarrow> makes_call g (snd (f x g))"
  shows "makes_call g (snd (and_then_st (r, g) f))"
  using assms by (cases r) auto

lemmas ffi_calls =
  ffi_get_num_capsets_def ffi_get_capset_info_def ffi_get_capset_def ffi_context_create_def
  ffi_context_destroy_def ffi_context_attach_resource_def ffi_context_detach_resource_def
  ffi_resource_create_3d_def ffi_resource_import_def ffi_resource_attach_backing_def
  ffi_resource_detach_backing_def ffi_resource_transfer_read_def ffi_resource_transfer_write_def
  ffi_resource_transfer_write_goldfish_def ffi_resource_create_blob_def ffi_resource_unref_def
  ffi_resource_export_blob_def ffi_resource_map_def ffi_resource_unmap_def
  ffi_resource_map_info_def ffi_submit_command_def ffi_create_fence_def ffi_snapshot_def
  ffi_restore_def

lemma ffi_call_ended: "ended_well (library_step de cl) s (ffi_call ser de cl s)"
proof (cases "\<exists>dir. cl = CRestore dir")
  case True
  then show ?thesis
    by (auto simp: ffi_restore_def and_then_st_def intro!: ffi_simple_ended split: sum.split)
next
  case False
  then have "library_step de cl = (makes_call :: 'a rutabaga \<Rightarrow> _)" by (cases cl) (auto simp: fun_eq_iff)
  with False show ?thesis
    by (cases cl)
      (auto simp: ffi_calls run_library_eq case_prod_unfold split: option.split
        intro!: ffi_simple_ended return_on_error_ended returned_ended call_or_none library_calls)
qed

text \<open>
  C38. What a caller of the C interface learns from the returned \<open>int\<close>. A call on a handle lets the
  library make at most one step and never unwinds into C. It returns 0, or \<open>-ESRCH\<close> for a panic, or
  never, because the library does not, with nothing told to the debug handler but the errors that
  the library logged meanwhile; or it returns \<open>-EINVAL\<close> after telling the handler of one more error; or
  it is undefined and has left the library alone.
\<close>

theorem ffi_call_outcome:
  assumes "ffi_call ser de cl s = (out, s')"
  shows "(\<exists>fp. rutabaga_step (cs_rutabaga s) fp (cs_rutabaga s')) \<and>
    S_DEBUG_HANDLER (cs_process s') = S_DEBUG_HANDLER (cs_process s) \<and>
    (out \<in> {Returned 0, Returned (- ESRCH), NoReturn} \<and>
       debug_calls (cs_process s') = debug_calls (cs_process s) @ forwarded (cs_process s) \<or>
     out = Returned (- EINVAL) \<and>
       (\<exists>e. debug_calls (cs_process s') =
          debug_calls (cs_process s) @ forwarded (cs_process s) @
          (case S_DEBUG_HANDLER (cs_process s) of None \<Rightarrow> [] | Some h \<Rightarrow> [(h, ErrorText e)])) \<or>
     out = Undefined \<and> cs_rutabaga s' = cs_rutabaga s)"
proof -
  have "ended_well (library_step de cl) s (out, s')" using ffi_call_ended assms by metis
  moreover from this have "\<exists>fp. rutabaga_step (cs_rutabaga s) fp (cs_rutabaga s')"
    by (intro library_step_steps [of de cl]) (simp add: ended_well_def)
  ultimately show ?thesis
    by (auto simp: ended_well_def told_calls simp del: split_paired_Ex split: c_outcome.splits)
qed

section \<open>Defined calls\<close>

lemma catch_unwind_defined [simp]:
  "fst (catch_unwind p) = Undefined \<longleftrightarrow> fst p = Undefined"
  by (cases p; cases "fst p") auto

lemma ffi_simple_defined [simp]: "fst (ffi_simple f s) \<noteq> Undefined"
  by (auto simp: ffi_simple_def return_result_def split: prod.split sum.split fault.split)

lemma drop_out_defined [simp]: "fst (drop_out p) = fst p"
  by (simp add: drop_out_def case_prod_unfold)

lemma return_on_error_defined [simp]:
  "fst (return_on_error r k out s) = Undefined \<longleftrightarrow> (\<exists>t. r = Inr t \<and> fst (k t s) = Undefined)"
  by (auto simp: return_on_error_def split: sum.split fault.split)

lemma ffi_arrays_defined:
  "ffi_context_name nm n = None \<longleftrightarrow> nm \<noteq> None \<and> 0 < n \<and> \<not> array_ok nm (unat n)"
  "ffi_buffer buf = None \<longleftrightarrow> (\<exists>base len. buf = Some (base, len) \<and> \<not> array_ok base (unat len))"
  "ffi_iovecs_opt vecs = None \<longleftrightarrow>
     (\<exists>v. vecs = Some v \<and> ci_num_iovecs v \<noteq> 0 \<and>
       \<not> array_ok (ci_iovecs v) (unat (ci_num_iovecs v)))"
  by (auto simp: ffi_context_name_def ffi_buffer_def ffi_iovecs_opt_def split: option.split)

text \<open>
  C39. Which calls are defined. When the pointers of a call obey the rules stated for its function, the
  only way to undefined behaviour is a buffer for a capset that is larger than the capset: the size the
  caller gives is used to read from the capset as well.
\<close>

theorem ffi_call_defined:
  assumes "pointers_ok cl"
  shows "fst (ffi_call ser de cl s) = Undefined \<longleftrightarrow>
    (\<exists>cid v buf n bytes. cl = CGetCapset cid v buf n \<and>
       rutabaga_get_capset cid v (cs_rutabaga s) = Ok bytes \<and> length bytes < unat n)"
  using assms
  by (cases "(cl)" rule: pointers_ok.cases)
    (auto simp: ffi_calls run_library_eq case_prod_unfold ffi_arrays_defined not_None_eq [symmetric] not_le
      simp del: not_None_eq split: option.split if_splits)

section \<open>A handle and its calls\<close>

text \<open>All components of the repository, for given C libraries: \<open>None\<close> for one that is not compiled
  in.\<close>

definition repository_env ::
  "'a cd_world_scheme virgl_lib option \<Rightarrow> 'a cd_world_scheme gfx_lib option \<Rightarrow> context_codec \<Rightarrow>
   (u32 \<Rightarrow> 'a cd_world_scheme resource_lens) \<Rightarrow> 'a cd_world_ext gralloc_build \<Rightarrow>
   (string \<Rightarrow> u8 list) \<Rightarrow> (u8 list \<Rightarrow> string option) \<Rightarrow> 'a cd_world_ext build_env" where
  "repository_env virgl gfx codec lens build ser de =
     \<lparr>be_virgl_init = map_option virgl_init virgl,
      be_gfxstream_init = map_option (\<lambda>l. gfx_init l codec) gfx,
      be_magma_init = (\<lambda>w. (Ok (magma_component lens), w)),
      be_cross_domain_init = cross_domain_init build,
      be_rutabaga_2d_init = (\<lambda>w. (Ok (rutabaga_2d_component ser de), w))\<rparr>"

lemma repository_inits: "inits_lawful (repository_env virgl gfx codec lens build ser de)"
  by (cases virgl; cases gfx)
    (auto simp: inits_lawful_def init_lawful_def repository_env_def virgl_init_def gfx_init_def
      Let_def c_ret_def case_prod_unfold virgl.component_contract_axioms
      gfx.component_contract_axioms magma.component_contract_axioms
      r2d.component_contract_axioms and_then_st_def
      dest: cross_domain_init_lawful [unfolded init_lawful_def, rule_format]
      split: if_splits sum.splits option.splits)

text \<open>A sequence of calls on one handle.\<close>

definition ffi_run ::
  "(rutabaga_snapshot \<Rightarrow> u8 list) \<Rightarrow> (u8 list \<Rightarrow> rutabaga_snapshot option) \<Rightarrow> c_call list \<Rightarrow>
   'a c_state \<Rightarrow> 'a c_state" where
  "ffi_run ser de cls s = foldl (\<lambda>s cl. snd (ffi_call ser de cl s)) s cls"

text \<open>The misfiled entries in the snapshots that the restores of a sequence read\<close>

fun ffi_misfiled ::
  "(rutabaga_snapshot \<Rightarrow> u8 list) \<Rightarrow> (u8 list \<Rightarrow> rutabaga_snapshot option) \<Rightarrow> c_call list \<Rightarrow>
   'a c_state \<Rightarrow> (u32 \<times> u32) set" where
  "ffi_misfiled ser de [] s = {}"
| "ffi_misfiled ser de (cl # cls) s =
     (case cl of
        CRestore dir \<Rightarrow>
          (case utf8_rres dir of
             Inr directory \<Rightarrow> misfiled de (path_new directory) (cs_rutabaga s) | Inl _ \<Rightarrow> {})
      | _ \<Rightarrow> {}) \<union> ffi_misfiled ser de cls (snd (ffi_call ser de cl s))"

lemma ffi_call_inv:
  assumes "core_inv K (cs_rutabaga s)"
  shows "core_inv (K \<union> ffi_misfiled ser de [cl] s) (cs_rutabaga (snd (ffi_call ser de cl s)))"
proof -
  have step: "library_step de cl (cs_rutabaga s) (cs_rutabaga (snd (ffi_call ser de cl s)))"
    using ffi_call_ended unfolding ended_well_def by blast
  show ?thesis
  proof (cases "\<exists>dir. cl = CRestore dir")
    case True
    then obtain dir where cl: "cl = CRestore dir" by blast
    show ?thesis
    proof (cases "utf8_rres dir")
      case (Inl e)
      then show ?thesis using step assms by (simp add: cl)
    next
      case (Inr directory)
      then show ?thesis using step core_inv_mono [OF assms] restore_keeps_inv [OF assms]
        by (auto simp: cl)
    qed
  next
    case False
    then show ?thesis using step assms
      by (cases cl) (auto simp: makes_call_def intro: call_keeps_inv)
  qed
qed

lemma ffi_run_inv:
  assumes "core_inv K (cs_rutabaga s)"
  shows "core_inv (K \<union> ffi_misfiled ser de cls s) (cs_rutabaga (ffi_run ser de cls s))"
  using assms
proof (induction cls arbitrary: K s)
  case (Cons cl cls)
  from Cons.IH [OF ffi_call_inv [OF Cons.prems, of ser de cl]] show ?case
    by (simp add: ffi_run_def Un_assoc)
qed (simp add: ffi_run_def)

lemma ffi_unmisfiled: "\<forall>dir. CRestore dir \<notin> set cls \<Longrightarrow> ffi_misfiled ser de cls s = {}"
  by (induction cls arbitrary: s) (auto split: c_call.split)

lemma ffi_init_built:
  assumes "ffi_init env b ptr w p = (Returned 0, ptr', w', p')"
  shows "\<exists>builder g. ffi_builder b = Ok (Some builder) \<and> cb_wsi b = 1 \<and> ptr' = Some g \<and>
    rutabaga_build env builder w = (Ok g, w')"
  using assms
  by (auto simp: ffi_init_def Let_def catch_unwind_def
      split: sum.splits fault.splits option.splits if_splits prod.splits c_outcome.splits)

text \<open>
  C40. A client of the C interface cannot break the tables of the library, unless it hands in a
  broken snapshot. When \<open>rutabaga_init\<close> returned 0, with any of the components of the repository, then
  after any sequence of calls, failed, unwound and undefined ones included, all components and contexts
  honour their contracts and every resource is stored under its own id, except the entries that stood
  under another id in a snapshot read on the way. Without a restore there is no exception.
\<close>

theorem ffi_runs_keep_tables:
  assumes "ffi_init (repository_env virgl gfx codec lens build ser2d de2d) b ptr w p =
      (Returned 0, Some g0, w', p')"
  shows "let s0 = \<lparr>cs_rutabaga = g0, cs_process = p'\<rparr>; g = cs_rutabaga (ffi_run ser de cls s0) in
    keyed_but (ffi_misfiled ser de cls s0) g \<and> lawful g \<and>
    ((\<forall>dir. CRestore dir \<notin> set cls) \<longrightarrow> keyed g)"
proof -
  let ?s = "\<lparr>cs_rutabaga = g0, cs_process = p'\<rparr>"
  have "core_inv {} (cs_rutabaga ?s)"
    using ffi_init_built [OF assms(1)] built_inv [OF repository_inits] by auto
  then have "core_inv (ffi_misfiled ser de cls ?s) (cs_rutabaga (ffi_run ser de cls ?s))"
    using ffi_run_inv [of "{}" ?s ser de cls] by simp
  then show ?thesis using ffi_unmisfiled [of cls ser de ?s] by (auto simp: core_inv_def Let_def)
qed

lemmas builder_setters = set_renderer_features_def set_rutabaga_paths_def set_debug_handler_def
  set_wsi_def set_use_egl_def set_use_external_blob_def set_default_component_def

text \<open>
  What \<open>rutabaga_init\<close> hands out. It writes a handle exactly when it returns 0, which takes the
  surfaceless window system; the handle then has its default component, and with an empty capset mask
  that is the 2D component and the only one.
\<close>

lemma ffi_init_handle:
  assumes "ffi_init env b ptr w p = (out, ptr', w', p')"
  shows "if out = Returned 0
    then cb_wsi b = 1 \<and> (\<exists>g. ptr' = Some g \<and> contains_key (g_components g) (g_default_component g) \<and>
      (cb_capset_mask_bits b = 0 \<longrightarrow>
         g_default_component g = Rutabaga2D \<and> fmdom' (g_components g) = {Rutabaga2D}))
    else ptr' = ptr \<and> out \<in> {Returned (- EINVAL), Returned (- ESRCH), NoReturn, Undefined}"
proof (cases "out = Returned 0")
  case True
  obtain builder g where b: "ffi_builder b = Ok (Some builder)" "cb_wsi b = 1" "ptr' = Some g"
    and g: "rutabaga_build env builder w = (Ok g, w')"
    using ffi_init_built assms True by blast
  define d where "d = b_default_component (apply_capset_mask builder)"
  have mask: "b_capset_mask builder = cb_capset_mask_bits b"
    and d: "b_default_component builder =
      (if cb_capset_mask_bits b = 0 then Rutabaga2D else NoneSelected)"
    using b(1) by (auto simp: ffi_builder_def and_then_eq_Ok builder_new_def builder_setters
        split: option.splits)
  have "cb_capset_mask_bits b = 0 \<Longrightarrow> d = Rutabaga2D"
    using mask d by (simp add: d_def apply_capset_mask_def)
  then show ?thesis using True b(2,3) mask d built_types [OF g, folded d_def]
    by (auto simp: contains_key_fmdom' installed_types_def split: if_splits)
next
  case False
  then show ?thesis using assms
    by (auto simp: ffi_init_def Let_def catch_unwind_def
        split: sum.splits fault.splits option.splits if_splits prod.splits c_outcome.splits)
qed

section \<open>Concrete calls\<close>

text \<open>A process whose library logs one error and one warning in each operation\<close>

definition some_c_process :: "nat option \<Rightarrow> c_process" where
  "some_c_process handler =
     \<lparr>S_DEBUG_HANDLER = handler, logger_set = (handler \<noteq> None), debug_calls = [],
      library_records = \<lambda>n. [\<lparr>lr_level = LevelWarn, lr_target = ''a'', lr_args = ''b''\<rparr>,
        \<lparr>lr_level = LevelError, lr_target = ''c'', lr_args = ''d''\<rparr>], library_runs = 0\<rparr>"

definition some_c_state :: "unit c_state" where
  "some_c_state =
     \<lparr>cs_rutabaga = new_2d (\<lambda>_. []) (\<lambda>_. Some ()) some_world,
      cs_process = some_c_process (Some 3)\<rparr>"

definition some_c_builder :: c_builder where
  "some_c_builder =
     \<lparr>cb_capset_mask_bits = 0, cb_wsi = 1, cb_debug_cb = Some 3, cb_channels = None,
      cb_renderer_features = None\<rparr>"

lemma ffi_call_outcome_witness:
  "\<exists>s'. ffi_call (\<lambda>_. []) (\<lambda>_. None) (CResourceUnref 5) some_c_state = (Returned (- 22), s') \<and>
     length (debug_calls (cs_process s')) = 2"
proof -
  have unref: "rutabaga_unref_resource 5 (new_2d (\<lambda>_. []) (\<lambda>_. Some ()) some_world) =
      (Err InvalidResourceId, new_2d (\<lambda>_. []) (\<lambda>_. Some ()) some_world)"
    by (simp add: rutabaga_unref_resource_def get_resource_def) (simp add: new_2d_def)
  obtain out s' where c:
    "ffi_call (\<lambda>_. []) (\<lambda>_. None) (CResourceUnref 5) some_c_state = (out, s')"
    by (cases "ffi_call (\<lambda>_. []) (\<lambda>_. None) (CResourceUnref 5) some_c_state")
  have "out = Returned (- 22)"
    using c unref by (simp add: ffi_calls ffi_simple_def return_result_def run_library_eq some_c_state_def)
  then show ?thesis using c ffi_call_outcome [OF c]
    by (auto simp: some_c_state_def some_c_process_def forwarded_def)
qed

lemma ffi_call_defined_witness:
  "fst (ffi_call (\<lambda>_. []) (\<lambda>_. None) (CGetCapset 1 0 (replicate 8 0) 8) some_c_state) = Undefined"
  using ffi_call_defined [of "CGetCapset 1 0 (replicate 8 0) 8" "\<lambda>_. []" "\<lambda>_. None" some_c_state]
  by (simp add: some_c_state_def rutabaga_get_capset_def component_type_for_def
      capset_id_to_component_type_def new_2d_def get_component_def rutabaga_2d_component_def
      component_defaults_def)

definition some_repository_env :: "unit cd_world_ext build_env" where
  "some_repository_env =
     repository_env None None \<lparr>cc_ser = \<lambda>_. [], cc_de = \<lambda>_. Inr 1\<rparr>
       (\<lambda>_. \<lparr>res_get = \<lambda>_. fmempty, res_put = \<lambda>_ w. w\<rparr>)
       \<lparr>gb_minigbm_init = None, gb_vulkano_init = None\<rparr> (\<lambda>_. []) (\<lambda>_. None)"

text \<open>A codec that reads a misfiled entry from every file\<close>

definition misfiling_codec :: "u8 list \<Rightarrow> rutabaga_snapshot option" where
  "misfiling_codec bytes = Some \<lparr>snap_resources =
     fmupd 3 (snapshot_of_resource (blank_resource 4)) fmempty, snap_contexts = fmempty\<rparr>"

lemma ffi_runs_keep_tables_witness:
  "\<exists>g p. ffi_init some_repository_env
      some_c_builder None some_cd_world (some_c_process None) = (Returned 0, Some g, some_cd_world, p) \<and>
    keyed (cs_rutabaga (ffi_run (\<lambda>_. []) misfiling_codec
      [CResourceCreate3d 7 small_3d, CResourceUnref 8] \<lparr>cs_rutabaga = g, cs_process = p\<rparr>))"
proof -
  obtain g p where g:
    "ffi_init some_repository_env some_c_builder None some_cd_world (some_c_process None) =
      (Returned 0, Some g, some_cd_world, p)"
    by (simp add: ffi_init_def some_c_builder_def ffi_builder_def set_debug_handler_once_def Let_def
        rutabaga_build_def builder_new_def builder_setters some_repository_env_def repository_env_def apply_capset_mask_def
        build_2d_def bs_call_def)
  with ffi_runs_keep_tables [OF g [unfolded some_repository_env_def], where de = misfiling_codec]
  show ?thesis by (auto simp: Let_def)
qed

end
