(* ===== verification/Minigbm.thy ===== *)
theory Minigbm
  imports Gralloc
begin

text \<open>
  The minigbm backend of the gralloc, \<open>src/rutabaga_gralloc/minigbm.rs\<close>. The library minigbm, the
  device files and the descriptors are the record \<open>gbm_lib\<close> of functions on the world. A device or
  buffer object is a pointer, named by a number, and \<open>None\<close> when it is null.

  A \<open>MinigbmDevice\<close> stashes the buffer object of its last requirements; the slot lives in the world and
  is reached through \<open>last_buffer\<close> and \<open>put_last_buffer\<close>. Dropping a \<open>MinigbmBuffer\<close> destroys its
  object.
\<close>

section \<open>The library\<close>

type_synonym gbm_bo = nat

definition GBM_BO_USE_TEXTURING :: u32 where [simp]: "GBM_BO_USE_TEXTURING = 32"

record 'w gbm_lib =
  std_open_device :: "string \<Rightarrow> 'w \<Rightarrow> (io_error + descriptor) \<times> 'w"
  std_seek_end :: "descriptor \<Rightarrow> 'w \<Rightarrow> (io_error + u64) \<times> 'w"
  std_close :: "descriptor \<Rightarrow> 'w \<Rightarrow> 'w"
  std_last_os_error :: "'w \<Rightarrow> io_error"
  gbm_create_device :: "descriptor \<Rightarrow> 'w \<Rightarrow> nat option \<times> 'w"
  gbm_device_destroy :: "nat \<Rightarrow> 'w \<Rightarrow> 'w"
  gbm_bo_create :: "nat \<Rightarrow> u32 \<Rightarrow> u32 \<Rightarrow> u32 \<Rightarrow> u32 \<Rightarrow> 'w \<Rightarrow> gbm_bo option \<times> 'w"
  gbm_bo_destroy :: "gbm_bo \<Rightarrow> 'w \<Rightarrow> 'w"
  gbm_bo_get_width :: "gbm_bo \<Rightarrow> 'w \<Rightarrow> u32"
  gbm_bo_get_height :: "gbm_bo \<Rightarrow> 'w \<Rightarrow> u32"
  gbm_bo_get_format :: "gbm_bo \<Rightarrow> 'w \<Rightarrow> u32"
  gbm_bo_get_modifier :: "gbm_bo \<Rightarrow> 'w \<Rightarrow> u64"
  gbm_bo_get_plane_count :: "gbm_bo \<Rightarrow> 'w \<Rightarrow> u32"
  gbm_bo_get_offset :: "gbm_bo \<Rightarrow> nat \<Rightarrow> 'w \<Rightarrow> u32"
  gbm_bo_get_stride_for_plane :: "gbm_bo \<Rightarrow> nat \<Rightarrow> 'w \<Rightarrow> u32"
  gbm_bo_get_fd :: "gbm_bo \<Rightarrow> 'w \<Rightarrow> u32 \<times> 'w"
  last_buffer :: "'w \<Rightarrow> gbm_bo option"
  put_last_buffer :: "gbm_bo option \<Rightarrow> 'w \<Rightarrow> 'w"

section \<open>Opening the device\<close>

definition render_node_path :: "nat \<Rightarrow> string" where
  "render_node_path minor =
     ''/dev/dri/renderD'' @ map (\<lambda>d. char_of (48 + d)) [minor div 100, minor div 10 mod 10, minor mod 10]"

text \<open>The first node that opens, or the error of the last one tried.\<close>

fun open_first :: "'w gbm_lib \<Rightarrow> string list \<Rightarrow> string \<Rightarrow> 'w \<Rightarrow> (io_error + descriptor) \<times> 'w" where
  "open_first l [] card_path w = std_open_device l card_path w"
| "open_first l (p # ps) card_path w =
     (case std_open_device l p w of (Inr d, w) \<Rightarrow> (Inr d, w) | (Inl _, w) \<Rightarrow> open_first l ps card_path w)"

definition open_render_node :: "'w gbm_lib \<Rightarrow> 'w \<Rightarrow> descriptor rres \<times> 'w" where
  "open_render_node l w =
     (case open_first l (map render_node_path [128..<192]) ''/dev/dri/card0'' w of
        (Inl e, w) \<Rightarrow> (Err (MagmaGpuError (IoError e)), w) | (Inr d, w) \<Rightarrow> (Ok d, w))"

section \<open>Buffers\<close>

definition bo_num_planes :: "'w gbm_lib \<Rightarrow> gbm_bo \<Rightarrow> 'w \<Rightarrow> nat" where
  "bo_num_planes l bo w = unat (scast (gbm_bo_get_plane_count l bo w) :: u64)"

definition bo_cached :: "gbm_bo \<Rightarrow> bool" where
  "bo_cached bo \<longleftrightarrow> False"

definition bo_export :: "'w gbm_lib \<Rightarrow> gbm_bo \<Rightarrow> 'w \<Rightarrow> descriptor rres \<times> 'w" where
  "bo_export l bo w =
     (case gbm_bo_get_fd l bo w of
        (fd, w) \<Rightarrow> (if 0 \<le> sint fd then Ok (unat fd) else Err (ComponentError fd), w))"

text \<open>A \<open>MinigbmBuffer\<close> that is dropped when the block that owns it ends, however it ends.\<close>

definition with_bo :: "'w gbm_lib \<Rightarrow> gbm_bo \<Rightarrow> 'r \<times> 'w \<Rightarrow> 'r \<times> 'w" where
  "with_bo l bo p = (case p of (r, w) \<Rightarrow> (r, gbm_bo_destroy l bo w))"

section \<open>The backend\<close>

text \<open>Strides and offsets of the planes; a fifth plane is out of bounds.\<close>

fun bo_planes ::
  "'w gbm_lib \<Rightarrow> gbm_bo \<Rightarrow> 'w \<Rightarrow> nat list \<Rightarrow> image_memory_requirements \<Rightarrow>
   image_memory_requirements rres" where
  "bo_planes l bo w [] reqs = Ok reqs"
| "bo_planes l bo w (plane # planes) reqs =
     (if length (irq_strides reqs) \<le> plane \<or> length (irq_offsets reqs) \<le> plane then Panicked
      else bo_planes l bo w planes
        (reqs\<lparr>irq_strides := (irq_strides reqs)[plane := gbm_bo_get_stride_for_plane l bo plane w],
              irq_offsets := (irq_offsets reqs)[plane := gbm_bo_get_offset l bo plane w]\<rparr>))"

definition bo_requirements ::
  "'w gbm_lib \<Rightarrow> gbm_bo \<Rightarrow> image_allocation_info \<Rightarrow> 'w \<Rightarrow> image_memory_requirements rres \<times> 'w"
where
  "bo_requirements l bo info w =
     and_then_st
       (bo_planes l bo w [0..<bo_num_planes l bo w]
         (image_requirements_default
          \<lparr>irq_map_info :=
             (if bo_cached bo then RUTABAGA_MAP_CACHE_CACHED else RUTABAGA_MAP_CACHE_WC),
           irq_modifier := gbm_bo_get_modifier l bo w\<rparr>), w) (\<lambda>reqs w.
     and_then_st (bo_export l bo w) (\<lambda>fd w.
     case std_seek_end l fd w of
       (Inl e, w) \<Rightarrow> (Err (MagmaGpuError (IoError e)), std_close l fd w)
     | (Inr sz, w) \<Rightarrow>
         if last_buffer l w \<noteq> None then (Err AlreadyInUse, std_close l fd w)
         else (Ok (reqs\<lparr>irq_info := info, irq_size := sz\<rparr>),
           std_close l fd (put_last_buffer l (Some bo) w))))"

definition minigbm_get_image_memory_requirements ::
  "'w gbm_lib \<Rightarrow> nat \<Rightarrow> image_allocation_info \<Rightarrow> 'w \<Rightarrow> image_memory_requirements rres \<times> 'w"
where
  "minigbm_get_image_memory_requirements l gbm info w =
     (let flags_no_tex = gralloc_bits (ia_flags info) AND NOT GBM_BO_USE_TEXTURING in
      case gbm_bo_create l gbm (ia_width info) (ia_height info) (drm_code (ia_drm_format info))
             flags_no_tex w of
        (None, w) \<Rightarrow> (Err (MagmaGpuError (IoError (std_last_os_error l w))), w)
      | (Some bo, w) \<Rightarrow>
          (case bo_requirements l bo info w of
             (Inr reqs, w) \<Rightarrow> (Ok reqs, w)
           | (Inl e, w) \<Rightarrow> (Inl e, gbm_bo_destroy l bo w)))"

definition bo_dmabuf :: "'w gbm_lib \<Rightarrow> gbm_bo \<Rightarrow> 'w \<Rightarrow> magma_handle rres \<times> 'w" where
  "bo_dmabuf l bo w =
     and_then_st (bo_export l bo w) (\<lambda>dmabuf w.
       (Ok \<lparr>os_handle = dmabuf, handle_type = MAGMA_GPU_HANDLE_TYPE_MEM_DMABUF\<rparr>, w))"

definition bo_matches :: "'w gbm_lib \<Rightarrow> gbm_bo \<Rightarrow> image_allocation_info \<Rightarrow> 'w \<Rightarrow> bool" where
  "bo_matches l bo info w \<longleftrightarrow>
     gbm_bo_get_width l bo w = ia_width info \<and> gbm_bo_get_height l bo w = ia_height info \<and>
     DrmFormat (gbm_bo_get_format l bo w) = ia_drm_format info"

definition minigbm_allocate_memory ::
  "'w gbm_lib \<Rightarrow> nat \<Rightarrow> image_memory_requirements \<Rightarrow> 'w \<Rightarrow> magma_handle rres \<times> 'w" where
  "minigbm_allocate_memory l gbm reqs w =
     (let stash = last_buffer l w; w = put_last_buffer l None w in
      case stash of
        Some gbm_buffer \<Rightarrow>
          with_bo l gbm_buffer
            (if \<not> bo_matches l gbm_buffer (irq_info reqs) w then (Err InvalidGrallocDimensions, w)
             else bo_dmabuf l gbm_buffer w)
      | None \<Rightarrow>
          (case gbm_bo_create l gbm (ia_width (irq_info reqs)) (ia_height (irq_info reqs))
                  (drm_code (ia_drm_format (irq_info reqs))) (gralloc_bits (ia_flags (irq_info reqs))) w
           of
             (None, w) \<Rightarrow> (Err (MagmaGpuError (IoError (std_last_os_error l w))), w)
           | (Some bo, w) \<Rightarrow> with_bo l bo (bo_dmabuf l bo w)))"

definition minigbm_gralloc :: "'w gbm_lib \<Rightarrow> nat \<Rightarrow> 'w gralloc_methods" where
  "minigbm_gralloc l gbm =
     gralloc_defaults (\<lambda>_. True) (\<lambda>_. True) (minigbm_get_image_memory_requirements l gbm)
       (minigbm_allocate_memory l gbm)"

definition minigbm_init :: "'w gbm_lib \<Rightarrow> 'w \<Rightarrow> 'w gralloc_methods rres \<times> 'w" where
  "minigbm_init l w =
     and_then_st (open_render_node l w) (\<lambda>descriptor w.
     case gbm_create_device l descriptor w of
       (None, w) \<Rightarrow> (Err (MagmaGpuError (IoError (std_last_os_error l w))), std_close l descriptor w)
     | (Some gbm, w) \<Rightarrow> (Ok (minigbm_gralloc l gbm), put_last_buffer l None w))"

text \<open>Dropping the backend: the stashed buffer holds the device, which goes with it.\<close>

definition minigbm_device_drop :: "'w gbm_lib \<Rightarrow> nat \<Rightarrow> descriptor \<Rightarrow> 'w \<Rightarrow> 'w" where
  "minigbm_device_drop l gbm fd w = std_close l fd (gbm_device_destroy l gbm w)"

definition minigbm_drop :: "'w gbm_lib \<Rightarrow> nat \<Rightarrow> descriptor \<Rightarrow> 'w \<Rightarrow> 'w" where
  "minigbm_drop l gbm fd w =
     minigbm_device_drop l gbm fd
       (case last_buffer l w of
          None \<Rightarrow> w | Some bo \<Rightarrow> gbm_bo_destroy l bo (put_last_buffer l None w))"

section \<open>The contract\<close>

lemma bo_planes_lengths:
  "bo_planes l bo w ps reqs = Ok reqs' \<Longrightarrow>
   length (irq_strides reqs') = length (irq_strides reqs) \<and>
   length (irq_offsets reqs') = length (irq_offsets reqs)"
  by (induction ps arbitrary: reqs) (auto split: if_splits)

lemma bo_requirements_recorded:
  assumes "bo_requirements l bo info w = (Ok reqs, w')"
  shows "irq_info reqs = info \<and> four_plane_lists reqs"
proof -
  obtain reqs0 fd w1
    where "bo_planes l bo w [0..<bo_num_planes l bo w]
        (image_requirements_default
         \<lparr>irq_map_info :=
            (if bo_cached bo then RUTABAGA_MAP_CACHE_CACHED else RUTABAGA_MAP_CACHE_WC),
          irq_modifier := gbm_bo_get_modifier l bo w\<rparr>) = Ok reqs0"
      and "bo_export l bo w = (Ok fd, w1)"
    using assms unfolding bo_requirements_def by (auto simp: and_then_st_eq_Ok)
  then show ?thesis
    using assms bo_planes_lengths [of l bo w _ _ reqs0]
    by (auto simp: bo_requirements_def four_plane_lists_def image_requirements_default_def
        split: prod.split_asm sum.split_asm if_split_asm)
qed

interpretation minigbm: gralloc_records "minigbm_gralloc l gbm" for l gbm
  by unfold_locales
    (auto simp: minigbm_gralloc_def gralloc_defaults_def Let_def
      minigbm_get_image_memory_requirements_def split: prod.splits sum.splits option.splits
      dest: bo_requirements_recorded)

end
