(* ===== verification/Vulkano.thy ===== *)
theory Vulkano
  imports Gralloc
begin

text \<open>
  The Vulkano backend of the gralloc, \<open>src/rutabaga_gralloc/vulkano_gralloc.rs\<close> with its Linux part
  (\<open>vulkano_gralloc/sys/linux.rs\<close>), and the Vulkan tables of \<open>formats.rs\<close>. The crate vulkano is the
  record \<open>vk_lib\<close> of functions on the world. Physical devices are data, images and device memory are
  named by numbers, and an error of the crate is a number; dropping these objects is left to the crate.
\<close>

section \<open>Formats\<close>

datatype vulkan_format =
    R8_UNORM
  | R5G6B5_UNORM_PACK16
  | R8G8B8_UNORM
  | A2R10G10B10_UNORM_PACK32
  | R8G8B8A8_UNORM
  | A2B10G10R10_UNORM_PACK32
  | B8G8R8A8_UNORM
  | R16G16B16A16_SFLOAT
  | G8_B8R8_2PLANE_420_UNORM
  | G8_B8_R8_3PLANE_420_UNORM

datatype vulkan_image_aspect = AspectColor | AspectPlane0 | AspectPlane1 | AspectPlane2

definition vulkan_format_of :: "drm_format \<Rightarrow> vulkan_format rres" where
  "vulkan_format_of f =
     (let b = drm_to_bytes f in
      if b = DRM_FORMAT_R8 then Ok R8_UNORM
      else if b = DRM_FORMAT_RGB565 then Ok R5G6B5_UNORM_PACK16
      else if b = DRM_FORMAT_BGR888 then Ok R8G8B8_UNORM
      else if b \<in> {DRM_FORMAT_ABGR2101010, DRM_FORMAT_XBGR2101010} then Ok A2R10G10B10_UNORM_PACK32
      else if b \<in> {DRM_FORMAT_ABGR8888, DRM_FORMAT_XBGR8888} then Ok R8G8B8A8_UNORM
      else if b \<in> {DRM_FORMAT_ARGB2101010, DRM_FORMAT_XRGB2101010} then Ok A2B10G10R10_UNORM_PACK32
      else if b \<in> {DRM_FORMAT_ARGB8888, DRM_FORMAT_XRGB8888} then Ok B8G8R8A8_UNORM
      else if b = DRM_FORMAT_ABGR16161616F then Ok R16G16B16A16_SFLOAT
      else if b = DRM_FORMAT_NV12 then Ok G8_B8R8_2PLANE_420_UNORM
      else if b = DRM_FORMAT_YVU420 then Ok G8_B8_R8_3PLANE_420_UNORM
      else Err InvalidGrallocDrmFormat)"

definition vulkan_image_aspect_of :: "drm_format \<Rightarrow> nat \<Rightarrow> vulkan_image_aspect rres" where
  "vulkan_image_aspect_of f plane =
     (let b = drm_to_bytes f in
      if b \<in> {DRM_FORMAT_R8, DRM_FORMAT_RGB565, DRM_FORMAT_BGR888, DRM_FORMAT_ABGR2101010,
              DRM_FORMAT_ABGR8888, DRM_FORMAT_XBGR2101010, DRM_FORMAT_XBGR8888,
              DRM_FORMAT_ARGB2101010, DRM_FORMAT_ARGB8888, DRM_FORMAT_XRGB2101010,
              DRM_FORMAT_XRGB8888} then Ok AspectColor
      else if b = DRM_FORMAT_NV12 then
        (if plane = 0 then Ok AspectPlane0 else if plane = 1 then Ok AspectPlane1
         else Err InvalidGrallocNumberOfPlanes)
      else if b = DRM_FORMAT_YVU420 then
        (if plane = 0 then Ok AspectPlane0 else if plane = 1 then Ok AspectPlane1
         else if plane = 2 then Ok AspectPlane2 else Err InvalidGrallocNumberOfPlanes)
      else Err InvalidGrallocDrmFormat)"

section \<open>The crate\<close>

datatype physical_device_type = IntegratedGpu | DiscreteGpu | VirtualGpu | CpuDevice | OtherDevice

text \<open>The property flags of a memory type that the code asks for.\<close>

record memory_type =
  mt_device_local :: bool
  mt_host_visible :: bool
  mt_host_coherent :: bool
  mt_host_cached :: bool

record device_extensions =
  khr_dedicated_allocation :: bool
  khr_get_memory_requirements2 :: bool
  khr_external_memory :: bool
  khr_external_memory_fd :: bool
  ext_external_memory_dma_buf :: bool

record vk_physical =
  ph_queue_graphics :: "bool list"
  ph_extensions :: device_extensions
  ph_device_type :: physical_device_type
  ph_device_uuid :: "u8 list option"
  ph_driver_uuid :: "u8 list option"
  ph_memory_types :: "memory_type list"

record vk_device =
  vd_handle :: nat
  vd_physical :: vk_physical
  vd_extensions :: device_extensions

record memory_requirements =
  mr_size :: u64
  mr_memory_type_bits :: u32
  mr_prefers_dedicated :: bool

record subresource_layout =
  sl_row_pitch :: u64
  sl_offset :: u64

datatype image_usage = COLOR_ATTACHMENT | SAMPLED

record image_create_info =
  ici_width :: u32
  ici_height :: u32
  ici_format :: vulkan_format
  ici_usage :: image_usage

datatype external_handle_type = DmaBuf | OpaqueFd

record memory_allocate_info =
  mai_size :: u64
  mai_memory_type_index :: u32
  mai_dedicated :: "nat option"
  mai_export :: "external_handle_type option"

record 'w vk_lib =
  vk_library_new :: "'w \<Rightarrow> (int + unit) \<times> 'w"
  vk_instance_new :: "'w \<Rightarrow> (int + unit) \<times> 'w"
  vk_enumerate :: "'w \<Rightarrow> (int + vk_physical list) \<times> 'w"
  vk_device_new :: "vk_physical \<Rightarrow> device_extensions \<Rightarrow> nat \<Rightarrow> 'w \<Rightarrow> (int + vk_device) \<times> 'w"
  vk_image_new :: "vk_device \<Rightarrow> image_create_info \<Rightarrow> 'w \<Rightarrow> (int + nat) \<times> 'w"
  vk_memory_requirements :: "nat \<Rightarrow> 'w \<Rightarrow> memory_requirements"
  vk_subresource_layout :: "nat \<Rightarrow> vulkan_image_aspect \<Rightarrow> 'w \<Rightarrow> int + subresource_layout"
  vk_memory_allocate :: "vk_device \<Rightarrow> memory_allocate_info \<Rightarrow> 'w \<Rightarrow> (int + nat) \<times> 'w"
  vk_export_fd :: "nat \<Rightarrow> external_handle_type \<Rightarrow> 'w \<Rightarrow> (int + descriptor) \<times> 'w"
  vk_memory_import ::
    "vk_device \<Rightarrow> memory_allocate_info \<Rightarrow> external_handle_type \<Rightarrow> descriptor \<Rightarrow> 'w \<Rightarrow> (int + nat) \<times> 'w"
  vk_map_memory :: "nat \<Rightarrow> u64 \<Rightarrow> 'w \<Rightarrow> (int + u64) \<times> 'w"

text \<open>A call of the crate, with the conversion of its error.\<close>

definition vk_call :: "(int \<Rightarrow> rutabaga_error) \<Rightarrow> (int + 'r) \<times> 'w \<Rightarrow> 'r rres \<times> 'w" where
  "vk_call err p = (case p of (Inl e, w) \<Rightarrow> (Err (err e), w) | (Inr x, w) \<Rightarrow> (Ok x, w))"

section \<open>Devices\<close>

definition get_desired_device_extensions :: device_extensions where
  "get_desired_device_extensions =
     \<lparr>khr_dedicated_allocation = True, khr_get_memory_requirements2 = True,
      khr_external_memory = True, khr_external_memory_fd = True, ext_external_memory_dma_buf = True\<rparr>"

definition intersection :: "device_extensions \<Rightarrow> device_extensions \<Rightarrow> device_extensions" where
  "intersection a b =
     \<lparr>khr_dedicated_allocation = (khr_dedicated_allocation a \<and> khr_dedicated_allocation b),
      khr_get_memory_requirements2 =
        (khr_get_memory_requirements2 a \<and> khr_get_memory_requirements2 b),
      khr_external_memory = (khr_external_memory a \<and> khr_external_memory b),
      khr_external_memory_fd = (khr_external_memory_fd a \<and> khr_external_memory_fd b),
      ext_external_memory_dma_buf = (ext_external_memory_dma_buf a \<and> ext_external_memory_dma_buf b)\<rparr>"

definition get_id :: "vk_device \<Rightarrow> device_id rres" where
  "get_id d =
     and_then (unwrap (ph_device_uuid (vd_physical d))) (\<lambda>device.
     and_then (unwrap (ph_driver_uuid (vd_physical d))) (\<lambda>driver.
     Ok \<lparr>device_uuid = device, driver_uuid = driver\<rparr>))"

record vulkano_gralloc =
  vg_devices :: "(physical_device_type, vk_device) fmap"
  vg_device_by_id :: "(device_id, vk_device) fmap"
  vg_has_integrated_gpu :: bool

definition position :: "('x \<Rightarrow> bool) \<Rightarrow> 'x list \<Rightarrow> nat option" where
  "position P xs = find (\<lambda>i. P (xs ! i)) [0..<length xs]"

definition add_device :: "vk_device \<Rightarrow> vulkano_gralloc \<Rightarrow> vulkano_gralloc rres" where
  "add_device d g =
     (let t = ph_device_type (vd_physical d) in
      and_then (get_id d) (\<lambda>i.
      Ok (g\<lparr>vg_devices := fmupd t d (vg_devices g), vg_device_by_id := fmupd i d (vg_device_by_id g),
            vg_has_integrated_gpu := (vg_has_integrated_gpu g \<or> t = IntegratedGpu)\<rparr>)))"

text \<open>A device without a graphics queue or that cannot be created is skipped.\<close>

fun add_devices ::
  "'w vk_lib \<Rightarrow> vk_physical list \<Rightarrow> vulkano_gralloc \<Rightarrow> 'w \<Rightarrow> vulkano_gralloc rres \<times> 'w" where
  "add_devices l [] g w = (Ok g, w)"
| "add_devices l (p # ps) g w =
     (case position id (ph_queue_graphics p) of
        None \<Rightarrow> add_devices l ps g w
      | Some queue_family_index \<Rightarrow>
          (case vk_device_new l p (intersection (ph_extensions p) get_desired_device_extensions)
                  queue_family_index w of
             (Inl _, w) \<Rightarrow> add_devices l ps g w
           | (Inr d, w) \<Rightarrow> and_then_st (add_device d g, w) (\<lambda>g w. add_devices l ps g w)))"

definition gpu_device :: "vulkano_gralloc \<Rightarrow> vk_device rres" where
  "gpu_device g =
     ok_or InvalidGrallocGpuType
       (fmlookup (vg_devices g) (if vg_has_integrated_gpu g then IntegratedGpu else DiscreteGpu))"

section \<open>Images and memory types\<close>

definition create_image ::
  "'w vk_lib \<Rightarrow> vulkano_gralloc \<Rightarrow> image_allocation_info \<Rightarrow> 'w \<Rightarrow>
   (nat \<times> memory_requirements) rres \<times> 'w" where
  "create_image l g info w =
     and_then_st (gpu_device g, w) (\<lambda>device w.
     if ia_width info = 0 \<or> 4096 < ia_width info then (Err InvalidGrallocDimensions, w)
     else if ia_height info = 0 \<or> 4096 < ia_height info then (Err InvalidGrallocDimensions, w)
     else
       and_then_st (vulkan_format_of (ia_drm_format info), w) (\<lambda>format w.
       and_then_st
         (vk_call VkImageCreationError (vk_image_new l device
            \<lparr>ici_width = ia_width info, ici_height = ia_height info, ici_format = format,
             ici_usage =
               (if gralloc_uses_rendering (ia_flags info) then COLOR_ATTACHMENT else SAMPLED)\<rparr> w))
         (\<lambda>raw_image w.
       (Ok (raw_image, vk_memory_requirements l raw_image w), w))))"

datatype alloc_filter = Preferred | Allowed | Forbidden

definition memory_filter :: "bool \<Rightarrow> bool \<Rightarrow> memory_type \<Rightarrow> alloc_filter" where
  "memory_filter need_visible want_cached t =
     (if need_visible \<and> \<not> mt_host_visible t then Forbidden
      else if \<not> need_visible \<and> mt_device_local t then Preferred
      else if need_visible \<and> want_cached \<and> mt_host_cached t then Preferred
      else if need_visible \<and> \<not> want_cached \<and> mt_host_coherent t \<and> \<not> mt_host_cached t then Preferred
      else Allowed)"

text \<open>The search goes through the preferred types first; a shift by 32 or more wraps.\<close>

definition find_memory_type ::
  "bool \<Rightarrow> bool \<Rightarrow> u32 \<Rightarrow> memory_type list \<Rightarrow> (nat \<times> memory_type) option" where
  "find_memory_type need_visible want_cached type_bits types =
     (let first_loop = map (\<lambda>i. (i, types ! i, Preferred)) [0..<length types];
          second_loop = map (\<lambda>i. (i, types ! i, Allowed)) [0..<length types];
          usable = filter (\<lambda>(i, _, _). type_bits AND push_bit (i mod 32) 1 \<noteq> 0)
                     (first_loop @ second_loop)
      in map_option (\<lambda>(i, t, _). (i, t))
           (find (\<lambda>(_, t, rq). memory_filter need_visible want_cached t = rq) usable))"

section \<open>The backend\<close>

definition vulkano_supports_external_gpu_memory :: "vulkano_gralloc \<Rightarrow> 'w \<Rightarrow> bool" where
  "vulkano_supports_external_gpu_memory g w \<longleftrightarrow>
     fBall (fmran (vg_devices g)) (\<lambda>d. khr_external_memory (vd_extensions d))"

definition vulkano_supports_dmabuf :: "vulkano_gralloc \<Rightarrow> 'w \<Rightarrow> bool" where
  "vulkano_supports_dmabuf g w \<longleftrightarrow>
     fBall (fmran (vg_devices g)) (\<lambda>d. ext_external_memory_dma_buf (vd_extensions d))"

fun vulkano_planes ::
  "'w vk_lib \<Rightarrow> nat \<Rightarrow> drm_format \<Rightarrow> 'w \<Rightarrow> nat list \<Rightarrow> image_memory_requirements \<Rightarrow>
   image_memory_requirements rres" where
  "vulkano_planes l raw_image f w [] reqs = Ok reqs"
| "vulkano_planes l raw_image f w (plane # planes) reqs =
     and_then (vulkan_image_aspect_of f plane) (\<lambda>aspect.
     case vk_subresource_layout l raw_image aspect w of
       Inl e \<Rightarrow> Err (VkImageCreationError e)
     | Inr layout \<Rightarrow>
         vulkano_planes l raw_image f w planes
           (reqs\<lparr>irq_strides := (irq_strides reqs)[plane := ucast (sl_row_pitch layout)],
                 irq_offsets := (irq_offsets reqs)[plane := ucast (sl_offset layout)]\<rparr>))"

definition vulkano_map_info :: "memory_type \<Rightarrow> u32" where
  "vulkano_map_info t =
     (if mt_host_visible t then
        if mt_host_cached t then RUTABAGA_MAP_CACHE_CACHED
        else if mt_host_coherent t then RUTABAGA_MAP_CACHE_WC else 0
      else 0)"

definition vulkano_get_image_memory_requirements ::
  "'w vk_lib \<Rightarrow> vulkano_gralloc \<Rightarrow> image_allocation_info \<Rightarrow> 'w \<Rightarrow>
   image_memory_requirements rres \<times> 'w" where
  "vulkano_get_image_memory_requirements l g info w =
     and_then_st (create_image l g info w) (\<lambda>(raw_image, memory_requirements) w.
     (and_then (gpu_device g) (\<lambda>device.
      and_then (planar_layout_of (ia_drm_format info)) (\<lambda>planar_layout.
      and_then (vulkano_planes l raw_image (ia_drm_format info) w [0..<num_planes planar_layout]
          image_requirements_default) (\<lambda>reqs.
      and_then
        (ok_or (MagmaGpuError (WithContext ''unable to find required memory type''))
          (find_memory_type (gralloc_host_visible (ia_flags info))
            (gralloc_host_cached (ia_flags info)) (mr_memory_type_bits memory_requirements)
            (ph_memory_types (vd_physical device)))) (\<lambda>(memory_type_index, memory_type).
      and_then (get_id device) (\<lambda>i.
      Ok (reqs\<lparr>irq_info := info, irq_size := mr_size memory_requirements,
               irq_map_info := vulkano_map_info memory_type,
               irq_vulkan_info :=
                 Some \<lparr>vk_memory_idx = of_nat memory_type_index, vk_device_id = i\<rparr>\<rparr>)))))), w))"

definition vulkano_allocate_memory ::
  "'w vk_lib \<Rightarrow> vulkano_gralloc \<Rightarrow> image_memory_requirements \<Rightarrow> 'w \<Rightarrow> magma_handle rres \<times> 'w" where
  "vulkano_allocate_memory l g reqs w =
     and_then_st (create_image l g (irq_info reqs) w) (\<lambda>(raw_image, memory_requirements) w.
     and_then_st (ok_or InvalidVulkanInfo (irq_vulkan_info reqs), w) (\<lambda>vulkan_info w.
     and_then_st (gpu_device g, w) (\<lambda>device w.
     if length (ph_memory_types (vd_physical device)) \<le> unat (vk_memory_idx vulkan_info)
     then (Err InvalidVulkanInfo, w)
     else
       let dma_buf = ext_external_memory_dma_buf (vd_extensions device);
           export_handle_type = (if dma_buf then DmaBuf else OpaqueFd);
           rutabaga_type =
             (if dma_buf then MAGMA_GPU_HANDLE_TYPE_MEM_DMABUF else MAGMA_GPU_HANDLE_TYPE_MEM_OPAQUE_FD);
           dedicated_allocation =
             (if khr_dedicated_allocation (vd_extensions device) \<and>
                 mr_prefers_dedicated memory_requirements then Some raw_image else None)
       in
       and_then_st
         (vk_call VkDeviceMemoryError (vk_memory_allocate l device
            \<lparr>mai_size = irq_size reqs, mai_memory_type_index = vk_memory_idx vulkan_info,
             mai_dedicated = dedicated_allocation, mai_export = Some export_handle_type\<rparr> w))
         (\<lambda>device_memory w.
       and_then_st (vk_call VkDeviceMemoryError (vk_export_fd l device_memory export_handle_type w))
         (\<lambda>descriptor w.
       (Ok \<lparr>os_handle = descriptor, handle_type = rutabaga_type\<rparr>, w))))))"

definition import_memory ::
  "'w vk_lib \<Rightarrow> vk_device \<Rightarrow> memory_allocate_info \<Rightarrow> magma_handle \<Rightarrow> 'w \<Rightarrow> nat rres \<times> 'w" where
  "import_memory l device allocate_info handle w =
     (if handle_type handle = MAGMA_GPU_HANDLE_TYPE_MEM_DMABUF then
        vk_call VkDeviceMemoryError (vk_memory_import l device allocate_info DmaBuf (os_handle handle) w)
      else if handle_type handle = MAGMA_GPU_HANDLE_TYPE_MEM_OPAQUE_FD then
        vk_call VkDeviceMemoryError (vk_memory_import l device allocate_info OpaqueFd (os_handle handle) w)
      else (Err (MagmaGpuError InvalidMagmaHandle), w))"

definition vulkano_import_and_map ::
  "'w vk_lib \<Rightarrow> vulkano_gralloc \<Rightarrow> magma_handle \<Rightarrow> vulkan_info \<Rightarrow> u64 \<Rightarrow> 'w \<Rightarrow> mesa_mapping rres \<times> 'w"
where
  "vulkano_import_and_map l g handle vk sz w =
     and_then_st (ok_or InvalidVulkanInfo (fmlookup (vg_device_by_id g) (vk_device_id vk)), w)
       (\<lambda>device w.
     and_then_st
       (import_memory l device
         \<lparr>mai_size = sz, mai_memory_type_index = vk_memory_idx vk, mai_dedicated = None,
          mai_export = None\<rparr> handle w) (\<lambda>device_memory w.
     and_then_st (vk_call VkMemoryMapError (vk_map_memory l device_memory sz w)) (\<lambda>mapped_memory w.
     (Ok \<lparr>mesa_ptr = mapped_memory, mesa_size = sz\<rparr>, w))))"

definition vulkano_backend :: "'w vk_lib \<Rightarrow> vulkano_gralloc \<Rightarrow> 'w gralloc_methods" where
  "vulkano_backend l g =
     (gralloc_defaults (vulkano_supports_external_gpu_memory g) (vulkano_supports_dmabuf g)
        (vulkano_get_image_memory_requirements l g) (vulkano_allocate_memory l g))
     \<lparr>gr_import_and_map := vulkano_import_and_map l g\<rparr>"

definition vulkano_init :: "'w vk_lib \<Rightarrow> 'w \<Rightarrow> 'w gralloc_methods rres \<times> 'w" where
  "vulkano_init l w =
     and_then_st (vk_call VkLoadingError (vk_library_new l w)) (\<lambda>_ w.
     and_then_st (vk_call VkInstanceCreationError (vk_instance_new l w)) (\<lambda>_ w.
     and_then_st (vk_call VkError (vk_enumerate l w)) (\<lambda>physicals w.
     and_then_st
       (add_devices l physicals
         \<lparr>vg_devices = fmempty, vg_device_by_id = fmempty, vg_has_integrated_gpu = False\<rparr> w) (\<lambda>g w.
     if vg_devices g = fmempty
     then (Err (MagmaGpuError (WithContext ''no matching VK devices available'')), w)
     else (Ok (vulkano_backend l g), w)))))"

section \<open>The contract\<close>

lemma vulkano_planes_lengths:
  "vulkano_planes l i f w ps reqs = Ok reqs' \<Longrightarrow>
   length (irq_strides reqs') = length (irq_strides reqs) \<and>
   length (irq_offsets reqs') = length (irq_offsets reqs)"
proof (induction ps arbitrary: reqs)
  case (Cons p ps)
  then obtain a where "vulkan_image_aspect_of f p = Ok a" by (auto simp: and_then_eq_Ok)
  with Cons show ?case by (cases "vk_subresource_layout l i a w") auto
qed simp

interpretation vulkano: gralloc_records "vulkano_backend l g" for l g
  by unfold_locales
    (auto simp: vulkano_backend_def gralloc_defaults_def vulkano_get_image_memory_requirements_def
      rust_simps four_plane_lists_def image_requirements_default_def dest!: vulkano_planes_lengths)

end
