(* ===== verification/Gralloc_Properties.thy ===== *)
theory Gralloc_Properties
  imports Minigbm Vulkano CD_Commands "HOL-Library.Multiset"
begin

text \<open>
  What the two optional backends of the gralloc guarantee: the slot of minigbm that carries a buffer
  object from the requirements to the allocation, the search for a Vulkan memory type, that Vulkan
  requirements can be allocated and imported, and that a container with any backends gives the four
  planes its callers read.
\<close>

section \<open>The stashed buffer of minigbm\<close>

definition keeps :: "('w \<Rightarrow> 'x) \<Rightarrow> ('w \<Rightarrow> 'w) \<Rightarrow> bool" where
  "keeps get f \<longleftrightarrow> (\<forall>w. get (f w) = get w)"

text \<open>Calls on descriptors do not change what \<open>get\<close> reads.\<close>

definition descriptors_keep :: "'w gbm_lib \<Rightarrow> ('w \<Rightarrow> 'x) \<Rightarrow> bool" where
  "descriptors_keep l get \<longleftrightarrow>
     (\<forall>d. keeps get (\<lambda>w. snd (std_seek_end l d w))) \<and> (\<forall>d. keeps get (std_close l d)) \<and>
     (\<forall>bo. keeps get (\<lambda>w. snd (gbm_bo_get_fd l bo w)))"

text \<open>The slot is memory of the program, which the library and the system leave alone.\<close>

definition gbm_lawful :: "'w gbm_lib \<Rightarrow> bool" where
  "gbm_lawful l \<longleftrightarrow>
     (\<forall>x w. last_buffer l (put_last_buffer l x w) = x) \<and>
     descriptors_keep l (last_buffer l) \<and>
     (\<forall>g a b f u. keeps (last_buffer l) (\<lambda>w. snd (gbm_bo_create l g a b f u w))) \<and>
     (\<forall>bo. keeps (last_buffer l) (gbm_bo_destroy l bo))"

text \<open>\<open>made\<close> and \<open>gone\<close> count the objects that were created and destroyed.\<close>

definition counted :: "'x option \<Rightarrow> 'x multiset" where
  "counted x = (case x of None \<Rightarrow> {#} | Some y \<Rightarrow> {#y#})"

lemma counted_simps [simp]: "counted None = {#}" "counted (Some x) = {#x#}"
  by (simp_all add: counted_def)

definition gbm_counts ::
  "'w gbm_lib \<Rightarrow> ('w \<Rightarrow> gbm_bo multiset) \<Rightarrow> ('w \<Rightarrow> gbm_bo multiset) \<Rightarrow> bool" where
  "gbm_counts l made gone \<longleftrightarrow>
     descriptors_keep l made \<and> descriptors_keep l gone \<and>
     (\<forall>x w. made (put_last_buffer l x w) = made w \<and> gone (put_last_buffer l x w) = gone w) \<and>
     (\<forall>g w. made (gbm_device_destroy l g w) = made w \<and> gone (gbm_device_destroy l g w) = gone w) \<and>
     (\<forall>g a b f u w bo w'. gbm_bo_create l g a b f u w = (bo, w') \<longrightarrow>
        made w' = made w + counted bo \<and> gone w' = gone w) \<and>
     (\<forall>bo w. made (gbm_bo_destroy l bo w) = made w \<and>
        gone (gbm_bo_destroy l bo w) = gone w + {#bo#})"

lemma keeps_snd: "keeps get (\<lambda>w. snd (f w)) \<Longrightarrow> f w = (x, w') \<Longrightarrow> get w' = get w"
  by (metis keeps_def snd_conv)

lemma gbm_lawful_simps [simp]:
  assumes "gbm_lawful l"
  shows "last_buffer l (put_last_buffer l x w) = x"
    and "last_buffer l (std_close l d w) = last_buffer l w"
    and "last_buffer l (gbm_bo_destroy l bo w) = last_buffer l w"
  using assms by (simp_all add: gbm_lawful_def descriptors_keep_def keeps_def)

lemma gbm_lawful_create:
  "gbm_lawful l \<Longrightarrow> gbm_bo_create l g a b f u w = (r, w') \<Longrightarrow> last_buffer l w' = last_buffer l w"
  unfolding gbm_lawful_def by (blast intro: keeps_snd)

lemma gbm_counts_simps [simp]:
  assumes "gbm_counts l made gone"
  shows "made (put_last_buffer l x w) = made w" and "gone (put_last_buffer l x w) = gone w"
    and "made (std_close l d w) = made w" and "gone (std_close l d w) = gone w"
    and "made (gbm_device_destroy l g w) = made w" and "gone (gbm_device_destroy l g w) = gone w"
    and "made (gbm_bo_destroy l bo w) = made w"
    and "gone (gbm_bo_destroy l bo w) = gone w + {#bo#}"
  using assms by (simp_all add: gbm_counts_def descriptors_keep_def keeps_def)

lemma gbm_counts_create:
  "gbm_counts l made gone \<Longrightarrow> gbm_bo_create l g a b f u w = (bo, w') \<Longrightarrow>
   made w' = made w + counted bo \<and> gone w' = gone w"
  unfolding gbm_counts_def by blast

lemma kept_by_export:
  assumes "descriptors_keep l get" and "bo_export l bo w = (r, w')"
  shows "get w' = get w"
  using assms keeps_snd [of get "gbm_bo_get_fd l bo" w]
  by (auto simp: bo_export_def descriptors_keep_def split: prod.splits)

lemma kept_by_dmabuf:
  assumes "descriptors_keep l get" and "bo_dmabuf l bo w = (r, w')"
  shows "get w' = get w"
  using assms(2) kept_by_export [OF assms(1), of bo w]
  by (cases "bo_export l bo w"; cases "fst (bo_export l bo w)") (auto simp: bo_dmabuf_def)

lemma kept_by_seek:
  assumes "descriptors_keep l get" and "bo_export l bo w = (x, u)" and "std_seek_end l fd u = (y, w')"
  shows "get w' = get w"
  using kept_by_export [OF assms(1,2)] assms
    keeps_snd [of get "std_seek_end l fd" u y w']
  by (simp add: descriptors_keep_def)

text \<open>The requirements of an object either stash it in an empty slot or fail and change nothing.\<close>

lemma bo_requirements_effect:
  assumes "gbm_lawful l" and "gbm_counts l made gone" and "bo_requirements l bo info w = (r, w')"
  shows "made w' = made w \<and> gone w' = gone w \<and>
    (case r of Inl e \<Rightarrow> last_buffer l w' = last_buffer l w
     | Inr reqs \<Rightarrow> last_buffer l w = None \<and> last_buffer l w' = Some bo)"
proof -
  have keep: "descriptors_keep l (last_buffer l)" "descriptors_keep l made" "descriptors_keep l gone"
    using assms(1,2) by (auto simp only: gbm_lawful_def gbm_counts_def)
  note exported = keep [THEN kept_by_export] and sought = keep [THEN kept_by_seek]
  let ?planes = "bo_planes l bo w [0..<bo_num_planes l bo w]
      (image_requirements_default
       \<lparr>irq_map_info :=
          (if bo_cached bo then RUTABAGA_MAP_CACHE_CACHED else RUTABAGA_MAP_CACHE_WC),
        irq_modifier := gbm_bo_get_modifier l bo w\<rparr>)"
  obtain planes where planes: "?planes = planes" by blast
  obtain x u where export: "bo_export l bo w = (x, u)" by fastforce
  note req = assms(3) [unfolded bo_requirements_def planes]
  show ?thesis
  proof (cases "(\<exists>e. planes = Inl e) \<or> (\<exists>e. x = Inl e)")
    case True
    then show ?thesis using req export exported [OF export] by (cases planes) auto
  next
    case False
    then obtain reqs fd where ok: "planes = Ok reqs" "x = Ok fd" by (metis old.sum.exhaust)
    obtain y v where seek: "std_seek_end l fd u = (y, v)" by fastforce
    show ?thesis
      using req gbm_lawful_simps [OF assms(1)] gbm_counts_simps [OF assms(2)] export ok seek
        sought [OF export [unfolded ok] seek]
      by (cases y) (auto split: if_split_asm)
  qed
qed

text \<open>
  Requirements stash the object they create, or destroy what they created and leave the slot. An
  allocation empties the slot and destroys the object it used.
\<close>

lemma requirements_effect:
  assumes "gbm_lawful l" and "gbm_counts l made gone"
    and "minigbm_get_image_memory_requirements l gbm info w = (r, w')"
  shows "case r of
      Inr reqs \<Rightarrow> last_buffer l w = None \<and>
        (\<exists>bo w0. gbm_bo_create l gbm (ia_width info) (ia_height info)
             (drm_code (ia_drm_format info))
             (gralloc_bits (ia_flags info) AND NOT GBM_BO_USE_TEXTURING) w = (Some bo, w0) \<and>
           last_buffer l w' = Some bo \<and> made w' = made w + {#bo#} \<and> gone w' = gone w)
    | Inl e \<Rightarrow> last_buffer l w' = last_buffer l w \<and>
        (\<exists>x. made w' = made w + x \<and> gone w' = gone w + x)"
proof -
  obtain bo0 w0 where new: "gbm_bo_create l gbm (ia_width info) (ia_height info)
      (drm_code (ia_drm_format info))
      (gralloc_bits (ia_flags info) AND NOT GBM_BO_USE_TEXTURING) w = (bo0, w0)"
    by fastforce
  note w0 = gbm_lawful_create [OF assms(1) new] gbm_counts_create [OF assms(2) new]
  show ?thesis
  proof (cases bo0)
    case None
    then show ?thesis
      using assms(3) new w0
      by (auto simp: minigbm_get_image_memory_requirements_def Let_def)
  next
    case (Some bo)
    obtain r1 w1 where req: "bo_requirements l bo info w0 = (r1, w1)" by fastforce
    show ?thesis
      using assms new w0 Some req bo_requirements_effect [OF assms(1,2) req]
      by (cases r1) (auto simp: minigbm_get_image_memory_requirements_def Let_def)
  qed
qed

lemma allocation_effect:
  assumes "gbm_lawful l" and "gbm_counts l made gone"
    and "minigbm_allocate_memory l gbm reqs w = (r, w')"
  shows "last_buffer l w' = None \<and>
    (\<exists>x. made w' = made w + x \<and> gone w' = gone w + x + counted (last_buffer l w)) \<and>
    (last_buffer l w \<noteq> None \<longrightarrow> made w' = made w)"
proof -
  have keep: "descriptors_keep l (last_buffer l)" "descriptors_keep l made" "descriptors_keep l gone"
    using assms(1,2) by (auto simp only: gbm_lawful_def gbm_counts_def)
  note dmabuf = keep [THEN kept_by_dmabuf]
  note create = gbm_lawful_create [OF assms(1)] gbm_counts_create [OF assms(2)]
  show ?thesis
  proof (cases "last_buffer l w")
    case (Some bo)
    obtain x v where out: "bo_dmabuf l bo (put_last_buffer l None w) = (x, v)" by fastforce
    show ?thesis
      using assms Some dmabuf [OF out] out
      by (auto simp: minigbm_allocate_memory_def with_bo_def Let_def split: if_split_asm)
  next
    case None
    obtain bo0 w0 where new: "gbm_bo_create l gbm (ia_width (irq_info reqs))
        (ia_height (irq_info reqs)) (drm_code (ia_drm_format (irq_info reqs)))
        (gralloc_bits (ia_flags (irq_info reqs))) (put_last_buffer l None w) = (bo0, w0)"
      by fastforce
    obtain x v where out: "bo_dmabuf l (the bo0) w0 = (x, v)" by fastforce
    show ?thesis
      using assms None new create [OF new] dmabuf [OF out] out
      by (cases bo0) (auto simp: minigbm_allocate_memory_def with_bo_def Let_def)
  qed
qed

text \<open>
  C34. A buffer object of minigbm passes from the requirements to the allocation through a slot of
  one place. Requirements that succeed found the slot empty and leave the object they created,
  without its texturing flag, there. Until it is allocated, every further request for requirements
  fails and keeps it. The next allocation, whatever its requirements, creates no object: it exports
  the stashed one if dimensions and format agree, else fails with \<open>InvalidGrallocDimensions\<close>; in
  both cases it destroys that object and empties the slot.
\<close>

theorem minigbm_stash:
  assumes "gbm_lawful l" and "gbm_counts l made gone"
    and "minigbm_get_image_memory_requirements l gbm info w = (Ok reqs, w1)"
  shows "\<exists>bo w0. gbm_bo_create l gbm (ia_width info) (ia_height info)
        (drm_code (ia_drm_format info))
        (gralloc_bits (ia_flags info) AND NOT GBM_BO_USE_TEXTURING) w = (Some bo, w0) \<and>
      last_buffer l w = None \<and> last_buffer l w1 = Some bo \<and>
      (\<forall>info2 r w2. minigbm_get_image_memory_requirements l gbm info2 w1 = (r, w2) \<longrightarrow>
         (\<forall>reqs2. r \<noteq> Ok reqs2) \<and> last_buffer l w2 = Some bo) \<and>
      (\<forall>reqs2 r w2. minigbm_allocate_memory l gbm reqs2 w1 = (r, w2) \<longrightarrow>
         last_buffer l w2 = None \<and> made w2 = made w1 \<and> gone w2 = gone w1 + {#bo#} \<and>
         r = (if bo_matches l bo (irq_info reqs2) (put_last_buffer l None w1)
              then fst (bo_dmabuf l bo (put_last_buffer l None w1))
              else Err InvalidGrallocDimensions))"
proof -
  obtain bo w0 where bo: "gbm_bo_create l gbm (ia_width info) (ia_height info)
      (drm_code (ia_drm_format info))
      (gralloc_bits (ia_flags info) AND NOT GBM_BO_USE_TEXTURING) w = (Some bo, w0)"
    and slot: "last_buffer l w = None" "last_buffer l w1 = Some bo"
    using requirements_effect [OF assms] by auto
  have again: "(\<forall>reqs2. r \<noteq> Ok reqs2) \<and> last_buffer l w2 = Some bo"
    if "minigbm_get_image_memory_requirements l gbm info2 w1 = (r, w2)" for info2 r w2
    using requirements_effect [OF assms(1,2) that] slot by (auto split: sum.split_asm)
  have taken: "last_buffer l w2 = None \<and> made w2 = made w1 \<and> gone w2 = gone w1 + {#bo#}"
    if "minigbm_allocate_memory l gbm reqs2 w1 = (r, w2)" for reqs2 r w2
    using allocation_effect [OF assms(1,2) that] slot by auto
  have result: "fst (minigbm_allocate_memory l gbm reqs2 w1) =
      (if bo_matches l bo (irq_info reqs2) (put_last_buffer l None w1)
       then fst (bo_dmabuf l bo (put_last_buffer l None w1)) else Err InvalidGrallocDimensions)"
    for reqs2
    using slot by (simp add: minigbm_allocate_memory_def with_bo_def Let_def split: prod.split)
  show ?thesis
    using bo slot again taken result by (metis fst_conv)
qed


text \<open>A run of a gralloc over minigbm.\<close>

datatype gralloc_call = Requirements image_allocation_info | Allocation image_memory_requirements

primrec gralloc_step :: "'w gralloc_methods \<Rightarrow> gralloc_call \<Rightarrow> 'w \<Rightarrow> 'w" where
  "gralloc_step b (Requirements info) w = snd (gr_get_image_memory_requirements b info w)"
| "gralloc_step b (Allocation reqs) w = snd (gr_allocate_memory b reqs w)"

definition balanced ::
  "'w gbm_lib \<Rightarrow> ('w \<Rightarrow> gbm_bo multiset) \<Rightarrow> ('w \<Rightarrow> gbm_bo multiset) \<Rightarrow> 'w \<Rightarrow> bool" where
  "balanced l made gone w \<longleftrightarrow> made w = gone w + counted (last_buffer l w)"

lemma balanced_step:
  assumes "gbm_lawful l" and "gbm_counts l made gone" and "balanced l made gone w"
  shows "balanced l made gone (gralloc_step (minigbm_gralloc l gbm) c w)"
proof (cases c)
  case (Requirements info)
  obtain r w' where "minigbm_get_image_memory_requirements l gbm info w = (r, w')" by fastforce
  then show ?thesis
    using requirements_effect [OF assms(1,2)] assms(3) Requirements
    by (cases r) (fastforce simp: minigbm_gralloc_def gralloc_defaults_def balanced_def)+
next
  case (Allocation reqs)
  obtain r w' where "minigbm_allocate_memory l gbm reqs w = (r, w')" by fastforce
  then show ?thesis
    using allocation_effect [OF assms(1,2)] assms(3) Allocation
    by (fastforce simp: minigbm_gralloc_def gralloc_defaults_def balanced_def)
qed

text \<open>
  C35. Whatever sequence of requests and allocations a gralloc over minigbm serves, with whatever
  results, no buffer object leaks and none is destroyed twice: at every moment the objects created
  are the objects destroyed and the stashed one, if any, counted with multiplicity; once the
  backend is dropped, every object created has been destroyed exactly once.
\<close>

theorem minigbm_no_leak:
  assumes "gbm_lawful l" and "gbm_counts l made gone"
    and "last_buffer l w = None" and "made w = gone w"
  shows "let w' = fold (gralloc_step (minigbm_gralloc l gbm)) cs w in
      made w' = gone w' + counted (last_buffer l w') \<and>
      made (minigbm_drop l gbm fd w') = gone (minigbm_drop l gbm fd w')"
proof -
  have "balanced l made gone w" using assms(3,4) by (simp add: balanced_def)
  then have "balanced l made gone (fold (gralloc_step (minigbm_gralloc l gbm)) cs w)"
    by (induction cs arbitrary: w) (simp_all add: balanced_step [OF assms(1,2)])
  then show ?thesis
    using gbm_lawful_simps [OF assms(1)] gbm_counts_simps [OF assms(2)]
    by (auto simp: Let_def balanced_def minigbm_drop_def minigbm_device_drop_def split: option.split)
qed

text \<open>A world with one device, whose objects are numbered.\<close>

record gbm_world =
  gw_slot :: "nat option"
  gw_made :: "nat multiset"
  gw_gone :: "nat multiset"

definition some_gbm :: "gbm_world gbm_lib" where
  "some_gbm = \<lparr>std_open_device = \<lambda>p w. (Inr 3, w), std_seek_end = \<lambda>d w. (Inr 4096, w),
     std_close = \<lambda>d w. w, std_last_os_error = \<lambda>w. OsError 12, gbm_create_device = \<lambda>d w. (Some 1, w),
     gbm_device_destroy = \<lambda>g w. w,
     gbm_bo_create = \<lambda>g a b f u w.
       (Some (size (gw_made w)), w\<lparr>gw_made := gw_made w + {#size (gw_made w)#}\<rparr>),
     gbm_bo_destroy = \<lambda>bo w. w\<lparr>gw_gone := gw_gone w + {#bo#}\<rparr>,
     gbm_bo_get_width = \<lambda>bo w. 8, gbm_bo_get_height = \<lambda>bo w. 8,
     gbm_bo_get_format = \<lambda>bo w. 0x20203852, gbm_bo_get_modifier = \<lambda>bo w. 0,
     gbm_bo_get_plane_count = \<lambda>bo w. 1, gbm_bo_get_offset = \<lambda>bo p w. 0,
     gbm_bo_get_stride_for_plane = \<lambda>bo p w. 64, gbm_bo_get_fd = \<lambda>bo w. (5, w),
     last_buffer = gw_slot, put_last_buffer = \<lambda>x w. w\<lparr>gw_slot := x\<rparr>\<rparr>"

definition empty_gbm :: gbm_world where
  "empty_gbm = \<lparr>gw_slot = None, gw_made = {#}, gw_gone = {#}\<rparr>"

definition some_request :: image_allocation_info where
  "some_request = \<lparr>ia_width = 8, ia_height = 8, ia_drm_format = DrmFormat 0x20203852,
     ia_flags = GrallocFlags GBM_BO_USE_TEXTURING\<rparr>"

lemma some_gbm_laws: "gbm_lawful some_gbm" "gbm_counts some_gbm gw_made gw_gone"
  by (auto simp: gbm_lawful_def gbm_counts_def descriptors_keep_def keeps_def some_gbm_def)

lemma some_gbm_requirements:
  "\<exists>reqs. minigbm_get_image_memory_requirements some_gbm 1 some_request empty_gbm =
     (Ok reqs, \<lparr>gw_slot = Some 0, gw_made = {#0#}, gw_gone = {#}\<rparr>)"
  by (simp add: minigbm_get_image_memory_requirements_def bo_requirements_def bo_num_planes_def
      bo_export_def some_gbm_def empty_gbm_def image_requirements_default_def)

lemma minigbm_stash_witness:
  "\<exists>reqs w1. minigbm_get_image_memory_requirements some_gbm 1 some_request empty_gbm = (Ok reqs, w1) \<and>
     last_buffer some_gbm w1 = Some 0 \<and>
     fst (minigbm_get_image_memory_requirements some_gbm 1 some_request w1) \<noteq> Ok reqs \<and>
     gw_gone (snd (minigbm_allocate_memory some_gbm 1 reqs w1)) = {#0#}"
proof -
  obtain reqs where reqs: "minigbm_get_image_memory_requirements some_gbm 1 some_request empty_gbm =
      (Ok reqs, \<lparr>gw_slot = Some 0, gw_made = {#0#}, gw_gone = {#}\<rparr>)"
    using some_gbm_requirements by blast
  have slot: "last_buffer some_gbm \<lparr>gw_slot = Some 0, gw_made = {#0#}, gw_gone = {#}\<rparr> = Some 0"
    by (simp add: some_gbm_def)
  show ?thesis
    using minigbm_stash [OF some_gbm_laws reqs] reqs slot
    by (intro exI conjI) (auto simp: prod_eq_iff dest!: spec)
qed

lemma minigbm_no_leak_witness:
  "\<exists>w'. gralloc_step (minigbm_gralloc some_gbm 1) (Requirements some_request) empty_gbm = w' \<and>
     gw_made w' = {#0#} \<and> gw_made w' = gw_gone w' + counted (last_buffer some_gbm w') \<and>
     gw_made (minigbm_drop some_gbm 1 3 w') = gw_gone (minigbm_drop some_gbm 1 3 w')"
proof -
  have start: "last_buffer some_gbm empty_gbm = None" "gw_made empty_gbm = gw_gone empty_gbm"
    by (simp_all add: empty_gbm_def some_gbm_def)
  have "gralloc_step (minigbm_gralloc some_gbm 1) (Requirements some_request) empty_gbm =
      \<lparr>gw_slot = Some 0, gw_made = {#0#}, gw_gone = {#}\<rparr>"
    using some_gbm_requirements by (auto simp: minigbm_gralloc_def gralloc_defaults_def)
  then show ?thesis
    using minigbm_no_leak [OF some_gbm_laws start, of 1 "[Requirements some_request]" 3]
    by (simp add: Let_def)
qed


section \<open>Formats of Vulkan\<close>

lemma ok_if: "(\<exists>y. (if P then Inr x else r) = Inr y) = (P \<or> (\<exists>y. r = Inr y))"
  by simp

lemma half_float_no_aspect:
  "drm_to_bytes f = DRM_FORMAT_ABGR16161616F \<Longrightarrow>
   vulkan_image_aspect_of f p = Err InvalidGrallocDrmFormat \<and> planar_layout_of f = Ok PACKED_8BPP"
  by (simp add: vulkan_image_aspect_of_def planar_layout_of_def drm_format_defs byte_string_def)

lemma layout_planes:
  assumes "planar_layout_of f = Ok layout"
  shows "drm_to_bytes f = DRM_FORMAT_NV12 \<Longrightarrow> num_planes layout = 2"
    and "drm_to_bytes f = DRM_FORMAT_YVU420 \<Longrightarrow> num_planes layout = 3"
  using assms
  by (auto simp: planar_layout_of_def layout_defs drm_format_defs byte_string_def)

lemma aspect_of_planes:
  assumes layout: "planar_layout_of f = Ok layout" and plane: "p < num_planes layout"
    and "drm_to_bytes f \<noteq> DRM_FORMAT_ABGR16161616F"
  shows "\<exists>a. vulkan_image_aspect_of f p = Ok a"
proof -
  consider (nv12) "drm_to_bytes f = DRM_FORMAT_NV12" | (yvu) "drm_to_bytes f = DRM_FORMAT_YVU420"
    | (packed) "drm_to_bytes f \<noteq> DRM_FORMAT_NV12" "drm_to_bytes f \<noteq> DRM_FORMAT_YVU420" by blast
  then show ?thesis
  proof cases
    case nv12
    then have "p = 0 \<or> p = 1" using plane layout_planes(1) [OF layout] by auto
    then show ?thesis by (auto simp: vulkan_image_aspect_of_def nv12)
  next
    case yvu
    then have "p = 0 \<or> p = 1 \<or> p = 2" using plane layout_planes(2) [OF layout] by auto
    moreover have "DRM_FORMAT_YVU420 \<noteq> DRM_FORMAT_NV12"
      by (simp add: drm_format_defs byte_string_def)
    ultimately show ?thesis by (auto simp: vulkan_image_aspect_of_def yvu)
  next
    case packed
    have "\<exists>layout. planar_layout_of f = Ok layout" using layout by blast
    then show ?thesis
      unfolding planar_layout_of_def vulkan_image_aspect_of_def Let_def ok_if
      using packed assms(3) by (simp split del: if_split)
  qed
qed

text \<open>
  The tables of the DRM formats agree: a format has a Vulkan format exactly when it has a
  planar layout, and every plane of the layout has a Vulkan image aspect, with one exception: the
  half-float format \<open>ABGR16161616F\<close> has a layout and a Vulkan format but no aspect, so that the Vulkan
  backend never gives requirements for it.
\<close>

lemma vulkano_format_tables:
  "((\<exists>v. vulkan_format_of f = Ok v) = (\<exists>layout. planar_layout_of f = Ok layout)) \<and>
   (\<forall>layout p. planar_layout_of f = Ok layout \<longrightarrow> p < num_planes layout \<longrightarrow>
      ((\<exists>a. vulkan_image_aspect_of f p = Ok a) = (drm_to_bytes f \<noteq> DRM_FORMAT_ABGR16161616F))) \<and>
   (drm_to_bytes (ia_drm_format info) = DRM_FORMAT_ABGR16161616F \<longrightarrow>
      (\<forall>reqs w'. gr_get_image_memory_requirements (vulkano_backend l g) info w \<noteq> (Ok reqs, w')))"
proof (intro conjI allI impI)
  show "(\<exists>v. vulkan_format_of f = Ok v) = (\<exists>layout. planar_layout_of f = Ok layout)"
    unfolding vulkan_format_of_def planar_layout_of_def Let_def ok_if
    by (simp split del: if_split) blast
next
  fix layout p
  assume "planar_layout_of f = Ok layout" "p < num_planes layout"
  then show "(\<exists>a. vulkan_image_aspect_of f p = Ok a) = (drm_to_bytes f \<noteq> DRM_FORMAT_ABGR16161616F)"
    using half_float_no_aspect [of f p] aspect_of_planes [of f layout p] by auto
next
  fix reqs w'
  assume half: "drm_to_bytes (ia_drm_format info) = DRM_FORMAT_ABGR16161616F"
  show "gr_get_image_memory_requirements (vulkano_backend l g) info w \<noteq> (Ok reqs, w')"
    using half_float_no_aspect [OF half]
    by (auto simp: vulkano_backend_def gralloc_defaults_def vulkano_get_image_memory_requirements_def
        rust_simps PACKED_8BPP_def)
qed

section \<open>Memory types of Vulkan\<close>

lemma find_append:
  "find P (xs @ ys) = (case find P xs of None \<Rightarrow> find P ys | Some x \<Rightarrow> Some x)"
  by (induction xs) simp_all

lemma find_filter: "find P (filter Q xs) = find (\<lambda>x. Q x \<and> P x) xs"
  by (induction xs) simp_all

lemma find_map: "find P (map f xs) = map_option f (find (\<lambda>x. P (f x)) xs)"
  by (induction xs) simp_all

text \<open>The least index below a bound.\<close>

definition least_below :: "nat \<Rightarrow> (nat \<Rightarrow> bool) \<Rightarrow> nat option" where
  "least_below n P = (if \<exists>i < n. P i then Some (LEAST i. P i) else None)"

lemma find_upt: "find P [0..<n] = least_below n P"
proof (cases "find P [0..<n]")
  case None
  then show ?thesis by (auto simp: find_None_iff least_below_def)
next
  case (Some i)
  then have "i < n" "P i" "\<forall>j < i. \<not> P j" by (auto simp: find_Some_iff)
  then have "(LEAST i. P i) = i" by (metis Least_equality not_less)
  then show ?thesis using Some \<open>i < n\<close> \<open>P i\<close> by (auto simp: least_below_def)
qed

text \<open>What a request wants of a memory type, and what it takes.\<close>

definition wanted :: "bool \<Rightarrow> bool \<Rightarrow> memory_type \<Rightarrow> bool" where
  "wanted need_visible want_cached t \<longleftrightarrow>
     (if need_visible then
        mt_host_visible t \<and>
        (if want_cached then mt_host_cached t else mt_host_coherent t \<and> \<not> mt_host_cached t)
      else mt_device_local t)"

definition acceptable :: "bool \<Rightarrow> memory_type \<Rightarrow> bool" where
  "acceptable need_visible t \<longleftrightarrow> (need_visible \<longrightarrow> mt_host_visible t)"

lemma memory_filter_iff:
  "memory_filter v c t = Preferred \<longleftrightarrow> wanted v c t"
  "memory_filter v c t = Allowed \<longleftrightarrow> acceptable v t \<and> \<not> wanted v c t"
  by (auto simp: memory_filter_def wanted_def acceptable_def)

text \<open>
  C36. The memory type of a Vulkan image: among the types the image may use, by its bit mask, the
  first one with the wanted properties (host visible and cached, host visible, coherent and not
  cached, or device local), else the first acceptable one (host visible when the host maps it), else
  none. Vulkan has at most 32 memory types.
\<close>

theorem vulkano_memory_type:
  assumes "length types \<le> 32"
  shows "find_memory_type v c type_bits types =
    map_option (\<lambda>i. (i, types ! i))
      (case least_below (length types) (\<lambda>i. bit type_bits i \<and> wanted v c (types ! i)) of
         Some i \<Rightarrow> Some i
       | None \<Rightarrow>
           least_below (length types) (\<lambda>i. bit type_bits i \<and> acceptable v (types ! i)))"
proof -
  let ?find = "\<lambda>rq. find (\<lambda>i. bit type_bits i \<and> memory_filter v c (types ! i) = rq) [0..<length types]"
  have search: "find (\<lambda>i. type_bits AND 2 ^ (i mod 32) \<noteq> 0 \<and> memory_filter v c (types ! i) = rq)
      [0..<length types] = ?find rq" for rq
    using assms by (intro find_cong) (auto simp: and_exp_eq_0_iff_not_bit)
  have "find_memory_type v c type_bits types =
      map_option (\<lambda>i. (i, types ! i)) (case ?find Preferred of None \<Rightarrow> ?find Allowed | Some i \<Rightarrow> Some i)"
    by (simp add: find_memory_type_def find_append find_filter find_map search
        option.map_comp comp_def split: option.split)
  moreover have "?find Allowed = least_below (length types) (\<lambda>i. bit type_bits i \<and> acceptable v (types ! i))"
    if "?find Preferred = None"
    using that
    by (auto simp: find_upt [symmetric] find_None_iff memory_filter_iff intro!: find_cong)
  ultimately show ?thesis
    by (cases "?find Preferred") (auto simp: find_upt memory_filter_iff)
qed


section \<open>Requirements of Vulkan\<close>

text \<open>Every device is found by its identifier.\<close>

definition devices_by_id :: "vulkano_gralloc \<Rightarrow> bool" where
  "devices_by_id g \<longleftrightarrow>
     (\<forall>t d. fmlookup (vg_devices g) t = Some d \<longrightarrow>
        (\<exists>i. get_id d = Ok i \<and> fmlookup (vg_device_by_id g) i \<noteq> None))"

lemma devices_by_idD:
  "devices_by_id g \<Longrightarrow> fmlookup (vg_devices g) t = Some d \<Longrightarrow> get_id d = Ok i \<Longrightarrow>
   \<exists>e. fmlookup (vg_device_by_id g) i = Some e"
  by (fastforce simp: devices_by_id_def)

lemma add_device_by_id: "devices_by_id g \<Longrightarrow> add_device d g = Ok g' \<Longrightarrow> devices_by_id g'"
  unfolding devices_by_id_def
  by (auto simp: add_device_def Let_def and_then_eq_Ok split: if_split_asm) metis+

lemma add_devices_by_id:
  "devices_by_id g \<Longrightarrow> add_devices l ps g w = (Ok g', w') \<Longrightarrow> devices_by_id g'"
proof (induction ps arbitrary: g w)
  case (Cons p ps)
  show ?case
  proof (cases "position id (ph_queue_graphics p)")
    case None
    with Cons show ?thesis by simp
  next
    case (Some q)
    obtain r w1 where "vk_device_new l p
        (intersection (ph_extensions p) get_desired_device_extensions) q w = (r, w1)" by fastforce
    with Some Cons show ?thesis
      by (cases r) (auto simp: and_then_st_eq_Ok dest: add_device_by_id)
  qed
qed simp

lemma vulkano_init_backend:
  assumes "vulkano_init l w = (Ok b, w')"
  shows "\<exists>g. b = vulkano_backend l g \<and> devices_by_id g"
proof -
  have "devices_by_id \<lparr>vg_devices = fmempty, vg_device_by_id = fmempty, vg_has_integrated_gpu = False\<rparr>"
    by (simp add: devices_by_id_def)
  then show ?thesis
    using assms
    by (auto simp: vulkano_init_def and_then_st_eq_Ok split: if_split_asm dest: add_devices_by_id)
qed

text \<open>An error reported by the Vulkan driver, rather than found by the gralloc.\<close>

definition from_driver :: "rutabaga_error fault \<Rightarrow> bool" where
  "from_driver f \<longleftrightarrow>
     (\<exists>n. f \<in> {Fail (VkImageCreationError n), Fail (VkDeviceMemoryError n), Fail (VkMemoryMapError n)})"

lemma vk_call_driver:
  "vk_call VkImageCreationError p = (Inl f, w') \<Longrightarrow> from_driver f"
  "vk_call VkDeviceMemoryError p = (Inl f, w') \<Longrightarrow> from_driver f"
  "vk_call VkMemoryMapError p = (Inl f, w') \<Longrightarrow> from_driver f"
  by (auto simp: vk_call_def from_driver_def split: prod.splits sum.splits)

text \<open>The checks on an image do not depend on the moment.\<close>

lemma create_image_again:
  assumes "create_image l g info w = (Ok x, w')" and "create_image l g info v = (Inl f, v')"
  shows "from_driver f"
  using assms
  by (auto simp: create_image_def and_then_st_eq_Ok and_then_st_eq_Inl dest: vk_call_driver
      split: if_split_asm)


lemma import_memory_driver:
  "handle_type h \<in> {MAGMA_GPU_HANDLE_TYPE_MEM_DMABUF, MAGMA_GPU_HANDLE_TYPE_MEM_OPAQUE_FD} \<Longrightarrow>
   import_memory l d a h w = (Inl f, w') \<Longrightarrow> from_driver f"
  by (auto simp: import_memory_def dest: vk_call_driver split: if_split_asm)

lemma find_memory_type_index:
  "find_memory_type v c type_bits types = Some (i, t) \<Longrightarrow> i < length types"
  by (auto simp: find_memory_type_def find_append find_filter find_map find_Some_iff
      split: option.split_asm)

lemma unat_of_nat_le: "unat (of_nat i :: u32) \<le> i"
  by (simp add: unat_of_nat)

text \<open>
  Requirements that the Vulkan backend gave are accepted by it ever after: they carry a memory
  type and a device, and whatever size the container gives them, only the driver can refuse to
  allocate from them; the handle of the allocation has a type that can be imported, and importing it
  with the memory type, the device and the size finds the device, so that again only the driver can
  refuse. Neither call panics.
\<close>

lemma vulkano_requirements_accepted:
  assumes "vulkano_init l w = (Ok b, w0)"
    and "gr_get_image_memory_requirements b info w1 = (Ok reqs, w2)"
  shows "\<exists>vk. irq_vulkan_info reqs = Some vk \<and>
    (\<forall>sz w3 w4. case gr_allocate_memory b (reqs\<lparr>irq_size := sz\<rparr>) w3 of
       (Inl f, _) \<Rightarrow> from_driver f
     | (Inr h, _) \<Rightarrow>
         (case gr_import_and_map b h vk sz w4 of
            (Inl f, _) \<Rightarrow> from_driver f | (Inr mapping, _) \<Rightarrow> mesa_size mapping = sz))"
proof -
  obtain g where b: "b = vulkano_backend l g" and g: "devices_by_id g"
    using vulkano_init_backend [OF assms(1)] by blast
  obtain x w1' i t d where image: "create_image l g info w1 = (Ok x, w1')"
    and d: "gpu_device g = Ok d"
    and t: "i < length (ph_memory_types (vd_physical d))"
    and vk: "irq_vulkan_info reqs = Some \<lparr>vk_memory_idx = of_nat i, vk_device_id = t\<rparr>"
    and t_id: "get_id d = Ok t" and info: "irq_info reqs = info"
    using assms(2)
    by (auto simp: b vulkano_backend_def gralloc_defaults_def
        vulkano_get_image_memory_requirements_def rust_simps dest!: find_memory_type_index)
  obtain e where e: "fmlookup (vg_device_by_id g) t = Some e"
    using devices_by_idD [OF g _ t_id] d by (auto simp: gpu_device_def ok_or_def split: option.split_asm)
  have small: "unat (of_nat i :: u32) < length (ph_memory_types (vd_physical d))"
    using t unat_of_nat_le [of i] by linarith
  have alloc_err: "from_driver f"
    if "vulkano_allocate_memory l g (reqs\<lparr>irq_size := sz\<rparr>) w3 = (Inl f, v)" for f sz w3 v
    using that vk d small info
    by (auto simp: vulkano_allocate_memory_def and_then_st_eq_Inl Let_def
        dest: vk_call_driver create_image_again [OF image [folded info]] split: if_split_asm)
  have alloc_ok: "handle_type h \<in> {MAGMA_GPU_HANDLE_TYPE_MEM_DMABUF, MAGMA_GPU_HANDLE_TYPE_MEM_OPAQUE_FD}"
    if "vulkano_allocate_memory l g (reqs\<lparr>irq_size := sz\<rparr>) w3 = (Ok h, v)" for h sz w3 v
    using that
    by (auto simp: vulkano_allocate_memory_def and_then_st_eq_Ok Let_def split: if_split_asm)
  let ?vk = "\<lparr>vk_memory_idx = of_nat i, vk_device_id = t\<rparr>"
  have import_err: "from_driver f"
    if "vulkano_allocate_memory l g (reqs\<lparr>irq_size := sz\<rparr>) w3 = (Ok h, v)"
      "vulkano_import_and_map l g h ?vk sz w4 = (Inl f, v')" for h f sz w3 v w4 v'
    using that(2) e
    by (auto simp: vulkano_import_and_map_def and_then_st_eq_Inl
        dest: vk_call_driver import_memory_driver [OF alloc_ok [OF that(1)]])
  have import_ok: "mesa_size mapping = sz"
    if "vulkano_import_and_map l g h ?vk sz w4 = (Ok mapping, v')" for h mapping sz w4 v'
    using that by (auto simp: vulkano_import_and_map_def and_then_st_eq_Ok)
  show ?thesis
    by (rule exI [of _ ?vk])
      (auto simp: vk b vulkano_backend_def gralloc_defaults_def split: prod.split sum.split
        intro: alloc_err import_err import_ok)
qed


section \<open>A container of backends\<close>

lemma try_backend_keeps:
  assumes "fmpred P m" and "try_backend uses t init m w = (m', w')"
    and "\<And>f v b v'. init = Some f \<Longrightarrow> f v = (Ok b, v') \<Longrightarrow> P t b"
  shows "fmpred P m'"
  using assms by (auto simp: try_backend_def split: option.splits if_splits prod.splits sum.splits)

lemma minigbm_init_backend:
  assumes "minigbm_init l w = (Ok b, w')"
  shows "\<exists>gbm. b = minigbm_gralloc l gbm"
proof -
  obtain d w1 where node: "open_render_node l w = (Ok d, w1)"
    using assms by (auto simp: minigbm_init_def and_then_st_eq_Ok)
  obtain x w2 where "gbm_create_device l d w1 = (x, w2)" by fastforce
  with node assms show ?thesis by (cases x) (auto simp: minigbm_init_def)
qed

lemma gralloc_records_new:
  assumes "rutabaga_gralloc_new env flags w = (Ok m, w')"
    and "gb_minigbm_init env \<in> {None, Some (minigbm_init gl)}"
    and "gb_vulkano_init env \<in> {None, Some (vulkano_init vl)}"
  shows "fmpred (\<lambda>t b. gralloc_records b) m"
proof -
  have gbm: "gralloc_records b" if "minigbm_init gl v = (Ok b, v')" for b v v'
    using minigbm_init_backend [OF that] minigbm.gralloc_records_axioms by blast
  have vk: "gralloc_records b" if "vulkano_init vl v = (Ok b, v')" for b v v'
    using vulkano_init_backend [OF that] vulkano.gralloc_records_axioms by blast
  obtain m0 m1 w1 where "m0 = (if uses_system flags then fmupd System system_gralloc fmempty else fmempty)"
    and steps: "try_backend (uses_gbm flags) Minigbm (gb_minigbm_init env) m0 w = (m1, w1)"
      "try_backend (uses_vulkano flags) Vulkano (gb_vulkano_init env) m1 w1 = (m, w')"
    using assms(1)
    by (auto simp: rutabaga_gralloc_new_def system_gralloc_init_def split: prod.split_asm if_split_asm)
  then have "fmpred (\<lambda>t b. gralloc_records b) m0"
    by (simp add: fmpred_upd system.gralloc_records_axioms)
  from try_backend_keeps [OF this steps(1)] have "fmpred (\<lambda>t b. gralloc_records b) m1"
    using assms(2) gbm by auto
  from try_backend_keeps [OF this steps(2)] show ?thesis using assms(3) vk by auto
qed

text \<open>
  C37. Every requirement that the gralloc of a cross-domain context computes is well formed, whichever
  of the three backends it was built with and whichever of them serves the request: it records the
  request and has four strides and four offsets, so that the arrays of the wire format are filled
  exactly (\<open>four_planes\<close>).
\<close>

theorem gralloc_four_planes:
  assumes "rutabaga_gralloc_new (ce_build env) flags w = (Ok (ce_gralloc env), w0)"
    and "gb_minigbm_init (ce_build env) \<in> {None, Some (minigbm_init gl)}"
    and "gb_vulkano_init (ce_build env) \<in> {None, Some (vulkano_init vl)}"
  shows "four_planes env \<and>
    (gralloc_get_image_memory_requirements (ce_build env) (ce_gralloc env) info w1 = (Ok reqs, w2) \<longrightarrow>
       irq_info reqs = info)"
  using gralloc_requirements_recorded [OF gralloc_records_new [OF assms]]
  by (auto simp: four_planes_def four_plane_lists_def)


section \<open>Witnesses\<close>

definition half_float :: drm_format where "half_float = drm_format_new 0x41 0x42 0x34 0x48"

definition some_extensions :: device_extensions where
  "some_extensions =
     \<lparr>khr_dedicated_allocation = False, khr_get_memory_requirements2 = True,
      khr_external_memory = True, khr_external_memory_fd = True, ext_external_memory_dma_buf = True\<rparr>"

definition some_memory_types :: "memory_type list" where
  "some_memory_types =
     [\<lparr>mt_device_local = True, mt_host_visible = False, mt_host_coherent = False, mt_host_cached = False\<rparr>,
      \<lparr>mt_device_local = False, mt_host_visible = True, mt_host_coherent = True, mt_host_cached = False\<rparr>]"

definition some_physical :: vk_physical where
  "some_physical =
     \<lparr>ph_queue_graphics = [False, True], ph_extensions = some_extensions,
      ph_device_type = IntegratedGpu, ph_device_uuid = Some [1], ph_driver_uuid = Some [2],
      ph_memory_types = some_memory_types\<rparr>"

definition some_vk :: "'w vk_lib" where
  "some_vk = \<lparr>vk_library_new = \<lambda>w. (Inr (), w), vk_instance_new = \<lambda>w. (Inr (), w),
     vk_enumerate = \<lambda>w. (Inr [some_physical], w),
     vk_device_new = \<lambda>p e q w. (Inr \<lparr>vd_handle = 1, vd_physical = p, vd_extensions = e\<rparr>, w),
     vk_image_new = \<lambda>d i w. (Inr 7, w),
     vk_memory_requirements = \<lambda>i w.
       \<lparr>mr_size = 64, mr_memory_type_bits = 3, mr_prefers_dedicated = False\<rparr>,
     vk_subresource_layout = \<lambda>i a w. Inr \<lparr>sl_row_pitch = 8, sl_offset = 0\<rparr>,
     vk_memory_allocate = \<lambda>d i w. (Inr 9, w), vk_export_fd = \<lambda>m t w. (Inr 5, w),
     vk_memory_import = \<lambda>d i t fd w. (Inr 10, w), vk_map_memory = \<lambda>m s w. (Inr 4096, w)\<rparr>"


lemma vulkano_memory_type_witness:
  "find_memory_type True False 3 some_memory_types = Some (1, some_memory_types ! 1)"
proof -
  have "bit (3 :: u32) 1" by (simp add: bit_iff_odd)
  moreover have "{i. i < length some_memory_types} = {0, 1}"
    by (auto simp: some_memory_types_def)
  ultimately have "least_below (length some_memory_types)
      (\<lambda>i. bit (3 :: u32) i \<and> wanted True False (some_memory_types ! i)) = Some 1"
    unfolding find_upt [symmetric]
    by (simp add: some_memory_types_def wanted_def upt_rec)
  then show ?thesis
    using vulkano_memory_type [of some_memory_types True False 3] by (simp add: some_memory_types_def)
qed

lemma some_vk_requirements:
  "\<exists>b reqs. vulkano_init some_vk w = (Ok b, w) \<and>
     gr_get_image_memory_requirements b some_request w1 = (Ok reqs, w1) \<and> irq_size reqs = 64"
proof -
  have format: "drm_to_bytes (DrmFormat 0x20203852) = DRM_FORMAT_R8"
    by (simp add: drm_to_bytes_def drm_format_defs byte_string_def)
  have found: "find_memory_type True True 3 some_memory_types \<noteq> None"
    "find_memory_type True False 3 some_memory_types \<noteq> None"
    "find_memory_type False True 3 some_memory_types \<noteq> None"
    "find_memory_type False False 3 some_memory_types \<noteq> None"
    by code_simp+
  have "find_memory_type v c 3 some_memory_types \<noteq> None" for v c
    using found by (cases v; cases c) simp_all
  then obtain i t where type: "find_memory_type (gralloc_host_visible (GrallocFlags 32))
      (gralloc_host_cached (GrallocFlags 32)) 3 some_memory_types = Some (i, t)"
    by fast
  show ?thesis
    by (simp add: vulkano_init_def some_vk_def vk_call_def some_physical_def position_def
        add_device_def get_id_def unwrap_def vulkano_backend_def gralloc_defaults_def
        vulkano_get_image_memory_requirements_def create_image_def gpu_device_def some_request_def
        vulkan_format_of_def planar_layout_of_def vulkan_image_aspect_of_def format PACKED_1BPP_def type ok_or_def)
qed


lemma gralloc_four_planes_witness:
  "\<exists>m reqs. rutabaga_gralloc_new \<lparr>gb_minigbm_init = None, gb_vulkano_init = Some (vulkano_init some_vk)\<rparr>
        backend_flags_new some_cd_world = (Ok m, some_cd_world) \<and>
      gralloc_get_image_memory_requirements
        \<lparr>gb_minigbm_init = None, gb_vulkano_init = Some (vulkano_init some_vk)\<rparr> m some_request some_cd_world =
        (Ok reqs, some_cd_world) \<and> irq_info reqs = some_request \<and> length (irq_strides reqs) = 4"
proof -
  let ?build = "\<lparr>gb_minigbm_init = None, gb_vulkano_init = Some (vulkano_init some_vk)\<rparr> ::
      unit cd_world_ext gralloc_build"
  obtain b reqs where b: "vulkano_init some_vk some_cd_world = (Ok b, some_cd_world)"
    and req: "gr_get_image_memory_requirements b some_request some_cd_world = (Ok reqs, some_cd_world)"
    and low: "irq_size reqs = 64"
    using some_vk_requirements [of some_cd_world some_cd_world] by blast
  let ?m = "fmupd Vulkano b (fmupd System system_gralloc fmempty)"
  let ?env = "\<lparr>ce_build = ?build, ce_gralloc = ?m, ce_lookup = None\<rparr>"
  have new: "rutabaga_gralloc_new (ce_build ?env) backend_flags_new some_cd_world =
      (Ok (ce_gralloc ?env), some_cd_world)"
    by (simp add: rutabaga_gralloc_new_def backend_flags_new_def uses_system_def uses_vulkano_def
        has_flag_def system_gralloc_init_def try_backend_def b)
  obtain sz where sz: "round_up_to_page_size (w_os some_world) (irq_size reqs) = Ok sz"
    using low by (simp add: round_up_to_page_size_def some_world_def Let_def)
  have get: "gralloc_get_image_memory_requirements (ce_build ?env) (ce_gralloc ?env)
      some_request some_cd_world = (Ok (reqs\<lparr>irq_size := sz\<rparr>), some_cd_world)"
    by (simp add: gralloc_get_image_memory_requirements_def determine_optimal_backend_def ok_or_def
        req sz)
  have four: "four_planes ?env" and "irq_info (reqs\<lparr>irq_size := sz\<rparr>) = some_request"
    using gralloc_four_planes [OF new, of undefined some_vk some_request some_cd_world] get by simp_all
  moreover have "length (irq_strides (reqs\<lparr>irq_size := sz\<rparr>)) = 4"
    using four get unfolding four_planes_def by blast
  ultimately show ?thesis using new get
    by (intro exI [of _ ?m] exI [of _ "reqs\<lparr>irq_size := sz\<rparr>"]) simp
qed

end
