(* ===== verification/Core_Plain.thy ===== *)
theory Core_Plain
  imports Core_Invariants
begin

text \<open>
  The library handle without \<open>fence_passing_option1\<close>, the configuration with the virglrenderer
  feature: the handle has no table of shareable fences and three methods of \<open>src/rutabaga_core.rs\<close>
  differ. Here the table of the model stays as it is, and nothing reads it.
\<close>

definition plain_create_fence :: "rutabaga_fence \<Rightarrow> (unit, 'a) op" where
  "plain_create_fence fence g =
     (if has_flag (fence_flags fence) RUTABAGA_FLAG_INFO_RING_IDX then
        and_then_st (get_context g (fence_ctx_id fence), g) (\<lambda>ctx g.
        and_then_st (call (x_context_create_fence ctx fence) g) (\<lambda>handle_opt g. (Ok (), g)))
      else
        and_then_st (default_of g, g) (\<lambda>c. call (c_create_fence c fence)))"

definition plain_export_fence :: "u64 \<Rightarrow> (magma_handle, 'a) op" where
  "plain_export_fence fid g = and_then_st (default_of g, g) (\<lambda>c. call (c_export_fence c fid))"

text \<open>The identifiers still reach the context, but no handles.\<close>

definition plain_submit_command ::
  "u32 \<Rightarrow> u8 list \<Rightarrow> u64 list \<Rightarrow> 'a rutabaga \<Rightarrow> (unit rres \<times> u8 list) \<times> 'a rutabaga" where
  "plain_submit_command ctx_id commands fence_ids g =
     (case get_context g ctx_id of
        Inl e \<Rightarrow> ((Inl e, commands), g)
      | Inr ctx \<Rightarrow> call (x_submit_cmd ctx commands fence_ids []) g)"

section \<open>The two configurations\<close>

text \<open>
  Creating a fence does the same in both as long as it does not panic, less the entry in the table:
  without the option a missing handle of a shareable fence goes unnoticed.
\<close>

lemma plain_create_fence_agrees:
  assumes "fst (rutabaga_create_fence f g) \<noteq> Panicked"
  shows "plain_create_fence f g =
    (case rutabaga_create_fence f g of
       (r, g') \<Rightarrow> (r, g'\<lparr>g_shareable_fences := g_shareable_fences g\<rparr>))"
proof (cases "has_flag (fence_flags f) RUTABAGA_FLAG_INFO_RING_IDX")
  case False
  show ?thesis
  proof (cases "default_of g")
    case (Inl e)
    with False show ?thesis by (simp add: plain_create_fence_def rutabaga_create_fence_def)
  next
    case (Inr c)
    with False show ?thesis
      by (cases "c_create_fence c f (g_world g)")
        (simp add: plain_create_fence_def rutabaga_create_fence_def call_def rutabaga_get_defs)
  qed
next
  case True
  show ?thesis
  proof (cases "get_context g (fence_ctx_id f)")
    case (Inl e)
    then show ?thesis using True by (simp add: plain_create_fence_def rutabaga_create_fence_def)
  next
    case (Inr ctx)
    obtain h g1 where run: "call (x_context_create_fence ctx f) g = (h, g1)" by fastforce
    then have "g_shareable_fences g1 = g_shareable_fences g" by (auto simp: call_def split: prod.splits)
    then have keep: "g1\<lparr>g_shareable_fences := g_shareable_fences g\<rparr> = g1" by (cases g1) simp
    note unfold = plain_create_fence_def rutabaga_create_fence_def rutabaga_get_defs
    show ?thesis
    proof (cases h)
      case (Inl e)
      with True Inr run keep show ?thesis by (simp add: unfold)
    next
      case (Inr handle_opt)
      with True \<open>get_context g (fence_ctx_id f) = Ok ctx\<close> run keep assms show ?thesis
        by (cases handle_opt) (simp_all add: unfold split: if_splits)
    qed
  qed
qed

text \<open>With no shareable fences, exports agree, and so do submissions that wait for none.\<close>

lemma plain_fences_agree:
  assumes "g_shareable_fences g = fmempty"
  shows "plain_export_fence fid g = rutabaga_export_fence fid g"
    and "plain_submit_command x cmds [] g = rutabaga_submit_command x cmds [] g"
    and "get_context g x = Ok ctx \<Longrightarrow>
      rutabaga_submit_command x cmds (fid # fids) g = ((Err (MagmaGpuError InvalidMagmaHandle), cmds), g)"
proof -
  show "plain_export_fence fid g = rutabaga_export_fence fid g"
    using assms by (simp add: plain_export_fence_def rutabaga_export_fence_def)
  show "plain_submit_command x cmds [] g = rutabaga_submit_command x cmds [] g"
    by (cases "get_context g x") (simp_all add: plain_submit_command_def rutabaga_submit_command_def rutabaga_get_defs)
  show "get_context g x = Ok ctx \<Longrightarrow>
      rutabaga_submit_command x cmds (fid # fids) g = ((Err (MagmaGpuError InvalidMagmaHandle), cmds), g)"
    using assms by (cases "get_context g x") (simp_all add: rutabaga_submit_command_def rutabaga_get_defs)
qed

lemma plain_ops_keep_inv:
  assumes "core_inv K g"
  shows "core_inv K (snd (plain_create_fence f g))" and "core_inv K (snd (plain_export_fence fid g))"
    and "core_inv K (snd (plain_submit_command x cmds fids g))"
proof -
  show "core_inv K (snd (plain_create_fence f g))"
    unfolding plain_create_fence_def using assms by (auto intro!: inv_and_then)
  show "core_inv K (snd (plain_export_fence fid g))"
    unfolding plain_export_fence_def using assms by (auto intro!: inv_and_then)
  show "core_inv K (snd (plain_submit_command x cmds fids g))"
    unfolding plain_submit_command_def using assms by (auto split: sum.split)
qed

end
