(* ===== verification/Spec2Isabelle.thy ===== *)
theory Spec2Isabelle
  imports Core_Properties Builder Magma_Component Formats Gralloc CD_Component CD_Commands
    Kumquat_Properties Kumquat_Client_Properties C_API_Properties Gralloc_Properties Core_Plain
begin

text \<open>
  A verification library of Rutabaga, the virtual GPU multiplexer (\<open>src/\<close> of the repository), of its
  C interface, and of Kumquat: the server that serves it over a socket, and the client library of its
  guests.

  The program. A virtual machine monitor (through the C interface) or the Kumquat server holds one library handle,
  \<open>Rutabaga\<close> (\<open>src/rutabaga_core.rs\<close>). The handle owns the tables of resources, contexts and
  shareable fences and dispatches each call to a component: the 2D renderer (\<open>rutabaga_2d.rs\<close>), the
  cross-domain component (\<open>cross_domain/\<close>), Magma (\<open>magma/\<close>), and the bindings of virglrenderer and
  gfxstream. A builder chooses and initializes the components. The cross-domain component passes
  messages between the guest and host sockets; each of its contexts has a worker thread, and threads
  that watch words of guest memory. It allocates images through the gralloc (\<open>rutabaga_gralloc/\<close>).
  A guest driver without a virtual machine calls the Kumquat client instead, which sends one packet per
  request over a socket and waits for the answer where there is one; the server reads the packet and
  runs the request on its library handle.

  The theories.
  \<^item> \<open>Prelude\<close>: results with errors, panics or hangs (\<open>and_then\<close>, \<open>and_then_st\<close>), checked slices, maps,
    guest memory, flags; the collection \<open>rust_simps\<close> that unfolds sequences of fallible steps.
  \<^item> \<open>Rutabaga_Utils\<close> (\<open>rutabaga_utils.rs\<close>, \<open>macros.rs\<close>), \<open>Handle\<close> (\<open>handle.rs\<close> and the
    descriptors and mappings of the mesa utility crate), \<open>Resource\<close>, \<open>Snapshot\<close> (\<open>snapshot.rs\<close>, the
    world an operation runs in), \<open>Component\<close> (the two traits of \<open>rutabaga_core.rs\<close> as records of
    methods, their default bodies, and the contracts the core relies on as locales).
  \<^item> \<open>Transfer_2D\<close>, \<open>Rutabaga_2D\<close> (\<open>rutabaga_2d.rs\<close>): the copy loop between iovecs and host memory
    with its functional specification, and the 2D component, an interpretation of the contract.
  \<^item> \<open>Capsets\<close>, \<open>Core\<close>, \<open>Builder\<close> (\<open>rutabaga_core.rs\<close>): the capset table, every method of
    \<open>Rutabaga\<close>, and \<open>RutabagaBuilder\<close>. \<open>Core_Invariants\<close> has the step relation of the handle, one
    preservation lemma per operation, and the frame of each operation, and follows the entries that a
    restored snapshot files under a wrong id; \<open>Core_Properties\<close> has what follows for reachable states, resource ids, fences, handles and snapshots.
  \<^item> \<open>Formats\<close>, \<open>Gralloc\<close> (\<open>rutabaga_gralloc/formats.rs\<close>, \<open>gralloc.rs\<close>, \<open>system_gralloc.rs\<close>): planar
    layouts, the choice of a backend, and the contract of a backend as two locales. \<open>Minigbm\<close>
    (\<open>minigbm.rs\<close>) and \<open>Vulkano\<close> (\<open>vulkano_gralloc.rs\<close> with its Linux part, the Vulkan tables of
    \<open>formats.rs\<close>): the two optional backends, interpretations of the contract over the records
    \<open>gbm_lib\<close> and \<open>vk_lib\<close> of library functions. \<open>Gralloc_Properties\<close> has their properties.
  \<^item> \<open>Magma_Component\<close> (\<open>magma/component.rs\<close>, \<open>magma/context.rs\<close>, \<open>context_common.rs\<close>).
  \<^item> \<open>CD_Protocol\<close> (\<open>cross_domain_protocol.rs\<close>): wire structs, and their bytes as \<open>repr(C)\<close> lays them out. \<open>CD_Common\<close>
    (\<open>common.rs\<close> and the events, pipes, tubes and wait contexts of the mesa utility crate): items,
    jobs, rings. \<open>CD_Sentinel\<close> (\<open>atomic_memory_sentinel_manager.rs\<close>). \<open>CD_Context\<close> (\<open>context.rs\<close>),
    \<open>CD_Component\<close> (\<open>component.rs\<close>), \<open>CD_Worker\<close> (\<open>worker.rs\<close>). \<open>CD_Fences\<close> has the interleaving of
    a context with its workers and the accounting of fences, \<open>CD_Items\<close> and \<open>CD_Commands\<close> the
    properties of the items, of the rings and of the guest commands.
  \<^item> \<open>Renderer_Utils\<close> (\<open>renderer_utils.rs\<close> and the argument structs of
    \<open>generated/virgl_renderer_bindings.rs\<close>), \<open>Gfxstream\<close> (\<open>gfxstream.rs\<close>), \<open>Virgl_Renderer\<close>
    (\<open>virgl_renderer.rs\<close>): the contexts, callbacks and methods of the two accelerated components, both
    interpretations of the component contract. A C library is a record of functions on the world
    (\<open>gfx_lib\<close>, \<open>virgl_lib\<close>), one per entry point. \<open>Renderer_Properties\<close> has their properties.
  \<^item> \<open>Kumquat_Protocol\<close> (\<open>protocols/kumquat_gpu_protocol/mod.rs\<close>, \<open>protocols/ipc/kumquat_stream.rs\<close>
    and \<open>util/bytestream/mod.rs\<close> of the mesa crate): messages and packets. \<open>Kumquat_Server\<close>
    (\<open>kumquat/server/src/kumquat_gpu/mod.rs\<close>, \<open>kumquat.rs\<close>): every message and the event loop.
    \<open>Kumquat_Server\<close> also has \<open>main.rs\<close>. \<open>Kumquat_Properties\<close>: when the server gives a resource back,
    drops a connection, and panics.
  \<^item> \<open>Kumquat_Client\<close> (\<open>virtgpu_kumquat/virtgpu_kumquat_impl.rs\<close> and \<open>defines.rs\<close> of the mesa crate):
    the client, every method and its drop. \<open>Kumquat_Client_Calls\<close>: its calls as a datatype, the
    sequence of requests each call stands for, and their effect on the log and on the table of buffers.
    \<open>Kumquat_Client_Properties\<close>: the client with the server, joined by the packets of the log and the
    answers of \<open>sys_recvmsg\<close>.
  \<^item> \<open>C_API\<close> (\<open>ffi/src/lib.rs\<close>): every exported function, with pointers as options and out-parameters
    as results, and the log backend; \<open>Undefined\<close> is a call that breaks a rule of Rust about raw pointers,
    \<open>NoReturn\<close> one whose operation of the library does not return.
    \<open>C_API_Properties\<close>: the C calls refine the steps of the library.

  The model of the code. A struct is a record with the fields of the source, an enum a datatype, a
  machine integer a word of its width. Where the code computes with unchecked operators on words they
  wrap, as in a release build; the \<open>checked_arithmetic!\<close> macro is a function on naturals that fails
  outside the width. An operation takes its state last and returns its result and the new state; a
  result is a sum of \<open>fault\<close> (an error of the source, a panic, or the fault of a loop that does not
  return) and a value, so that every
  \<open>?\<close>, early return, \<open>unwrap\<close> and index out of range is a branch of the definition. A method of
  the handle is a function on the record \<open>rutabaga\<close>, whose last field is the world: guest and host
  memory, the file tree, the log of signalled fences. The cross-domain subsystem extends the world by
  system calls, a log of their effects, its contexts and its sockets. A \<open>BTreeMap\<close> is a finite map,
  iterated in the order of its keys. Mutexes are held for one operation, so an operation is a step.

  Parameters. Code outside the repository is an argument: the kernel (\<open>os\<close> for mappings and
  descriptors, \<open>cd_sys\<close> for the calls of the cross-domain subsystem, answered by the number of the
  call so that equal calls may get different answers), the JSON codec of snapshots, the records that an
  operation logs (\<open>library_records\<close>),
  the initializers of the components (\<open>build_env\<close>) and of the optional gralloc backends
  (\<open>gralloc_build\<close>), the lookup of virtio-fs files, the C libraries of the renderers, minigbm
  (\<open>gbm_lib\<close>) and the crate vulkano (\<open>vk_lib\<close>). The laws asked of them are hypotheses of the theorems that
  need them: a codec decodes what it encoded (nothing is asked of the bytes of other files), a component keeps the id of a resource
  (\<open>component_contract\<close>, discharged for every component of the repository), a backend fills in four
  planes (\<open>four_planes\<close>, discharged for every backend by \<open>gralloc_four_planes\<close>), an export of
  virglrenderer that succeeds gives a descriptor (\<open>exports_descriptors\<close>), minigbm does not touch the
  slot of the program (\<open>gbm_lawful\<close>).

  Loops. The copy loop of \<open>transfer_2d\<close> ends because each turn finishes an iovec or a line, reading a
  packet because each message takes its header. The command loop of a cross-domain context may not
  return and is a \<open>partial_function (option)\<close>, \<open>submit_loop_termination\<close> says when it does; so is the
  loop of the Kumquat server, which ends with the first run that fails (\<open>kumquat_loop_iff\<close>). The worker
  thread is modelled turn by turn; runs of a context with its workers, and of a sentinel thread with
  its owner, are inductive relations over all interleavings of such turns.

  What is proved, by group: the 2D transfer copies exactly the pixels asked for, never writes outside
  and rejects bad rectangles, and write and read are inverse; every reachable handle keeps its tables
  well-formed and operations are isolated; the life of resource ids, of shareable fences and of
  handles; restoring a snapshot; what a builder installs and advertises; the canonical image layout;
  the messages of Kumquat are read back by their reader; fences are signalled at
  most once; the outcome of every attempt of the worker; sending descriptors, image
  blobs; bounds and contents of ring writes; uniqueness of item ids and where it
  fails; shutdown of sentinels, with the schedule in which it hangs; the bookkeeping of the Kumquat
  server; that it reads what its clients mean, agrees with them on what has been created, and loses
  what they share; that buffer handles of a client are stable; which component a resource of a renderer is mapped by; the slot through which minigbm
  passes a buffer from the requirements to the allocation, without leaks; the search for a Vulkan
  memory type, and that Vulkan requirements can be allocated and imported; the results and effects
  of every C call, when it is defined, and what \<open>rutabaga_init\<close> builds. Several theorems state
  behaviour the code hardly intends (lost handles, a loop that never ends, connections that are never
  removed, a fence that panics the server, a submission that ends its loop); their texts say so.

  Configuration. \<open>Core\<close> has \<open>fence_passing_option1\<close> set, which \<open>build.rs\<close> leaves out when the
  virglrenderer feature is on; \<open>Core_Plain\<close> has the three methods that differ without it, and where the
  two agree. virglrenderer is modelled with its stable entry points, since
  \<open>virgl_renderer_unstable\<close> does not compile; gfxstream with both (\<open>gfx_unstable\<close>). The target is Linux.

  Not modelled. The extern declarations of the generated bindings beyond the structs in use, the
  log and debug callbacks that the renderer libraries are given, the texts of errors, which operation
  logs which record. The command-line parser of the Kumquat
  server. The stubs for systems other than Linux. The C bindings of the Kumquat client, which are not in the
  repository, and the structs of \<open>defines.rs\<close> that only they use.
  The vendored crate \<open>third_party/mesa3d/src/magma\<close>: a library over the ioctls of the kernel's GPU drivers,
  on which none of the crates above depends.
  Allocation failure, poisoned mutexes, and logging other than through the C interface.
\<close>

end
